(* ===== verification/Prelude.thy ===== *)
theory Prelude
  imports Main "HOL-Library.Char_ord" "HOL-Library.List_Lexorder"
begin

text \<open>
  Shared vocabulary of the development: how Python strings, instants, durations,
  exceptions and raising computations are represented, the state-and-exception
  combinators in which the asynchronous operations are written, their weakest
  precondition, and the list and option facts the component theories share.

  \<^item> A Python \<open>str\<close> is represented by the bytes of its UTF-8 encoding (\<open>pystr\<close>).
    Equality, concatenation and code point order are those of the encodings, and
    \<open>s.encode("utf-8")\<close> is the identity in this representation.
  \<^item> An aware \<open>datetime\<close> is the number of microseconds since the epoch (\<open>instant\<close>),
    a \<open>timedelta\<close> a number of microseconds (\<open>duration\<close>).
  \<^item> A raise is a left value \<open>Inl\<close>, holding the exception and the notes attached
    to it by \<open>add_note\<close>; a normal result is \<open>Inr\<close>.
\<close>

section \<open>Strings, time and exceptions\<close>

type_synonym pystr = string
type_synonym bytes = string
type_synonym instant = int
type_synonym duration = int

text \<open>
  The reasons a store refuses a write, one per message of \<open>StoreInvariantError\<close> in
  \<open>stores/base.py\<close>, of the stores and of \<open>runtime.py\<close>.
\<close>

datatype store_fault =
    NewRevisionNotZero
  | NewNotAwaitingAuthority
  | NewStartsErased
  | IdentityChanged
  | RevisionNotNext
  | PendingErasureDropped
  | TombstoneHasContent
  | EvidenceNotAppendOnly
  | ReceiptsNotAppendOnly
  | InvalidLifecycleTransition
  | EvidenceBindingMismatch
  | ReceiptCorrelationMismatch
  | ExecutionWithoutClaim
  | AdmissionNotExecuting
  | GuardedUpdateLost
  | EvidenceWithoutCommitment
  | RecoveryWithoutReceipt

datatype authority_validation_failure = BindingMismatch | Expired | NotYetValid

datatype evidence_fault =
    AuthenticatedAuthorityMismatch
  | ProposalCommitmentUnavailable
  | EvidenceInvalid "authority_validation_failure option"

datatype action_result_fault =
    WrongPrivateSnapshotModel
  | WrongDisplayPreviewModel
  | WrongResolvedSnapshotModel
  | WrongResultModel
  | NoRequestingPrincipal
  | ReplacementLostPrincipal
  | NoApprovingAuthority

datatype migration_fault =
    HistoryCorrupt
  | HistoryGap
  | SchemaNewer
  | ChecksumMismatch
  | WritersNotQuiesced "int list"
  | PackagedMigrationIncomplete

datatype application_issue =
    InvalidSpecification
  | DuplicateActionType
  | RegistrationFrozen
  | IncompleteBinding
  | BindingInactive
  | DefinitionNonconforming
  | PolicyUnavailable

datatype canonical_fault = NonFiniteNumber | FloatingPointValue | KeysCollide | NotCanonicalJson

text \<open>
  The exceptions that the modelled code raises, catches or lets through. \<open>HostError\<close>
  stands for any other subclass of \<open>Exception\<close> raised by host code, \<open>ExitSignal\<close> for
  \<open>KeyboardInterrupt\<close> and \<open>SystemExit\<close>, which like \<open>CancelledError\<close> are not
  subclasses of \<open>Exception\<close>.
\<close>

datatype py_exn =
    ProposalNotFoundError
  | AuthorizationDeniedError pystr
  | InvalidAuthorityEvidenceError evidence_fault
  | InvalidActionResultError action_result_fault
  | RetentionStoreUnavailableError
  | ProposalPersistenceOutcomeUnknownError pystr pystr
  | ProposalAlreadyExistsError
  | StoreInvariantError store_fault
  | CanonicalizationError canonical_fault
  | DefinitionConformanceError
  | DuplicateActionError
  | ActionNotRegisteredError
  | DefinitionTypeMismatchError
  | RuntimeAttributionError
  | StoredDataCorruptionError
  | IntegrityError
  | MigrationStateError migration_fault
  | WrappedKeyPersistenceOutcomeUnknownError pystr pystr pystr pystr
  | WrappedKeyWriteRejectedError
  | ActionConfigurationError
  | StripeBoundaryError
  | StripePreparationError
  | StripePostgresHostError
  | ActionApplicationError application_issue
  | ApprovalRequestError
  | TransactionOwnershipError
  | ModelRetry
  | ValidationError
  | ValueError
  | OverflowError
  | KeyError
  | HostError pystr
  | CancelledError
  | ExitSignal

definition is_exception :: "py_exn \<Rightarrow> bool" where
  "is_exception e = (case e of CancelledError \<Rightarrow> False | ExitSignal \<Rightarrow> False | _ \<Rightarrow> True)"

definition is_key_or_value_error :: "py_exn \<Rightarrow> bool" where
  "is_key_or_value_error e =
     (case e of
        KeyError \<Rightarrow> True
      | ValueError \<Rightarrow> True
      | ValidationError \<Rightarrow> True
      | CanonicalizationError _ \<Rightarrow> True
      | InvalidAuthorityEvidenceError _ \<Rightarrow> True
      | DefinitionConformanceError \<Rightarrow> True
      | _ \<Rightarrow> False)"

datatype resource = PayloadResource | CommitmentResource

datatype exn_note =
    ReconciliationInterrupted
  | PersistedBeforeCancellation
  | ReconciliationFailed py_exn
  | CleanupFailures "(resource \<times> py_exn) list"

datatype raised = Raised (exn_of: py_exn) (notes_of: "exn_note list")

type_synonym 'a outcome = "raised + 'a"

definition fails :: "py_exn \<Rightarrow> 'a outcome" where
  "fails e = Inl (Raised e [])"

definition add_note :: "raised \<Rightarrow> exn_note \<Rightarrow> raised" where
  "add_note r n = Raised (exn_of r) (notes_of r @ [n])"

definition result_bind :: "'a outcome \<Rightarrow> ('a \<Rightarrow> 'b outcome) \<Rightarrow> 'b outcome" where
  "result_bind r f = (case r of Inl e \<Rightarrow> Inl e | Inr a \<Rightarrow> f a)"

section \<open>State and exceptions\<close>

text \<open>
  An asynchronous operation over a state \<open>'s\<close>: it ends with a raise or a value, and in
  either case with the state it left behind.
\<close>

type_synonym ('s, 'a) eff = "'s \<Rightarrow> 'a outcome \<times> 's"

definition return :: "'a \<Rightarrow> ('s, 'a) eff" where
  "return a = (\<lambda>s. (Inr a, s))"

definition throw :: "raised \<Rightarrow> ('s, 'a) eff" where
  "throw r = (\<lambda>s. (Inl r, s))"

definition raise :: "py_exn \<Rightarrow> ('s, 'a) eff" where
  "raise e = throw (Raised e [])"

definition lift :: "'a outcome \<Rightarrow> ('s, 'a) eff" where
  "lift r = (\<lambda>s. (r, s))"

definition bind :: "('s, 'a) eff \<Rightarrow> ('a \<Rightarrow> ('s, 'b) eff) \<Rightarrow> ('s, 'b) eff" where
  "bind m f = (\<lambda>s. case m s of (Inl r, t) \<Rightarrow> (Inl r, t) | (Inr a, t) \<Rightarrow> f a t)"

definition handle :: "('s, 'a) eff \<Rightarrow> (raised \<Rightarrow> ('s, 'a) eff) \<Rightarrow> ('s, 'a) eff" where
  "handle m h = (\<lambda>s. case m s of (Inl r, t) \<Rightarrow> h r t | (Inr a, t) \<Rightarrow> (Inr a, t))"

definition attempt :: "('s, 'a) eff \<Rightarrow> ('s, 'a outcome) eff" where
  "attempt m = (\<lambda>s. case m s of (r, t) \<Rightarrow> (Inr r, t))"

text \<open>
  The weakest precondition for a normal result \<open>Q\<close> and a raise \<open>E\<close>.
\<close>

definition wp :: "('s, 'a) eff \<Rightarrow> ('a \<Rightarrow> 's \<Rightarrow> bool) \<Rightarrow> (raised \<Rightarrow> 's \<Rightarrow> bool) \<Rightarrow> 's \<Rightarrow> bool" where
  "wp m Q E s = (case m s of (Inl r, t) \<Rightarrow> E r t | (Inr a, t) \<Rightarrow> Q a t)"

section \<open>Collections of facts\<close>

named_theorems wp_simps \<open>weakest preconditions of the combinators and primitives\<close>
named_theorems path_intros \<open>operations that only take steps of the store\<close>
named_theorems store_defs \<open>definitions of the store operations\<close>
named_theorems quiet_intros \<open>operations that never dispatch an effect\<close>

section \<open>Lemmas\<close>

lemma wp_return [simp, wp_simps]: "wp (return a) Q E s = Q a s"
  by (simp add: wp_def return_def)

lemma wp_throw [simp, wp_simps]: "wp (throw r) Q E s = E r s"
  by (simp add: wp_def throw_def)

lemma wp_raise [simp, wp_simps]: "wp (raise e) Q E s = E (Raised e []) s"
  by (simp add: raise_def)

lemma wp_lift [simp, wp_simps]:
  "wp (lift r) Q E s = (case r of Inl e \<Rightarrow> E e s | Inr a \<Rightarrow> Q a s)"
  by (simp add: wp_def lift_def split: sum.splits)

lemma wp_bind [simp, wp_simps]: "wp (bind m f) Q E s = wp m (\<lambda>a. wp (f a) Q E) E s"
  by (simp add: wp_def bind_def split: prod.splits sum.splits)

lemma wp_handle [simp, wp_simps]: "wp (handle m h) Q E s = wp m Q (\<lambda>r. wp (h r) Q E) s"
  by (simp add: wp_def handle_def split: prod.splits sum.splits)

lemma wp_attempt [simp, wp_simps]:
  "wp (attempt m) Q E s = wp m (\<lambda>a. Q (Inr a)) (\<lambda>r. Q (Inl r)) s"
  by (simp add: wp_def attempt_def split: prod.splits sum.splits)

lemma wp_if [simp, wp_simps]: "wp (if b then m else n) Q E s = (if b then wp m Q E s else wp n Q E s)"
  by simp

lemma wp_mono:
  assumes "wp m Q E s"
    and "\<And>a t. Q a t \<Longrightarrow> Q' a t"
    and "\<And>r t. E r t \<Longrightarrow> E' r t"
  shows "wp m Q' E' s"
  using assms by (auto simp: wp_def split: prod.splits sum.splits)

lemma wpD_value: "wp m Q E s \<Longrightarrow> m s = (Inr a, t) \<Longrightarrow> Q a t"
  by (simp add: wp_def)

lemma wpD_raise: "wp m Q E s \<Longrightarrow> m s = (Inl r, t) \<Longrightarrow> E r t"
  by (simp add: wp_def)

lemma wpI_cases:
  assumes "\<And>a t. m s = (Inr a, t) \<Longrightarrow> Q a t"
    and "\<And>r t. m s = (Inl r, t) \<Longrightarrow> E r t"
  shows "wp m Q E s"
  using assms by (auto simp: wp_def split: prod.splits sum.splits)

lemma bind_return [simp]: "bind (return a) f = f a"
  by (simp add: bind_def return_def fun_eq_iff)

lemma bind_raise [simp]: "bind (raise e) f = raise e"
  by (simp add: bind_def raise_def throw_def fun_eq_iff)

lemma bind_assoc: "bind (bind m f) g = bind m (\<lambda>a. bind (f a) g)"
  by (simp add: bind_def fun_eq_iff split: prod.splits sum.splits)

lemma result_bind_simps [simp]:
  "result_bind (Inl e) f = Inl e"
  "result_bind (Inr a) f = f a"
  "result_bind (fails x) f = fails x"
  by (simp_all add: result_bind_def fails_def)

lemma result_bind_eq_Inr:
  "result_bind r f = Inr b \<longleftrightarrow> (\<exists>a. r = Inr a \<and> f a = Inr b)"
  by (cases r) simp_all

lemma fails_neq_Inr [simp]: "fails e \<noteq> Inr a" "Inr a \<noteq> fails e"
  by (simp_all add: fails_def)

lemma fails_eq_iff [simp]: "fails e = Inl r \<longleftrightarrow> r = Raised e []"
  by (auto simp: fails_def)

text \<open>A slice that equals the old value is a prefix: Python's append-only comparison.\<close>

lemma take_length_eq_prefix: "take (length xs) ys = xs \<longleftrightarrow> (\<exists>zs. ys = xs @ zs)"
  by (metis append_eq_conv_conj append_take_drop_id)

end
