(* ===== verification/Models.thy ===== *)
theory Models
  imports Prelude
begin

text \<open>
  The boundary models of \<open>models.py\<close>: references and their validation, action types,
  proposal identities, the closed lifecycle vocabulary and the participants. The
  field constraints pydantic checks at construction are given as the boolean
  functions \<open>valid_...\<close>.
\<close>

section \<open>References and names\<close>

text \<open>
  \<open>str\<close> as a list of code points, for the two checks that look at characters rather
  than at equality. \<open>py_isspace\<close> is the set of code points \<open>str.strip\<close> removes. The
  general category table is that of \<open>unicodedata\<close>, so it is the argument \<open>category\<close>.
\<close>

definition py_isspace :: "nat \<Rightarrow> bool" where
  "py_isspace c \<longleftrightarrow>
     9 \<le> c \<and> c \<le> 13 \<or> 28 \<le> c \<and> c \<le> 32 \<or> c = 133 \<or> c = 160 \<or> c = 5760
     \<or> 8192 \<le> c \<and> c \<le> 8202 \<or> c = 8232 \<or> c = 8233 \<or> c = 8239 \<or> c = 8287 \<or> c = 12288"

definition py_strip :: "nat list \<Rightarrow> nat list" where
  "py_strip cs = rev (dropWhile py_isspace (rev (dropWhile py_isspace cs)))"

definition validate_safe_reference :: "(nat \<Rightarrow> string) \<Rightarrow> nat list \<Rightarrow> nat list outcome" where
  "validate_safe_reference category cs =
     (if cs \<noteq> py_strip cs then fails ValueError
      else if \<exists>c\<in>set cs. take 1 (category c) = ''C'' then fails ValueError
      else Inr cs)"

definition valid_safe_reference :: "(nat \<Rightarrow> string) \<Rightarrow> nat list \<Rightarrow> bool" where
  "valid_safe_reference category cs \<longleftrightarrow>
     1 \<le> length cs \<and> length cs \<le> 255 \<and> validate_safe_reference category cs = Inr cs"

definition is_upper :: "char \<Rightarrow> bool" where
  "is_upper c \<longleftrightarrow> CHR ''A'' \<le> c \<and> c \<le> CHR ''Z''"

definition is_lower :: "char \<Rightarrow> bool" where
  "is_lower c \<longleftrightarrow> CHR ''a'' \<le> c \<and> c \<le> CHR ''z''"

definition is_name_char :: "char \<Rightarrow> bool" where
  "is_name_char c \<longleftrightarrow> is_lower c \<or> CHR ''0'' \<le> c \<and> c \<le> CHR ''9'' \<or> c = CHR ''_''"

definition valid_currency_code :: "pystr \<Rightarrow> bool" where
  "valid_currency_code s \<longleftrightarrow> length s = 3 \<and> list_all is_upper s"

fun valid_action_name :: "pystr \<Rightarrow> bool" where
  "valid_action_name [] = False"
| "valid_action_name (c # cs) = (is_lower c \<and> list_all is_name_char cs)"

fun segments :: "char \<Rightarrow> pystr \<Rightarrow> pystr list" where
  "segments d [] = [[]]"
| "segments d (c # cs) =
     (if c = d then [] # segments d cs
      else case segments d cs of [] \<Rightarrow> [[c]] | s # ss \<Rightarrow> (c # s) # ss)"

definition valid_action_namespace :: "pystr \<Rightarrow> bool" where
  "valid_action_namespace s \<longleftrightarrow>
     2 \<le> length (segments CHR ''.'' s) \<and> list_all valid_action_name (segments CHR ''.'' s)"

section \<open>Action types, identities, lifecycle\<close>

record action_type =
  at_namespace :: pystr
  at_name :: pystr
  at_version :: int

definition valid_action_type :: "action_type \<Rightarrow> bool" where
  "valid_action_type a \<longleftrightarrow>
     valid_action_namespace (at_namespace a) \<and> valid_action_name (at_name a) \<and> 1 \<le> at_version a"

record proposal_identity =
  pi_tenant_reference :: pystr
  pi_proposal_reference :: pystr

datatype effect_kind = Single | Itemized

datatype lifecycle_status =
    AWAITING_AUTHORITY
  | DENIED
  | EXPIRED
  | AUTHORIZED
  | BLOCKED
  | STALE
  | SUPERSEDED
  | EXECUTING
  | FAILED_KNOWN
  | FAILED_UNKNOWN
  | VERIFICATION_PENDING
  | VERIFICATION_UNRESOLVED
  | PARTIALLY_SUCCEEDED
  | VERIFIED

section \<open>Participants\<close>

datatype requesting_principal = RequestingPrincipal (rp_reference: pystr)
datatype proposing_agent = ProposingAgent (pa_reference: pystr)
datatype confirming_authority = ConfirmingAuthority (ca_reference: pystr)
datatype governed_executor = GovernedExecutor (ge_reference: pystr)
datatype authoritative_target = AuthoritativeTarget (tg_reference: pystr)
datatype evidence_consumer = EvidenceConsumer (ec_reference: pystr)
datatype recovery_operator = RecoveryOperator (ro_reference: pystr)

section \<open>Lemmas\<close>

lemma dropWhile_eq_self_iff: "dropWhile P xs = xs \<longleftrightarrow> xs = [] \<or> \<not> P (hd xs)"
proof (cases xs)
  case Nil
  then show ?thesis by simp
next
  case (Cons x ys)
  have "length (dropWhile P ys) \<le> length ys"
    by (rule length_dropWhile_le)
  then have "dropWhile P ys \<noteq> x # ys"
    by (metis impossible_Cons)
  with Cons show ?thesis by simp
qed

lemma py_strip_eq_self_iff:
  "py_strip cs = cs \<longleftrightarrow> cs = [] \<or> \<not> py_isspace (hd cs) \<and> \<not> py_isspace (last cs)"
proof
  assume eq: "py_strip cs = cs"
  have "length (py_strip cs) \<le> length (dropWhile py_isspace cs)"
    unfolding py_strip_def by (metis length_dropWhile_le length_rev)
  with eq have "length cs \<le> length (dropWhile py_isspace cs)" by simp
  moreover have "length (takeWhile py_isspace cs) + length (dropWhile py_isspace cs) = length cs"
    by (metis length_append takeWhile_dropWhile_id)
  ultimately have "length (takeWhile py_isspace cs) = 0" by linarith
  then have "takeWhile py_isspace cs = []" by simp
  then have left: "dropWhile py_isspace cs = cs"
    by (metis append_Nil takeWhile_dropWhile_id)
  with eq have "rev (dropWhile py_isspace (rev cs)) = rev (rev cs)"
    by (simp add: py_strip_def)
  then have right: "dropWhile py_isspace (rev cs) = rev cs"
    by (simp only: rev_is_rev_conv)
  from left right show "cs = [] \<or> \<not> py_isspace (hd cs) \<and> \<not> py_isspace (last cs)"
    by (auto simp: dropWhile_eq_self_iff hd_rev)
next
  assume "cs = [] \<or> \<not> py_isspace (hd cs) \<and> \<not> py_isspace (last cs)"
  then have "dropWhile py_isspace cs = cs" and "dropWhile py_isspace (rev cs) = rev cs"
    by (auto simp: dropWhile_eq_self_iff hd_rev)
  then show "py_strip cs = cs" by (simp add: py_strip_def)
qed

end
