(* ===== verification/Canonical.thy ===== *)
theory Canonical
  imports Models "HOL-Library.Multiset"
begin

text \<open>
  \<open>canonical.py\<close>: the canonical JSON profile and the domain-separated commitment
  input, with the commitment and protected-payload records and the two host ports
  that create, check and destroy them.

  Unicode normalization is a table of the \<open>unicodedata\<close> module: it is the argument
  \<open>nfc\<close> of the functions below. What is shown: the canonical bytes do not depend on
  the order of object members, two documents with the same canonical bytes have the
  same normalized content, no float survives, and the commitment input determines
  both the (normalized) proposal reference and the canonical payload.
\<close>

section \<open>JSON values\<close>

datatype pyfloat = NonFinite | FiniteFloat int int

datatype json =
    JNull
  | JBool bool
  | JInt int
  | JFloat pyfloat
  | JStr pystr
  | JList "json list"
  | JObj "(pystr \<times> json) list"

type_synonym json_object = "(pystr \<times> json) list"

section \<open>Normalization\<close>

fun normalize_json :: "(pystr \<Rightarrow> pystr) \<Rightarrow> json \<Rightarrow> json outcome"
  and normalize_list :: "(pystr \<Rightarrow> pystr) \<Rightarrow> json list \<Rightarrow> json list outcome"
  and normalize_entries :: "(pystr \<Rightarrow> pystr) \<Rightarrow> json_object \<Rightarrow> json_object \<Rightarrow> json_object outcome"
where
  "normalize_json nfc (JStr s) = Inr (JStr (nfc s))"
| "normalize_json nfc (JFloat f) =
     (case f of
        NonFinite \<Rightarrow> fails (CanonicalizationError NonFiniteNumber)
      | FiniteFloat _ _ \<Rightarrow> fails (CanonicalizationError FloatingPointValue))"
| "normalize_json nfc (JList xs) = result_bind (normalize_list nfc xs) (\<lambda>ys. Inr (JList ys))"
| "normalize_json nfc (JObj kvs) = result_bind (normalize_entries nfc [] kvs) (\<lambda>es. Inr (JObj es))"
| "normalize_json nfc JNull = Inr JNull"
| "normalize_json nfc (JBool b) = Inr (JBool b)"
| "normalize_json nfc (JInt i) = Inr (JInt i)"
| "normalize_list nfc [] = Inr []"
| "normalize_list nfc (x # xs) =
     result_bind (normalize_json nfc x) (\<lambda>y. result_bind (normalize_list nfc xs) (\<lambda>ys. Inr (y # ys)))"
| "normalize_entries nfc acc [] = Inr acc"
| "normalize_entries nfc acc ((k, v) # kvs) =
     (if nfc k \<in> set (map fst acc) then fails (CanonicalizationError KeysCollide)
      else result_bind (normalize_json nfc v) (\<lambda>w. normalize_entries nfc (acc @ [(nfc k, w)]) kvs))"

section \<open>json.dumps in the canonical profile\<close>

definition digit_char :: "nat \<Rightarrow> char" where
  "digit_char n = char_of (48 + n)"

fun decimal :: "nat \<Rightarrow> string" where
  "decimal n = (if n < 10 then [digit_char n] else decimal (n div 10) @ [digit_char (n mod 10)])"

definition int_repr :: "int \<Rightarrow> string" where
  "int_repr i = (if i < 0 then CHR ''-'' # decimal (nat (- i)) else decimal (nat i))"

text \<open>CPython refuses to print an integer of more than 4300 decimal digits (\<open>ValueError\<close>).\<close>

definition int_printable :: "int \<Rightarrow> bool" where
  "int_printable i \<longleftrightarrow> length (decimal (nat \<bar>i\<bar>)) \<le> 4300"

definition hex_char :: "nat \<Rightarrow> char" where
  "hex_char n = (if n < 10 then char_of (48 + n) else char_of (87 + n))"

definition escape :: "char \<Rightarrow> string" where
  "escape c =
     (if c = CHR 0x5C then [CHR 0x5C, CHR 0x5C]
      else if c = CHR 0x22 then [CHR 0x5C, CHR 0x22]
      else if c = CHR 0x08 then [CHR 0x5C, CHR ''b'']
      else if c = CHR 0x0C then [CHR 0x5C, CHR ''f'']
      else if c = CHR 0x0A then [CHR 0x5C, CHR ''n'']
      else if c = CHR 0x0D then [CHR 0x5C, CHR ''r'']
      else if c = CHR 0x09 then [CHR 0x5C, CHR ''t'']
      else if of_char c < (32 :: nat) then
        [CHR 0x5C, CHR ''u'', CHR ''0'', CHR ''0'', hex_char (of_char c div 16), hex_char (of_char c mod 16)]
      else [c])"

definition quote :: "pystr \<Rightarrow> string" where
  "quote s = CHR 0x22 # concat (map escape s) @ [CHR 0x22]"

fun join :: "string \<Rightarrow> string list \<Rightarrow> string" where
  "join sep [] = []"
| "join sep [x] = x"
| "join sep (x # y # zs) = x @ sep @ join sep (y # zs)"

definition member_text :: "pystr \<times> string \<Rightarrow> string" where
  "member_text kt = quote (fst kt) @ CHR '':'' # snd kt"

text \<open>
  Members are written in the order of their keys. After \<open>normalize_json\<close> no float is left;
  \<open>dumpable\<close> is false where \<open>json.dumps\<close> would raise and on the floats it never meets.
\<close>

fun dumps :: "json \<Rightarrow> string"
  and dumps_list :: "json list \<Rightarrow> string list"
  and dumps_entries :: "json_object \<Rightarrow> (pystr \<times> string) list"
where
  "dumps JNull = ''null''"
| "dumps (JBool b) = (if b then ''true'' else ''false'')"
| "dumps (JInt i) = int_repr i"
| "dumps (JFloat f) = []"
| "dumps (JStr s) = quote s"
| "dumps (JList xs) = CHR ''['' # join '','' (dumps_list xs) @ [CHR '']'']"
| "dumps (JObj kvs) =
     CHR ''{'' # join '','' (map member_text (sort_key fst (dumps_entries kvs))) @ [CHR ''}'']"
| "dumps_list [] = []"
| "dumps_list (x # xs) = dumps x # dumps_list xs"
| "dumps_entries [] = []"
| "dumps_entries ((k, v) # kvs) = (k, dumps v) # dumps_entries kvs"

fun dumpable :: "json \<Rightarrow> bool"
  and dumpable_list :: "json list \<Rightarrow> bool"
  and dumpable_entries :: "json_object \<Rightarrow> bool"
where
  "dumpable JNull = True"
| "dumpable (JBool b) = True"
| "dumpable (JInt i) = int_printable i"
| "dumpable (JFloat f) = False"
| "dumpable (JStr s) = True"
| "dumpable (JList xs) = dumpable_list xs"
| "dumpable (JObj kvs) = dumpable_entries kvs"
| "dumpable_list [] = True"
| "dumpable_list (x # xs) = (dumpable x \<and> dumpable_list xs)"
| "dumpable_entries [] = True"
| "dumpable_entries ((k, v) # kvs) = (dumpable v \<and> dumpable_entries kvs)"

definition canonicalize_v1 :: "(pystr \<Rightarrow> pystr) \<Rightarrow> json \<Rightarrow> bytes outcome" where
  "canonicalize_v1 nfc document =
     result_bind (normalize_json nfc document)
       (\<lambda>normalized.
          if dumpable normalized then Inr (dumps normalized)
          else fails (CanonicalizationError NotCanonicalJson))"

section \<open>The commitment input\<close>

fun be_bytes :: "nat \<Rightarrow> nat \<Rightarrow> bytes" where
  "be_bytes 0 n = []"
| "be_bytes (Suc w) n = be_bytes w (n div 256) @ [char_of (n mod 256)]"

definition to_bytes_big :: "nat \<Rightarrow> nat \<Rightarrow> bytes outcome" where
  "to_bytes_big width n = (if int n < 256 ^ width then Inr (be_bytes width n) else fails OverflowError)"

definition commitment_domain :: bytes where
  "commitment_domain = ''threvo-actions:proposal-commitment:v1''"

definition commitment_payload_v1 :: "(pystr \<Rightarrow> pystr) \<Rightarrow> pystr \<Rightarrow> bytes \<Rightarrow> bytes outcome" where
  "commitment_payload_v1 nfc proposal_reference canonical_payload =
     (let reference = nfc proposal_reference in
      result_bind (to_bytes_big 4 (length reference)) (\<lambda>ref_len.
      result_bind (to_bytes_big 8 (length canonical_payload)) (\<lambda>payload_len.
      Inr (commitment_domain @ ref_len @ reference @ payload_len @ canonical_payload))))"

section \<open>Commitments, protected payloads and their ports\<close>

record keyed_commitment =
  kc_algorithm :: pystr
  kc_key_handle :: pystr
  kc_key_version :: pystr
  kc_digest :: pystr

record protected_payload =
  pp_codec :: pystr
  pp_key_handle :: pystr
  pp_key_version :: pystr
  pp_ciphertext :: pystr

text \<open>
  A host model instance: the class it is an instance of and its \<open>model_dump(mode="json")\<close>.
\<close>

record host_model =
  hm_class :: nat
  hm_json :: json

definition model_json_object :: "host_model \<Rightarrow> json_object outcome" where
  "model_json_object m = (case hm_json m of JObj kvs \<Rightarrow> Inr kvs | _ \<Rightarrow> fails ValidationError)"

section \<open>Specification: canonical forms and reordering\<close>

text \<open>The canonical form of a document: the members of every object in key order.\<close>

fun canonical_form :: "json \<Rightarrow> json"
  and canonical_entries :: "json_object \<Rightarrow> json_object"
where
  "canonical_form (JList xs) = JList (map canonical_form xs)"
| "canonical_form (JObj kvs) = JObj (sort_key fst (canonical_entries kvs))"
| "canonical_form j = j"
| "canonical_entries [] = []"
| "canonical_entries ((k, v) # kvs) = (k, canonical_form v) # canonical_entries kvs"

text \<open>Writing a document without sorting: what \<open>dumps\<close> does to a canonical form.\<close>

fun plain :: "json \<Rightarrow> string"
  and plain_list :: "json list \<Rightarrow> string list"
  and plain_entries :: "json_object \<Rightarrow> string list"
where
  "plain JNull = ''null''"
| "plain (JBool b) = (if b then ''true'' else ''false'')"
| "plain (JInt i) = int_repr i"
| "plain (JFloat f) = []"
| "plain (JStr s) = quote s"
| "plain (JList xs) = CHR ''['' # join '','' (plain_list xs) @ [CHR '']'']"
| "plain (JObj kvs) = CHR ''{'' # join '','' (plain_entries kvs) @ [CHR ''}'']"
| "plain_list [] = []"
| "plain_list (x # xs) = plain x # plain_list xs"
| "plain_entries [] = []"
| "plain_entries ((k, v) # kvs) = (quote k @ CHR '':'' # plain v) # plain_entries kvs"

definition plain_member :: "pystr \<times> json \<Rightarrow> string" where
  "plain_member kv = quote (fst kv) @ CHR '':'' # plain (snd kv)"

definition unhex :: "char \<Rightarrow> nat" where
  "unhex c = (if of_char c < (58 :: nat) then of_char c - 48 else of_char c - 87)"

definition unescape_simple :: "char \<Rightarrow> char" where
  "unescape_simple c =
     (if c = CHR ''b'' then CHR 0x08
      else if c = CHR ''f'' then CHR 0x0C
      else if c = CHR ''n'' then CHR 0x0A
      else if c = CHR ''r'' then CHR 0x0D
      else if c = CHR ''t'' then CHR 0x09
      else c)"

fun unescape :: "string \<Rightarrow> char \<times> string" where
  "unescape (c # cs) =
     (if c \<noteq> CHR 0x5C then (c, cs)
      else if hd cs = CHR ''u''
           then (char_of (unhex (cs ! 3) * 16 + unhex (cs ! 4)), drop 5 cs)
           else (unescape_simple (hd cs), tl cs))"
| "unescape [] = (CHR 0x00, [])"

definition is_digit :: "char \<Rightarrow> bool" where
  "is_digit c \<longleftrightarrow> 48 \<le> (of_char c :: nat) \<and> of_char c \<le> (57 :: nat)"

definition delimited :: "string \<Rightarrow> bool" where
  "delimited u \<longleftrightarrow> u = [] \<or> hd u \<in> {CHR '','', CHR '']'', CHR ''}''}"

definition digits_value :: "string \<Rightarrow> nat" where
  "digits_value = foldl (\<lambda>n c. 10 * n + (of_char c - 48)) 0"

definition lead_of :: "json \<Rightarrow> char \<Rightarrow> bool" where
  "lead_of j c =
     (case j of
        JNull \<Rightarrow> c = CHR ''n''
      | JBool b \<Rightarrow> c = (if b then CHR ''t'' else CHR ''f'')
      | JInt _ \<Rightarrow> c = CHR ''-'' \<or> is_digit c
      | JFloat _ \<Rightarrow> False
      | JStr _ \<Rightarrow> c = CHR 0x22
      | JList _ \<Rightarrow> c = CHR ''[''
      | JObj _ \<Rightarrow> c = CHR ''{'')"

definition normalized_member :: "(pystr \<Rightarrow> pystr) \<Rightarrow> pystr \<times> json \<Rightarrow> pystr \<times> json \<Rightarrow> bool" where
  "normalized_member nfc kv e \<longleftrightarrow> fst e = nfc (fst kv) \<and> normalize_json nfc (snd kv) = Inr (snd e)"

inductive reordered :: "json \<Rightarrow> json \<Rightarrow> bool" where
  same: "reordered j j"
| items: "list_all2 reordered xs ys \<Longrightarrow> reordered (JList xs) (JList ys)"
| members:
    "list_all2 (\<lambda>kv kw. fst kv = fst kw \<and> reordered (snd kv) (snd kw)) kvs kws \<Longrightarrow>
     mset kws = mset kzs \<Longrightarrow> reordered (JObj kvs) (JObj kzs)"

fun contains_float :: "json \<Rightarrow> bool" where
  "contains_float (JFloat f) = True"
| "contains_float (JList xs) = (\<exists>x\<in>set xs. contains_float x)"
| "contains_float (JObj kvs) = (\<exists>kv\<in>set kvs. contains_float (snd kv))"
| "contains_float j = False"

section \<open>Writing and reading back\<close>

lemma dumps_list_map: "dumps_list xs = map dumps xs"
  by (induction xs) auto

lemma dumps_entries_map: "dumps_entries kvs = map (\<lambda>(k, v). (k, dumps v)) kvs"
  by (induction kvs) auto

lemma insort_key_map:
  "insort_key f (g x) (map g xs) = map g (insort_key (f \<circ> g) x xs)"
  by (induction xs) auto

lemma sort_key_map: "sort_key f (map g xs) = map g (sort_key (f \<circ> g) xs)"
  by (induction xs) (simp_all add: insort_key_map comp_def)

lemma canonical_entries_map: "canonical_entries kvs = map (\<lambda>(k, v). (k, canonical_form v)) kvs"
  by (induction kvs) auto

lemma plain_list_map: "plain_list xs = map plain xs"
  by (induction xs) auto

lemma plain_entries_map: "plain_entries kvs = map plain_member kvs"
  by (induction kvs) (auto simp: plain_member_def)

lemma dumps_plain: "dumps j = plain (canonical_form j)"
  and dumps_list_plain: "dumps_list xs = map (\<lambda>j. plain (canonical_form j)) xs"
  and dumps_entries_plain:
    "dumps_entries kvs = map (\<lambda>(k, v). (k, plain (canonical_form v))) kvs"
proof (induction j and xs and kvs rule: dumps_dumps_list_dumps_entries.induct)
  case (7 kvs)
  have fst_comp: "fst \<circ> (\<lambda>(k, v). (k, plain (canonical_form v))) = (fst :: pystr \<times> json \<Rightarrow> pystr)"
    and fst_comp': "fst \<circ> (\<lambda>(k, v). (k, canonical_form v)) = (fst :: pystr \<times> json \<Rightarrow> pystr)"
    by auto
  show ?case
    by (simp add: "7" canonical_entries_map sort_key_map fst_comp fst_comp' plain_entries_map
        member_text_def plain_member_def case_prod_beta comp_def)
qed (auto simp: plain_list_map comp_def)

lemma hex_pair: "n < 32 \<Longrightarrow> unhex (hex_char (n div 16)) * 16 + unhex (hex_char (n mod 16)) = n"
proof -
  assume "n < 32"
  have *: "unhex (hex_char k) = k" if "k < 16" for k
    using that by (auto simp: unhex_def hex_char_def of_char_of)
  have "n div 16 < 16" "n mod 16 < 16" using \<open>n < 32\<close> by auto
  then show ?thesis by (simp add: *)
qed

lemma unescape_escape: "unescape (escape c @ u) = (c, u)"
proof (cases "of_char c < (32::nat)")
  case True
  then show ?thesis
    by (simp add: escape_def unescape_simple_def hex_pair)
next
  case False
  then show ?thesis by (auto simp: escape_def unescape_simple_def)
qed

lemma escape_hd: "escape c \<noteq> []" "hd (escape c @ u) \<noteq> CHR 0x22"
  by (auto simp: escape_def)

lemma escape_inj: "escape c @ u = escape d @ v \<Longrightarrow> c = d \<and> u = v"
  by (metis unescape_escape prod.inject)

lemma escaped_inj:
  "concat (map escape s) @ CHR 0x22 # u = concat (map escape t) @ CHR 0x22 # v \<Longrightarrow> s = t \<and> u = v"
proof (induction s arbitrary: t)
  case Nil
  show ?case
  proof (cases t)
    case Nil
    with Nil.prems show ?thesis by simp
  next
    case (Cons d t')
    with Nil.prems have "hd (escape d @ concat (map escape t') @ CHR 0x22 # v) = CHR 0x22"
      by (metis append_Nil append_assoc concat.simps(1,2) list.map(1,2) list.sel(1))
    then show ?thesis using escape_hd(2) by blast
  qed
next
  case (Cons c s)
  show ?case
  proof (cases t)
    case Nil
    with Cons.prems have "hd (escape c @ concat (map escape s) @ CHR 0x22 # u) = CHR 0x22"
      by simp
    then show ?thesis using escape_hd(2) by blast
  next
    case (Cons d t')
    with Cons.prems have "escape c @ (concat (map escape s) @ CHR 0x22 # u)
        = escape d @ (concat (map escape t') @ CHR 0x22 # v)" by simp
    from escape_inj [OF this] Cons.IH [of t'] Cons show ?thesis by auto
  qed
qed

lemma quote_inj: "quote s @ u = quote t @ v \<Longrightarrow> s = t \<and> u = v"
  using escaped_inj [of s u t v] by (simp add: quote_def)


declare decimal.simps [simp del]

lemma digit_char_digit: "n < 10 \<Longrightarrow> is_digit (digit_char n)"
  "n < 10 \<Longrightarrow> of_char (digit_char n) - 48 = n"
  by (simp_all add: is_digit_def digit_char_def of_char_of)

lemma decimal_digits: "list_all is_digit (decimal n)"
proof (induction n rule: decimal.induct)
  case (1 n)
  then show ?case by (subst decimal.simps) (auto simp: digit_char_digit)
qed

lemma decimal_value: "digits_value (decimal n) = n"
proof (induction n rule: decimal.induct)
  case (1 n)
  then show ?case
    by (subst decimal.simps) (auto simp: digits_value_def digit_char_digit)
qed

lemma decimal_nonempty: "decimal n \<noteq> []"
  by (subst decimal.simps) simp

lemma delimited_not_digit: "delimited u \<Longrightarrow> u = [] \<or> \<not> is_digit (hd u)"
  by (auto simp: delimited_def is_digit_def)

lemma takeWhile_decimal:
  assumes "delimited u"
  shows "takeWhile is_digit (decimal n @ u) = decimal n"
proof -
  have "takeWhile is_digit u = []"
    using delimited_not_digit [OF assms] by (cases u) auto
  then show ?thesis
    using decimal_digits [of n] by (simp add: list_all_iff takeWhile_append2)
qed

lemma decimal_inj:
  assumes "delimited u" "delimited v" "decimal m @ u = decimal n @ v"
  shows "m = n \<and> u = v"
proof -
  have "decimal m = decimal n"
    using takeWhile_decimal [OF assms(1), of m] takeWhile_decimal [OF assms(2), of n] assms(3)
    by simp
  with assms(3) show ?thesis by (metis decimal_value same_append_eq)
qed

lemma decimal_no_minus: "decimal m @ u \<noteq> CHR ''-'' # v"
proof
  assume eq: "decimal m @ u = CHR ''-'' # v"
  then have "hd (decimal m) = CHR ''-''"
    by (metis decimal_nonempty hd_append2 list.sel(1))
  moreover have "is_digit (hd (decimal m))"
    using decimal_digits [of m] decimal_nonempty [of m] by (cases "decimal m") auto
  ultimately show False by (simp add: is_digit_def)
qed

lemma int_repr_inj:
  assumes "delimited u" "delimited v" "int_repr i @ u = int_repr j @ v"
  shows "i = j \<and> u = v"
proof -
  consider "i < 0" "j < 0" | "i < 0" "\<not> j < 0" | "\<not> i < 0" "j < 0" | "\<not> i < 0" "\<not> j < 0" by blast
  then show ?thesis
  proof cases
    case 1
    with assms decimal_inj [of u v "nat (- i)" "nat (- j)"] have "nat (- i) = nat (- j) \<and> u = v"
      by (simp add: int_repr_def)
    with 1 show ?thesis by linarith
  next
    case 2
    with assms decimal_no_minus show ?thesis by (simp add: int_repr_def) metis
  next
    case 3
    with assms decimal_no_minus show ?thesis by (simp add: int_repr_def)
  next
    case 4
    with assms decimal_inj [of u v "nat i" "nat j"] have "nat i = nat j \<and> u = v"
      by (simp add: int_repr_def)
    with 4 show ?thesis by linarith
  qed
qed

lemma join_Cons: "join '','' (x # xs) = x @ concat (map (\<lambda>y. CHR '','' # y) xs)"
  by (induction xs arbitrary: x) auto

lemma delimited_simps [simp]:
  "delimited (CHR '','' # u)" "delimited (CHR '']'' # u)" "delimited (CHR ''}'' # u)" "delimited []"
  by (simp_all add: delimited_def)

lemma items_inj:
  assumes elem: "\<And>x y u v. x \<in> set xs \<Longrightarrow> y \<in> set ys \<Longrightarrow> delimited u \<Longrightarrow> delimited v \<Longrightarrow>
        e x @ u = e y @ v \<Longrightarrow> x = y \<and> u = v"
    and close: "c \<in> {CHR '']'', CHR ''}''}"
    and eq: "concat (map (\<lambda>x. CHR '','' # e x) xs) @ c # u
           = concat (map (\<lambda>x. CHR '','' # e x) ys) @ c # v"
  shows "xs = ys \<and> u = v"
  using elem eq
proof (induction xs arbitrary: ys)
  case Nil
  then show ?case using close by (cases ys) auto
next
  case (Cons x xs)
  show ?case
  proof (cases ys)
    case Nil
    with Cons.prems(2) close show ?thesis by auto
  next
    case (Cons y ys')
    let ?r = "concat (map (\<lambda>x. CHR '','' # e x) xs) @ c # u"
    let ?s = "concat (map (\<lambda>x. CHR '','' # e x) ys') @ c # v"
    have "delimited ?r" using close by (cases xs) auto
    moreover have "delimited ?s" using close by (cases ys') auto
    moreover have "e x @ ?r = e y @ ?s" using Cons.prems(2) Cons by simp
    ultimately have "x = y \<and> ?r = ?s"
      using Cons.prems(1) [of x y ?r ?s] Cons by simp
    moreover from this have "xs = ys' \<and> u = v"
      using Cons.IH [of ys'] Cons.prems(1) Cons by auto
    ultimately show ?thesis using Cons by simp
  qed
qed

lemma join_inj:
  assumes elem: "\<And>x y u v. x \<in> set xs \<Longrightarrow> y \<in> set ys \<Longrightarrow> delimited u \<Longrightarrow> delimited v \<Longrightarrow>
        e x @ u = e y @ v \<Longrightarrow> x = y \<and> u = v"
    and close: "c \<in> {CHR '']'', CHR ''}''}"
    and lead: "\<And>x u. x \<in> set xs \<union> set ys \<Longrightarrow> hd (e x @ u) \<noteq> c"
    and eq: "join '','' (map e xs) @ c # u = join '','' (map e ys) @ c # v"
  shows "xs = ys \<and> u = v"
proof (cases xs)
  case Nil
  then show ?thesis using eq lead
    by (cases ys) (auto simp: join_Cons, metis list.sel(1))
next
  case (Cons x xs')
  note xs = this
  show ?thesis
  proof (cases ys)
    case Nil
    then show ?thesis using eq lead [of x] xs
      by (auto simp: join_Cons) (metis list.sel(1))+
  next
    case (Cons y ys')
    let ?r = "concat (map (\<lambda>x. CHR '','' # e x) xs') @ c # u"
    let ?s = "concat (map (\<lambda>x. CHR '','' # e x) ys') @ c # v"
    have "delimited ?r" using close by (cases xs') auto
    moreover have "delimited ?s" using close by (cases ys') auto
    moreover have "e x @ ?r = e y @ ?s"
      using eq Cons xs by (simp add: join_Cons comp_def)
    ultimately have *: "x = y \<and> ?r = ?s"
      using elem [of x y ?r ?s] Cons xs by simp
    then have "xs' = ys' \<and> u = v"
      using items_inj [of xs' ys' e c u v] elem close Cons xs by auto
    with * show ?thesis using Cons xs by simp
  qed
qed

lemma dumpable_list_iff: "dumpable_list xs \<longleftrightarrow> (\<forall>x\<in>set xs. dumpable x)"
  by (induction xs) auto

lemma dumpable_entries_iff: "dumpable_entries kvs \<longleftrightarrow> (\<forall>kv\<in>set kvs. dumpable (snd kv))"
  by (induction kvs) auto

lemma int_repr_lead: "hd (int_repr i @ u) = CHR ''-'' \<or> is_digit (hd (int_repr i @ u))"
  using decimal_digits [of "nat i"] decimal_nonempty [of "nat i"]
  by (cases "decimal (nat i)") (auto simp: int_repr_def)

lemma plain_lead: "dumpable j \<Longrightarrow> lead_of j (hd (plain j @ u))"
  using int_repr_lead by (cases j) (auto simp: lead_of_def quote_def)

lemma plain_lead_eq:
  assumes "dumpable b" and "plain a @ u = plain b @ v"
  shows "lead_of b (hd (plain a @ u))"
  using plain_lead [OF assms(1), of v] assms(2) by simp

lemma plain_inj:
  "dumpable a \<Longrightarrow> dumpable b \<Longrightarrow> delimited u \<Longrightarrow> delimited v \<Longrightarrow> plain a @ u = plain b @ v
     \<Longrightarrow> a = b \<and> u = v"
proof (induction a arbitrary: b u v)
  case (JList xs)
  from plain_lead_eq [OF JList.prems(2,5)] obtain ys where b: "b = JList ys"
    by (cases b) (auto simp: lead_of_def is_digit_def split: if_splits)
  have "xs = ys \<and> u = v"
  proof (rule join_inj [where e = plain and c = "CHR '']''"])
    show "join '','' (map plain xs) @ CHR '']'' # u = join '','' (map plain ys) @ CHR '']'' # v"
      using JList.prems(5) b by (simp add: plain_list_map)
    show "hd (plain x @ w) \<noteq> CHR '']''" if "x \<in> set xs \<union> set ys" for x w
      using that JList.prems(1,2) b plain_lead [of x w]
      by (cases x) (auto simp: dumpable_list_iff lead_of_def is_digit_def)
  qed (use JList b in \<open>auto simp: dumpable_list_iff\<close>)
  with b show ?case by simp
next
  case (JObj kvs)
  from plain_lead_eq [OF JObj.prems(2,5)] obtain kws where b: "b = JObj kws"
    by (cases b) (auto simp: lead_of_def is_digit_def split: if_splits)
  have "kvs = kws \<and> u = v"
  proof (rule join_inj [where e = plain_member and c = "CHR ''}''"])
    show "join '','' (map plain_member kvs) @ CHR ''}'' # u
        = join '','' (map plain_member kws) @ CHR ''}'' # v"
      using JObj.prems(5) b by (simp add: plain_entries_map)
    show "hd (plain_member x @ w) \<noteq> CHR ''}''" for x w
      by (simp add: plain_member_def quote_def)
    show "x = y \<and> w = z"
      if "x \<in> set kvs" "y \<in> set kws" "delimited w" "delimited z"
        "plain_member x @ w = plain_member y @ z" for x y w z
    proof -
      from that(5) have "quote (fst x) @ (CHR '':'' # plain (snd x) @ w)
          = quote (fst y) @ (CHR '':'' # plain (snd y) @ z)" by (simp add: plain_member_def)
      from quote_inj [OF this]
      have "fst x = fst y" and "plain (snd x) @ w = plain (snd y) @ z" by simp_all
      moreover have "snd x \<in> Basic_BNFs.snds x" by (cases x) simp
      ultimately show ?thesis
        using JObj.IH [OF that(1), of "snd x" "snd y" w z] that(1-4) JObj.prems(1,2) b
        by (auto simp: dumpable_entries_iff prod_eq_iff)
    qed
  qed auto
  with b show ?case by simp
next
  case (JStr s)
  with plain_lead_eq [OF JStr.prems(2,5)] quote_inj [of s u]
  show ?case by (cases b) (auto simp: lead_of_def is_digit_def quote_def split: if_splits)
next
  case (JInt i)
  with plain_lead_eq [OF JInt.prems(2,5)] int_repr_inj int_repr_lead [of i u]
  show ?case by (cases b) (auto simp: lead_of_def is_digit_def split: if_splits)
next
  case (JBool x)
  with plain_lead_eq [OF JBool.prems(2,5)]
  show ?case by (cases b) (auto simp: lead_of_def is_digit_def split: if_splits)
next
  case JNull
  with plain_lead_eq [OF JNull.prems(2,5)]
  show ?case by (cases b) (auto simp: lead_of_def is_digit_def split: if_splits)
next
  case (JFloat f)
  then show ?case by simp
qed

lemma normalize_list_iff:
  "normalize_list nfc xs = Inr ys \<longleftrightarrow> list_all2 (\<lambda>x y. normalize_json nfc x = Inr y) xs ys"
  by (induction xs arbitrary: ys)
     (auto simp: result_bind_eq_Inr list_all2_Cons1)

lemma normalized_member_Pair:
  "normalized_member nfc (k, v) (k', w) \<longleftrightarrow> k' = nfc k \<and> normalize_json nfc v = Inr w"
  by (simp add: normalized_member_def)

lemma normalize_entries_iff:
  "normalize_entries nfc acc kvs = Inr r \<longleftrightarrow>
     (\<exists>es. r = acc @ es \<and> list_all2 (normalized_member nfc) kvs es
         \<and> distinct (map fst es) \<and> set (map fst es) \<inter> set (map fst acc) = {})"
proof (induction kvs arbitrary: acc r)
  case Nil
  then show ?case by auto
next
  case (Cons kv kvs)
  obtain k v where kv: "kv = (k, v)" by (cases kv)
  show ?case (is "?L = ?R")
  proof
    assume ?L
    then obtain w es where "nfc k \<notin> set (map fst acc)" "normalize_json nfc v = Inr w"
      "r = (acc @ [(nfc k, w)]) @ es" "list_all2 (normalized_member nfc) kvs es"
      "distinct (map fst es)" "set (map fst es) \<inter> set (map fst (acc @ [(nfc k, w)])) = {}"
      by (auto simp: kv Cons.IH result_bind_eq_Inr split: if_splits)
    then show ?R
      by (intro exI [of _ "(nfc k, w) # es"]) (auto simp: kv normalized_member_Pair)
  next
    assume ?R
    then obtain e es where r: "r = acc @ e # es" and e: "normalized_member nfc kv e"
      and es: "list_all2 (normalized_member nfc) kvs es" "distinct (map fst (e # es))"
      "set (map fst (e # es)) \<inter> set (map fst acc) = {}"
      by (auto simp: list_all2_Cons1)
    then have "normalize_entries nfc (acc @ [e]) kvs = Inr r"
      unfolding Cons.IH by (intro exI [of _ es]) auto
    then show ?L
      using e es by (cases e) (auto simp: kv normalized_member_Pair)
  qed
qed

lemma dumpable_canonical_form: "dumpable (canonical_form j) = dumpable j"
proof (induction j)
  case (JObj kvs)
  then show ?case
    by (force simp: dumpable_entries_iff canonical_entries_map)
qed (auto simp: dumpable_list_iff)

lemma canonicalize_form:
  "canonicalize_v1 nfc d = Inr s \<longleftrightarrow>
     (\<exists>n. normalize_json nfc d = Inr n \<and> dumpable (canonical_form n) \<and> s = plain (canonical_form n))"
  by (auto simp: canonicalize_v1_def result_bind_eq_Inr dumps_plain dumpable_canonical_form
      split: if_splits)

lemma list_all2_mset_permute:
  assumes "list_all2 P xs ys" and "mset xs = mset xs'"
  shows "\<exists>ys'. list_all2 P xs' ys' \<and> mset ys = mset ys'"
  using assms list_all2_reorder_left_invariance by metis

lemma reordered_normalize:
  "reordered a b \<Longrightarrow> normalize_json nfc a = Inr a' \<Longrightarrow>
     \<exists>b'. normalize_json nfc b = Inr b' \<and> canonical_form a' = canonical_form b'"
proof (induction arbitrary: a' rule: reordered.induct)
  case (same j)
  then show ?case by auto
next
  case (items xs ys)
  then obtain xs' where a': "a' = JList xs'" and
    xs': "list_all2 (\<lambda>x y. normalize_json nfc x = Inr y) xs xs'"
    by (auto simp: result_bind_eq_Inr normalize_list_iff)
  from items(1) xs' have
    "\<exists>ys'. list_all2 (\<lambda>x y. normalize_json nfc x = Inr y) ys ys' \<and> map canonical_form xs' = map canonical_form ys'"
  proof (induction xs ys arbitrary: xs' rule: list_all2_induct)
    case Nil
    then show ?case by simp
  next
    case (Cons x xs y ys)
    then obtain z zs where xs': "xs' = z # zs" "normalize_json nfc x = Inr z"
      "list_all2 (\<lambda>x y. normalize_json nfc x = Inr y) xs zs" by (auto simp: list_all2_Cons1)
    with Cons obtain y' ys' where "normalize_json nfc y = Inr y'" "canonical_form z = canonical_form y'"
      "list_all2 (\<lambda>x y. normalize_json nfc x = Inr y) ys ys'" "map canonical_form zs = map canonical_form ys'"
      by blast
    with xs' show ?case by (intro exI [of _ "y' # ys'"]) simp
  qed
  with a' show ?case by (auto simp: result_bind_eq_Inr normalize_list_iff)
next
  case (members kvs kws kzs)
  then obtain es where a': "a' = JObj es" and es: "list_all2 (normalized_member nfc) kvs es"
    "distinct (map fst es)"
    by (auto simp: result_bind_eq_Inr normalize_entries_iff)
  let ?c = "\<lambda>(k, v). (k, canonical_form v)"
  from members(1) es(1) have
    "\<exists>fs. list_all2 (normalized_member nfc) kws fs \<and> map ?c es = map ?c fs"
  proof (induction kvs kws arbitrary: es rule: list_all2_induct)
    case Nil
    then show ?case by simp
  next
    case (Cons kv kvs kw kws)
    then obtain e es' where e: "es = e # es'" "normalized_member nfc kv e"
      "list_all2 (normalized_member nfc) kvs es'" by (auto simp: list_all2_Cons1)
    with Cons obtain fs w where "list_all2 (normalized_member nfc) kws fs" "map ?c es' = map ?c fs"
      "normalize_json nfc (snd kw) = Inr w" "canonical_form (snd e) = canonical_form w"
      unfolding normalized_member_def by blast
    with e Cons.hyps show ?case
      by (intro exI [of _ "(fst e, w) # fs"])
         (cases e; cases kv; cases kw; simp add: normalized_member_Pair)
  qed
  then obtain fs where fs: "list_all2 (normalized_member nfc) kws fs" "map ?c es = map ?c fs" by blast
  from list_all2_mset_permute [OF fs(1) members(2)]
  obtain gs where gs: "list_all2 (normalized_member nfc) kzs gs" "mset fs = mset gs" by blast
  have keys: "map fst fs = map fst es"
    using arg_cong [OF fs(2), of "map fst"] by (simp add: case_prod_beta comp_def)
  then have "distinct (map fst fs)" using es(2) by simp
  then have dist: "distinct (map fst gs)"
    using gs(2) by (metis mset_eq_imp_distinct_iff mset_map)
  have "mset (map ?c gs) = mset (map ?c es)"
    using fs(2) gs(2) by (simp add: mset_map)
  moreover have "inj_on fst (set (map ?c gs))"
  proof -
    have "distinct (map fst (map ?c gs))" using dist by (simp add: case_prod_beta comp_def)
    then show ?thesis by (simp only: distinct_map)
  qed
  ultimately have "sort_key fst (map ?c gs) = sort_key fst (map ?c es)"
    by (intro sort_key_inj_key_eq) auto
  then have "canonical_form a' = canonical_form (JObj gs)"
    using a' by (simp add: canonical_entries_map)
  moreover have "normalize_json nfc (JObj kzs) = Inr (JObj gs)"
    using gs(1) dist by (auto simp: result_bind_eq_Inr normalize_entries_iff)
  ultimately show ?case by blast
qed

text \<open>
  The canonical bytes of a document do not depend on the order in which the members of
  its objects are written, at any depth.
\<close>

lemma canonicalize_order_independent:
  assumes "canonicalize_v1 nfc a = Inr s" and "reordered a b"
  shows "canonicalize_v1 nfc b = Inr s"
  using assms reordered_normalize [OF assms(2)] by (fastforce simp: canonicalize_form)

text \<open>
  C21: two documents with the same canonical bytes have the same content: their normalized forms
  are equal up to the order of object members.
\<close>

theorem canonicalize_injective:
  assumes "canonicalize_v1 nfc a = Inr s" and "canonicalize_v1 nfc b = Inr s"
    and "normalize_json nfc a = Inr a'" and "normalize_json nfc b = Inr b'"
  shows "canonical_form a' = canonical_form b'"
  using assms plain_inj [of "canonical_form a'" "canonical_form b'" "[]" "[]"]
  by (auto simp: canonicalize_form)

theorem canonicalize_injective_witness:
  "canonical_form (JObj [(''a'', JInt 1), (''b'', JList [JNull])])
   = canonical_form (JObj [(''b'', JList [JNull]), (''a'', JInt 1)])"
proof (rule canonicalize_injective)
  show "canonicalize_v1 (\<lambda>s. s) (JObj [(''a'', JInt 1), (''b'', JList [JNull])])
      = Inr (CHR 0x7B # CHR 0x22 # ''a'' @ CHR 0x22 # '':1,'' @ CHR 0x22 # ''b'' @ CHR 0x22 # '':[null]}'')"
    by code_simp
  show "canonicalize_v1 (\<lambda>s. s) (JObj [(''b'', JList [JNull]), (''a'', JInt 1)])
      = Inr (CHR 0x7B # CHR 0x22 # ''a'' @ CHR 0x22 # '':1,'' @ CHR 0x22 # ''b'' @ CHR 0x22 # '':[null]}'')"
    by code_simp
qed simp_all

lemma normalize_json_no_float: "normalize_json nfc j = Inr n \<Longrightarrow> \<not> contains_float j"
  and normalize_list_no_float: "normalize_list nfc xs = Inr ns \<Longrightarrow> x \<in> set xs \<Longrightarrow> \<not> contains_float x"
  and normalize_entries_no_float: "normalize_entries nfc acc kvs = Inr es \<Longrightarrow> kv \<in> set kvs \<Longrightarrow> \<not> contains_float (snd kv)"
  by (induction nfc j and nfc xs and nfc acc kvs arbitrary: n and ns x and es kv rule: normalize_json_normalize_list_normalize_entries.induct)
   (auto simp: result_bind_eq_Inr split: pyfloat.splits if_splits)

lemma normalize_json_raises: "normalize_json nfc j = Inl r \<Longrightarrow> \<exists>f. r = Raised (CanonicalizationError f) []"
  and normalize_list_raises: "normalize_list nfc xs = Inl r \<Longrightarrow> \<exists>f. r = Raised (CanonicalizationError f) []"
  and normalize_entries_raises: "normalize_entries nfc acc kvs = Inl r \<Longrightarrow> \<exists>f. r = Raised (CanonicalizationError f) []"
  by (induction nfc j and nfc xs and nfc acc kvs rule: normalize_json_normalize_list_normalize_entries.induct)
   (auto simp: result_bind_def fails_def split: pyfloat.splits if_splits sum.splits)

text \<open>
  A document that holds a floating point number anywhere is never canonicalized: the call
  raises \<open>CanonicalizationError\<close>.
\<close>

lemma canonicalize_rejects_floats:
  assumes "contains_float j"
  shows "\<exists>f. canonicalize_v1 nfc j = fails (CanonicalizationError f)"
  using assms normalize_json_no_float [of nfc j] normalize_json_raises [of nfc j]
  by (cases "normalize_json nfc j") (auto simp: canonicalize_v1_def fails_def)

lemma length_be_bytes [simp]: "length (be_bytes w n) = w"
  by (induction w arbitrary: n) auto

lemma be_bytes_inj: "m < 256 ^ w \<Longrightarrow> n < 256 ^ w \<Longrightarrow> be_bytes w m = be_bytes w n \<Longrightarrow> m = n"
proof (induction w arbitrary: m n)
  case 0
  then show ?case by simp
next
  case (Suc w)
  then have "be_bytes w (m div 256) = be_bytes w (n div 256)" and
     c: "(char_of (m mod 256) :: char) = char_of (n mod 256)" by auto
  moreover have "m div 256 < 256 ^ w" "n div 256 < 256 ^ w" using Suc.prems by (auto simp: less_mult_imp_div_less mult.commute)
  ultimately have "m div 256 = n div 256" using Suc.IH by blast
  moreover have "m mod 256 = n mod 256"
    using arg_cong [OF c, of "of_char :: char \<Rightarrow> nat"] by (simp add: of_char_of)
  ultimately show ?case by (metis div_mult_mod_eq)
qed

lemma to_bytes_big_Inr: "to_bytes_big w n = Inr b \<longleftrightarrow> n < 256 ^ w \<and> b = be_bytes w n"
proof -
  have "int n < 256 ^ w \<longleftrightarrow> n < 256 ^ w"
    by (metis of_nat_less_iff of_nat_numeral of_nat_power)
  then show ?thesis by (auto simp: to_bytes_big_def)
qed

text \<open>
  C22: the bytes a commitment is computed from determine the normalized proposal reference and
  the canonical payload: no two proposals and no two payloads share a commitment input.
\<close>

theorem commitment_payload_injective:
  assumes "commitment_payload_v1 nfc r1 p1 = Inr s" and "commitment_payload_v1 nfc r2 p2 = Inr s"
  shows "nfc r1 = nfc r2 \<and> p1 = p2"
proof -
  from assms have lens: "length (nfc r1) < 256 ^ 4" "length (nfc r2) < 256 ^ 4"
    "length p1 < 256 ^ 8" "length p2 < 256 ^ 8"
    and s: "be_bytes 4 (length (nfc r1)) @ nfc r1 @ be_bytes 8 (length p1) @ p1
          = be_bytes 4 (length (nfc r2)) @ nfc r2 @ be_bytes 8 (length p2) @ p2"
    by (auto simp: commitment_payload_v1_def Let_def result_bind_eq_Inr to_bytes_big_Inr
        simp del: be_bytes.simps)
  then have "be_bytes 4 (length (nfc r1)) = be_bytes 4 (length (nfc r2))"
    and rest: "nfc r1 @ be_bytes 8 (length p1) @ p1 = nfc r2 @ be_bytes 8 (length p2) @ p2"
    by (simp_all add: append_eq_append_conv del: be_bytes.simps)
  then have "length (nfc r1) = length (nfc r2)" using be_bytes_inj lens by blast
  with rest show ?thesis by (simp add: append_eq_append_conv del: be_bytes.simps)
qed

theorem commitment_payload_injective_witness:
  "commitment_payload_v1 (\<lambda>s. s) ''p'' ''ab'' \<noteq> commitment_payload_v1 (\<lambda>s. s) ''pa'' ''b''"
proof
  assume eq: "commitment_payload_v1 (\<lambda>s. s) ''p'' ''ab'' = commitment_payload_v1 (\<lambda>s. s) ''pa'' ''b''"
  have e: "commitment_payload_v1 (\<lambda>s. s) ''p'' ''ab''
      = Inr (commitment_domain @ be_bytes 4 1 @ ''p'' @ be_bytes 8 2 @ ''ab'')"
    by (simp add: commitment_payload_v1_def Let_def to_bytes_big_def numeral_2_eq_2 del: be_bytes.simps)
  from commitment_payload_injective [OF e trans [OF eq [symmetric] e]] show False by simp
qed

end
