(* ===== verification/Authority.thy ===== *)
theory Authority
  imports Canonical
begin

text \<open>
  \<open>authority.py\<close>: the authority evidence a host records for a proposal, the binding it
  must match and the time window in which it counts. Shown: evidence is valid exactly
  when it matches the binding in every dimension and \<open>issued_at \<le> now < expires_at\<close>, and
  validity at two instants carries over to every instant between them.
\<close>

datatype authority_decision = APPROVE | REJECT

text \<open>\<open>AuthorityDecision.DENY\<close> has the value of \<open>REJECT\<close>, so the enum makes it an alias.\<close>

abbreviation DENY :: authority_decision where
  "DENY \<equiv> REJECT"

record authority_binding =
  ab_tenant_reference :: pystr
  ab_action_type :: action_type
  ab_proposal_instance_reference :: pystr
  ab_semantic_effect_reference :: pystr
  ab_proposal_commitment :: pystr
  ab_required_audience :: pystr
  ab_required_channel_assurance :: pystr

record external_authority_attestation =
  xa_format :: pystr
  xa_issuer_reference :: pystr
  xa_artifact_reference :: pystr
  xa_artifact_digest :: pystr

record authority_evidence =
  ev_tenant_reference :: pystr
  ev_action_type :: action_type
  ev_proposal_instance_reference :: pystr
  ev_semantic_effect_reference :: pystr
  ev_authority :: confirming_authority
  ev_audience :: "pystr list"
  ev_decision :: authority_decision
  ev_proposal_commitment :: pystr
  ev_channel_assurance :: pystr
  ev_issued_at :: instant
  ev_expires_at :: instant
  ev_external_attestation :: "external_authority_attestation option"

definition expiry_follows_issue_time :: "authority_evidence \<Rightarrow> authority_evidence outcome" where
  "expiry_follows_issue_time e =
     (if ev_expires_at e \<le> ev_issued_at e then fails ValueError else Inr e)"

definition authority_evidence_matches_binding :: "authority_evidence \<Rightarrow> authority_binding \<Rightarrow> bool" where
  "authority_evidence_matches_binding e b \<longleftrightarrow>
     ev_tenant_reference e = ab_tenant_reference b
     \<and> ev_action_type e = ab_action_type b
     \<and> ev_proposal_instance_reference e = ab_proposal_instance_reference b
     \<and> ev_semantic_effect_reference e = ab_semantic_effect_reference b
     \<and> ev_proposal_commitment e = ab_proposal_commitment b
     \<and> ab_required_audience b \<in> set (ev_audience e)
     \<and> ev_channel_assurance e = ab_required_channel_assurance b"

record authority_validation_result =
  av_valid :: bool
  av_failure :: "authority_validation_failure option"

definition validate_authority_evidence ::
  "authority_evidence \<Rightarrow> authority_binding \<Rightarrow> instant \<Rightarrow> authority_validation_result" where
  "validate_authority_evidence e b now =
     (if \<not> authority_evidence_matches_binding e b
      then \<lparr>av_valid = False, av_failure = Some BindingMismatch\<rparr>
      else if ev_issued_at e > now
      then \<lparr>av_valid = False, av_failure = Some NotYetValid\<rparr>
      else if ev_expires_at e \<le> now
      then \<lparr>av_valid = False, av_failure = Some Expired\<rparr>
      else \<lparr>av_valid = True, av_failure = None\<rparr>)"

section \<open>Lemmas\<close>

lemma authority_valid_iff:
  "av_valid (validate_authority_evidence e b now) \<longleftrightarrow>
     authority_evidence_matches_binding e b \<and> ev_issued_at e \<le> now \<and> now < ev_expires_at e"
  by (auto simp: validate_authority_evidence_def)

lemma authority_failure_iff:
  "av_failure (validate_authority_evidence e b now) = None \<longleftrightarrow>
     av_valid (validate_authority_evidence e b now)"
  by (simp add: validate_authority_evidence_def)

lemma authority_valid_between:
  assumes "av_valid (validate_authority_evidence e b t1)"
    and "av_valid (validate_authority_evidence e b t2)"
    and "t1 \<le> t" and "t \<le> t2"
  shows "av_valid (validate_authority_evidence e b t)"
  using assms by (simp add: authority_valid_iff)

end
