(* ===== verification/Receipts.thy ===== *)
theory Receipts
  imports Authority
begin

text \<open>
  \<open>receipts.py\<close>: the closed family of lifecycle receipts and the runtime events. The
  fields of \<open>_ReceiptBase\<close> are the record \<open>receipt_base\<close>, carried by every receipt.
\<close>

datatype proposal_receipt_status = ProposalPREPARED | ProposalFAILED | ProposalMISSING

datatype authority_receipt_status =
  AuthorityRECORDED | AuthorityREJECTED | AuthorityFAILED | AuthorityMISSING

datatype execution_receipt_status =
    ExecutionSTARTED
  | ExecutionACCEPTED
  | ExecutionPARTIALLY_SUCCEEDED
  | ExecutionSTALE_NO_EFFECT
  | ExecutionFAILED_KNOWN
  | ExecutionFAILED_UNKNOWN
  | ExecutionMISSING

datatype verification_receipt_status =
    ReceiptVERIFIED_COMPLETION
  | ReceiptVERIFIED_TERMINAL_FAILURE
  | ReceiptPROVISIONAL_ABSENCE
  | ReceiptAUTHORITATIVE_FINAL_ABSENCE
  | ReceiptTARGET_UNAVAILABLE
  | ReceiptVERIFICATION_UNRESOLVED
  | ReceiptMISSING

datatype recovery_receipt_status = RecoveryVERIFICATION_RESUMED

record external_reference =
  xr_system :: pystr
  xr_reference :: pystr

datatype item_outcome_status = ItemSUCCEEDED | ItemFAILED_KNOWN | ItemFAILED_UNKNOWN

record item_outcome =
  io_item_reference :: pystr
  io_status :: item_outcome_status
  io_reason_code :: "pystr option"

record receipt_base =
  rb_schema_version :: pystr
  rb_receipt_reference :: pystr
  rb_correlation_reference :: pystr
  rb_causation_reference :: pystr
  rb_observed_at :: instant
  rb_runtime_revision :: "pystr option"
  rb_external_reference :: "external_reference option"
  rb_corrects_receipt_reference :: "pystr option"
  rb_supersedes_receipt_reference :: "pystr option"
  rb_reason_code :: "pystr option"

definition receipt_schema_version :: pystr where
  "receipt_schema_version = ''internal/v0''"

datatype receipt =
    ProposalReceipt receipt_base proposal_receipt_status requesting_principal "proposing_agent option"
  | AuthorityReceipt receipt_base authority_receipt_status confirming_authority
  | ExecutionReceipt receipt_base execution_receipt_status governed_executor "item_outcome list"
  | VerificationReceipt receipt_base verification_receipt_status authoritative_target "item_outcome list"
  | RecoveryReceipt receipt_base recovery_receipt_status recovery_operator

fun receipt_head :: "receipt \<Rightarrow> receipt_base" where
  "receipt_head (ProposalReceipt b _ _ _) = b"
| "receipt_head (AuthorityReceipt b _ _) = b"
| "receipt_head (ExecutionReceipt b _ _ _) = b"
| "receipt_head (VerificationReceipt b _ _ _) = b"
| "receipt_head (RecoveryReceipt b _ _) = b"

definition is_verification_receipt :: "receipt \<Rightarrow> bool" where
  "is_verification_receipt r = (case r of VerificationReceipt _ _ _ _ \<Rightarrow> True | _ \<Rightarrow> False)"

definition verification_status_of :: "receipt \<Rightarrow> verification_receipt_status option" where
  "verification_status_of r = (case r of VerificationReceipt _ s _ _ \<Rightarrow> Some s | _ \<Rightarrow> None)"

datatype runtime_event_type =
    PROPOSAL_PREPARED
  | AUTHORITY_RECORDED
  | LIFECYCLE_CHANGED
  | VERIFICATION_OBSERVED
  | VERIFICATION_RESUMED
  | PROPOSAL_ERASED

record runtime_event =
  re_event_type :: runtime_event_type
  re_tenant_reference :: pystr
  re_proposal_reference :: pystr
  re_action_type :: action_type
  re_lifecycle_status :: lifecycle_status
  re_correlation_reference :: pystr
  re_observed_at :: instant
  re_reason_code :: "pystr option"

end
