(* ===== verification/Registry.thy ===== *)
theory Registry
  imports Receipts
begin

text \<open>
  \<open>registry.py\<close>: the contexts and results exchanged with the host, the validators of the
  result models, the action definition with its host ports, the conformance checks made
  when a definition is constructed, and the action registry.

  A host port is code outside the library. It is a field of the definition: a function
  of the interaction number at which it is called (the host is free to answer the same
  question differently later) and of its arguments, and it may raise.
\<close>

section \<open>Contexts and results\<close>

record preparation_context =
  pc_tenant_reference :: pystr
  pc_requesting_principal :: requesting_principal
  pc_proposing_agent :: "proposing_agent option"
  pc_prepared_at :: instant

record decision_context =
  dc_tenant_reference :: pystr
  dc_authority :: confirming_authority
  dc_decided_at :: instant

record read_context =
  rd_tenant_reference :: pystr
  rd_consumer :: evidence_consumer

record recovery_context =
  rx_tenant_reference :: pystr
  rx_operator :: recovery_operator
  rx_intervention_reference :: pystr
  rx_requested_at :: instant

record execution_context =
  ec_tenant_reference :: pystr
  ec_proposal_reference :: pystr
  ec_semantic_effect_reference :: pystr
  ec_requesting_principal :: requesting_principal
  ec_authorities :: "confirming_authority list"
  ec_observed_at :: instant

record authorization_result =
  ar_allowed :: bool
  ar_reason_code :: "pystr option"

record authority_evaluation =
  ae_satisfied :: bool
  ae_reason_code :: "pystr option"

record prepared_action =
  pa_private_snapshot :: host_model
  pa_display_preview :: host_model
  pa_semantic_effect_reference :: pystr

record resolved_state =
  rs_current_snapshot :: host_model
  rs_execution_precondition :: pystr
  rs_materially_drifted :: bool
  rs_replacement :: "prepared_action option"

datatype execution_status =
    ExecACCEPTED
  | ExecSTALE_NO_EFFECT
  | ExecFAILED_KNOWN
  | ExecFAILED_UNKNOWN
  | ExecPARTIALLY_SUCCEEDED

record execution_result =
  er_status :: execution_status
  er_result :: "host_model option"
  er_item_outcomes :: "item_outcome list"
  er_external_reference :: "external_reference option"
  er_reason_code :: "pystr option"

definition partial_requires_items :: "execution_result \<Rightarrow> execution_result outcome" where
  "partial_requires_items r =
     (if er_status r = ExecPARTIALLY_SUCCEEDED \<and> er_item_outcomes r = [] then fails ValueError
      else if er_status r = ExecPARTIALLY_SUCCEEDED
              \<and> list_all (\<lambda>i. io_status i = ItemSUCCEEDED) (er_item_outcomes r) then fails ValueError
      else if er_status r = ExecPARTIALLY_SUCCEEDED
              \<and> \<not> list_ex (\<lambda>i. io_status i = ItemSUCCEEDED) (er_item_outcomes r) then fails ValueError
      else if er_status r = ExecSTALE_NO_EFFECT
              \<and> (er_result r \<noteq> None \<or> er_item_outcomes r \<noteq> [] \<or> er_external_reference r \<noteq> None)
           then fails ValueError
      else Inr r)"

datatype verification_status =
    VERIFIED_COMPLETION
  | VERIFIED_TERMINAL_FAILURE
  | PROVISIONAL_ABSENCE
  | AUTHORITATIVE_FINAL_ABSENCE
  | TARGET_UNAVAILABLE

record verification_result =
  vr_status :: verification_status
  vr_result :: "host_model option"
  vr_item_outcomes :: "item_outcome list"
  vr_external_reference :: "external_reference option"
  vr_reason_code :: "pystr option"
  vr_settling_boundary_passed :: bool
  vr_target_idempotency_guaranteed :: bool

definition absence_requires_consistent_evidence :: "verification_result \<Rightarrow> verification_result outcome" where
  "absence_requires_consistent_evidence r =
     (if vr_status r \<in> {PROVISIONAL_ABSENCE, AUTHORITATIVE_FINAL_ABSENCE}
         \<and> (vr_result r \<noteq> None \<or> vr_item_outcomes r \<noteq> []) then fails ValueError
      else if vr_status r = VERIFIED_COMPLETION \<and> vr_item_outcomes r \<noteq> []
              \<and> \<not> list_ex (\<lambda>i. io_status i = ItemSUCCEEDED) (vr_item_outcomes r) then fails ValueError
      else if vr_status r \<in> {VERIFIED_COMPLETION, VERIFIED_TERMINAL_FAILURE}
              \<and> list_ex (\<lambda>i. io_status i = ItemFAILED_UNKNOWN) (vr_item_outcomes r) then fails ValueError
      else if (vr_status r = AUTHORITATIVE_FINAL_ABSENCE) \<noteq> vr_settling_boundary_passed r then fails ValueError
      else Inr r)"

section \<open>Host ports\<close>

text \<open>
  A commitment provider or protection codec implements either the plain protocol or the
  one bound to a complete proposal identity; the runtime asks which at every call.
\<close>

record plain_commitment_provider =
  cp_create :: "nat \<Rightarrow> pystr \<Rightarrow> bytes \<Rightarrow> keyed_commitment outcome"
  cp_verify :: "nat \<Rightarrow> pystr \<Rightarrow> bytes \<Rightarrow> keyed_commitment \<Rightarrow> bool outcome"
  cp_destroy_commitment :: "nat \<Rightarrow> keyed_commitment \<Rightarrow> unit outcome"

record bound_commitment_provider =
  cp_create_for :: "nat \<Rightarrow> proposal_identity \<Rightarrow> bytes \<Rightarrow> keyed_commitment outcome"
  cp_verify_for :: "nat \<Rightarrow> proposal_identity \<Rightarrow> bytes \<Rightarrow> keyed_commitment \<Rightarrow> bool outcome"
  cp_destroy_commitment_for :: "nat \<Rightarrow> proposal_identity \<Rightarrow> keyed_commitment \<Rightarrow> unit outcome"

datatype commitment_provider_port =
    PlainCommitmentProvider plain_commitment_provider
  | ProposalBoundCommitmentProvider bound_commitment_provider

record plain_protection_codec =
  pcodec_protect :: "nat \<Rightarrow> pystr \<Rightarrow> bytes \<Rightarrow> protected_payload outcome"
  pcodec_unprotect :: "nat \<Rightarrow> protected_payload \<Rightarrow> bytes outcome"
  pcodec_destroy_payload :: "nat \<Rightarrow> protected_payload \<Rightarrow> unit outcome"

record bound_protection_codec =
  pcodec_protect_for :: "nat \<Rightarrow> proposal_identity \<Rightarrow> bytes \<Rightarrow> protected_payload outcome"
  pcodec_unprotect_for :: "nat \<Rightarrow> proposal_identity \<Rightarrow> protected_payload \<Rightarrow> bytes outcome"
  pcodec_destroy_payload_for :: "nat \<Rightarrow> proposal_identity \<Rightarrow> protected_payload \<Rightarrow> unit outcome"

datatype protection_codec_port =
    PlainProtectionCodec plain_protection_codec
  | ProposalBoundProtectionCodec bound_protection_codec

section \<open>Action definitions\<close>

record action_definition =
  ad_action_type :: action_type
  ad_command_model :: nat
  ad_private_snapshot_model :: nat
  ad_display_preview_model :: nat
  ad_result_model :: nat
  ad_preparation :: "nat \<Rightarrow> host_model \<Rightarrow> preparation_context \<Rightarrow> prepared_action outcome"
  ad_can_prepare :: "nat \<Rightarrow> host_model \<Rightarrow> preparation_context \<Rightarrow> authorization_result outcome"
  ad_can_decide :: "nat \<Rightarrow> authority_evidence \<Rightarrow> decision_context \<Rightarrow> authorization_result outcome"
  ad_can_execute :: "nat \<Rightarrow> host_model \<Rightarrow> execution_context \<Rightarrow> authorization_result outcome"
  ad_can_read :: "nat \<Rightarrow> pystr \<Rightarrow> read_context \<Rightarrow> bool outcome"
  ad_authority_evaluator :: "nat \<Rightarrow> authority_binding \<Rightarrow> authority_evidence list \<Rightarrow> authority_evaluation outcome"
  ad_state_resolver :: "nat \<Rightarrow> host_model \<Rightarrow> execution_context \<Rightarrow> resolved_state outcome"
  ad_executor :: "nat \<Rightarrow> host_model \<Rightarrow> execution_context \<Rightarrow> pystr \<Rightarrow> execution_result outcome"
  ad_verifier :: "nat \<Rightarrow> execution_context \<Rightarrow> verification_result outcome"
  ad_commitment_provider :: commitment_provider_port
  ad_protection_codec :: protection_codec_port
  ad_authorize_erasure :: "nat \<Rightarrow> pystr \<Rightarrow> read_context \<Rightarrow> bool outcome"
  ad_proposal_ttl :: duration
  ad_executor_identity :: governed_executor
  ad_target_identity :: authoritative_target
  ad_authority_audience :: pystr
  ad_authority_channel_assurance :: pystr
  ad_recovery_authorization :: "(nat \<Rightarrow> pystr \<Rightarrow> recovery_context \<Rightarrow> authorization_result outcome) option"
  ad_verification_delay :: duration
  ad_max_verification_attempts :: int
  ad_effect_kind :: effect_kind
  ad_allow_resend_after_final_absence :: bool
  ad_verification_lease_duration :: duration
  ad_nfc :: "pystr \<Rightarrow> pystr"
  ad_parse_snapshot :: "nat \<Rightarrow> bytes \<Rightarrow> host_model outcome"

text \<open>
  The last two fields are not of the Python class: \<open>ad_nfc\<close> is the interpreter's
  \<open>unicodedata.normalize("NFC", _)\<close> and \<open>ad_parse_snapshot\<close> the class method
  \<open>private_snapshot_model.model_validate_json\<close> of pydantic.

  A model class as pydantic describes it: its configuration and the annotations of its
  fields. Classes refer to each other by number, because they may be recursive.
\<close>

datatype annotation =
    AnnFloat
  | AnnFloatLiteral
  | AnnModel nat
  | AnnGeneric "annotation list"
  | AnnOther

record model_class =
  mc_extra_forbid :: bool
  mc_strict :: bool
  mc_frozen :: bool
  mc_fields :: "(pystr \<times> annotation) list"

definition assert_boundary_model_config :: "model_class \<Rightarrow> unit outcome" where
  "assert_boundary_model_config m =
     (if \<not> mc_extra_forbid m then fails DefinitionConformanceError
      else if \<not> mc_strict m then fails DefinitionConformanceError
      else if \<not> mc_frozen m then fails DefinitionConformanceError
      else Inr ())"

section \<open>The registry\<close>

type_synonym action_key = "pystr \<times> pystr \<times> int"

definition action_key :: "action_type \<Rightarrow> action_key" where
  "action_key a = (at_namespace a, at_name a, at_version a)"

type_synonym action_registry = "action_key \<rightharpoonup> action_definition"

definition empty_registry :: action_registry where
  "empty_registry = (\<lambda>_. None)"

definition register :: "action_registry \<Rightarrow> action_definition \<Rightarrow> action_registry outcome" where
  "register reg d =
     (if action_key (ad_action_type d) \<in> dom reg then fails DuplicateActionError
      else Inr (reg(action_key (ad_action_type d) \<mapsto> d)))"

definition get_typed ::
  "action_registry \<Rightarrow> action_type \<Rightarrow> nat \<Rightarrow> nat \<Rightarrow> nat \<Rightarrow> nat \<Rightarrow> action_definition outcome" where
  "get_typed reg a command_model private_snapshot_model display_preview_model result_model =
     (case reg (action_key a) of
        None \<Rightarrow> fails ActionNotRegisteredError
      | Some d \<Rightarrow>
          if (ad_command_model d, ad_private_snapshot_model d, ad_display_preview_model d, ad_result_model d)
             \<noteq> (command_model, private_snapshot_model, display_preview_model, result_model)
          then fails DefinitionTypeMismatchError
          else Inr d)"

section \<open>Lemmas\<close>

lemma action_key_inj: "action_key a = action_key b \<longleftrightarrow> a = b"
  by (auto simp: action_key_def action_type.equality)

end
