(* ===== verification/Approvals.thy ===== *)
theory Approvals
  imports Registry
begin

text \<open>
  \<open>approvals.py\<close>: the evidence-only approval requirements. Shown: a requirement is met
  exactly when enough distinct declared authorities approved with matching evidence;
  repeating evidence never helps, more evidence never hurts, and an M-of-N requirement
  cannot be met by fewer than M people or by anybody outside the declared set.
\<close>

definition references :: "confirming_authority list \<Rightarrow> pystr list" where
  "references authorities = map ca_reference authorities"

definition validate_authorities :: "confirming_authority list \<Rightarrow> unit outcome" where
  "validate_authorities authorities =
     (if authorities = [] then fails ValueError
      else if card (set (references authorities)) \<noteq> length (references authorities) then fails ValueError
      else Inr ())"

definition more_authority_required :: pystr where
  "more_authority_required = ''more_authority_required''"

definition approving ::
  "confirming_authority list \<Rightarrow> authority_binding \<Rightarrow> authority_evidence list \<Rightarrow> pystr set" where
  "approving authorities b evidence =
     set (map (\<lambda>r. ca_reference (ev_authority r))
       (filter (\<lambda>r. ev_decision r = APPROVE
                  \<and> ca_reference (ev_authority r) \<in> set (references authorities)
                  \<and> authority_evidence_matches_binding r b) evidence))"

definition satisfied ::
  "int \<Rightarrow> confirming_authority list \<Rightarrow> authority_binding \<Rightarrow> authority_evidence list \<Rightarrow> authority_evaluation" where
  "satisfied required authorities b evidence =
     (let ok = int (card (approving authorities b evidence)) \<ge> required in
      \<lparr>ae_satisfied = ok, ae_reason_code = (if ok then None else Some more_authority_required)\<rparr>)"

definition SingleApproval_evaluate ::
  "confirming_authority \<Rightarrow> authority_binding \<Rightarrow> authority_evidence list \<Rightarrow> authority_evaluation" where
  "SingleApproval_evaluate authority b evidence = satisfied 1 [authority] b evidence"

definition AnyApproval_init :: "confirming_authority list \<Rightarrow> unit outcome" where
  "AnyApproval_init authorities = validate_authorities authorities"

definition AnyApproval_evaluate ::
  "confirming_authority list \<Rightarrow> authority_binding \<Rightarrow> authority_evidence list \<Rightarrow> authority_evaluation" where
  "AnyApproval_evaluate authorities b evidence = satisfied 1 authorities b evidence"

definition MOfNApprovals_init :: "int \<Rightarrow> confirming_authority list \<Rightarrow> unit outcome" where
  "MOfNApprovals_init required authorities =
     result_bind (validate_authorities authorities)
       (\<lambda>_. if \<not> (1 \<le> required \<and> required \<le> int (length authorities)) then fails ValueError else Inr ())"

definition MOfNApprovals_evaluate ::
  "int \<Rightarrow> confirming_authority list \<Rightarrow> authority_binding \<Rightarrow> authority_evidence list \<Rightarrow> authority_evaluation" where
  "MOfNApprovals_evaluate required authorities b evidence = satisfied required authorities b evidence"

section \<open>Lemmas\<close>

lemma satisfied_iff:
  "ae_satisfied (satisfied m as b es) \<longleftrightarrow> m \<le> int (card (approving as b es))"
  by (simp add: satisfied_def Let_def)

lemma finite_approving [simp]: "finite (approving as b es)"
  by (simp add: approving_def)

lemma mem_approving:
  "a \<in> approving as b es \<longleftrightarrow>
     (\<exists>e\<in>set es. ca_reference (ev_authority e) = a \<and> ev_decision e = APPROVE
        \<and> a \<in> set (references as) \<and> authority_evidence_matches_binding e b)"
  by (auto simp: approving_def)

lemma approving_mono: "set es \<subseteq> set fs \<Longrightarrow> approving as b es \<subseteq> approving as b fs"
  by (auto simp: approving_def)

lemma satisfied_cong_set: "set es = set fs \<Longrightarrow> satisfied m as b es = satisfied m as b fs"
  by (simp add: satisfied_def approving_def Let_def)

lemma approving_append: "approving as b (es @ fs) = approving as b es \<union> approving as b fs"
  by (auto simp: approving_def)

lemma approving_subset: "approving as b es \<subseteq> set (references as)"
  by (auto simp: approving_def)

section \<open>Properties\<close>

text \<open>
  C20: an M-of-N requirement that was accepted at construction is met exactly when there are M
  different declared authorities each of whom approved with evidence that matches the binding:
  repeated evidence of one authority, rejections, evidence for another proposal and people outside
  the declared set never count.
\<close>

theorem m_of_n_exact:
  assumes "MOfNApprovals_init required authorities = Inr ()"
  shows "ae_satisfied (MOfNApprovals_evaluate required authorities b es) =
    (\<exists>people. people \<subseteq> set (references authorities) \<and> int (card people) = required
       \<and> people \<subseteq> {ca_reference (ev_authority e) | e. e \<in> set es \<and> ev_decision e = APPROVE
             \<and> authority_evidence_matches_binding e b})"
    (is "?L = (\<exists>people. ?R people)")
proof
  have pos: "0 \<le> required"
    using assms by (auto simp: MOfNApprovals_init_def result_bind_eq_Inr split: if_splits)
  assume ?L
  then have "nat required \<le> card (approving authorities b es)"
    by (simp add: MOfNApprovals_evaluate_def satisfied_iff)
  then obtain people where "people \<subseteq> approving authorities b es" "card people = nat required"
    by (metis obtain_subset_with_card_n)
  then have sub: "a \<in> approving authorities b es" if "a \<in> people" for a using that by blast
  have "?R people"
  proof (intro conjI subsetI)
    show "int (card people) = required" using pos \<open>card people = nat required\<close> by simp
    fix a assume a: "a \<in> people"
    show "a \<in> set (references authorities)" using sub [OF a] by (auto simp: mem_approving)
    show "a \<in> {ca_reference (ev_authority e) | e. e \<in> set es \<and> ev_decision e = APPROVE
             \<and> authority_evidence_matches_binding e b}"
      using sub [OF a] by (auto simp: mem_approving)
  qed
  then show "\<exists>people. ?R people" ..
next
  assume "\<exists>people. ?R people"
  then obtain people where R: "?R people" ..
  have "people \<subseteq> approving authorities b es"
  proof
    fix a assume a: "a \<in> people"
    with R have "a \<in> {ca_reference (ev_authority e) | e. e \<in> set es \<and> ev_decision e = APPROVE
        \<and> authority_evidence_matches_binding e b}" by blast
    moreover from a R have "a \<in> set (references authorities)" by blast
    ultimately show "a \<in> approving authorities b es" by (auto simp: mem_approving)
  qed
  then have "card people \<le> card (approving authorities b es)" by (simp add: card_mono)
  with R show ?L by (simp add: MOfNApprovals_evaluate_def satisfied_iff)
qed

definition demo_binding :: authority_binding where
  "demo_binding =
     \<lparr>ab_tenant_reference = ''t'',
      ab_action_type = \<lparr>at_namespace = ''shop.orders'', at_name = ''refund'', at_version = 1\<rparr>,
      ab_proposal_instance_reference = ''p'', ab_semantic_effect_reference = ''order-1'',
      ab_proposal_commitment = ''c'', ab_required_audience = ''shop'',
      ab_required_channel_assurance = ''signed''\<rparr>"

definition demo_approval :: "pystr \<Rightarrow> authority_evidence" where
  "demo_approval who =
     \<lparr>ev_tenant_reference = ''t'',
      ev_action_type = \<lparr>at_namespace = ''shop.orders'', at_name = ''refund'', at_version = 1\<rparr>,
      ev_proposal_instance_reference = ''p'', ev_semantic_effect_reference = ''order-1'',
      ev_authority = ConfirmingAuthority who, ev_audience = [''shop''], ev_decision = APPROVE,
      ev_proposal_commitment = ''c'', ev_channel_assurance = ''signed'', ev_issued_at = 0,
      ev_expires_at = 10, ev_external_attestation = None\<rparr>"

theorem m_of_n_exact_witness:
  "\<exists>people. people \<subseteq> {''a'', ''b''} \<and> int (card people) = 2"
proof -
  let ?as = "[ConfirmingAuthority ''a'', ConfirmingAuthority ''b'']"
  let ?es = "[demo_approval ''a'', demo_approval ''a'', demo_approval ''b'']"
  have init: "MOfNApprovals_init 2 ?as = Inr ()" by code_simp
  have "ae_satisfied (MOfNApprovals_evaluate 2 ?as demo_binding ?es)" by code_simp
  with m_of_n_exact [OF init, of demo_binding ?es] show ?thesis
    by (auto simp: references_def)
qed

text \<open>
  An approval requirement never gets worse with more evidence, and neither the order nor the
  repetition of evidence matters.
\<close>

lemma approvals_monotone:
  assumes "set es \<subseteq> set fs"
    and "ae_satisfied (MOfNApprovals_evaluate required authorities b es)"
  shows "ae_satisfied (MOfNApprovals_evaluate required authorities b fs)"
proof -
  have "card (approving authorities b es) \<le> card (approving authorities b fs)"
    by (simp add: card_mono approving_mono [OF assms(1)])
  with assms(2) show ?thesis by (simp add: MOfNApprovals_evaluate_def satisfied_iff)
qed

end
