(* ===== verification/Store_Base.thy ===== *)
theory Store_Base
  imports Approvals
begin

text \<open>
  \<open>stores/base.py\<close>: the stored proposal, the lifecycle transition table, the checks every
  store makes before it writes a proposal, and the two erasure transformations.

  The raise of a check is the left value of \<open>unit outcome\<close>. The checks are also given as
  the propositions they establish (\<open>valid_create\<close>, \<open>valid_update\<close>), which the stores'
  proofs use.
\<close>

section \<open>The stored proposal\<close>

record stored_proposal =
  sp_tenant_reference :: pystr
  sp_proposal_reference :: pystr
  sp_action_type :: action_type
  sp_semantic_effect_reference :: pystr
  sp_effect_kind :: effect_kind
  sp_lifecycle_status :: lifecycle_status
  sp_revision :: int
  sp_protected_private_snapshot :: "protected_payload option"
  sp_commitment :: "keyed_commitment option"
  sp_display_preview :: json_object
  sp_requesting_principal :: "requesting_principal option"
  sp_proposing_agent :: "proposing_agent option"
  sp_created_at :: instant
  sp_expires_at :: instant
  sp_authority_evidence :: "authority_evidence list"
  sp_receipts :: "receipt list"
  sp_verification_attempts :: int
  sp_max_verification_attempts :: int
  sp_next_verification_at :: "instant option"
  sp_safe_result :: "json_object option"
  sp_execution_precondition :: "pystr option"
  sp_superseded_by :: "pystr option"
  sp_erasure_pending_at :: "instant option"
  sp_erased_at :: "instant option"

section \<open>Lifecycle transitions\<close>

fun allowed_lifecycle_transitions :: "lifecycle_status \<Rightarrow> lifecycle_status list" where
  "allowed_lifecycle_transitions AWAITING_AUTHORITY = [AUTHORIZED, DENIED, EXPIRED]"
| "allowed_lifecycle_transitions AUTHORIZED = [BLOCKED, EXPIRED, EXECUTING, STALE]"
| "allowed_lifecycle_transitions EXECUTING =
     [STALE, FAILED_KNOWN, FAILED_UNKNOWN, VERIFICATION_PENDING]"
| "allowed_lifecycle_transitions FAILED_UNKNOWN = [VERIFICATION_PENDING]"
| "allowed_lifecycle_transitions VERIFICATION_PENDING =
     [AUTHORIZED, EXECUTING, FAILED_KNOWN, FAILED_UNKNOWN, PARTIALLY_SUCCEEDED,
      VERIFICATION_UNRESOLVED, VERIFIED]"
| "allowed_lifecycle_transitions STALE = [SUPERSEDED]"
| "allowed_lifecycle_transitions VERIFIED = []"
| "allowed_lifecycle_transitions BLOCKED = []"
| "allowed_lifecycle_transitions DENIED = []"
| "allowed_lifecycle_transitions EXPIRED = []"
| "allowed_lifecycle_transitions FAILED_KNOWN = []"
| "allowed_lifecycle_transitions PARTIALLY_SUCCEEDED = []"
| "allowed_lifecycle_transitions SUPERSEDED = []"
| "allowed_lifecycle_transitions VERIFICATION_UNRESOLVED = [VERIFICATION_PENDING]"

definition erasable_lifecycle_status :: "lifecycle_status \<Rightarrow> bool" where
  "erasable_lifecycle_status s \<longleftrightarrow> s \<notin> {EXECUTING, FAILED_UNKNOWN, VERIFICATION_PENDING}"

datatype effect_claim_result =
    ClaimACQUIRED
  | ClaimOWNED_BY_PROPOSAL
  | ClaimCONFLICT
  | ClaimPROPOSAL_NOT_FOUND
  | ClaimPROPOSAL_NOT_AUTHORIZED

section \<open>Checks and erasure\<close>

definition validate_proposal_bindings :: "stored_proposal \<Rightarrow> unit outcome" where
  "validate_proposal_bindings p =
     (if list_ex (\<lambda>e. case sp_commitment p of
            None \<Rightarrow> True
          | Some c \<Rightarrow>
              ev_tenant_reference e \<noteq> sp_tenant_reference p
              \<or> ev_action_type e \<noteq> sp_action_type p
              \<or> ev_proposal_instance_reference e \<noteq> sp_proposal_reference p
              \<or> ev_semantic_effect_reference e \<noteq> sp_semantic_effect_reference p
              \<or> ev_proposal_commitment e \<noteq> kc_digest c) (sp_authority_evidence p)
      then fails (StoreInvariantError EvidenceBindingMismatch)
      else if list_ex (\<lambda>r. rb_correlation_reference (receipt_head r) \<noteq> sp_proposal_reference p) (sp_receipts p)
      then fails (StoreInvariantError ReceiptCorrelationMismatch)
      else Inr ())"

definition validate_proposal_create :: "stored_proposal \<Rightarrow> unit outcome" where
  "validate_proposal_create p =
     (if sp_revision p \<noteq> 0 then fails (StoreInvariantError NewRevisionNotZero)
      else if sp_lifecycle_status p \<noteq> AWAITING_AUTHORITY
      then fails (StoreInvariantError NewNotAwaitingAuthority)
      else if sp_erasure_pending_at p \<noteq> None \<or> sp_erased_at p \<noteq> None
      then fails (StoreInvariantError NewStartsErased)
      else validate_proposal_bindings p)"

definition proposal_with_erasure_pending :: "stored_proposal \<Rightarrow> instant \<Rightarrow> stored_proposal" where
  "proposal_with_erasure_pending p pending_at =
     p\<lparr>sp_erasure_pending_at := Some pending_at, sp_revision := sp_revision p + 1\<rparr>"

definition erased_proposal :: "stored_proposal \<Rightarrow> instant \<Rightarrow> stored_proposal" where
  "erased_proposal p erased_at =
     p\<lparr>sp_protected_private_snapshot := None,
       sp_commitment := None,
       sp_display_preview := [],
       sp_requesting_principal := None,
       sp_proposing_agent := None,
       sp_authority_evidence := [],
       sp_receipts := [],
       sp_safe_result := None,
       sp_execution_precondition := None,
       sp_next_verification_at := None,
       sp_erasure_pending_at := None,
       sp_erased_at := Some erased_at,
       sp_revision := sp_revision p + 1\<rparr>"

definition immutable_identity ::
  "stored_proposal \<Rightarrow> pystr \<times> pystr \<times> action_type \<times> pystr \<times> effect_kind \<times> instant" where
  "immutable_identity p =
     (sp_tenant_reference p, sp_proposal_reference p, sp_action_type p,
      sp_semantic_effect_reference p, sp_effect_kind p, sp_created_at p)"

definition has_content :: "stored_proposal \<Rightarrow> bool" where
  "has_content p \<longleftrightarrow>
     sp_protected_private_snapshot p \<noteq> None \<or> sp_commitment p \<noteq> None \<or> sp_display_preview p \<noteq> []
     \<or> sp_requesting_principal p \<noteq> None \<or> sp_proposing_agent p \<noteq> None
     \<or> sp_authority_evidence p \<noteq> [] \<or> sp_receipts p \<noteq> [] \<or> sp_safe_result p \<noteq> None
     \<or> sp_execution_precondition p \<noteq> None"

definition validate_proposal_update :: "stored_proposal \<Rightarrow> stored_proposal \<Rightarrow> unit outcome" where
  "validate_proposal_update current updated =
     (if immutable_identity current \<noteq> immutable_identity updated
      then fails (StoreInvariantError IdentityChanged)
      else if sp_revision updated \<noteq> sp_revision current + 1
      then fails (StoreInvariantError RevisionNotNext)
      else if sp_erasure_pending_at current \<noteq> None \<and> sp_erasure_pending_at updated = None
              \<and> sp_erased_at updated = None
      then fails (StoreInvariantError PendingErasureDropped)
      else if sp_erased_at updated \<noteq> None \<and> has_content updated
      then fails (StoreInvariantError TombstoneHasContent)
      else if sp_erased_at updated = None
              \<and> take (length (sp_authority_evidence current)) (sp_authority_evidence updated)
                \<noteq> sp_authority_evidence current
      then fails (StoreInvariantError EvidenceNotAppendOnly)
      else if sp_erased_at updated = None
              \<and> take (length (sp_receipts current)) (sp_receipts updated) \<noteq> sp_receipts current
      then fails (StoreInvariantError ReceiptsNotAppendOnly)
      else if sp_lifecycle_status updated \<noteq> sp_lifecycle_status current
              \<and> sp_lifecycle_status updated
                \<notin> set (allowed_lifecycle_transitions (sp_lifecycle_status current))
      then fails (StoreInvariantError InvalidLifecycleTransition)
      else validate_proposal_bindings updated)"

section \<open>What the checks establish\<close>

definition well_bound :: "stored_proposal \<Rightarrow> bool" where
  "well_bound p \<longleftrightarrow>
     (\<forall>e\<in>set (sp_authority_evidence p). \<exists>c. sp_commitment p = Some c
        \<and> ev_tenant_reference e = sp_tenant_reference p
        \<and> ev_action_type e = sp_action_type p
        \<and> ev_proposal_instance_reference e = sp_proposal_reference p
        \<and> ev_semantic_effect_reference e = sp_semantic_effect_reference p
        \<and> ev_proposal_commitment e = kc_digest c)
     \<and> (\<forall>r\<in>set (sp_receipts p). rb_correlation_reference (receipt_head r) = sp_proposal_reference p)"

definition valid_create :: "stored_proposal \<Rightarrow> bool" where
  "valid_create p \<longleftrightarrow>
     sp_revision p = 0 \<and> sp_lifecycle_status p = AWAITING_AUTHORITY
     \<and> sp_erasure_pending_at p = None \<and> sp_erased_at p = None \<and> well_bound p"

definition status_step :: "lifecycle_status \<Rightarrow> lifecycle_status \<Rightarrow> bool" where
  "status_step s t \<longleftrightarrow> t = s \<or> t \<in> set (allowed_lifecycle_transitions s)"

definition appends_history :: "stored_proposal \<Rightarrow> stored_proposal \<Rightarrow> bool" where
  "appends_history p q \<longleftrightarrow>
     (\<exists>es. sp_authority_evidence q = sp_authority_evidence p @ es)
     \<and> (\<exists>rs. sp_receipts q = sp_receipts p @ rs)"

definition valid_update :: "stored_proposal \<Rightarrow> stored_proposal \<Rightarrow> bool" where
  "valid_update p q \<longleftrightarrow>
     immutable_identity q = immutable_identity p
     \<and> sp_revision q = sp_revision p + 1
     \<and> (sp_erasure_pending_at p \<noteq> None \<longrightarrow> sp_erasure_pending_at q \<noteq> None \<or> sp_erased_at q \<noteq> None)
     \<and> (sp_erased_at q \<noteq> None \<longrightarrow> \<not> has_content q)
     \<and> (sp_erased_at q = None \<longrightarrow> appends_history p q)
     \<and> status_step (sp_lifecycle_status p) (sp_lifecycle_status q)
     \<and> well_bound q"

section \<open>Lemmas\<close>

lemma validate_proposal_bindings_ok: "validate_proposal_bindings p = Inr () \<longleftrightarrow> well_bound p"
  by (auto simp: validate_proposal_bindings_def well_bound_def list_ex_iff split: option.splits)

lemma validate_proposal_create_ok: "validate_proposal_create p = Inr () \<longleftrightarrow> valid_create p"
  by (auto simp: validate_proposal_create_def valid_create_def validate_proposal_bindings_ok)

lemma validate_proposal_update_ok: "validate_proposal_update p q = Inr () \<longleftrightarrow> valid_update p q"
  by (auto simp: validate_proposal_update_def valid_update_def validate_proposal_bindings_ok
      status_step_def appends_history_def take_length_eq_prefix)

lemma validate_bindings_raises:
  "validate_proposal_bindings p = Inl r \<Longrightarrow> \<exists>f. r = Raised (StoreInvariantError f) []"
  by (auto simp: validate_proposal_bindings_def split: if_splits)

lemma validate_create_raises:
  "validate_proposal_create p = Inl r \<Longrightarrow> \<exists>f. r = Raised (StoreInvariantError f) []"
  by (auto simp: validate_proposal_create_def split: if_splits dest: validate_bindings_raises)

lemma validate_update_raises:
  "validate_proposal_update p q = Inl r \<Longrightarrow> \<exists>f. r = Raised (StoreInvariantError f) []"
  by (auto simp: validate_proposal_update_def split: if_splits dest: validate_bindings_raises)

lemma unit_outcome_cases:
  obtains (ok) "r = Inr ()" | (raise) e where "r = Inl (e :: raised)"
  by (cases r) auto

lemma validate_create_split:
  "(case validate_proposal_create p of Inl r \<Rightarrow> f r | Inr _ \<Rightarrow> g)
     = (if valid_create p then g
        else f (Raised (exn_of (projl (validate_proposal_create p))) []))"
  using validate_proposal_create_ok [of p] validate_create_raises [of p]
  by (cases rule: unit_outcome_cases [of "validate_proposal_create p"]) auto

lemma identity_fields:
  assumes "immutable_identity q = immutable_identity p"
  shows "sp_tenant_reference q = sp_tenant_reference p"
    "sp_proposal_reference q = sp_proposal_reference p"
    "sp_action_type q = sp_action_type p"
    "sp_semantic_effect_reference q = sp_semantic_effect_reference p"
    "sp_effect_kind q = sp_effect_kind p"
    "sp_created_at q = sp_created_at p"
  using assms by (simp_all add: immutable_identity_def)

lemma status_step_refl [simp]: "status_step s s"
  by (simp add: status_step_def)

lemma immutable_identity_pending [simp]:
  "immutable_identity (proposal_with_erasure_pending p t) = immutable_identity p"
  by (simp add: immutable_identity_def proposal_with_erasure_pending_def)

lemma immutable_identity_erased [simp]:
  "immutable_identity (erased_proposal p t) = immutable_identity p"
  by (simp add: immutable_identity_def erased_proposal_def)

lemma valid_update_pending:
  assumes "well_bound p" and "sp_erased_at p = None"
  shows "valid_update p (proposal_with_erasure_pending p t)"
  using assms
  by (auto simp: valid_update_def proposal_with_erasure_pending_def appends_history_def well_bound_def
      immutable_identity_def)

lemma valid_update_erased:
  "valid_update p (erased_proposal p t)"
  by (auto simp: valid_update_def erased_proposal_def has_content_def well_bound_def
      immutable_identity_def)

end
