(* ===== verification/Store_Contract.thy ===== *)
theory Store_Contract
  imports Store_Base
begin

text \<open>
  The persistence contract: \<open>ActionStore\<close> and \<open>RetentionStore\<close> of \<open>stores/base.py\<close> as
  records of operations, the abstract store they promise to implement, and the locale
  that states this promise.

  The abstract store is a map of proposals and a map of effect claims. Its steps
  (\<open>store_step\<close>) are the writes the contract allows, one rule per kind of write. Every
  property of the lifecycle that depends on the store is proved here, for all sequences
  of steps and so for every interleaving of the operations of any number of clients:

  \<^item> at most one proposal per semantic effect is in a status in which the effect may
    have been or may be carried out;
  \<^item> a proposal's revision grows with each write, equal revisions mean equal content,
    its identity never changes and its evidence and receipts only grow until erasure;
  \<^item> the statuses without successors are final.

  The locale \<open>lifecycle_store\<close> is what the runtime relies on; the theories of the stores
  interpret it.
\<close>

section \<open>The store protocols\<close>

record 's action_store =
  as_create :: "stored_proposal \<Rightarrow> ('s, unit) eff"
  as_get :: "pystr \<Rightarrow> pystr \<Rightarrow> ('s, stored_proposal option) eff"
  as_compare_and_set ::
    "pystr \<Rightarrow> pystr \<Rightarrow> int \<Rightarrow> lifecycle_status list \<Rightarrow> stored_proposal \<Rightarrow> ('s, bool) eff"
  as_admit_execution ::
    "pystr \<Rightarrow> pystr \<Rightarrow> int \<Rightarrow> instant \<Rightarrow> stored_proposal \<Rightarrow> ('s, effect_claim_result) eff"
  as_get_effect_claim_owner :: "pystr \<Rightarrow> action_type \<Rightarrow> pystr \<Rightarrow> ('s, pystr option) eff"

record 's retention_store =
  rs_mark_erasure_pending :: "pystr \<Rightarrow> pystr \<Rightarrow> int \<Rightarrow> instant \<Rightarrow> ('s, bool) eff"
  rs_complete_erasure :: "pystr \<Rightarrow> pystr \<Rightarrow> int \<Rightarrow> instant \<Rightarrow> ('s, bool) eff"

section \<open>The abstract store\<close>

type_synonym proposal_key = "pystr \<times> pystr"
type_synonym claim_key = "pystr \<times> action_key \<times> pystr"

record store_state =
  st_proposals :: "proposal_key \<rightharpoonup> stored_proposal"
  st_claims :: "claim_key \<rightharpoonup> pystr"

definition proposal_key :: "stored_proposal \<Rightarrow> proposal_key" where
  "proposal_key p = (sp_tenant_reference p, sp_proposal_reference p)"

definition claim_key :: "stored_proposal \<Rightarrow> claim_key" where
  "claim_key p =
     (sp_tenant_reference p, action_key (sp_action_type p), sp_semantic_effect_reference p)"

definition empty_store :: store_state where
  "empty_store = \<lparr>st_proposals = (\<lambda>_. None), st_claims = (\<lambda>_. None)\<rparr>"

definition put_proposal :: "proposal_key \<Rightarrow> stored_proposal \<Rightarrow> store_state \<Rightarrow> store_state" where
  "put_proposal k p s = s\<lparr>st_proposals := (st_proposals s)(k \<mapsto> p)\<rparr>"

definition put_claim :: "claim_key \<Rightarrow> pystr \<Rightarrow> store_state \<Rightarrow> store_state" where
  "put_claim c r s = s\<lparr>st_claims := (st_claims s)(c \<mapsto> r)\<rparr>"

definition owns_claim :: "store_state \<Rightarrow> stored_proposal \<Rightarrow> bool" where
  "owns_claim s p \<longleftrightarrow> st_claims s (claim_key p) = Some (sp_proposal_reference p)"

definition releases_claim :: "lifecycle_status \<Rightarrow> bool" where
  "releases_claim st \<longleftrightarrow> st \<in> {FAILED_KNOWN, STALE}"

definition claimable :: "store_state \<Rightarrow> stored_proposal \<Rightarrow> bool" where
  "claimable s p \<longleftrightarrow>
     (case st_claims s (claim_key p) of
        None \<Rightarrow> True
      | Some owner \<Rightarrow>
          owner = sp_proposal_reference p
          \<or> (case st_proposals s (sp_tenant_reference p, owner) of
               None \<Rightarrow> False
             | Some r \<Rightarrow> releases_claim (sp_lifecycle_status r)))"

definition enters_executing :: "stored_proposal \<Rightarrow> stored_proposal \<Rightarrow> bool" where
  "enters_executing p q \<longleftrightarrow>
     sp_lifecycle_status q = EXECUTING \<and> sp_lifecycle_status p \<noteq> EXECUTING"

definition untouched :: "stored_proposal \<Rightarrow> bool" where
  "untouched p \<longleftrightarrow> sp_erasure_pending_at p = None \<and> sp_erased_at p = None"

inductive store_step :: "store_state \<Rightarrow> store_state \<Rightarrow> bool" where
  create:
    "st_proposals s (proposal_key p) = None \<Longrightarrow> valid_create p \<Longrightarrow>
     store_step s (put_proposal (proposal_key p) p s)"
| update:
    "st_proposals s k = Some p \<Longrightarrow> valid_update p q \<Longrightarrow>
     (enters_executing p q \<Longrightarrow> owns_claim s p) \<Longrightarrow>
     store_step s (put_proposal k q s)"
| admit:
    "st_proposals s k = Some p \<Longrightarrow> valid_update p q \<Longrightarrow>
     sp_lifecycle_status p = AUTHORIZED \<Longrightarrow> untouched p \<Longrightarrow> sp_lifecycle_status q = EXECUTING \<Longrightarrow>
     claimable s p \<Longrightarrow>
     store_step s (put_proposal k q (put_claim (claim_key p) (sp_proposal_reference p) s))"
| mark_pending:
    "st_proposals s k = Some p \<Longrightarrow> erasable_lifecycle_status (sp_lifecycle_status p) \<Longrightarrow>
     untouched p \<Longrightarrow>
     store_step s (put_proposal k (proposal_with_erasure_pending p t) s)"
| complete:
    "st_proposals s k = Some p \<Longrightarrow> sp_erasure_pending_at p \<noteq> None \<Longrightarrow> sp_erased_at p = None \<Longrightarrow>
     store_step s (put_proposal k (erased_proposal p t) s)"

inductive_cases store_stepE: "store_step s t"

abbreviation store_path :: "store_state \<Rightarrow> store_state \<Rightarrow> bool" where
  "store_path \<equiv> store_step\<^sup>*\<^sup>*"

section \<open>The store invariant\<close>

definition effect_live :: "lifecycle_status \<Rightarrow> bool" where
  "effect_live st \<longleftrightarrow>
     st \<in> {EXECUTING, FAILED_UNKNOWN, VERIFICATION_PENDING, VERIFICATION_UNRESOLVED,
           PARTIALLY_SUCCEEDED, VERIFIED}"

definition final_status :: "lifecycle_status \<Rightarrow> bool" where
  "final_status st \<longleftrightarrow> allowed_lifecycle_transitions st = []"

definition proposal_ok :: "store_state \<Rightarrow> proposal_key \<Rightarrow> stored_proposal \<Rightarrow> bool" where
  "proposal_ok s k p \<longleftrightarrow>
     proposal_key p = k
     \<and> 0 \<le> sp_revision p
     \<and> well_bound p
     \<and> (sp_erased_at p \<noteq> None \<longrightarrow> \<not> has_content p)
     \<and> (effect_live (sp_lifecycle_status p) \<longrightarrow> owns_claim s p)"

definition store_inv :: "store_state \<Rightarrow> bool" where
  "store_inv s \<longleftrightarrow> (\<forall>k p. st_proposals s k = Some p \<longrightarrow> proposal_ok s k p)"

text \<open>How one proposal may have changed between two states of the store.\<close>

definition evolves :: "stored_proposal \<Rightarrow> stored_proposal \<Rightarrow> bool" where
  "evolves p q \<longleftrightarrow>
     immutable_identity q = immutable_identity p
     \<and> sp_revision p \<le> sp_revision q
     \<and> (sp_revision q = sp_revision p \<longrightarrow> q = p)
     \<and> (final_status (sp_lifecycle_status p) \<longrightarrow> sp_lifecycle_status q = sp_lifecycle_status p)"

section \<open>The contract of a store\<close>

locale lifecycle_store =
  fixes api :: "'s action_store"
    and view :: "'s \<Rightarrow> store_state"
    and good :: "'s \<Rightarrow> bool"
  assumes good_inv: "good s \<Longrightarrow> store_inv (view s)"
    and create_ok: "good s \<Longrightarrow> as_create api p s = (Inr u, s') \<Longrightarrow>
        good s' \<and> st_proposals (view s) (proposal_key p) = None \<and> valid_create p
        \<and> view s' = put_proposal (proposal_key p) p (view s)"
    and create_raise: "good s \<Longrightarrow> as_create api p s = (Inl e, s') \<Longrightarrow> s' = s"
    and get_ok: "good s \<Longrightarrow> as_get api t r s = (Inr (st_proposals (view s) (t, r)), s)"
    and cas_true: "good s \<Longrightarrow> as_compare_and_set api t r n sts q s = (Inr True, s') \<Longrightarrow>
        good s' \<and> (\<exists>p. st_proposals (view s) (t, r) = Some p \<and> sp_revision p = n
          \<and> sp_lifecycle_status p \<in> set sts \<and> valid_update p q
          \<and> (enters_executing p q \<longrightarrow> owns_claim (view s) p)
          \<and> view s' = put_proposal (t, r) q (view s))"
    and cas_false: "good s \<Longrightarrow> as_compare_and_set api t r n sts q s = (Inr False, s') \<Longrightarrow> s' = s"
    and cas_raise: "good s \<Longrightarrow> as_compare_and_set api t r n sts q s = (Inl e, s') \<Longrightarrow> s' = s"
    and admit_yes: "good s \<Longrightarrow> as_admit_execution api t r n at q s = (Inr c, s') \<Longrightarrow>
        c \<in> {ClaimACQUIRED, ClaimOWNED_BY_PROPOSAL} \<Longrightarrow>
        good s' \<and> (\<exists>p. st_proposals (view s) (t, r) = Some p \<and> sp_revision p = n
          \<and> sp_lifecycle_status p = AUTHORIZED \<and> untouched p \<and> at < sp_expires_at p
          \<and> valid_update p q \<and> sp_lifecycle_status q = EXECUTING \<and> claimable (view s) p
          \<and> view s' = put_proposal (t, r) q
                (put_claim (claim_key p) (sp_proposal_reference p) (view s)))"
    and admit_no: "good s \<Longrightarrow> as_admit_execution api t r n at q s = (Inr c, s') \<Longrightarrow>
        c \<notin> {ClaimACQUIRED, ClaimOWNED_BY_PROPOSAL} \<Longrightarrow> s' = s"
    and admit_raise: "good s \<Longrightarrow> as_admit_execution api t r n at q s = (Inl e, s') \<Longrightarrow> s' = s"
    and owner_ok: "good s \<Longrightarrow> as_get_effect_claim_owner api t a x s = (Inr (st_claims (view s) (t, action_key a, x)), s)"

locale retained_store = lifecycle_store api view good
  for api :: "'s action_store" and view :: "'s \<Rightarrow> store_state" and good :: "'s \<Rightarrow> bool" +
  fixes ret :: "'s retention_store"
  assumes mark_true: "good s \<Longrightarrow> rs_mark_erasure_pending ret t r n at s = (Inr True, s') \<Longrightarrow>
        good s' \<and> (\<exists>p. st_proposals (view s) (t, r) = Some p \<and> sp_revision p = n
          \<and> erasable_lifecycle_status (sp_lifecycle_status p) \<and> sp_erased_at p = None
          \<and> (if sp_erasure_pending_at p = None
             then view s' = put_proposal (t, r) (proposal_with_erasure_pending p at) (view s)
             else s' = s))"
    and mark_false: "good s \<Longrightarrow> rs_mark_erasure_pending ret t r n at s = (Inr False, s') \<Longrightarrow> s' = s"
    and mark_raise: "good s \<Longrightarrow> rs_mark_erasure_pending ret t r n at s = (Inl e, s') \<Longrightarrow> s' = s"
    and complete_true: "good s \<Longrightarrow> rs_complete_erasure ret t r n at s = (Inr True, s') \<Longrightarrow>
        good s' \<and> (\<exists>p. st_proposals (view s) (t, r) = Some p \<and> sp_revision p = n
          \<and> sp_erasure_pending_at p \<noteq> None \<and> sp_erased_at p = None
          \<and> view s' = put_proposal (t, r) (erased_proposal p at) (view s))"
    and complete_false: "good s \<Longrightarrow> rs_complete_erasure ret t r n at s = (Inr False, s') \<Longrightarrow> s' = s"
    and complete_raise: "good s \<Longrightarrow> rs_complete_erasure ret t r n at s = (Inl e, s') \<Longrightarrow> s' = s"

section \<open>Lemmas on the abstract store\<close>

lemma put_simps [simp]:
  "st_proposals (put_proposal k p s) = (st_proposals s)(k \<mapsto> p)"
  "st_claims (put_proposal k p s) = st_claims s"
  "st_proposals (put_claim c r s) = st_proposals s"
  "st_claims (put_claim c r s) = (st_claims s)(c \<mapsto> r)"
  by (simp_all add: put_proposal_def put_claim_def)

lemma keys_of_identity:
  assumes "immutable_identity q = immutable_identity p"
  shows "proposal_key q = proposal_key p" and "claim_key q = claim_key p"
  using identity_fields [OF assms] by (simp_all add: proposal_key_def claim_key_def)

lemma owns_claim_put [simp]: "owns_claim (put_proposal k q s) p = owns_claim s p"
  by (simp add: owns_claim_def)

lemma live_entry:
  assumes "status_step s t" and "effect_live t" and "\<not> effect_live s"
  shows "t = EXECUTING \<and> s \<noteq> EXECUTING"
  using assms by (cases s) (auto simp: status_step_def effect_live_def)

lemma releases_not_live: "releases_claim st \<Longrightarrow> \<not> effect_live st"
  by (auto simp: releases_claim_def effect_live_def)

lemma authorized_not_live: "\<not> effect_live AUTHORIZED" "\<not> effect_live AWAITING_AUTHORITY"
  by (simp_all add: effect_live_def)

lemma store_invD: "store_inv s \<Longrightarrow> st_proposals s k = Some p \<Longrightarrow> proposal_ok s k p"
  unfolding store_inv_def by blast

lemma store_inv_empty: "store_inv empty_store"
  by (simp add: store_inv_def empty_store_def)

lemma store_inv_put:
  assumes "store_inv s" and "proposal_ok s k q"
  shows "store_inv (put_proposal k q s)"
  using assms by (auto simp: store_inv_def proposal_ok_def)

lemma proposal_ok_write:
  assumes ok: "proposal_ok s k p" and up: "valid_update p q"
    and claim: "enters_executing p q \<Longrightarrow> owns_claim s p"
  shows "proposal_ok s k q"
proof -
  have idn: "immutable_identity q = immutable_identity p"
    using up by (simp add: valid_update_def)
  have "owns_claim s q" if live: "effect_live (sp_lifecycle_status q)"
  proof -
    have "owns_claim s p"
    proof (cases "effect_live (sp_lifecycle_status p)")
      case True
      with ok show ?thesis by (simp add: proposal_ok_def)
    next
      case False
      with live up have "enters_executing p q"
        using live_entry by (auto simp: valid_update_def enters_executing_def)
      then show ?thesis by (rule claim)
    qed
    with keys_of_identity [OF idn] identity_fields(2) [OF idn] show ?thesis
      by (simp add: owns_claim_def)
  qed
  with ok up keys_of_identity [OF idn] show ?thesis
    by (simp add: proposal_ok_def valid_update_def)
qed

lemma other_owner_kept:
  assumes inv: "store_inv s" and p: "st_proposals s k = Some p" and claim: "claimable s p"
    and r: "st_proposals s k' = Some r" "effect_live (sp_lifecycle_status r)" and ne: "k' \<noteq> k"
  shows "claim_key r \<noteq> claim_key p"
proof
  assume eq: "claim_key r = claim_key p"
  have okp: "proposal_ok s k p" and okr: "proposal_ok s k' r"
    using inv p r by (auto dest: store_invD)
  have "st_claims s (claim_key p) = Some (sp_proposal_reference r)"
    using okr r(2) eq by (simp add: proposal_ok_def owns_claim_def)
  moreover have "(sp_tenant_reference p, sp_proposal_reference r) = k'"
    using okr eq by (auto simp: proposal_ok_def proposal_key_def claim_key_def)
  moreover have "sp_proposal_reference r \<noteq> sp_proposal_reference p"
    using ne okp calculation(2) by (auto simp: proposal_ok_def proposal_key_def)
  ultimately have "releases_claim (sp_lifecycle_status r)"
    using claim r(1) by (auto simp: claimable_def split: option.splits)
  with r(2) show False using releases_not_live by blast
qed

lemma store_inv_claim:
  assumes inv: "store_inv s" and p: "st_proposals s k = Some p" and claim: "claimable s p"
    and q: "immutable_identity q = immutable_identity p" "proposal_ok (put_claim (claim_key p) (sp_proposal_reference p) s) k q"
  shows "store_inv (put_proposal k q (put_claim (claim_key p) (sp_proposal_reference p) s))"
proof -
  let ?t = "put_claim (claim_key p) (sp_proposal_reference p) s"
  have "proposal_ok ?t k' r" if r: "st_proposals s k' = Some r" "k' \<noteq> k" for k' r
    using store_invD [OF inv r(1)] other_owner_kept [OF inv p claim r(1)] r(2)
    by (auto simp: proposal_ok_def owns_claim_def)
  with q(2) show ?thesis
    by (auto simp: store_inv_def proposal_ok_def owns_claim_def)
qed

lemma store_step_inv:
  assumes "store_step s t" and "store_inv s"
  shows "store_inv t"
  using assms
proof (cases rule: store_step.cases)
  case (create p)
  then have "proposal_ok s (proposal_key p) p"
    by (simp add: proposal_ok_def valid_create_def authorized_not_live)
  with create assms(2) show ?thesis by (simp add: store_inv_put)
next
  case (update k p q)
  with assms(2) show ?thesis
    by (auto intro: store_inv_put proposal_ok_write dest: store_invD)
next
  case (admit k p q)
  let ?t = "put_claim (claim_key p) (sp_proposal_reference p) s"
  have ok: "proposal_ok s k p" using assms(2) admit by (auto dest: store_invD)
  have "proposal_ok ?t k p"
    using ok admit by (simp add: proposal_ok_def authorized_not_live)
  moreover have "owns_claim ?t p" by (simp add: owns_claim_def)
  ultimately have "proposal_ok ?t k q"
    using admit by (blast intro: proposal_ok_write)
  with admit assms(2) show ?thesis
    by (auto intro!: store_inv_claim simp: valid_update_def)
next
  case (mark_pending k p t')
  then have ok: "proposal_ok s k p" using assms(2) by (auto dest: store_invD)
  then have "valid_update p (proposal_with_erasure_pending p t')"
    using mark_pending by (simp add: valid_update_pending proposal_ok_def untouched_def)
  then have "proposal_ok s k (proposal_with_erasure_pending p t')"
    by (rule proposal_ok_write [OF ok])
      (simp add: enters_executing_def proposal_with_erasure_pending_def)
  with mark_pending assms(2) show ?thesis by (simp add: store_inv_put)
next
  case (complete k p t')
  then have ok: "proposal_ok s k p" using assms(2) by (auto dest: store_invD)
  then have "proposal_ok s k (erased_proposal p t')"
    by (rule proposal_ok_write [OF _ valid_update_erased])
      (simp add: enters_executing_def erased_proposal_def)
  with complete assms(2) show ?thesis by (simp add: store_inv_put)
qed

lemma store_path_inv: "store_path s t \<Longrightarrow> store_inv s \<Longrightarrow> store_inv t"
  by (induction rule: rtranclp_induct) (auto intro: store_step_inv)

lemma live_unique:
  assumes "store_inv s"
    and "st_proposals s k1 = Some p1" and "effect_live (sp_lifecycle_status p1)"
    and "st_proposals s k2 = Some p2" and "effect_live (sp_lifecycle_status p2)"
    and "claim_key p1 = claim_key p2"
  shows "k1 = k2 \<and> p1 = p2"
proof -
  have "proposal_ok s k1 p1" "proposal_ok s k2 p2" using assms by (auto dest: store_invD)
  with assms have "k1 = k2"
    by (auto simp: proposal_ok_def owns_claim_def proposal_key_def claim_key_def)
  with assms show ?thesis by simp
qed

section \<open>Lemmas on the history of one proposal\<close>

lemma evolves_refl [simp]: "evolves p p"
  by (simp add: evolves_def)

lemma evolves_trans: "evolves p q \<Longrightarrow> evolves q r \<Longrightarrow> evolves p r"
  by (auto simp: evolves_def)

lemma valid_update_evolves: "valid_update p q \<Longrightarrow> evolves p q"
  by (auto simp: valid_update_def evolves_def final_status_def status_step_def)

lemma erasure_evolves:
  "evolves p (proposal_with_erasure_pending p t)" "evolves p (erased_proposal p t)"
  by (simp_all add: evolves_def)
     (simp_all add: proposal_with_erasure_pending_def erased_proposal_def)

lemma store_step_evolves:
  assumes "store_step s t" and "st_proposals s k = Some p"
  shows "\<exists>q. st_proposals t k = Some q \<and> evolves p q"
  using assms
  by (cases rule: store_step.cases)
     (auto intro: valid_update_evolves erasure_evolves)

lemma store_path_evolves:
  assumes "store_path s t" and "st_proposals s k = Some p"
  shows "\<exists>q. st_proposals t k = Some q \<and> evolves p q"
  using assms
proof (induction rule: rtranclp_induct)
  case base
  then show ?case by simp
next
  case (step t u)
  then show ?case by (meson evolves_trans store_step_evolves)
qed

end
