(* ===== verification/Memory_Store.thy ===== *)
theory Memory_Store
  imports Store_Contract
begin

text \<open>
  \<open>stores/memory.py\<close>: the in-memory store. The two dictionaries of \<open>MemoryActionStore\<close> are
  the fields of \<open>mem_store\<close>; each method is one state transformer, since every method holds
  the store's lock from its first read to its last write. \<open>model_copy(deep=True)\<close> protects
  the stored value from later mutation by the caller; values here are immutable.

  The theory ends with the interpretation of the store contract on this store.
\<close>

section \<open>State\<close>

record mem_store =
  ms_proposals :: "proposal_key \<rightharpoonup> stored_proposal"
  ms_effect_claims :: "claim_key \<rightharpoonup> pystr"

definition mem_init :: mem_store where
  "mem_init = \<lparr>ms_proposals = (\<lambda>_. None), ms_effect_claims = (\<lambda>_. None)\<rparr>"

section \<open>Operations\<close>

definition mem_create :: "stored_proposal \<Rightarrow> (mem_store, unit) eff" where
  "mem_create p s =
     (let key = (sp_tenant_reference p, sp_proposal_reference p) in
      if ms_proposals s key \<noteq> None then (fails ProposalAlreadyExistsError, s)
      else case validate_proposal_create p of
             Inl e \<Rightarrow> (Inl e, s)
           | Inr _ \<Rightarrow> (Inr (), s\<lparr>ms_proposals := (ms_proposals s)(key \<mapsto> p)\<rparr>))"

definition mem_get :: "pystr \<Rightarrow> pystr \<Rightarrow> (mem_store, stored_proposal option) eff" where
  "mem_get t r s = (Inr (ms_proposals s (t, r)), s)"

definition mem_compare_and_set ::
  "pystr \<Rightarrow> pystr \<Rightarrow> int \<Rightarrow> lifecycle_status list \<Rightarrow> stored_proposal \<Rightarrow> (mem_store, bool) eff" where
  "mem_compare_and_set t r expected_revision expected_statuses updated s =
     (case ms_proposals s (t, r) of
        None \<Rightarrow> (Inr False, s)
      | Some current \<Rightarrow>
          if sp_revision current \<noteq> expected_revision then (Inr False, s)
          else if sp_lifecycle_status current \<notin> set expected_statuses then (Inr False, s)
          else case validate_proposal_update current updated of
            Inl e \<Rightarrow> (Inl e, s)
          | Inr _ \<Rightarrow>
              if sp_lifecycle_status updated = EXECUTING \<and> sp_lifecycle_status current \<noteq> EXECUTING
                 \<and> ms_effect_claims s
                     (sp_tenant_reference current, action_key (sp_action_type current),
                      sp_semantic_effect_reference current)
                   \<noteq> Some (sp_proposal_reference current)
              then (fails (StoreInvariantError ExecutionWithoutClaim), s)
              else (Inr True, s\<lparr>ms_proposals := (ms_proposals s)((t, r) \<mapsto> updated)\<rparr>))"

definition claim_effect_locked :: "claim_key \<Rightarrow> pystr \<Rightarrow> mem_store \<Rightarrow> effect_claim_result \<times> mem_store" where
  "claim_effect_locked key r s =
     (case ms_effect_claims s key of
        None \<Rightarrow> (ClaimACQUIRED, s\<lparr>ms_effect_claims := (ms_effect_claims s)(key \<mapsto> r)\<rparr>)
      | Some owner \<Rightarrow>
          if owner = r then (ClaimOWNED_BY_PROPOSAL, s)
          else case ms_proposals s (fst key, owner) of
            None \<Rightarrow> (ClaimCONFLICT, s)
          | Some owner_record \<Rightarrow>
              if sp_lifecycle_status owner_record \<in> {FAILED_KNOWN, STALE}
              then (ClaimACQUIRED, s\<lparr>ms_effect_claims := (ms_effect_claims s)(key \<mapsto> r)\<rparr>)
              else (ClaimCONFLICT, s))"

definition mem_admit_execution ::
  "pystr \<Rightarrow> pystr \<Rightarrow> int \<Rightarrow> instant \<Rightarrow> stored_proposal \<Rightarrow> (mem_store, effect_claim_result) eff" where
  "mem_admit_execution t r expected_revision admitted_at updated s =
     (case ms_proposals s (t, r) of
        None \<Rightarrow> (Inr ClaimPROPOSAL_NOT_FOUND, s)
      | Some current \<Rightarrow>
          if sp_revision current \<noteq> expected_revision
             \<or> sp_lifecycle_status current \<noteq> AUTHORIZED
             \<or> sp_erasure_pending_at current \<noteq> None
             \<or> sp_erased_at current \<noteq> None
             \<or> sp_expires_at current \<le> admitted_at
          then (Inr ClaimPROPOSAL_NOT_AUTHORIZED, s)
          else case validate_proposal_update current updated of
            Inl e \<Rightarrow> (Inl e, s)
          | Inr _ \<Rightarrow>
              if sp_lifecycle_status updated \<noteq> EXECUTING
              then (fails (StoreInvariantError AdmissionNotExecuting), s)
              else
                (case claim_effect_locked
                        (sp_tenant_reference current, action_key (sp_action_type current),
                         sp_semantic_effect_reference current) r s of
                   (claim, s') \<Rightarrow>
                     if claim = ClaimCONFLICT then (Inr claim, s')
                     else (Inr claim, s'\<lparr>ms_proposals := (ms_proposals s')((t, r) \<mapsto> updated)\<rparr>)))"

definition mem_get_effect_claim_owner :: "pystr \<Rightarrow> action_type \<Rightarrow> pystr \<Rightarrow> (mem_store, pystr option) eff" where
  "mem_get_effect_claim_owner t a x s = (Inr (ms_effect_claims s (t, action_key a, x)), s)"

definition mem_mark_erasure_pending :: "pystr \<Rightarrow> pystr \<Rightarrow> int \<Rightarrow> instant \<Rightarrow> (mem_store, bool) eff" where
  "mem_mark_erasure_pending t r expected_revision pending_at s =
     (case ms_proposals s (t, r) of
        None \<Rightarrow> (Inr False, s)
      | Some current \<Rightarrow>
          if sp_revision current \<noteq> expected_revision
             \<or> \<not> erasable_lifecycle_status (sp_lifecycle_status current)
             \<or> sp_erased_at current \<noteq> None
          then (Inr False, s)
          else if sp_erasure_pending_at current \<noteq> None then (Inr True, s)
          else (Inr True, s\<lparr>ms_proposals :=
                 (ms_proposals s)((t, r) \<mapsto> proposal_with_erasure_pending current pending_at)\<rparr>))"

definition mem_complete_erasure :: "pystr \<Rightarrow> pystr \<Rightarrow> int \<Rightarrow> instant \<Rightarrow> (mem_store, bool) eff" where
  "mem_complete_erasure t r expected_revision erased_at s =
     (case ms_proposals s (t, r) of
        None \<Rightarrow> (Inr False, s)
      | Some current \<Rightarrow>
          if sp_revision current \<noteq> expected_revision
             \<or> sp_erasure_pending_at current = None
             \<or> sp_erased_at current \<noteq> None
          then (Inr False, s)
          else (Inr True, s\<lparr>ms_proposals :=
                 (ms_proposals s)((t, r) \<mapsto> erased_proposal current erased_at)\<rparr>))"

definition memory_action_store :: "mem_store action_store" where
  "memory_action_store =
     \<lparr>as_create = mem_create, as_get = mem_get, as_compare_and_set = mem_compare_and_set,
      as_admit_execution = mem_admit_execution,
      as_get_effect_claim_owner = mem_get_effect_claim_owner\<rparr>"

definition memory_retention_store :: "mem_store retention_store" where
  "memory_retention_store =
     \<lparr>rs_mark_erasure_pending = mem_mark_erasure_pending,
      rs_complete_erasure = mem_complete_erasure\<rparr>"

section \<open>The contract holds\<close>

definition mem_abs :: "mem_store \<Rightarrow> store_state" where
  "mem_abs s = \<lparr>st_proposals = ms_proposals s, st_claims = ms_effect_claims s\<rparr>"

definition mem_wf :: "mem_store \<Rightarrow> bool" where
  "mem_wf s \<longleftrightarrow> store_inv (mem_abs s)"

lemma mem_abs_simps [simp]:
  "st_proposals (mem_abs s) = ms_proposals s"
  "st_claims (mem_abs s) = ms_effect_claims s"
  by (simp_all add: mem_abs_def)

lemma mem_abs_put [simp]:
  "mem_abs (s\<lparr>ms_proposals := (ms_proposals s)(k \<mapsto> p)\<rparr>) = put_proposal k p (mem_abs s)"
  "mem_abs (s\<lparr>ms_effect_claims := (ms_effect_claims s)(c \<mapsto> r)\<rparr>) = put_claim c r (mem_abs s)"
  by (simp_all add: mem_abs_def put_proposal_def put_claim_def)

lemma mem_create_true:
  assumes "mem_create p s = (Inr u, s')"
  shows "st_proposals (mem_abs s) (proposal_key p) = None" "valid_create p"
    "mem_abs s' = put_proposal (proposal_key p) p (mem_abs s)"
  using assms
  by (auto simp: mem_create_def Let_def proposal_key_def split: if_splits sum.splits
      dest: validate_proposal_create_ok [THEN iffD1])

lemma mem_create_raise: "mem_create p s = (Inl e, s') \<Longrightarrow> s' = s"
  by (auto simp: mem_create_def Let_def split: if_splits sum.splits)

lemma mem_cas_true:
  assumes "mem_compare_and_set t r n sts q s = (Inr True, s')"
  shows "\<exists>p. st_proposals (mem_abs s) (t, r) = Some p \<and> sp_revision p = n
    \<and> sp_lifecycle_status p \<in> set sts \<and> valid_update p q
    \<and> (enters_executing p q \<longrightarrow> owns_claim (mem_abs s) p)
    \<and> mem_abs s' = put_proposal (t, r) q (mem_abs s)"
  using assms
  by (auto simp: mem_compare_and_set_def enters_executing_def owns_claim_def claim_key_def
      split: option.splits if_splits sum.splits dest: validate_proposal_update_ok [THEN iffD1])

lemma mem_cas_false: "mem_compare_and_set t r n sts q s = (Inr False, s') \<Longrightarrow> s' = s"
  by (auto simp: mem_compare_and_set_def split: option.splits if_splits sum.splits)

lemma mem_cas_raise: "mem_compare_and_set t r n sts q s = (Inl e, s') \<Longrightarrow> s' = s"
  by (auto simp: mem_compare_and_set_def split: option.splits if_splits sum.splits)

lemma claim_effect_locked_cases:
  assumes "claim_effect_locked (claim_key p) (sp_proposal_reference p) s = (c, s')"
  shows "if c = ClaimCONFLICT then s' = s
    else c \<in> {ClaimACQUIRED, ClaimOWNED_BY_PROPOSAL} \<and> claimable (mem_abs s) p
      \<and> mem_abs s' = put_claim (claim_key p) (sp_proposal_reference p) (mem_abs s)"
  using assms
  by (auto simp: claim_effect_locked_def claimable_def releases_claim_def claim_key_def
      put_claim_def mem_abs_def fun_upd_idem split: option.splits if_splits)

lemma mem_admit_cases:
  assumes "mem_wf s" and "mem_admit_execution t r n at q s = (res, s')"
  shows "(case res of
     Inl e \<Rightarrow> s' = s
   | Inr c \<Rightarrow>
      if c \<in> {ClaimACQUIRED, ClaimOWNED_BY_PROPOSAL}
      then \<exists>p. st_proposals (mem_abs s) (t, r) = Some p \<and> sp_revision p = n
          \<and> sp_lifecycle_status p = AUTHORIZED \<and> untouched p \<and> at < sp_expires_at p
          \<and> valid_update p q \<and> sp_lifecycle_status q = EXECUTING \<and> claimable (mem_abs s) p
          \<and> mem_abs s' = put_proposal (t, r) q
                (put_claim (claim_key p) (sp_proposal_reference p) (mem_abs s))
      else s' = s)"
proof (cases "ms_proposals s (t, r)")
  case None
  with assms show ?thesis by (auto simp: mem_admit_execution_def)
next
  case (Some p)
  have "proposal_ok (mem_abs s) (t, r) p"
    using assms(1) Some by (auto simp: mem_wf_def dest: store_invD)
  then have key: "(sp_tenant_reference p, action_key (sp_action_type p), sp_semantic_effect_reference p) = claim_key p"
    and ref: "sp_proposal_reference p = r"
    by (auto simp: proposal_ok_def proposal_key_def claim_key_def)
  obtain c s1 where cl: "claim_effect_locked (claim_key p) r s = (c, s1)" by force
  note cc = claim_effect_locked_cases [of p s c s1, unfolded ref, OF cl]
  show ?thesis
    using assms(2) Some cc ref
    by (auto simp: mem_admit_execution_def key cl untouched_def
        split: if_splits sum.splits dest: validate_proposal_update_ok [THEN iffD1])
qed

lemma mem_mark_true:
  assumes "mem_mark_erasure_pending t r n at s = (Inr True, s')"
  shows "\<exists>p. st_proposals (mem_abs s) (t, r) = Some p \<and> sp_revision p = n
    \<and> erasable_lifecycle_status (sp_lifecycle_status p) \<and> sp_erased_at p = None
    \<and> (if sp_erasure_pending_at p = None
       then mem_abs s' = put_proposal (t, r) (proposal_with_erasure_pending p at) (mem_abs s)
       else s' = s)"
  using assms by (auto simp: mem_mark_erasure_pending_def split: option.splits if_splits)

lemma mem_mark_same:
  "mem_mark_erasure_pending t r n at s = (Inr False, s') \<Longrightarrow> s' = s"
  "mem_mark_erasure_pending t r n at s \<noteq> (Inl e, s')"
  by (auto simp: mem_mark_erasure_pending_def split: option.splits if_splits)

lemma mem_complete_true:
  assumes "mem_complete_erasure t r n at s = (Inr True, s')"
  shows "\<exists>p. st_proposals (mem_abs s) (t, r) = Some p \<and> sp_revision p = n
    \<and> sp_erasure_pending_at p \<noteq> None \<and> sp_erased_at p = None
    \<and> mem_abs s' = put_proposal (t, r) (erased_proposal p at) (mem_abs s)"
  using assms by (auto simp: mem_complete_erasure_def split: option.splits if_splits)

lemma mem_complete_same:
  "mem_complete_erasure t r n at s = (Inr False, s') \<Longrightarrow> s' = s"
  "mem_complete_erasure t r n at s \<noteq> (Inl e, s')"
  by (auto simp: mem_complete_erasure_def split: option.splits if_splits)

lemma mem_wf_step: "mem_wf s \<Longrightarrow> store_step (mem_abs s) (mem_abs s') \<Longrightarrow> mem_wf s'"
  unfolding mem_wf_def by (rule store_step_inv)

lemma mem_wf_init: "mem_wf mem_init"
  by (simp add: mem_wf_def store_inv_def mem_abs_def mem_init_def)

interpretation mem: lifecycle_store memory_action_store mem_abs mem_wf
proof unfold_locales
  show "mem_wf s \<Longrightarrow> store_inv (mem_abs s)" for s by (simp add: mem_wf_def)
next
  fix s p u s'
  assume "mem_wf s" "as_create memory_action_store p s = (Inr u, s')"
  then show "mem_wf s' \<and> st_proposals (mem_abs s) (proposal_key p) = None \<and> valid_create p
        \<and> mem_abs s' = put_proposal (proposal_key p) p (mem_abs s)"
    using mem_create_true [of p s u s'] mem_wf_step [of s s'] store_step.create [of "mem_abs s" p]
    by (simp add: memory_action_store_def)
next
  fix s t r n sts q s'
  assume "mem_wf s" "as_compare_and_set memory_action_store t r n sts q s = (Inr True, s')"
  then show "mem_wf s' \<and> (\<exists>p. st_proposals (mem_abs s) (t, r) = Some p \<and> sp_revision p = n
          \<and> sp_lifecycle_status p \<in> set sts \<and> valid_update p q
          \<and> (enters_executing p q \<longrightarrow> owns_claim (mem_abs s) p)
          \<and> mem_abs s' = put_proposal (t, r) q (mem_abs s))"
    using mem_cas_true [of t r n sts q s s'] mem_wf_step [of s s']
      store_step.update [of "mem_abs s" "(t, r)" _ q]
    by (auto simp: memory_action_store_def)
next
  fix s t r n at q c s'
  assume "mem_wf s" "as_admit_execution memory_action_store t r n at q s = (Inr c, s')"
    "c \<in> {ClaimACQUIRED, ClaimOWNED_BY_PROPOSAL}"
  then show "mem_wf s' \<and> (\<exists>p. st_proposals (mem_abs s) (t, r) = Some p \<and> sp_revision p = n
          \<and> sp_lifecycle_status p = AUTHORIZED \<and> untouched p \<and> at < sp_expires_at p
          \<and> valid_update p q \<and> sp_lifecycle_status q = EXECUTING \<and> claimable (mem_abs s) p
          \<and> mem_abs s' = put_proposal (t, r) q
                (put_claim (claim_key p) (sp_proposal_reference p) (mem_abs s)))"
    using mem_admit_cases [of s t r n at q "Inr c" s'] mem_wf_step [of s s']
      store_step.admit [of "mem_abs s" "(t, r)" _ q]
    by (auto simp: memory_action_store_def)
qed (auto simp: memory_action_store_def mem_get_def mem_get_effect_claim_owner_def
      dest: mem_create_raise mem_cas_false mem_cas_raise mem_admit_cases)

interpretation mem_retained: retained_store memory_action_store mem_abs mem_wf memory_retention_store
proof unfold_locales
  fix s t r n at s'
  assume "mem_wf s" "rs_mark_erasure_pending memory_retention_store t r n at s = (Inr True, s')"
  then show "mem_wf s' \<and> (\<exists>p. st_proposals (mem_abs s) (t, r) = Some p \<and> sp_revision p = n
          \<and> erasable_lifecycle_status (sp_lifecycle_status p) \<and> sp_erased_at p = None
          \<and> (if sp_erasure_pending_at p = None
             then mem_abs s' = put_proposal (t, r) (proposal_with_erasure_pending p at) (mem_abs s)
             else s' = s))"
    using mem_mark_true [of t r n at s s'] mem_wf_step [of s s']
      store_step.mark_pending [of "mem_abs s" "(t, r)" _ at]
    by (auto simp: memory_retention_store_def untouched_def split: if_splits)
next
  fix s t r n at s'
  assume "mem_wf s" "rs_complete_erasure memory_retention_store t r n at s = (Inr True, s')"
  then show "mem_wf s' \<and> (\<exists>p. st_proposals (mem_abs s) (t, r) = Some p \<and> sp_revision p = n
          \<and> sp_erasure_pending_at p \<noteq> None \<and> sp_erased_at p = None
          \<and> mem_abs s' = put_proposal (t, r) (erased_proposal p at) (mem_abs s))"
    using mem_complete_true [of t r n at s s'] mem_wf_step [of s s']
      store_step.complete [of "mem_abs s" "(t, r)" _ at]
    by (auto simp: memory_retention_store_def)
qed (auto simp: memory_retention_store_def mem_mark_same(2) mem_complete_same(2)
      dest: mem_mark_same(1) mem_complete_same(1))

end
