(* ===== verification/Runtime_World.thy ===== *)
theory Runtime_World
  imports Memory_Store
begin

text \<open>
  The environment of \<open>ActionRuntime\<close> (\<open>runtime.py\<close>): its constructor's arguments, the calls it
  makes to the host and to the store, and what may happen at each of its awaits.

  An operation of the runtime runs in a \<open>world\<close>: the state of the store, the number of
  interactions so far and the list of calls made so far with their outcomes. Every \<open>await\<close> is one
  interaction. Three things may happen at interaction \<open>n\<close>, all of them arguments of the model:

  \<^item> other tasks and other processes use the store (\<open>rt_others n\<close>) while the operation waits;
  \<^item> a store call is lost before it reached the store or its acknowledgement is lost after it
    took effect (\<open>rt_fault n\<close>): a broken connection or a cancellation;
  \<^item> a host call answers or raises as its port says for \<open>n\<close> (\<open>Registry\<close>).

  The clock and the identifier provider are synchronous; they are arguments indexed by the
  interaction number as well. An identifier that is not a valid \<open>SafeReference\<close> makes the
  construction of the receipt or identity that receives it raise, so the identifier
  argument may raise.

  The theory has the laws of two relations on operations, closed under the combinators of
  \<open>Prelude\<close>: \<open>steps\<close> (the operation moves the store along paths of the abstract store) and
  \<open>emits P\<close> (every call it makes satisfies \<open>P\<close>).
\<close>

section \<open>Calls\<close>

datatype call =
    CallCanPrepare host_model preparation_context "authorization_result outcome"
  | CallPrepare host_model preparation_context "prepared_action outcome"
  | CallCanDecide authority_evidence decision_context "authorization_result outcome"
  | CallEvaluate authority_binding "authority_evidence list" "authority_evaluation outcome"
  | CallResolve host_model execution_context "resolved_state outcome"
  | CallCanExecute host_model execution_context "authorization_result outcome"
  | CallExecutor host_model execution_context pystr "execution_result outcome"
  | CallVerifier execution_context "verification_result outcome"
  | CallCanRead pystr read_context "bool outcome"
  | CallCanRecover pystr recovery_context "authorization_result outcome"
  | CallAuthorizeErasure pystr read_context "bool outcome"
  | CallCreateCommitment proposal_identity bytes "keyed_commitment outcome"
  | CallVerifyCommitment proposal_identity bytes keyed_commitment "bool outcome"
  | CallDestroyCommitment proposal_identity keyed_commitment "unit outcome"
  | CallProtect proposal_identity bytes "protected_payload outcome"
  | CallUnprotect proposal_identity protected_payload "bytes outcome"
  | CallDestroyPayload proposal_identity protected_payload "unit outcome"
  | CallEmit runtime_event "unit outcome"
  | CallCreate stored_proposal "unit outcome"
  | CallGet pystr pystr "stored_proposal option outcome"
  | CallCas stored_proposal stored_proposal "bool outcome"
  | CallAdmit stored_proposal instant stored_proposal "effect_claim_result outcome"
  | CallClaimOwner pystr action_type pystr "pystr option outcome"
  | CallMarkPending stored_proposal instant "bool outcome"
  | CallCompleteErasure stored_proposal instant "bool outcome"

fun is_executor_call :: "call \<Rightarrow> bool" where
  "is_executor_call (CallExecutor _ _ _ _) = True"
| "is_executor_call _ = False"

fun is_write_call :: "call \<Rightarrow> bool" where
  "is_write_call (CallCreate _ _) = True"
| "is_write_call (CallCas _ _ _) = True"
| "is_write_call (CallAdmit _ _ _ _) = True"
| "is_write_call (CallMarkPending _ _ _) = True"
| "is_write_call (CallCompleteErasure _ _ _) = True"
| "is_write_call _ = False"

section \<open>The runtime and its world\<close>

datatype store_fault_point = LostBefore raised | LostAfter raised

record 's action_runtime =
  rt_store :: "'s action_store"
  rt_retention_store :: "'s retention_store option"
  rt_clock :: "nat \<Rightarrow> instant"
  rt_identifiers :: "nat \<Rightarrow> pystr \<Rightarrow> pystr outcome"
  rt_event_sink :: "nat \<Rightarrow> runtime_event \<Rightarrow> unit outcome"
  rt_runtime_revision :: pystr
  rt_safe_reference :: "pystr \<Rightarrow> bool"
  rt_others :: "nat \<Rightarrow> 's \<Rightarrow> 's"
  rt_fault :: "nat \<Rightarrow> store_fault_point option"

record 's world =
  w_store :: 's
  w_count :: nat
  w_trace :: "call list"

definition start :: "'s \<Rightarrow> nat \<Rightarrow> 's world" where
  "start s n = \<lparr>w_store = s, w_count = n, w_trace = []\<rparr>"

definition clock_now :: "'s action_runtime \<Rightarrow> ('s world, instant) eff" where
  "clock_now rt w = (Inr (rt_clock rt (w_count w)), w\<lparr>w_count := Suc (w_count w)\<rparr>)"

definition new_identifier :: "'s action_runtime \<Rightarrow> pystr \<Rightarrow> ('s world, pystr) eff" where
  "new_identifier rt prefix w =
     (rt_identifiers rt (w_count w) prefix, w\<lparr>w_count := Suc (w_count w)\<rparr>)"

text \<open>The check pydantic makes when a caller's string becomes a \<open>SafeReference\<close> field.\<close>

definition safe_reference :: "'s action_runtime \<Rightarrow> pystr \<Rightarrow> ('s world, unit) eff" where
  "safe_reference rt s = (if rt_safe_reference rt s then return () else raise ValidationError)"

definition call_host ::
  "'s action_runtime \<Rightarrow> ('a outcome \<Rightarrow> call) \<Rightarrow> (nat \<Rightarrow> 'a outcome) \<Rightarrow> ('s world, 'a) eff" where
  "call_host rt entry port w =
     (let n = w_count w; r = port n in
      (r, \<lparr>w_store = rt_others rt n (w_store w), w_count = Suc n, w_trace = w_trace w @ [entry r]\<rparr>))"

definition store_effect :: "store_fault_point option \<Rightarrow> ('s, 'a) eff \<Rightarrow> ('s, 'a) eff" where
  "store_effect fault operation s =
     (case fault of
        None \<Rightarrow> operation s
      | Some (LostBefore e) \<Rightarrow> (Inl e, s)
      | Some (LostAfter e) \<Rightarrow> (Inl e, snd (operation s)))"

definition call_store ::
  "'s action_runtime \<Rightarrow> ('a outcome \<Rightarrow> call) \<Rightarrow> ('s, 'a) eff \<Rightarrow> ('s world, 'a) eff" where
  "call_store rt entry operation w =
     (let n = w_count w in
      case store_effect (rt_fault rt n) operation (rt_others rt n (w_store w)) of
        (r, s) \<Rightarrow> (r, \<lparr>w_store = s, w_count = Suc n, w_trace = w_trace w @ [entry r]\<rparr>))"

section \<open>Operations that follow the store\<close>

definition steps :: "('s \<Rightarrow> store_state) \<Rightarrow> ('s \<Rightarrow> bool) \<Rightarrow> ('s world, 'a) eff \<Rightarrow> bool" where
  "steps view good m \<longleftrightarrow>
     (\<forall>w. good (w_store w) \<longrightarrow>
        good (w_store (snd (m w))) \<and> store_path (view (w_store w)) (view (w_store (snd (m w)))))"

definition emits :: "(call \<Rightarrow> bool) \<Rightarrow> ('s world, 'a) eff \<Rightarrow> bool" where
  "emits P m \<longleftrightarrow> (\<forall>w. \<exists>tr. w_trace (snd (m w)) = w_trace w @ tr \<and> (\<forall>c\<in>set tr. P c))"

named_theorems steps_intros \<open>laws of steps\<close>
named_theorems emits_intros \<open>laws of emits\<close>

lemma stepsD:
  assumes "steps view good m" and "good (w_store w)" and "m w = (r, w')"
  shows "good (w_store w')" and "store_path (view (w_store w)) (view (w_store w'))"
  using assms by (fastforce simp: steps_def)+

lemma steps_pure [steps_intros]:
  "steps view good (return a)" "steps view good (throw r)" "steps view good (raise e)" "steps view good (lift q)"
  by (simp_all add: steps_def return_def throw_def raise_def lift_def)

lemma steps_clock [steps_intros]: "steps view good (clock_now rt)" "steps view good (new_identifier rt p)"
  "steps view good (safe_reference rt s)"
  by (simp_all add: steps_def clock_now_def new_identifier_def safe_reference_def return_def
      raise_def throw_def)

lemma steps_seq:
  assumes "steps view good m" and "m w = (r, w1)" and "steps view good f" and "f w1 = (q, w2)"
    and "good (w_store w)"
  shows "good (w_store w2) \<and> store_path (view (w_store w)) (view (w_store w2))"
  using stepsD [OF assms(1,5,2)] stepsD [OF assms(3) _ assms(4)] by (blast intro: rtranclp_trans)

lemma steps_bind [steps_intros]:
  assumes m: "steps view good m" and f: "\<And>a. steps view good (f a)"
  shows "steps view good (bind m f)"
  unfolding steps_def
proof (intro allI impI)
  fix w :: "'a world"
  assume g: "good (w_store w)"
  obtain r w1 where r: "m w = (r, w1)" by force
  show "good (w_store (snd (bind m f w))) \<and> store_path (view (w_store w)) (view (w_store (snd (bind m f w))))"
  proof (cases r)
    case (Inl e)
    then show ?thesis using stepsD [OF m g r] r by (simp add: bind_def)
  next
    case (Inr a)
    obtain q w2 where q: "f a w1 = (q, w2)" by force
    with steps_seq [OF m r f q g] r Inr show ?thesis by (simp add: bind_def)
  qed
qed

lemma steps_handle [steps_intros]:
  assumes m: "steps view good m" and h: "\<And>r. steps view good (h r)"
  shows "steps view good (handle m h)"
  unfolding steps_def
proof (intro allI impI)
  fix w :: "'a world"
  assume g: "good (w_store w)"
  obtain r w1 where r: "m w = (r, w1)" by force
  show "good (w_store (snd (handle m h w))) \<and> store_path (view (w_store w)) (view (w_store (snd (handle m h w))))"
  proof (cases r)
    case (Inr a)
    then show ?thesis using stepsD [OF m g r] r by (simp add: handle_def)
  next
    case (Inl e)
    obtain q w2 where q: "h e w1 = (q, w2)" by force
    with steps_seq [OF m r h q g] r Inl show ?thesis by (simp add: handle_def)
  qed
qed

lemma steps_attempt [steps_intros]: "steps view good m \<Longrightarrow> steps view good (attempt m)"
  by (simp add: steps_def attempt_def split: prod.splits) fastforce

lemma steps_if [steps_intros]:
  "steps view good m \<Longrightarrow> steps view good n \<Longrightarrow> steps view good (if b then m else n)"
  by simp

lemma steps_case_option [steps_intros]:
  "steps view good m \<Longrightarrow> (\<And>a. steps view good (f a)) \<Longrightarrow> steps view good (case x of None \<Rightarrow> m | Some a \<Rightarrow> f a)"
  by (simp split: option.splits)

lemma steps_case_sum [steps_intros]:
  "(\<And>a. steps view good (f a)) \<Longrightarrow> (\<And>b. steps view good (g b)) \<Longrightarrow>
   steps view good (case x of Inl a \<Rightarrow> f a | Inr b \<Rightarrow> g b)"
  by (simp split: sum.splits)

lemma steps_case_prod [steps_intros]:
  "(\<And>a b. steps view good (f a b)) \<Longrightarrow> steps view good (case x of (a, b) \<Rightarrow> f a b)"
  by (simp split: prod.splits)

lemma emitsD: "emits P m \<Longrightarrow> m w = (r, w') \<Longrightarrow> \<exists>tr. w_trace w' = w_trace w @ tr \<and> (\<forall>c\<in>set tr. P c)"
  unfolding emits_def by (metis snd_conv)

lemma emits_mono: "emits P m \<Longrightarrow> (\<And>c. P c \<Longrightarrow> Q c) \<Longrightarrow> emits Q m"
  unfolding emits_def by blast

lemma emits_pure [emits_intros]:
  "emits P (return a)" "emits P (throw r)" "emits P (raise e)" "emits P (lift q)"
  by (simp_all add: emits_def return_def throw_def raise_def lift_def)

lemma emits_clock [emits_intros]: "emits P (clock_now rt)" "emits P (new_identifier rt p)"
  "emits P (safe_reference rt s)"
  by (simp_all add: emits_def clock_now_def new_identifier_def safe_reference_def return_def
      raise_def throw_def)

lemma emits_seq:
  assumes "emits P m" and "m w = (r, w1)" and "emits P f" and "f w1 = (q, w2)"
  shows "\<exists>tr. w_trace w2 = w_trace w @ tr \<and> (\<forall>c\<in>set tr. P c)"
proof -
  obtain t1 where "w_trace w1 = w_trace w @ t1" "\<forall>c\<in>set t1. P c"
    using emitsD [OF assms(1,2)] by blast
  moreover obtain t2 where "w_trace w2 = w_trace w1 @ t2" "\<forall>c\<in>set t2. P c"
    using emitsD [OF assms(3,4)] by blast
  ultimately show ?thesis by (intro exI [of _ "t1 @ t2"]) auto
qed

lemma emits_bind [emits_intros]:
  assumes m: "emits P m" and f: "\<And>a. emits P (f a)"
  shows "emits P (bind m f)"
  unfolding emits_def
proof
  fix w
  obtain r w1 where r: "m w = (r, w1)" by force
  show "\<exists>tr. w_trace (snd (bind m f w)) = w_trace w @ tr \<and> (\<forall>c\<in>set tr. P c)"
  proof (cases r)
    case (Inl e)
    then show ?thesis using emitsD [OF m r] r by (simp add: bind_def)
  next
    case (Inr a)
    obtain q w2 where q: "f a w1 = (q, w2)" by force
    with emits_seq [OF m r f q] r Inr show ?thesis by (simp add: bind_def)
  qed
qed

lemma emits_handle [emits_intros]:
  assumes m: "emits P m" and h: "\<And>r. emits P (h r)"
  shows "emits P (handle m h)"
  unfolding emits_def
proof
  fix w
  obtain r w1 where r: "m w = (r, w1)" by force
  show "\<exists>tr. w_trace (snd (handle m h w)) = w_trace w @ tr \<and> (\<forall>c\<in>set tr. P c)"
  proof (cases r)
    case (Inr a)
    then show ?thesis using emitsD [OF m r] r by (simp add: handle_def)
  next
    case (Inl e)
    obtain q w2 where q: "h e w1 = (q, w2)" by force
    with emits_seq [OF m r h q] r Inl show ?thesis by (simp add: handle_def)
  qed
qed

lemma emits_attempt [emits_intros]: "emits P m \<Longrightarrow> emits P (attempt m)"
  by (simp add: emits_def attempt_def split: prod.splits) (metis snd_conv)

lemma emits_if [emits_intros]:
  "(b \<Longrightarrow> emits P m) \<Longrightarrow> (\<not> b \<Longrightarrow> emits P n) \<Longrightarrow> emits P (if b then m else n)"
  by simp

lemma emits_case_option [emits_intros]:
  "emits P m \<Longrightarrow> (\<And>a. emits P (f a)) \<Longrightarrow> emits P (case x of None \<Rightarrow> m | Some a \<Rightarrow> f a)"
  by (simp split: option.splits)

lemma emits_case_sum [emits_intros]:
  "(\<And>a. emits P (f a)) \<Longrightarrow> (\<And>b. emits P (g b)) \<Longrightarrow>
   emits P (case x of Inl a \<Rightarrow> f a | Inr b \<Rightarrow> g b)"
  by (simp split: sum.splits)

lemma emits_case_prod [emits_intros]:
  "(\<And>a b. emits P (f a b)) \<Longrightarrow> emits P (case x of (a, b) \<Rightarrow> f a b)"
  by (simp split: prod.splits)

lemma emits_call_host [emits_intros]: "(\<And>r. P (entry r)) \<Longrightarrow> emits P (call_host rt entry port)"
  by (simp add: emits_def call_host_def Let_def)

lemma emits_call_store [emits_intros]: "(\<And>r. P (entry r)) \<Longrightarrow> emits P (call_store rt entry m)"
  by (simp add: emits_def call_store_def Let_def split: prod.splits)

section \<open>The runtime over a store that keeps the contract\<close>

text \<open>
  What the runtime relies on: its store keeps the contract, and so do the other users of the
  store, who may do anything the contract allows.
\<close>

locale governed_runtime = retained_store api view good ret
  for api :: "'s action_store" and view :: "'s \<Rightarrow> store_state" and good :: "'s \<Rightarrow> bool"
    and ret :: "'s retention_store" +
  fixes rt :: "'s action_runtime"
  assumes rt_api: "rt_store rt = api"
    and rt_ret: "rt_retention_store rt = None \<or> rt_retention_store rt = Some ret"
    and others_good: "good s \<Longrightarrow> good (rt_others rt n s)"
    and others_path: "good s \<Longrightarrow> store_path (view s) (view (rt_others rt n s))"
begin

lemma create_step:
  assumes "good s" and "as_create api p s = (r, s')"
  shows "good s' \<and> store_path (view s) (view s')"
proof (cases r)
  case (Inl e)
  then have "s' = s" using create_raise assms by blast
  then show ?thesis using assms by simp
next
  case (Inr u)
  then show ?thesis using create_ok [OF assms(1), of p u s'] assms(2) store_step.create
    by (metis r_into_rtranclp)
qed

lemma cas_step:
  assumes "good s" and "as_compare_and_set api t r n sts q s = (res, s')"
  shows "good s' \<and> store_path (view s) (view s')"
proof (cases "res = Inr True")
  case True
  then show ?thesis using cas_true [OF assms(1), of t r n sts q s'] assms(2)
    by (metis r_into_rtranclp store_step.update)
next
  case False
  then have "s' = s" using assms cas_false cas_raise by (metis (full_types) sum.exhaust)
  then show ?thesis using assms by simp
qed

lemma admit_step:
  assumes "good s" and "as_admit_execution api t r n at q s = (res, s')"
  shows "good s' \<and> store_path (view s) (view s')"
proof (cases "\<exists>c\<in>{ClaimACQUIRED, ClaimOWNED_BY_PROPOSAL}. res = Inr c")
  case True
  then obtain c where c: "c \<in> {ClaimACQUIRED, ClaimOWNED_BY_PROPOSAL}" "res = Inr c" by blast
  then show ?thesis using admit_yes [OF assms(1), of t r n at q c s'] assms(2)
    by (metis r_into_rtranclp store_step.admit)
next
  case False
  then have "s' = s" using assms admit_no admit_raise by (metis (full_types) sum.exhaust)
  then show ?thesis using assms by simp
qed

lemma mark_step:
  assumes "good s" and "rs_mark_erasure_pending ret t r n at s = (res, s')"
  shows "good s' \<and> store_path (view s) (view s')"
proof (cases "res = Inr True")
  case True
  then show ?thesis using mark_true [OF assms(1), of t r n at s'] assms(2)
    by (metis r_into_rtranclp rtranclp.rtrancl_refl store_step.mark_pending untouched_def)
next
  case False
  then have "s' = s" using assms mark_false mark_raise by (metis (full_types) sum.exhaust)
  then show ?thesis using assms by simp
qed

lemma complete_step:
  assumes "good s" and "rs_complete_erasure ret t r n at s = (res, s')"
  shows "good s' \<and> store_path (view s) (view s')"
proof (cases "res = Inr True")
  case True
  then show ?thesis using complete_true [OF assms(1), of t r n at s'] assms(2)
    by (metis r_into_rtranclp store_step.complete)
next
  case False
  then have "s' = s" using assms complete_false complete_raise by (metis (full_types) sum.exhaust)
  then show ?thesis using assms by simp
qed

lemma steps_call_host [steps_intros]: "steps view good (call_host rt entry port)"
  by (simp add: steps_def call_host_def Let_def others_good others_path)

lemma steps_call_store:
  assumes "\<And>s r s'. good s \<Longrightarrow> operation s = (r, s') \<Longrightarrow> good s' \<and> store_path (view s) (view s')"
  shows "steps view good (call_store rt entry operation)"
  unfolding steps_def
proof (intro allI impI)
  fix w :: "'s world"
  let ?n = "w_count w" and ?s = "rt_others rt (w_count w) (w_store w)"
  assume "good (w_store w)"
  then have o: "good ?s" "store_path (view (w_store w)) (view ?s)"
    by (simp_all add: others_good others_path)
  obtain r s1 where r: "operation ?s = (r, s1)" by force
  then have "good s1 \<and> store_path (view ?s) (view s1)" using assms o by blast
  with o r show "good (w_store (snd (call_store rt entry operation w)))
      \<and> store_path (view (w_store w)) (view (w_store (snd (call_store rt entry operation w))))"
    by (auto simp: call_store_def store_effect_def Let_def
        split: prod.splits option.splits store_fault_point.splits intro: rtranclp_trans)
qed

lemma steps_store_calls [steps_intros]:
  "steps view good (call_store rt e1 (as_create (rt_store rt) p))"
  "steps view good (call_store rt e2 (as_get (rt_store rt) t r))"
  "steps view good (call_store rt e3 (as_compare_and_set (rt_store rt) t r n sts q))"
  "steps view good (call_store rt e4 (as_admit_execution (rt_store rt) t r n at q))"
  "steps view good (call_store rt e5 (as_get_effect_claim_owner (rt_store rt) t a x))"
  using get_ok owner_ok
  by (auto simp: rt_api intro!: steps_call_store dest: create_step cas_step admit_step)

lemma steps_retention_calls:
  assumes "rt_retention_store rt = Some retention"
  shows "steps view good (call_store rt e1 (rs_mark_erasure_pending retention t r n at))"
    "steps view good (call_store rt e2 (rs_complete_erasure retention t r n at))"
  using assms rt_ret by (auto intro!: steps_call_store dest: mark_step complete_step)

end

section \<open>The runtime over the in-memory store\<close>

text \<open>
  The other users of an in-memory store call its methods, each of which runs under the lock.
  A schedule says which calls they make during each interaction.
\<close>

datatype client_call =
    ClientCreate stored_proposal
  | ClientCas pystr pystr int "lifecycle_status list" stored_proposal
  | ClientAdmit pystr pystr int instant stored_proposal
  | ClientMark pystr pystr int instant
  | ClientComplete pystr pystr int instant

primrec client_run :: "client_call \<Rightarrow> mem_store \<Rightarrow> mem_store" where
  "client_run (ClientCreate p) s = snd (mem_create p s)"
| "client_run (ClientCas t r n sts q) s = snd (mem_compare_and_set t r n sts q s)"
| "client_run (ClientAdmit t r n at q) s = snd (mem_admit_execution t r n at q s)"
| "client_run (ClientMark t r n at) s = snd (mem_mark_erasure_pending t r n at s)"
| "client_run (ClientComplete t r n at) s = snd (mem_complete_erasure t r n at s)"

definition clients_run :: "client_call list \<Rightarrow> mem_store \<Rightarrow> mem_store" where
  "clients_run = fold client_run"

text \<open>
  \<open>memory_runtime rt schedule\<close> is the runtime \<open>rt\<close> put over a \<open>MemoryActionStore\<close> that also
  serves as its retention store, shared with clients that follow \<open>schedule\<close>. Clock,
  identifiers, event sink and faults are those of \<open>rt\<close>.
\<close>

definition memory_runtime ::
  "mem_store action_runtime \<Rightarrow> (nat \<Rightarrow> client_call list) \<Rightarrow> mem_store action_runtime" where
  "memory_runtime rt schedule =
     rt\<lparr>rt_store := memory_action_store, rt_retention_store := Some memory_retention_store,
        rt_others := (\<lambda>n. clients_run (schedule n))\<rparr>"

lemma memory_api_simps [simp]:
  "as_create memory_action_store = mem_create"
  "as_get memory_action_store = mem_get"
  "as_compare_and_set memory_action_store = mem_compare_and_set"
  "as_admit_execution memory_action_store = mem_admit_execution"
  "as_get_effect_claim_owner memory_action_store = mem_get_effect_claim_owner"
  "rs_mark_erasure_pending memory_retention_store = mem_mark_erasure_pending"
  "rs_complete_erasure memory_retention_store = mem_complete_erasure"
  by (simp_all add: memory_action_store_def memory_retention_store_def)

lemma memory_runtime_simps [simp]:
  "rt_store (memory_runtime rt schedule) = memory_action_store"
  "rt_retention_store (memory_runtime rt schedule) = Some memory_retention_store"
  "rt_others (memory_runtime rt schedule) n = clients_run (schedule n)"
  "rt_clock (memory_runtime rt schedule) = rt_clock rt"
  "rt_identifiers (memory_runtime rt schedule) = rt_identifiers rt"
  "rt_event_sink (memory_runtime rt schedule) = rt_event_sink rt"
  "rt_runtime_revision (memory_runtime rt schedule) = rt_runtime_revision rt"
  "rt_safe_reference (memory_runtime rt schedule) = rt_safe_reference rt"
  "rt_fault (memory_runtime rt schedule) = rt_fault rt"
  by (simp_all add: memory_runtime_def)

interpretation mem_quiet: governed_runtime memory_action_store mem_abs mem_wf memory_retention_store
  "memory_runtime rt (\<lambda>_. [])" for rt
  by unfold_locales (simp_all add: clients_run_def)

lemma client_run_step:
  assumes "mem_wf s"
  shows "mem_wf (client_run c s) \<and> store_path (mem_abs s) (mem_abs (client_run c s))"
  using mem_quiet.create_step [OF assms] mem_quiet.cas_step [OF assms]
    mem_quiet.admit_step [OF assms] mem_quiet.mark_step [OF assms] mem_quiet.complete_step [OF assms]
  by (cases c) (simp_all add: prod_eq_iff)

lemma clients_run_step:
  "mem_wf s \<Longrightarrow> mem_wf (clients_run cs s) \<and> store_path (mem_abs s) (mem_abs (clients_run cs s))"
proof (induction cs arbitrary: s)
  case Nil
  then show ?case by (simp add: clients_run_def)
next
  case (Cons c cs)
  with client_run_step [of s c] show ?case
    by (auto simp: clients_run_def intro: rtranclp_trans)
qed

interpretation mem_rt: governed_runtime memory_action_store mem_abs mem_wf memory_retention_store
  "memory_runtime rt schedule" for rt schedule
  by unfold_locales (simp_all add: clients_run_step)

end
