(* ===== verification/Runtime_Support.thy ===== *)
theory Runtime_Support
  imports Runtime_World
begin

text \<open>
  The vocabulary and the shared helpers of \<open>runtime.py\<close>: reason codes, operation outcomes,
  lifecycle dispositions, operation results, the calls to the protection ports, and the private
  methods of \<open>ActionRuntime\<close> that every handler uses.
\<close>

section \<open>Vocabulary\<close>

datatype operation_outcome =
    OutcomePREPARED
  | OutcomeAUTHORITY_PENDING
  | OutcomeAUTHORIZED
  | OutcomeDENIED
  | OutcomeBLOCKED
  | OutcomeSTALE
  | OutcomeIN_PROGRESS
  | OutcomeEXPIRED
  | OutcomeREPLAYED
  | OutcomeCONFLICT
  | OutcomeVERIFICATION_PENDING
  | OutcomeVERIFIED
  | OutcomePARTIALLY_SUCCEEDED
  | OutcomeFAILED_KNOWN
  | OutcomeFAILED_UNKNOWN
  | OutcomeVERIFICATION_UNRESOLVED
  | OutcomeRESEND_ALLOWED
  | OutcomeERASED

datatype runtime_reason_code =
    ReasonPREPARE_DENIED
  | ReasonAUTHORITY_REJECTED
  | ReasonPROPOSAL_EXPIRED
  | ReasonPRIVATE_SNAPSHOT_UNAVAILABLE
  | ReasonPROPOSAL_COMMITMENT_UNAVAILABLE
  | ReasonAUTHORITY_EXPIRED
  | ReasonEXECUTION_LEASE_EXPIRED
  | ReasonAUTHORITY_NO_LONGER_SATISFIED
  | ReasonREAUTHORIZATION_FAILED
  | ReasonVERIFICATION_RETRIES_EXHAUSTED
  | ReasonMATERIAL_DRIFT
  | ReasonPARTIAL_NOT_DECLARED
  | ReasonVERIFIED_TERMINAL_FAILURE
  | ReasonAUTHORITATIVE_FINAL_ABSENCE
  | ReasonOPERATOR_VERIFICATION_RESUMED
  | ReasonRECOVERY_NOT_AUTHORIZED

fun reason_value :: "runtime_reason_code \<Rightarrow> pystr" where
  "reason_value ReasonPREPARE_DENIED = ''prepare_denied''"
| "reason_value ReasonAUTHORITY_REJECTED = ''authority_rejected''"
| "reason_value ReasonPROPOSAL_EXPIRED = ''proposal_expired''"
| "reason_value ReasonPRIVATE_SNAPSHOT_UNAVAILABLE = ''private_snapshot_unavailable''"
| "reason_value ReasonPROPOSAL_COMMITMENT_UNAVAILABLE = ''proposal_commitment_unavailable''"
| "reason_value ReasonAUTHORITY_EXPIRED = ''authority_expired''"
| "reason_value ReasonEXECUTION_LEASE_EXPIRED = ''execution_lease_expired''"
| "reason_value ReasonAUTHORITY_NO_LONGER_SATISFIED = ''authority_no_longer_satisfied''"
| "reason_value ReasonREAUTHORIZATION_FAILED = ''reauthorization_failed''"
| "reason_value ReasonVERIFICATION_RETRIES_EXHAUSTED = ''verification_retries_exhausted''"
| "reason_value ReasonMATERIAL_DRIFT = ''material_drift''"
| "reason_value ReasonPARTIAL_NOT_DECLARED = ''partial_not_declared''"
| "reason_value ReasonVERIFIED_TERMINAL_FAILURE = ''verified_terminal_failure''"
| "reason_value ReasonAUTHORITATIVE_FINAL_ABSENCE = ''authoritative_final_absence''"
| "reason_value ReasonOPERATOR_VERIFICATION_RESUMED = ''operator_verification_resumed''"
| "reason_value ReasonRECOVERY_NOT_AUTHORIZED = ''recovery_not_authorized''"

declare reason_value.simps [simp del]

text \<open>Python's \<open>x or default\<close> on an optional string.\<close>

definition py_or :: "pystr option \<Rightarrow> pystr \<Rightarrow> pystr" where
  "py_or x d = (case x of None \<Rightarrow> d | Some s \<Rightarrow> if s = [] then d else s)"

datatype lifecycle_category =
    CategoryAWAITING_AUTHORITY
  | CategoryPENDING
  | CategorySETTLED
  | CategorySTALE
  | CategoryREFUSED
  | CategoryNEEDS_ATTENTION

record lifecycle_disposition =
  ld_category :: lifecycle_category
  ld_automatic_processing_closed :: bool
  ld_reconciliation_available :: bool
  ld_operator_recovery_available :: bool

definition disposition :: "lifecycle_category \<Rightarrow> bool \<Rightarrow> bool \<Rightarrow> bool \<Rightarrow> lifecycle_disposition" where
  "disposition c closed reconciliation recovery =
     \<lparr>ld_category = c, ld_automatic_processing_closed = closed,
      ld_reconciliation_available = reconciliation, ld_operator_recovery_available = recovery\<rparr>"

fun classify_lifecycle :: "lifecycle_status \<Rightarrow> lifecycle_disposition" where
  "classify_lifecycle AWAITING_AUTHORITY = disposition CategoryAWAITING_AUTHORITY False False False"
| "classify_lifecycle DENIED = disposition CategoryREFUSED True False False"
| "classify_lifecycle EXPIRED = disposition CategorySTALE True False False"
| "classify_lifecycle AUTHORIZED = disposition CategoryPENDING False False False"
| "classify_lifecycle BLOCKED = disposition CategoryREFUSED True False False"
| "classify_lifecycle STALE = disposition CategorySTALE True False False"
| "classify_lifecycle SUPERSEDED = disposition CategorySTALE True False False"
| "classify_lifecycle EXECUTING = disposition CategoryPENDING False True False"
| "classify_lifecycle FAILED_KNOWN = disposition CategoryREFUSED True False False"
| "classify_lifecycle FAILED_UNKNOWN = disposition CategoryPENDING False True False"
| "classify_lifecycle VERIFICATION_PENDING = disposition CategoryPENDING False True True"
| "classify_lifecycle VERIFICATION_UNRESOLVED = disposition CategoryNEEDS_ATTENTION True False True"
| "classify_lifecycle PARTIALLY_SUCCEEDED = disposition CategoryNEEDS_ATTENTION True False False"
| "classify_lifecycle VERIFIED = disposition CategorySETTLED True False False"

record action_operation_result =
  or_proposal_reference :: pystr
  or_lifecycle_status :: lifecycle_status
  or_outcome :: operation_outcome
  or_revision :: int
  or_display_preview :: json_object
  or_safe_result :: "json_object option"
  or_fresh_proposal_reference :: "pystr option"
  or_reason_code :: "pystr option"

definition is_terminal :: "action_operation_result \<Rightarrow> bool" where
  "is_terminal r \<longleftrightarrow>
     ld_automatic_processing_closed (classify_lifecycle (or_lifecycle_status r))
     \<and> \<not> ld_operator_recovery_available (classify_lifecycle (or_lifecycle_status r))"

definition automatic_processing_closed :: "action_operation_result \<Rightarrow> bool" where
  "automatic_processing_closed r =
     ld_automatic_processing_closed (classify_lifecycle (or_lifecycle_status r))"

definition needs_reconciliation :: "action_operation_result \<Rightarrow> bool" where
  "needs_reconciliation r = ld_reconciliation_available (classify_lifecycle (or_lifecycle_status r))"

record proposal_view =
  pv_proposal_reference :: pystr
  pv_lifecycle_status :: lifecycle_status
  pv_revision :: int
  pv_display_preview :: json_object
  pv_receipts :: "receipt list"
  pv_safe_result :: "json_object option"
  pv_erased :: bool

section \<open>Protection ports\<close>

definition destroy_payload ::
  "'s action_runtime \<Rightarrow> protection_codec_port \<Rightarrow> proposal_identity \<Rightarrow> protected_payload \<Rightarrow> ('s world, unit) eff" where
  "destroy_payload rt codec ident payload =
     call_host rt (CallDestroyPayload ident payload)
       (\<lambda>n. case codec of
          ProposalBoundProtectionCodec c \<Rightarrow> pcodec_destroy_payload_for c n ident payload
        | PlainProtectionCodec c \<Rightarrow> pcodec_destroy_payload c n payload)"

definition destroy_commitment ::
  "'s action_runtime \<Rightarrow> commitment_provider_port \<Rightarrow> proposal_identity \<Rightarrow> keyed_commitment \<Rightarrow> ('s world, unit) eff" where
  "destroy_commitment rt provider ident commitment =
     call_host rt (CallDestroyCommitment ident commitment)
       (\<lambda>n. case provider of
          ProposalBoundCommitmentProvider p \<Rightarrow> cp_destroy_commitment_for p n ident commitment
        | PlainCommitmentProvider p \<Rightarrow> cp_destroy_commitment p n commitment)"

definition create_commitment ::
  "'s action_runtime \<Rightarrow> commitment_provider_port \<Rightarrow> proposal_identity \<Rightarrow> bytes \<Rightarrow> ('s world, keyed_commitment) eff" where
  "create_commitment rt provider ident canonical_payload =
     call_host rt (CallCreateCommitment ident canonical_payload)
       (\<lambda>n. case provider of
          ProposalBoundCommitmentProvider p \<Rightarrow> cp_create_for p n ident canonical_payload
        | PlainCommitmentProvider p \<Rightarrow> cp_create p n (pi_proposal_reference ident) canonical_payload)"

definition verify_commitment ::
  "'s action_runtime \<Rightarrow> commitment_provider_port \<Rightarrow> proposal_identity \<Rightarrow> bytes \<Rightarrow> keyed_commitment
     \<Rightarrow> ('s world, bool) eff" where
  "verify_commitment rt provider ident canonical_payload commitment =
     call_host rt (CallVerifyCommitment ident canonical_payload commitment)
       (\<lambda>n. case provider of
          ProposalBoundCommitmentProvider p \<Rightarrow> cp_verify_for p n ident canonical_payload commitment
        | PlainCommitmentProvider p \<Rightarrow>
            cp_verify p n (pi_proposal_reference ident) canonical_payload commitment)"

definition protect_payload ::
  "'s action_runtime \<Rightarrow> protection_codec_port \<Rightarrow> proposal_identity \<Rightarrow> bytes \<Rightarrow> ('s world, protected_payload) eff" where
  "protect_payload rt codec ident canonical_payload =
     call_host rt (CallProtect ident canonical_payload)
       (\<lambda>n. case codec of
          ProposalBoundProtectionCodec c \<Rightarrow> pcodec_protect_for c n ident canonical_payload
        | PlainProtectionCodec c \<Rightarrow> pcodec_protect c n (pi_proposal_reference ident) canonical_payload)"

definition unprotect_payload ::
  "'s action_runtime \<Rightarrow> protection_codec_port \<Rightarrow> proposal_identity \<Rightarrow> protected_payload \<Rightarrow> ('s world, bytes) eff" where
  "unprotect_payload rt codec ident payload =
     call_host rt (CallUnprotect ident payload)
       (\<lambda>n. case codec of
          ProposalBoundProtectionCodec c \<Rightarrow> pcodec_unprotect_for c n ident payload
        | PlainProtectionCodec c \<Rightarrow> pcodec_unprotect c n payload)"

section \<open>Store access\<close>

definition required :: "'s action_runtime \<Rightarrow> pystr \<Rightarrow> pystr \<Rightarrow> ('s world, stored_proposal) eff" where
  "required rt tenant_reference proposal_reference =
     bind (call_store rt (CallGet tenant_reference proposal_reference)
             (as_get (rt_store rt) tenant_reference proposal_reference))
       (\<lambda>found. case found of
          None \<Rightarrow> raise ProposalNotFoundError
        | Some record \<Rightarrow>
            if sp_tenant_reference record \<noteq> tenant_reference
               \<or> sp_proposal_reference record \<noteq> proposal_reference
            then raise ProposalNotFoundError
            else return record)"

definition cas :: "'s action_runtime \<Rightarrow> stored_proposal \<Rightarrow> stored_proposal \<Rightarrow> ('s world, bool) eff" where
  "cas rt current updated =
     call_store rt (CallCas current updated)
       (as_compare_and_set (rt_store rt) (sp_tenant_reference current) (sp_proposal_reference current)
          (sp_revision current) [sp_lifecycle_status current] updated)"

section \<open>Authority helpers\<close>

definition authority_binding_of ::
  "action_definition \<Rightarrow> stored_proposal \<Rightarrow> keyed_commitment \<Rightarrow> authority_binding" where
  "authority_binding_of d record commitment =
     \<lparr>ab_tenant_reference = sp_tenant_reference record,
      ab_action_type = sp_action_type record,
      ab_proposal_instance_reference = sp_proposal_reference record,
      ab_semantic_effect_reference = sp_semantic_effect_reference record,
      ab_proposal_commitment = kc_digest commitment,
      ab_required_audience = ad_authority_audience d,
      ab_required_channel_assurance = ad_authority_channel_assurance d\<rparr>"

definition valid_authority_evidence ::
  "authority_evidence list \<Rightarrow> authority_binding \<Rightarrow> instant \<Rightarrow> authority_evidence list" where
  "valid_authority_evidence evidence_records binding at =
     filter (\<lambda>e. av_valid (validate_authority_evidence e binding at)) evidence_records"

definition evaluate_authority ::
  "'s action_runtime \<Rightarrow> action_definition \<Rightarrow> stored_proposal \<Rightarrow> authority_binding \<Rightarrow> instant
     \<Rightarrow> ('s world, authority_evidence list \<times> authority_evaluation) eff" where
  "evaluate_authority rt d record binding at =
     (let valid_evidence = valid_authority_evidence (sp_authority_evidence record) binding at in
      bind (call_host rt (CallEvaluate binding valid_evidence)
              (\<lambda>n. ad_authority_evaluator d n binding valid_evidence))
        (\<lambda>evaluation. return (valid_evidence, evaluation)))"

definition last_authority :: "stored_proposal \<Rightarrow> confirming_authority outcome" where
  "last_authority record =
     (case filter (\<lambda>e. ev_decision e = APPROVE) (rev (sp_authority_evidence record)) of
        [] \<Rightarrow> fails (InvalidActionResultError NoApprovingAuthority)
      | e # _ \<Rightarrow> Inr (ev_authority e))"

definition execution_context_of ::
  "stored_proposal \<Rightarrow> instant \<Rightarrow> authority_evidence list option \<Rightarrow> execution_context outcome" where
  "execution_context_of record observed_at authority_evidence =
     (case sp_requesting_principal record of
        None \<Rightarrow> fails (InvalidActionResultError NoRequestingPrincipal)
      | Some requester \<Rightarrow>
          let evidence_records = (case authority_evidence of
                None \<Rightarrow> sp_authority_evidence record | Some es \<Rightarrow> es) in
          Inr \<lparr>ec_tenant_reference = sp_tenant_reference record,
               ec_proposal_reference = sp_proposal_reference record,
               ec_semantic_effect_reference = sp_semantic_effect_reference record,
               ec_requesting_principal = requester,
               ec_authorities =
                 map ev_authority (filter (\<lambda>e. ev_decision e = APPROVE) evidence_records),
               ec_observed_at = observed_at\<rparr>)"

section \<open>Checks of host results\<close>

definition validate_prepared :: "action_definition \<Rightarrow> prepared_action \<Rightarrow> unit outcome" where
  "validate_prepared d prepared =
     (if hm_class (pa_private_snapshot prepared) \<noteq> ad_private_snapshot_model d
      then fails (InvalidActionResultError WrongPrivateSnapshotModel)
      else if hm_class (pa_display_preview prepared) \<noteq> ad_display_preview_model d
      then fails (InvalidActionResultError WrongDisplayPreviewModel)
      else Inr ())"

definition validate_result_type :: "action_definition \<Rightarrow> host_model option \<Rightarrow> unit outcome" where
  "validate_result_type d result =
     (case result of
        None \<Rightarrow> Inr ()
      | Some m \<Rightarrow>
          if hm_class m \<noteq> ad_result_model d then fails (InvalidActionResultError WrongResultModel)
          else Inr ())"

section \<open>Results, receipts and events\<close>

definition result_full ::
  "stored_proposal \<Rightarrow> operation_outcome \<Rightarrow> pystr option \<Rightarrow> pystr option \<Rightarrow> bool \<Rightarrow> action_operation_result" where
  "result_full record outcome fresh_proposal_reference reason_code include_display_preview =
     \<lparr>or_proposal_reference = sp_proposal_reference record,
      or_lifecycle_status = sp_lifecycle_status record,
      or_outcome = outcome,
      or_revision = sp_revision record,
      or_display_preview = (if include_display_preview then sp_display_preview record else []),
      or_safe_result = sp_safe_result record,
      or_fresh_proposal_reference = fresh_proposal_reference,
      or_reason_code = reason_code\<rparr>"

abbreviation result :: "stored_proposal \<Rightarrow> operation_outcome \<Rightarrow> action_operation_result" where
  "result record outcome \<equiv> result_full record outcome None None False"

abbreviation result_because ::
  "stored_proposal \<Rightarrow> operation_outcome \<Rightarrow> pystr option \<Rightarrow> action_operation_result" where
  "result_because record outcome reason_code \<equiv> result_full record outcome None reason_code False"

fun outcome_for :: "lifecycle_status \<Rightarrow> operation_outcome" where
  "outcome_for AWAITING_AUTHORITY = OutcomeAUTHORITY_PENDING"
| "outcome_for AUTHORIZED = OutcomeAUTHORIZED"
| "outcome_for DENIED = OutcomeDENIED"
| "outcome_for EXPIRED = OutcomeEXPIRED"
| "outcome_for BLOCKED = OutcomeBLOCKED"
| "outcome_for STALE = OutcomeSTALE"
| "outcome_for SUPERSEDED = OutcomeSTALE"
| "outcome_for EXECUTING = OutcomeIN_PROGRESS"
| "outcome_for FAILED_KNOWN = OutcomeFAILED_KNOWN"
| "outcome_for FAILED_UNKNOWN = OutcomeIN_PROGRESS"
| "outcome_for VERIFICATION_PENDING = OutcomeIN_PROGRESS"
| "outcome_for VERIFICATION_UNRESOLVED = OutcomeVERIFICATION_UNRESOLVED"
| "outcome_for PARTIALLY_SUCCEEDED = OutcomePARTIALLY_SUCCEEDED"
| "outcome_for VERIFIED = OutcomeVERIFIED"

text \<open>
  The receipt fields every receipt of the runtime sets: a fresh reference, the proposal as
  correlation, a cause, the instant and the runtime revision.
\<close>

definition receipt_base_of ::
  "'s action_runtime \<Rightarrow> pystr \<Rightarrow> pystr \<Rightarrow> pystr \<Rightarrow> instant \<Rightarrow> external_reference option \<Rightarrow> pystr option
     \<Rightarrow> receipt_base" where
  "receipt_base_of rt receipt_reference correlation causation observed_at external reason_code =
     \<lparr>rb_schema_version = receipt_schema_version,
      rb_receipt_reference = receipt_reference,
      rb_correlation_reference = correlation,
      rb_causation_reference = causation,
      rb_observed_at = observed_at,
      rb_runtime_revision = Some (rt_runtime_revision rt),
      rb_external_reference = external,
      rb_corrects_receipt_reference = None,
      rb_supersedes_receipt_reference = None,
      rb_reason_code = reason_code\<rparr>"

definition emit ::
  "'s action_runtime \<Rightarrow> stored_proposal \<Rightarrow> runtime_event_type \<Rightarrow> instant \<Rightarrow> pystr option \<Rightarrow> ('s world, unit) eff" where
  "emit rt record event_type observed_at reason_code =
     (let event =
        \<lparr>re_event_type = event_type,
         re_tenant_reference = sp_tenant_reference record,
         re_proposal_reference = sp_proposal_reference record,
         re_action_type = sp_action_type record,
         re_lifecycle_status = sp_lifecycle_status record,
         re_correlation_reference = sp_proposal_reference record,
         re_observed_at = observed_at,
         re_reason_code = reason_code\<rparr> in
      handle (call_host rt (CallEmit event) (\<lambda>n. rt_event_sink rt n event))
        (\<lambda>failure. if is_exception (exn_of failure) then return () else throw failure))"

section \<open>Lemmas\<close>

lemmas protection_defs = destroy_payload_def destroy_commitment_def create_commitment_def
  verify_commitment_def protect_payload_def unprotect_payload_def

lemma emits_support [emits_intros]:
  "(\<And>x. P (CallDestroyPayload i pp x)) \<Longrightarrow> emits P (destroy_payload rt codec i pp)"
  "(\<And>x. P (CallDestroyCommitment i kc x)) \<Longrightarrow> emits P (destroy_commitment rt provider i kc)"
  "(\<And>x. P (CallCreateCommitment i b x)) \<Longrightarrow> emits P (create_commitment rt provider i b)"
  "(\<And>x. P (CallVerifyCommitment i b kc x)) \<Longrightarrow> emits P (verify_commitment rt provider i b kc)"
  "(\<And>x. P (CallProtect i b x)) \<Longrightarrow> emits P (protect_payload rt codec i b)"
  "(\<And>x. P (CallUnprotect i pp x)) \<Longrightarrow> emits P (unprotect_payload rt codec i pp)"
  "(\<And>x. P (CallGet t r x)) \<Longrightarrow> emits P (required rt t r)"
  "(\<And>x. P (CallCas p q x)) \<Longrightarrow> emits P (cas rt p q)"
  "(\<And>b es x. P (CallEvaluate b es x)) \<Longrightarrow> emits P (evaluate_authority rt d p b' at)"
  "(\<And>e x. P (CallEmit e x)) \<Longrightarrow> emits P (emit rt p ty at rc)"
  by (auto simp: protection_defs required_def cas_def evaluate_authority_def emit_def Let_def
      intro!: emits_intros)

lemma valid_authority_evidence_subset: "set (valid_authority_evidence es b at) \<subseteq> set es"
  by (auto simp: valid_authority_evidence_def)

lemma valid_authority_evidence_fixed:
  "valid_authority_evidence es b at = es \<longleftrightarrow> (\<forall>e\<in>set es. av_valid (validate_authority_evidence e b at))"
  by (simp add: valid_authority_evidence_def filter_id_conv)

lemma binding_of_simps [simp]:
  "ab_tenant_reference (authority_binding_of d p c) = sp_tenant_reference p"
  "ab_action_type (authority_binding_of d p c) = sp_action_type p"
  "ab_proposal_instance_reference (authority_binding_of d p c) = sp_proposal_reference p"
  "ab_semantic_effect_reference (authority_binding_of d p c) = sp_semantic_effect_reference p"
  "ab_proposal_commitment (authority_binding_of d p c) = kc_digest c"
  by (simp_all add: authority_binding_of_def)

lemma receipt_base_simps [simp]:
  "rb_correlation_reference (receipt_base_of rt x c k at ext rc) = c"
  "rb_observed_at (receipt_base_of rt x c k at ext rc) = at"
  "rb_reason_code (receipt_base_of rt x c k at ext rc) = rc"
  by (simp_all add: receipt_base_of_def)

lemma result_full_simps [simp]:
  "or_lifecycle_status (result_full p out fresh rc prev) = sp_lifecycle_status p"
  "or_outcome (result_full p out fresh rc prev) = out"
  "or_revision (result_full p out fresh rc prev) = sp_revision p"
  "or_proposal_reference (result_full p out fresh rc prev) = sp_proposal_reference p"
  "or_reason_code (result_full p out fresh rc prev) = rc"
  "or_fresh_proposal_reference (result_full p out fresh rc prev) = fresh"
  by (simp_all add: result_full_def)

context governed_runtime
begin

lemma steps_support [steps_intros]:
  "steps view good (destroy_payload rt codec i pp)"
  "steps view good (destroy_commitment rt provider i kc)"
  "steps view good (create_commitment rt provider i b)"
  "steps view good (verify_commitment rt provider i b kc)"
  "steps view good (protect_payload rt codec i b)"
  "steps view good (unprotect_payload rt codec i pp)"
  "steps view good (required rt t r)"
  "steps view good (cas rt p q)"
  "steps view good (evaluate_authority rt d p b' at)"
  "steps view good (emit rt p ty at rc)"
  by (auto simp: protection_defs required_def cas_def evaluate_authority_def emit_def Let_def
      intro!: steps_intros)

end

end
