(* ===== verification/Runtime_Prepare.thy ===== *)
theory Runtime_Prepare
  imports Runtime_Support
begin

text \<open>
  The first half of a proposal's life in \<open>runtime.py\<close>: \<open>prepare\<close>, \<open>_persist_prepared\<close> with its
  compensation of protected state when persistence fails, \<open>_load_private\<close>, \<open>record_authority\<close> and
  \<open>expire_due\<close>.
\<close>

section \<open>Persisting a prepared action\<close>

text \<open>
  The \<open>except BaseException\<close> block of \<open>_persist_prepared\<close>, in two parts: \<open>persist_cleanup\<close>
  destroys what was created and re-raises, \<open>persist_reconcile\<close> first asks the store whether the
  attempted write took effect.
\<close>

definition persist_cleanup ::
  "'s action_runtime \<Rightarrow> action_definition \<Rightarrow> proposal_identity \<Rightarrow> protected_payload option
     \<Rightarrow> keyed_commitment \<Rightarrow> raised \<Rightarrow> ('s world, stored_proposal) eff" where
  "persist_cleanup rt d ident protected commitment failure =
     bind (case protected of
             None \<Rightarrow> return []
           | Some payload \<Rightarrow>
               bind (attempt (destroy_payload rt (ad_protection_codec d) ident payload))
                 (\<lambda>r. return (case r of Inl e \<Rightarrow> [(PayloadResource, exn_of e)] | Inr _ \<Rightarrow> [])))
       (\<lambda>payload_failures.
     bind (attempt (destroy_commitment rt (ad_commitment_provider d) ident commitment))
       (\<lambda>r. let cleanup_failures = payload_failures
                  @ (case r of Inl e \<Rightarrow> [(CommitmentResource, exn_of e)] | Inr _ \<Rightarrow> []) in
            throw (if cleanup_failures = [] then failure
                   else add_note failure (CleanupFailures cleanup_failures))))"

definition persist_reconcile ::
  "'s action_runtime \<Rightarrow> action_definition \<Rightarrow> proposal_identity \<Rightarrow> protected_payload
     \<Rightarrow> keyed_commitment \<Rightarrow> stored_proposal \<Rightarrow> raised \<Rightarrow> ('s world, stored_proposal) eff" where
  "persist_reconcile rt d ident protected commitment record failure =
     bind (attempt (call_store rt (CallGet (pi_tenant_reference ident) (pi_proposal_reference ident))
             (as_get (rt_store rt) (pi_tenant_reference ident) (pi_proposal_reference ident))))
       (\<lambda>r. case r of
          Inl reconciliation_failure \<Rightarrow>
            if exn_of failure = CancelledError
            then throw (add_note failure ReconciliationInterrupted)
            else throw (add_note
                   (Raised (ProposalPersistenceOutcomeUnknownError (pi_tenant_reference ident)
                      (pi_proposal_reference ident)) [])
                   (ReconciliationFailed (exn_of reconciliation_failure)))
        | Inr persisted \<Rightarrow>
            if persisted = Some record
            then if exn_of failure = CancelledError
                 then throw (add_note failure PersistedBeforeCancellation)
                 else return record
            else persist_cleanup rt d ident (Some protected) commitment failure)"

definition prepared_record ::
  "'s action_runtime \<Rightarrow> action_definition \<Rightarrow> proposal_identity \<Rightarrow> prepared_action
     \<Rightarrow> requesting_principal \<Rightarrow> proposing_agent option \<Rightarrow> instant \<Rightarrow> protected_payload
     \<Rightarrow> keyed_commitment \<Rightarrow> ('s world, stored_proposal) eff" where
  "prepared_record rt d ident prepared requester agent now protected commitment =
     bind (new_identifier rt ''receipt'') (\<lambda>receipt_reference.
     bind (lift (model_json_object (pa_display_preview prepared))) (\<lambda>preview.
     return
       \<lparr>sp_tenant_reference = pi_tenant_reference ident,
        sp_proposal_reference = pi_proposal_reference ident,
        sp_action_type = ad_action_type d,
        sp_semantic_effect_reference = pa_semantic_effect_reference prepared,
        sp_effect_kind = ad_effect_kind d,
        sp_lifecycle_status = AWAITING_AUTHORITY,
        sp_revision = 0,
        sp_protected_private_snapshot = Some protected,
        sp_commitment = Some commitment,
        sp_display_preview = preview,
        sp_requesting_principal = Some requester,
        sp_proposing_agent = agent,
        sp_created_at = now,
        sp_expires_at = now + ad_proposal_ttl d,
        sp_authority_evidence = [],
        sp_receipts =
          [ProposalReceipt
             (receipt_base_of rt receipt_reference (pi_proposal_reference ident)
                (pi_proposal_reference ident) now None None)
             ProposalPREPARED requester agent],
        sp_verification_attempts = 0,
        sp_max_verification_attempts = ad_max_verification_attempts d,
        sp_next_verification_at = None,
        sp_safe_result = None,
        sp_execution_precondition = None,
        sp_superseded_by = None,
        sp_erasure_pending_at = None,
        sp_erased_at = None\<rparr>))"

definition persist_prepared ::
  "'s action_runtime \<Rightarrow> action_definition \<Rightarrow> pystr \<Rightarrow> prepared_action \<Rightarrow> requesting_principal
     \<Rightarrow> proposing_agent option \<Rightarrow> instant \<Rightarrow> pystr option \<Rightarrow> ('s world, stored_proposal) eff" where
  "persist_prepared rt d tenant_reference prepared requester agent now proposal_reference =
     bind (case proposal_reference of None \<Rightarrow> new_identifier rt ''proposal'' | Some r \<Rightarrow> return r)
       (\<lambda>resolved_proposal_reference.
     bind (safe_reference rt tenant_reference) (\<lambda>_.
     bind (safe_reference rt resolved_proposal_reference) (\<lambda>_.
     let ident = \<lparr>pi_tenant_reference = tenant_reference,
                  pi_proposal_reference = resolved_proposal_reference\<rparr> in
     bind (lift (model_json_object (pa_private_snapshot prepared))) (\<lambda>private_json.
     bind (lift (canonicalize_v1 (ad_nfc d) (JObj private_json))) (\<lambda>private_canonical.
     bind (lift (commitment_payload_v1 (ad_nfc d) resolved_proposal_reference private_canonical))
       (\<lambda>commitment_input.
     bind (create_commitment rt (ad_commitment_provider d) ident commitment_input) (\<lambda>commitment.
     bind (attempt (protect_payload rt (ad_protection_codec d) ident private_canonical))
       (\<lambda>protection. case protection of
          Inl failure \<Rightarrow> persist_cleanup rt d ident None commitment failure
        | Inr protected \<Rightarrow>
     bind (attempt (prepared_record rt d ident prepared requester agent now protected commitment))
       (\<lambda>built. case built of
          Inl failure \<Rightarrow> persist_cleanup rt d ident (Some protected) commitment failure
        | Inr record \<Rightarrow>
     bind (attempt (call_store rt (CallCreate record) (as_create (rt_store rt) record)))
       (\<lambda>created. case created of
          Inr _ \<Rightarrow> return record
        | Inl failure \<Rightarrow>
            persist_reconcile rt d ident protected commitment record failure))))))))))"

section \<open>prepare\<close>

definition prepare ::
  "'s action_runtime \<Rightarrow> action_definition \<Rightarrow> pystr \<Rightarrow> host_model \<Rightarrow> requesting_principal
     \<Rightarrow> proposing_agent option \<Rightarrow> pystr option \<Rightarrow> ('s world, action_operation_result) eff" where
  "prepare rt d tenant_reference command requester agent proposal_reference =
     bind (clock_now rt) (\<lambda>now.
     bind (safe_reference rt tenant_reference) (\<lambda>_.
     let context = \<lparr>pc_tenant_reference = tenant_reference, pc_requesting_principal = requester,
                    pc_proposing_agent = agent, pc_prepared_at = now\<rparr> in
     bind (call_host rt (CallCanPrepare command context) (\<lambda>n. ad_can_prepare d n command context))
       (\<lambda>authorization.
     if \<not> ar_allowed authorization
     then raise (AuthorizationDeniedError
            (py_or (ar_reason_code authorization) (reason_value ReasonPREPARE_DENIED)))
     else
     bind (call_host rt (CallPrepare command context) (\<lambda>n. ad_preparation d n command context))
       (\<lambda>prepared.
     bind (lift (validate_prepared d prepared)) (\<lambda>_.
     bind (persist_prepared rt d tenant_reference prepared requester agent now proposal_reference)
       (\<lambda>record.
     bind (emit rt record PROPOSAL_PREPARED now None) (\<lambda>_.
     return (result_full record OutcomePREPARED None None True))))))))"

section \<open>Loading the private snapshot\<close>

definition load_private ::
  "'s action_runtime \<Rightarrow> action_definition \<Rightarrow> stored_proposal \<Rightarrow> ('s world, host_model option) eff" where
  "load_private rt d record =
     (case (sp_protected_private_snapshot record, sp_commitment record) of
        (Some protected, Some commitment) \<Rightarrow>
          let ident = \<lparr>pi_tenant_reference = sp_tenant_reference record,
                       pi_proposal_reference = sp_proposal_reference record\<rparr> in
          bind (attempt (unprotect_payload rt (ad_protection_codec d) ident protected))
            (\<lambda>r. case r of
               Inl failure \<Rightarrow>
                 if is_key_or_value_error (exn_of failure) then return None else throw failure
             | Inr canonical \<Rightarrow>
          bind (lift (commitment_payload_v1 (ad_nfc d) (sp_proposal_reference record) canonical))
            (\<lambda>commitment_input.
          bind (verify_commitment rt (ad_commitment_provider d) ident commitment_input commitment)
            (\<lambda>verified.
          if \<not> verified then return None
          else bind (lift (ad_parse_snapshot d (ad_private_snapshot_model d) canonical))
                 (\<lambda>snapshot. return (Some snapshot)))))
      | _ \<Rightarrow> return None)"

section \<open>record_authority\<close>

definition record_authority ::
  "'s action_runtime \<Rightarrow> action_definition \<Rightarrow> authority_evidence \<Rightarrow> confirming_authority
     \<Rightarrow> pystr option \<Rightarrow> ('s world, action_operation_result) eff" where
  "record_authority rt d evidence authenticated_authority proposal_reference =
     (let reference = py_or proposal_reference (ev_proposal_instance_reference evidence) in
     bind (required rt (ev_tenant_reference evidence) reference) (\<lambda>record.
     bind (clock_now rt) (\<lambda>now.
     if sp_action_type record \<noteq> ad_action_type d then raise ProposalNotFoundError
     else if sp_erasure_pending_at record \<noteq> None \<or> sp_erased_at record \<noteq> None
     then raise ProposalNotFoundError
     else if ev_authority evidence \<noteq> authenticated_authority
     then raise (InvalidAuthorityEvidenceError AuthenticatedAuthorityMismatch)
     else
     let context = \<lparr>dc_tenant_reference = sp_tenant_reference record,
                    dc_authority = authenticated_authority, dc_decided_at = now\<rparr> in
     bind (call_host rt (CallCanDecide evidence context) (\<lambda>n. ad_can_decide d n evidence context))
       (\<lambda>decision_auth.
     if \<not> ar_allowed decision_auth then raise ProposalNotFoundError
     else if evidence \<in> set (sp_authority_evidence record)
     then return (result record OutcomeREPLAYED)
     else if sp_lifecycle_status record \<noteq> AWAITING_AUTHORITY
     then return (result record (outcome_for (sp_lifecycle_status record)))
     else if sp_expires_at record \<le> now
     then
       let expired = record\<lparr>sp_lifecycle_status := EXPIRED, sp_revision := sp_revision record + 1\<rparr> in
       bind (cas rt record expired) (\<lambda>won.
       if won then return (result expired OutcomeEXPIRED)
       else bind (required rt (ev_tenant_reference evidence) reference)
              (\<lambda>current. return (result current OutcomeCONFLICT)))
     else
     case sp_commitment record of
       None \<Rightarrow> raise (InvalidAuthorityEvidenceError ProposalCommitmentUnavailable)
     | Some commitment \<Rightarrow>
     let binding = authority_binding_of d record commitment;
         validation = validate_authority_evidence evidence binding now in
     if \<not> av_valid validation
     then raise (InvalidAuthorityEvidenceError (EvidenceInvalid (av_failure validation)))
     else
     let accumulated = sp_authority_evidence record @ [evidence] in
     bind (if ev_decision evidence = DENY
           then return (DENIED, OutcomeDENIED, AuthorityREJECTED,
                        Some (reason_value ReasonAUTHORITY_REJECTED))
           else
             let valid_accumulated = valid_authority_evidence accumulated binding now in
             bind (call_host rt (CallEvaluate binding valid_accumulated)
                     (\<lambda>n. ad_authority_evaluator d n binding valid_accumulated))
               (\<lambda>evaluation. return
                  (if ae_satisfied evaluation then AUTHORIZED else AWAITING_AUTHORITY,
                   if ae_satisfied evaluation then OutcomeAUTHORIZED else OutcomeAUTHORITY_PENDING,
                   AuthorityRECORDED, ae_reason_code evaluation)))
       (\<lambda>(target_status, outcome, receipt_status, reason_code).
     bind (new_identifier rt ''receipt'') (\<lambda>receipt_reference.
     let receipt = AuthorityReceipt
           (receipt_base_of rt receipt_reference (sp_proposal_reference record)
              (sp_proposal_reference record) now None reason_code)
           receipt_status (ev_authority evidence);
         updated = record\<lparr>sp_authority_evidence := accumulated,
                          sp_receipts := sp_receipts record @ [receipt],
                          sp_lifecycle_status := target_status,
                          sp_revision := sp_revision record + 1\<rparr> in
     bind (cas rt record updated) (\<lambda>won.
     if \<not> won
     then bind (required rt (sp_tenant_reference record) (sp_proposal_reference record))
            (\<lambda>current. return (result current
               (if evidence \<in> set (sp_authority_evidence current) then OutcomeREPLAYED
                else OutcomeCONFLICT)))
     else
     bind (emit rt updated AUTHORITY_RECORDED now reason_code) (\<lambda>_.
     return (result_because updated outcome reason_code)))))))))"

section \<open>expire_due\<close>

definition expire_due ::
  "'s action_runtime \<Rightarrow> action_definition \<Rightarrow> pystr \<Rightarrow> pystr \<Rightarrow> ('s world, action_operation_result) eff" where
  "expire_due rt d tenant_reference proposal_reference =
     bind (required rt tenant_reference proposal_reference) (\<lambda>record.
     if sp_action_type record \<noteq> ad_action_type d then raise ProposalNotFoundError
     else if sp_erasure_pending_at record \<noteq> None \<or> sp_erased_at record \<noteq> None
     then raise ProposalNotFoundError
     else if sp_lifecycle_status record \<notin> {AWAITING_AUTHORITY, AUTHORIZED}
     then return (result record (outcome_for (sp_lifecycle_status record)))
     else
     bind (clock_now rt) (\<lambda>now.
     if sp_expires_at record > now
     then return (result record (outcome_for (sp_lifecycle_status record)))
     else
     let expired = record\<lparr>sp_lifecycle_status := EXPIRED, sp_revision := sp_revision record + 1\<rparr> in
     bind (cas rt record expired) (\<lambda>won.
     if \<not> won
     then bind (required rt tenant_reference proposal_reference)
            (\<lambda>current. return (result current OutcomeCONFLICT))
     else
     bind (emit rt expired LIFECYCLE_CHANGED now (Some (reason_value ReasonPROPOSAL_EXPIRED)))
       (\<lambda>_. return (result_because expired OutcomeEXPIRED
                      (Some (reason_value ReasonPROPOSAL_EXPIRED)))))))"

section \<open>Every operation follows the store\<close>

lemmas persist_defs = persist_cleanup_def persist_reconcile_def prepared_record_def persist_prepared_def

context governed_runtime
begin

lemma steps_persist [steps_intros]:
  "steps view good (persist_cleanup rt d i p c f)"
  "steps view good (persist_reconcile rt d i pp c record f)"
  "steps view good (prepared_record rt d i pr rq ag now pp c)"
  "steps view good (persist_prepared rt d t pr rq ag now ref)"
  unfolding persist_defs Let_def by (intro steps_intros)+

lemma steps_prepare [steps_intros]: "steps view good (prepare rt d t cmd rq ag ref)"
  unfolding prepare_def Let_def by (intro steps_intros)

lemma steps_load_private [steps_intros]: "steps view good (load_private rt d record)"
  unfolding load_private_def Let_def by (intro steps_intros)

lemma steps_record_authority [steps_intros]: "steps view good (record_authority rt d e a ref)"
  unfolding record_authority_def Let_def by (intro steps_intros)

lemma steps_expire_due [steps_intros]: "steps view good (expire_due rt d t r)"
  unfolding expire_due_def Let_def by (intro steps_intros)

end

end
