(* ===== verification/Runtime_Execute.thy ===== *)
theory Runtime_Execute
  imports Runtime_Prepare
begin

text \<open>
  \<open>ActionRuntime.execute\<close> and the private methods it ends in: \<open>_block\<close>, \<open>_supersede_stale\<close> and
  \<open>_settle_execution\<close>. The handler is one long method; it is given here as its consecutive
  parts, each called in tail position by the one before it:

  \<^item> \<open>execute\<close>: guards, private snapshot, authority, state resolution;
  \<^item> \<open>execute_reauthorize\<close>: the second expiry and authority check and the live authorization;
  \<^item> \<open>execute_admit\<close>: the third expiry and evidence check and the atomic admission;
  \<^item> \<open>execute_dispatch\<close>: the checks after admission, the call of the executor, settlement.
\<close>

section \<open>Refusals\<close>

definition block ::
  "'s action_runtime \<Rightarrow> action_definition \<Rightarrow> stored_proposal \<Rightarrow> instant \<Rightarrow> pystr
     \<Rightarrow> ('s world, action_operation_result) eff" where
  "block rt d record now reason_code =
     bind (lift (last_authority record)) (\<lambda>authority.
     bind (new_identifier rt ''receipt'') (\<lambda>receipt_reference.
     let receipt = AuthorityReceipt
           (receipt_base_of rt receipt_reference (sp_proposal_reference record)
              (sp_proposal_reference record) now None (Some reason_code))
           AuthorityFAILED authority;
         blocked = record\<lparr>sp_lifecycle_status := BLOCKED,
                          sp_receipts := sp_receipts record @ [receipt],
                          sp_revision := sp_revision record + 1\<rparr> in
     bind (cas rt record blocked) (\<lambda>won.
     if \<not> won
     then bind (required rt (sp_tenant_reference record) (sp_proposal_reference record))
            (\<lambda>current. return (result current OutcomeCONFLICT))
     else
     bind (emit rt blocked LIFECYCLE_CHANGED now (Some reason_code)) (\<lambda>_.
     return (result_because blocked OutcomeBLOCKED (Some reason_code))))))"

definition supersede_stale ::
  "'s action_runtime \<Rightarrow> action_definition \<Rightarrow> stored_proposal \<Rightarrow> prepared_action option \<Rightarrow> instant
     \<Rightarrow> ('s world, action_operation_result) eff" where
  "supersede_stale rt d record replacement now =
     bind (new_identifier rt ''receipt'') (\<lambda>receipt_reference.
     let stale_receipt = ExecutionReceipt
           (receipt_base_of rt receipt_reference (sp_proposal_reference record)
              (sp_proposal_reference record) now None (Some (reason_value ReasonMATERIAL_DRIFT)))
           ExecutionFAILED_KNOWN (ad_executor_identity d) [];
         stale = record\<lparr>sp_lifecycle_status := STALE,
                        sp_receipts := sp_receipts record @ [stale_receipt],
                        sp_revision := sp_revision record + 1\<rparr> in
     bind (cas rt record stale) (\<lambda>won.
     if \<not> won
     then bind (required rt (sp_tenant_reference record) (sp_proposal_reference record))
            (\<lambda>current. return (result current OutcomeCONFLICT))
     else
     bind (case replacement of
             None \<Rightarrow> return (stale, None)
           | Some prepared \<Rightarrow>
               (case sp_requesting_principal record of
                  None \<Rightarrow> raise (InvalidActionResultError ReplacementLostPrincipal)
                | Some requester \<Rightarrow>
                    bind (lift (validate_prepared d prepared)) (\<lambda>_.
                    bind (persist_prepared rt d (sp_tenant_reference record) prepared requester
                            (sp_proposing_agent record) now None) (\<lambda>fresh.
                    let superseded = stale\<lparr>sp_lifecycle_status := SUPERSEDED,
                                           sp_superseded_by := Some (sp_proposal_reference fresh),
                                           sp_revision := sp_revision stale + 1\<rparr> in
                    bind (cas rt stale superseded) (\<lambda>replaced.
                    return (if replaced then superseded else stale,
                            Some (sp_proposal_reference fresh)))))))
       (\<lambda>(final, fresh_reference).
     bind (emit rt final LIFECYCLE_CHANGED now (Some (reason_value ReasonMATERIAL_DRIFT))) (\<lambda>_.
     return (result_full final OutcomeSTALE fresh_reference
               (Some (reason_value ReasonMATERIAL_DRIFT)) False)))))"

section \<open>Settling an execution\<close>

fun execution_receipt_status_of :: "execution_status \<Rightarrow> execution_receipt_status" where
  "execution_receipt_status_of ExecACCEPTED = ExecutionACCEPTED"
| "execution_receipt_status_of ExecSTALE_NO_EFFECT = ExecutionSTALE_NO_EFFECT"
| "execution_receipt_status_of ExecFAILED_KNOWN = ExecutionFAILED_KNOWN"
| "execution_receipt_status_of ExecFAILED_UNKNOWN = ExecutionFAILED_UNKNOWN"
| "execution_receipt_status_of ExecPARTIALLY_SUCCEEDED = ExecutionPARTIALLY_SUCCEEDED"

definition declared_execution ::
  "action_definition \<Rightarrow> stored_proposal \<Rightarrow> execution_result \<Rightarrow> execution_result" where
  "declared_execution d record execution =
     (if er_status execution = ExecPARTIALLY_SUCCEEDED
         \<and> (ad_effect_kind d \<noteq> Itemized \<or> sp_effect_kind record \<noteq> Itemized)
      then \<lparr>er_status = ExecFAILED_UNKNOWN, er_result = None,
            er_item_outcomes = er_item_outcomes execution, er_external_reference = None,
            er_reason_code = Some (reason_value ReasonPARTIAL_NOT_DECLARED)\<rparr>
      else execution)"

fun execution_target ::
  "action_definition \<Rightarrow> instant \<Rightarrow> execution_status \<Rightarrow> lifecycle_status \<times> operation_outcome \<times> instant option" where
  "execution_target d now ExecSTALE_NO_EFFECT = (STALE, OutcomeSTALE, None)"
| "execution_target d now ExecFAILED_KNOWN = (FAILED_KNOWN, OutcomeFAILED_KNOWN, None)"
| "execution_target d now ExecFAILED_UNKNOWN = (FAILED_UNKNOWN, OutcomeFAILED_UNKNOWN, Some now)"
| "execution_target d now ExecACCEPTED =
     (VERIFICATION_PENDING, OutcomeVERIFICATION_PENDING, Some (now + ad_verification_delay d))"
| "execution_target d now ExecPARTIALLY_SUCCEEDED =
     (VERIFICATION_PENDING, OutcomeVERIFICATION_PENDING, Some (now + ad_verification_delay d))"

definition settle_execution ::
  "'s action_runtime \<Rightarrow> action_definition \<Rightarrow> stored_proposal \<Rightarrow> execution_result \<Rightarrow> instant
     \<Rightarrow> ('s world, action_operation_result) eff" where
  "settle_execution rt d record execution0 now =
     bind (lift (validate_result_type d (er_result execution0))) (\<lambda>_.
     let execution = declared_execution d record execution0;
         reason_code = (if er_status execution \<noteq> ExecSTALE_NO_EFFECT then er_reason_code execution
                        else Some (py_or (er_reason_code execution) (reason_value ReasonMATERIAL_DRIFT))) in
     bind (new_identifier rt ''receipt'') (\<lambda>receipt_reference.
     let receipt = ExecutionReceipt
           (receipt_base_of rt receipt_reference (sp_proposal_reference record)
              (sp_proposal_reference record) now (er_external_reference execution) reason_code)
           (execution_receipt_status_of (er_status execution)) (ad_executor_identity d)
           (er_item_outcomes execution) in
     bind (case er_result execution of
             None \<Rightarrow> return None
           | Some m \<Rightarrow> bind (lift (model_json_object m)) (\<lambda>j. return (Some j))) (\<lambda>safe_result.
     case execution_target d now (er_status execution) of (target, outcome, next_verification_at) \<Rightarrow>
     let settled = record\<lparr>sp_lifecycle_status := target,
                          sp_receipts := sp_receipts record @ [receipt],
                          sp_safe_result := safe_result,
                          sp_next_verification_at := next_verification_at,
                          sp_revision := sp_revision record + 1\<rparr> in
     bind (cas rt record settled) (\<lambda>won.
     if \<not> won
     then bind (required rt (sp_tenant_reference record) (sp_proposal_reference record))
            (\<lambda>current. return (result current OutcomeIN_PROGRESS))
     else
     bind (emit rt settled LIFECYCLE_CHANGED now reason_code) (\<lambda>_.
     return (result_because settled outcome reason_code))))))"

section \<open>The execute handler\<close>

definition expire_now ::
  "'s action_runtime \<Rightarrow> stored_proposal \<Rightarrow> ('s world, action_operation_result) eff" where
  "expire_now rt record =
     (let expired = record\<lparr>sp_lifecycle_status := EXPIRED, sp_revision := sp_revision record + 1\<rparr> in
      bind (cas rt record expired) (\<lambda>won.
      if won then return (result expired OutcomeEXPIRED)
      else return (result record OutcomeCONFLICT)))"

definition authority_refusal ::
  "stored_proposal \<Rightarrow> authority_evidence list \<Rightarrow> authority_evaluation \<Rightarrow> pystr" where
  "authority_refusal record valid_evidence authority =
     (if length valid_evidence \<noteq> length (sp_authority_evidence record)
      then reason_value ReasonAUTHORITY_EXPIRED
      else py_or (ae_reason_code authority) (reason_value ReasonAUTHORITY_NO_LONGER_SATISFIED))"

definition dispatch_refusal ::
  "action_definition \<Rightarrow> stored_proposal \<Rightarrow> authority_binding \<Rightarrow> authority_evidence list \<Rightarrow> instant
     \<Rightarrow> instant \<Rightarrow> pystr option" where
  "dispatch_refusal d record binding valid_evidence admitted_at execution_at =
     (if sp_expires_at record \<le> execution_at then Some (reason_value ReasonPROPOSAL_EXPIRED)
      else if valid_authority_evidence valid_evidence binding execution_at \<noteq> valid_evidence
      then Some (reason_value ReasonAUTHORITY_EXPIRED)
      else if admitted_at + ad_verification_lease_duration d \<le> execution_at
      then Some (reason_value ReasonEXECUTION_LEASE_EXPIRED)
      else None)"

definition execute_dispatch ::
  "'s action_runtime \<Rightarrow> action_definition \<Rightarrow> stored_proposal \<Rightarrow> stored_proposal \<Rightarrow> authority_binding
     \<Rightarrow> authority_evidence list \<Rightarrow> resolved_state \<Rightarrow> instant \<Rightarrow> ('s world, action_operation_result) eff" where
  "execute_dispatch rt d record executing binding valid_evidence resolved admitted_at =
     bind (clock_now rt) (\<lambda>execution_at.
     case dispatch_refusal d record binding valid_evidence admitted_at execution_at of
       Some refusal \<Rightarrow>
         settle_execution rt d executing
           \<lparr>er_status = ExecFAILED_KNOWN, er_result = None, er_item_outcomes = [],
            er_external_reference = None, er_reason_code = Some refusal\<rparr> execution_at
     | None \<Rightarrow>
     bind (lift (execution_context_of record execution_at (Some valid_evidence))) (\<lambda>context.
     bind (call_host rt
             (CallExecutor (rs_current_snapshot resolved) context (rs_execution_precondition resolved))
             (\<lambda>n. ad_executor d n (rs_current_snapshot resolved) context
                    (rs_execution_precondition resolved))) (\<lambda>execution.
     bind (clock_now rt) (\<lambda>now.
     settle_execution rt d executing execution now))))"

definition execute_admit ::
  "'s action_runtime \<Rightarrow> action_definition \<Rightarrow> stored_proposal \<Rightarrow> authority_binding
     \<Rightarrow> authority_evidence list \<Rightarrow> resolved_state \<Rightarrow> ('s world, action_operation_result) eff" where
  "execute_admit rt d record binding valid_evidence resolved =
     bind (clock_now rt) (\<lambda>admitted_at.
     if sp_expires_at record \<le> admitted_at then expire_now rt record
     else if valid_authority_evidence valid_evidence binding admitted_at \<noteq> valid_evidence
     then block rt d record admitted_at (reason_value ReasonAUTHORITY_EXPIRED)
     else
     bind (new_identifier rt ''receipt'') (\<lambda>receipt_reference.
     let started_receipt = ExecutionReceipt
           (receipt_base_of rt receipt_reference (sp_proposal_reference record)
              (sp_proposal_reference record) admitted_at None None)
           ExecutionSTARTED (ad_executor_identity d) [];
         executing = record\<lparr>sp_execution_precondition := Some (rs_execution_precondition resolved),
                            sp_lifecycle_status := EXECUTING,
                            sp_next_verification_at :=
                              Some (admitted_at + ad_verification_lease_duration d),
                            sp_receipts := sp_receipts record @ [started_receipt],
                            sp_revision := sp_revision record + 1\<rparr> in
     bind (call_store rt (CallAdmit record admitted_at executing)
             (as_admit_execution (rt_store rt) (sp_tenant_reference record)
                (sp_proposal_reference record) (sp_revision record) admitted_at executing))
       (\<lambda>claim.
     if claim = ClaimCONFLICT
     then bind (required rt (sp_tenant_reference record) (sp_proposal_reference record))
            (\<lambda>current. return (result current
               (if sp_lifecycle_status current = EXECUTING then OutcomeIN_PROGRESS
                else OutcomeREPLAYED)))
     else if claim = ClaimPROPOSAL_NOT_FOUND then raise ProposalNotFoundError
     else if claim = ClaimPROPOSAL_NOT_AUTHORIZED
     then bind (required rt (sp_tenant_reference record) (sp_proposal_reference record))
            (\<lambda>current. return (result current (outcome_for (sp_lifecycle_status current))))
     else execute_dispatch rt d record executing binding valid_evidence resolved admitted_at)))"

definition execute_reauthorize ::
  "'s action_runtime \<Rightarrow> action_definition \<Rightarrow> stored_proposal \<Rightarrow> authority_binding \<Rightarrow> resolved_state
     \<Rightarrow> ('s world, action_operation_result) eff" where
  "execute_reauthorize rt d record binding resolved =
     bind (clock_now rt) (\<lambda>admitted_at.
     if sp_expires_at record \<le> admitted_at then expire_now rt record
     else
     bind (evaluate_authority rt d record binding admitted_at) (\<lambda>(valid_evidence, authority).
     if \<not> ae_satisfied authority
     then block rt d record admitted_at (authority_refusal record valid_evidence authority)
     else
     bind (lift (execution_context_of record admitted_at (Some valid_evidence))) (\<lambda>context.
     bind (call_host rt (CallCanExecute (rs_current_snapshot resolved) context)
             (\<lambda>n. ad_can_execute d n (rs_current_snapshot resolved) context))
       (\<lambda>live_authorization.
     if \<not> ar_allowed live_authorization
     then block rt d record admitted_at
            (py_or (ar_reason_code live_authorization) (reason_value ReasonREAUTHORIZATION_FAILED))
     else execute_admit rt d record binding valid_evidence resolved))))"

definition execute ::
  "'s action_runtime \<Rightarrow> action_definition \<Rightarrow> pystr \<Rightarrow> pystr \<Rightarrow> ('s world, action_operation_result) eff" where
  "execute rt d tenant_reference proposal_reference =
     bind (required rt tenant_reference proposal_reference) (\<lambda>record.
     if sp_action_type record \<noteq> ad_action_type d then raise ProposalNotFoundError
     else if sp_erasure_pending_at record \<noteq> None \<or> sp_erased_at record \<noteq> None
     then raise ProposalNotFoundError
     else if sp_lifecycle_status record = AWAITING_AUTHORITY
     then return (result record OutcomeAUTHORITY_PENDING)
     else if sp_lifecycle_status record \<noteq> AUTHORIZED
     then return (result record (outcome_for (sp_lifecycle_status record)))
     else
     bind (clock_now rt) (\<lambda>now.
     if sp_expires_at record \<le> now then expire_now rt record
     else
     bind (load_private rt d record) (\<lambda>loaded.
     case loaded of
       None \<Rightarrow> block rt d record now (reason_value ReasonPRIVATE_SNAPSHOT_UNAVAILABLE)
     | Some snapshot \<Rightarrow>
     case sp_commitment record of
       None \<Rightarrow> block rt d record now (reason_value ReasonPROPOSAL_COMMITMENT_UNAVAILABLE)
     | Some commitment \<Rightarrow>
     let binding = authority_binding_of d record commitment in
     bind (evaluate_authority rt d record binding now) (\<lambda>(valid_evidence, authority).
     if \<not> ae_satisfied authority
     then block rt d record now (authority_refusal record valid_evidence authority)
     else
     bind (lift (execution_context_of record now (Some valid_evidence))) (\<lambda>context.
     bind (call_host rt (CallResolve snapshot context) (\<lambda>n. ad_state_resolver d n snapshot context))
       (\<lambda>resolved.
     if hm_class (rs_current_snapshot resolved) \<noteq> ad_private_snapshot_model d
     then raise (InvalidActionResultError WrongResolvedSnapshotModel)
     else if rs_materially_drifted resolved
     then supersede_stale rt d record (rs_replacement resolved) now
     else execute_reauthorize rt d record binding resolved))))))"

section \<open>Every operation follows the store\<close>

lemmas execute_defs = execute_dispatch_def execute_admit_def execute_reauthorize_def execute_def

context governed_runtime
begin

lemma steps_settle_execution [steps_intros]: "steps view good (settle_execution rt d record x now)"
  unfolding settle_execution_def Let_def by (intro steps_intros)

lemma steps_refusals [steps_intros]:
  "steps view good (block rt d record now rc)"
  "steps view good (supersede_stale rt d record repl now)"
  "steps view good (expire_now rt record)"
  unfolding block_def supersede_stale_def expire_now_def Let_def by (intro steps_intros)+

lemma steps_execute [steps_intros]: "steps view good (execute rt d t r)"
  unfolding execute_defs Let_def by (intro steps_intros)

end

end
