(* ===== verification/Runtime_Reconcile.thy ===== *)
theory Runtime_Reconcile
  imports Runtime_Execute
begin

text \<open>
  Authoritative verification in \<open>runtime.py\<close>: \<open>_verification_transition\<close>, \<open>_settle_verification\<close>,
  \<open>reconcile\<close> and the operator's \<open>resume_verification\<close>; then \<open>read\<close>, \<open>observation_context\<close> and
  \<open>erase\<close>.
\<close>

section \<open>Settling a verification\<close>

definition verification_transition ::
  "action_definition \<Rightarrow> stored_proposal \<Rightarrow> verification_result \<Rightarrow> int
     \<Rightarrow> lifecycle_status \<times> operation_outcome \<times> pystr option" where
  "verification_transition d record verification attempts =
     (if vr_status verification = VERIFIED_COMPLETION
      then if vr_item_outcomes verification \<noteq> []
              \<and> (ad_effect_kind d \<noteq> Itemized \<or> sp_effect_kind record \<noteq> Itemized)
           then (VERIFICATION_UNRESOLVED, OutcomeVERIFICATION_UNRESOLVED,
                 Some (reason_value ReasonPARTIAL_NOT_DECLARED))
           else if list_ex (\<lambda>i. io_status i \<noteq> ItemSUCCEEDED) (vr_item_outcomes verification)
           then (PARTIALLY_SUCCEEDED, OutcomePARTIALLY_SUCCEEDED, vr_reason_code verification)
           else (VERIFIED, OutcomeVERIFIED, vr_reason_code verification)
      else if vr_status verification = VERIFIED_TERMINAL_FAILURE
      then (FAILED_KNOWN, OutcomeFAILED_KNOWN,
            Some (py_or (vr_reason_code verification) (reason_value ReasonVERIFIED_TERMINAL_FAILURE)))
      else if vr_status verification = AUTHORITATIVE_FINAL_ABSENCE
      then if ad_allow_resend_after_final_absence d
              \<and> vr_settling_boundary_passed verification
              \<and> vr_target_idempotency_guaranteed verification
           then (AUTHORIZED, OutcomeRESEND_ALLOWED,
                 Some (reason_value ReasonAUTHORITATIVE_FINAL_ABSENCE))
           else (FAILED_KNOWN, OutcomeFAILED_KNOWN,
                 Some (reason_value ReasonAUTHORITATIVE_FINAL_ABSENCE))
      else if attempts \<ge> sp_max_verification_attempts record
      then (VERIFICATION_UNRESOLVED, OutcomeVERIFICATION_UNRESOLVED,
            Some (py_or (vr_reason_code verification) (reason_value ReasonVERIFICATION_RETRIES_EXHAUSTED)))
      else (VERIFICATION_PENDING, OutcomeVERIFICATION_PENDING, vr_reason_code verification))"

fun verification_receipt_status_of :: "verification_status \<Rightarrow> verification_receipt_status" where
  "verification_receipt_status_of VERIFIED_COMPLETION = ReceiptVERIFIED_COMPLETION"
| "verification_receipt_status_of VERIFIED_TERMINAL_FAILURE = ReceiptVERIFIED_TERMINAL_FAILURE"
| "verification_receipt_status_of PROVISIONAL_ABSENCE = ReceiptPROVISIONAL_ABSENCE"
| "verification_receipt_status_of AUTHORITATIVE_FINAL_ABSENCE = ReceiptAUTHORITATIVE_FINAL_ABSENCE"
| "verification_receipt_status_of TARGET_UNAVAILABLE = ReceiptTARGET_UNAVAILABLE"

definition settle_verification ::
  "'s action_runtime \<Rightarrow> action_definition \<Rightarrow> stored_proposal \<Rightarrow> verification_result \<Rightarrow> instant
     \<Rightarrow> ('s world, action_operation_result) eff" where
  "settle_verification rt d record verification now =
     bind (lift (validate_result_type d (vr_result verification))) (\<lambda>_.
     let attempts = sp_verification_attempts record in
     bind (new_identifier rt ''receipt'') (\<lambda>receipt_reference.
     let receipt = VerificationReceipt
           (receipt_base_of rt receipt_reference (sp_proposal_reference record)
              (sp_proposal_reference record) now (vr_external_reference verification)
              (vr_reason_code verification))
           (verification_receipt_status_of (vr_status verification)) (ad_target_identity d)
           (vr_item_outcomes verification) in
     bind (case vr_result verification of
             None \<Rightarrow> return (sp_safe_result record)
           | Some m \<Rightarrow> bind (lift (model_json_object m)) (\<lambda>j. return (Some j))) (\<lambda>safe_result.
     case verification_transition d record verification attempts of (target, outcome, reason_code) \<Rightarrow>
     let settled = record\<lparr>sp_lifecycle_status := target,
                          sp_receipts := sp_receipts record @ [receipt],
                          sp_safe_result := safe_result,
                          sp_verification_attempts :=
                            (if outcome = OutcomeRESEND_ALLOWED then 0 else attempts),
                          sp_next_verification_at :=
                            (if target = VERIFICATION_PENDING
                             then Some (now + ad_verification_delay d) else None),
                          sp_revision := sp_revision record + 1\<rparr> in
     bind (cas rt record settled) (\<lambda>won.
     if \<not> won
     then bind (required rt (sp_tenant_reference record) (sp_proposal_reference record))
            (\<lambda>current. return (result current OutcomeIN_PROGRESS))
     else
     bind (emit rt settled VERIFICATION_OBSERVED now reason_code) (\<lambda>_.
     return (result_because settled outcome reason_code))))))"

section \<open>reconcile\<close>

text \<open>
  \<open>reconcile_observe\<close> is the second half of the handler, from the test of the next
  verification instant on; the first half brings the record to \<open>VERIFICATION_PENDING\<close>.
\<close>

definition reconcile_observe ::
  "'s action_runtime \<Rightarrow> action_definition \<Rightarrow> pystr \<Rightarrow> pystr \<Rightarrow> stored_proposal \<Rightarrow> instant
     \<Rightarrow> ('s world, action_operation_result) eff" where
  "reconcile_observe rt d tenant_reference proposal_reference record now =
     (if (case sp_next_verification_at record of None \<Rightarrow> False | Some t \<Rightarrow> t > now)
      then return (result record OutcomeVERIFICATION_PENDING)
      else if sp_verification_attempts record \<ge> sp_max_verification_attempts record
      then
        let unresolved = record\<lparr>sp_lifecycle_status := VERIFICATION_UNRESOLVED,
                                sp_next_verification_at := None,
                                sp_revision := sp_revision record + 1\<rparr> in
        bind (cas rt record unresolved) (\<lambda>won.
        if \<not> won
        then bind (required rt tenant_reference proposal_reference)
               (\<lambda>current. return (result current OutcomeIN_PROGRESS))
        else
        bind (emit rt unresolved LIFECYCLE_CHANGED now
                (Some (reason_value ReasonVERIFICATION_RETRIES_EXHAUSTED))) (\<lambda>_.
        return (result_because unresolved OutcomeVERIFICATION_UNRESOLVED
                  (Some (reason_value ReasonVERIFICATION_RETRIES_EXHAUSTED)))))
      else
        let admitted = record\<lparr>sp_next_verification_at := Some (now + ad_verification_lease_duration d),
                              sp_verification_attempts := sp_verification_attempts record + 1,
                              sp_revision := sp_revision record + 1\<rparr> in
        bind (cas rt record admitted) (\<lambda>won.
        if \<not> won
        then bind (required rt tenant_reference proposal_reference)
               (\<lambda>current. return (result current OutcomeIN_PROGRESS))
        else
        bind (lift (execution_context_of admitted now None)) (\<lambda>context.
        bind (call_host rt (CallVerifier context) (\<lambda>n. ad_verifier d n context)) (\<lambda>verification.
        settle_verification rt d admitted verification now))))"

definition reconcile ::
  "'s action_runtime \<Rightarrow> action_definition \<Rightarrow> pystr \<Rightarrow> pystr \<Rightarrow> ('s world, action_operation_result) eff" where
  "reconcile rt d tenant_reference proposal_reference =
     bind (required rt tenant_reference proposal_reference) (\<lambda>record.
     if sp_action_type record \<noteq> ad_action_type d then raise ProposalNotFoundError
     else if sp_erasure_pending_at record \<noteq> None \<or> sp_erased_at record \<noteq> None
     then raise ProposalNotFoundError
     else
     bind (clock_now rt) (\<lambda>now.
     if sp_lifecycle_status record = EXECUTING
        \<and> (case sp_next_verification_at record of None \<Rightarrow> False | Some t \<Rightarrow> t > now)
     then return (result record OutcomeIN_PROGRESS)
     else if sp_lifecycle_status record \<in> {EXECUTING, FAILED_UNKNOWN}
     then
       let pending = record\<lparr>sp_lifecycle_status := VERIFICATION_PENDING,
                            sp_revision := sp_revision record + 1\<rparr> in
       bind (cas rt record pending) (\<lambda>won.
       if \<not> won
       then bind (required rt tenant_reference proposal_reference)
              (\<lambda>current. return (result current OutcomeIN_PROGRESS))
       else reconcile_observe rt d tenant_reference proposal_reference pending now)
     else if sp_lifecycle_status record \<noteq> VERIFICATION_PENDING
     then return (result record (outcome_for (sp_lifecycle_status record)))
     else reconcile_observe rt d tenant_reference proposal_reference record now))"

section \<open>resume_verification\<close>

definition causal_receipt :: "receipt list \<Rightarrow> receipt option" where
  "causal_receipt receipts =
     (case filter is_verification_receipt (rev receipts) of
        r # _ \<Rightarrow> Some r
      | [] \<Rightarrow> (if receipts \<noteq> [] then Some (last receipts) else None))"

definition resume_verification ::
  "'s action_runtime \<Rightarrow> action_definition \<Rightarrow> pystr \<Rightarrow> pystr \<Rightarrow> int \<Rightarrow> recovery_operator \<Rightarrow> pystr
     \<Rightarrow> ('s world, action_operation_result) eff" where
  "resume_verification rt d tenant_reference proposal_reference expected_revision operator
       intervention_reference =
     bind (required rt tenant_reference proposal_reference) (\<lambda>record.
     if sp_action_type record \<noteq> ad_action_type d then raise ProposalNotFoundError
     else if sp_erasure_pending_at record \<noteq> None \<or> sp_erased_at record \<noteq> None
     then raise ProposalNotFoundError
     else
     bind (clock_now rt) (\<lambda>now.
     bind (safe_reference rt tenant_reference) (\<lambda>_.
     bind (safe_reference rt intervention_reference) (\<lambda>_.
     let context = \<lparr>rx_tenant_reference = tenant_reference, rx_operator = operator,
                    rx_intervention_reference = intervention_reference, rx_requested_at = now\<rparr> in
     case ad_recovery_authorization d of
       None \<Rightarrow> raise (AuthorizationDeniedError (reason_value ReasonRECOVERY_NOT_AUTHORIZED))
     | Some can_recover \<Rightarrow>
     bind (call_host rt (CallCanRecover proposal_reference context)
             (\<lambda>n. can_recover n proposal_reference context)) (\<lambda>recovery_authorization.
     if \<not> ar_allowed recovery_authorization
     then raise (AuthorizationDeniedError
            (py_or (ar_reason_code recovery_authorization) (reason_value ReasonRECOVERY_NOT_AUTHORIZED)))
     else if sp_lifecycle_status record \<notin> {VERIFICATION_PENDING, VERIFICATION_UNRESOLVED}
     then return (result record (outcome_for (sp_lifecycle_status record)))
     else if sp_revision record \<noteq> expected_revision
     then return (result record OutcomeCONFLICT)
     else
     case causal_receipt (sp_receipts record) of
       None \<Rightarrow> raise (StoreInvariantError RecoveryWithoutReceipt)
     | Some cause \<Rightarrow>
     bind (new_identifier rt ''receipt'') (\<lambda>receipt_reference.
     let receipt = RecoveryReceipt
           (receipt_base_of rt receipt_reference (sp_proposal_reference record)
              (rb_receipt_reference (receipt_head cause)) now
              (Some \<lparr>xr_system = ''host_operator_intervention'', xr_reference = intervention_reference\<rparr>)
              (Some (reason_value ReasonOPERATOR_VERIFICATION_RESUMED)))
           RecoveryVERIFICATION_RESUMED operator;
         resumed = record\<lparr>sp_lifecycle_status := VERIFICATION_PENDING,
                          sp_verification_attempts := 0,
                          sp_next_verification_at := Some now,
                          sp_receipts := sp_receipts record @ [receipt],
                          sp_revision := sp_revision record + 1\<rparr> in
     bind (cas rt record resumed) (\<lambda>won.
     if \<not> won
     then bind (required rt tenant_reference proposal_reference)
            (\<lambda>current. return (result current OutcomeCONFLICT))
     else
     bind (emit rt resumed VERIFICATION_RESUMED now
             (Some (reason_value ReasonOPERATOR_VERIFICATION_RESUMED))) (\<lambda>_.
     reconcile rt d tenant_reference proposal_reference))))))))"

section \<open>Reading\<close>

definition read ::
  "'s action_runtime \<Rightarrow> action_definition \<Rightarrow> pystr \<Rightarrow> read_context \<Rightarrow> ('s world, proposal_view) eff" where
  "read rt d proposal_reference context =
     bind (required rt (rd_tenant_reference context) proposal_reference) (\<lambda>record.
     if sp_action_type record \<noteq> ad_action_type d then raise ProposalNotFoundError
     else
     bind (call_host rt (CallCanRead proposal_reference context)
             (\<lambda>n. ad_can_read d n proposal_reference context)) (\<lambda>allowed.
     if \<not> allowed then raise ProposalNotFoundError
     else
     let erased = (sp_erasure_pending_at record \<noteq> None \<or> sp_erased_at record \<noteq> None) in
     return
       \<lparr>pv_proposal_reference = sp_proposal_reference record,
        pv_lifecycle_status = sp_lifecycle_status record,
        pv_revision = sp_revision record,
        pv_display_preview = (if erased then [] else sp_display_preview record),
        pv_receipts = (if erased then [] else sp_receipts record),
        pv_safe_result = (if erased then None else sp_safe_result record),
        pv_erased = erased\<rparr>))"

definition observation_context ::
  "'s action_runtime \<Rightarrow> action_definition \<Rightarrow> pystr \<Rightarrow> read_context \<Rightarrow> ('s world, execution_context) eff" where
  "observation_context rt d proposal_reference context =
     bind (required rt (rd_tenant_reference context) proposal_reference) (\<lambda>record.
     if sp_action_type record \<noteq> ad_action_type d then raise ProposalNotFoundError
     else
     bind (call_host rt (CallCanRead proposal_reference context)
             (\<lambda>n. ad_can_read d n proposal_reference context)) (\<lambda>allowed.
     if \<not> allowed then raise ProposalNotFoundError
     else if sp_erasure_pending_at record \<noteq> None \<or> sp_erased_at record \<noteq> None
     then raise ProposalNotFoundError
     else
     bind (clock_now rt) (\<lambda>observed_at.
     lift (execution_context_of record observed_at None))))"

section \<open>erase\<close>

text \<open>
  \<open>erase_destroy\<close> is the part of \<open>erase\<close> that follows the durable mark: key material first, then
  the tombstone.
\<close>

definition erase_destroy ::
  "'s action_runtime \<Rightarrow> 's retention_store \<Rightarrow> action_definition \<Rightarrow> pystr \<Rightarrow> read_context \<Rightarrow> stored_proposal
     \<Rightarrow> instant \<Rightarrow> ('s world, action_operation_result) eff" where
  "erase_destroy rt retention d proposal_reference context record now =
     (let ident = \<lparr>pi_tenant_reference = sp_tenant_reference record,
                   pi_proposal_reference = sp_proposal_reference record\<rparr> in
     bind (case sp_protected_private_snapshot record of
             None \<Rightarrow> return ()
           | Some protected \<Rightarrow> destroy_payload rt (ad_protection_codec d) ident protected) (\<lambda>_.
     bind (case sp_commitment record of
             None \<Rightarrow> return ()
           | Some commitment \<Rightarrow> destroy_commitment rt (ad_commitment_provider d) ident commitment) (\<lambda>_.
     bind (call_store rt (CallCompleteErasure record now)
             (rs_complete_erasure retention (sp_tenant_reference record) (sp_proposal_reference record)
                (sp_revision record) now)) (\<lambda>completed.
     if \<not> completed
     then bind (required rt (rd_tenant_reference context) proposal_reference) (\<lambda>current.
            if sp_erased_at current \<noteq> None then return (result current OutcomeERASED)
            else return (result current OutcomeCONFLICT))
     else
     bind (required rt (rd_tenant_reference context) proposal_reference) (\<lambda>erased.
     bind (emit rt erased PROPOSAL_ERASED now None) (\<lambda>_.
     return (result erased OutcomeERASED)))))))"

definition erase ::
  "'s action_runtime \<Rightarrow> action_definition \<Rightarrow> pystr \<Rightarrow> read_context \<Rightarrow> ('s world, action_operation_result) eff" where
  "erase rt d proposal_reference context =
     (case rt_retention_store rt of
        None \<Rightarrow> raise RetentionStoreUnavailableError
      | Some retention \<Rightarrow>
     bind (call_host rt (CallAuthorizeErasure proposal_reference context)
             (\<lambda>n. ad_authorize_erasure d n proposal_reference context)) (\<lambda>authorized.
     if \<not> authorized then raise ProposalNotFoundError
     else
     bind (required rt (rd_tenant_reference context) proposal_reference) (\<lambda>record.
     if sp_action_type record \<noteq> ad_action_type d then raise ProposalNotFoundError
     else if sp_erased_at record \<noteq> None then return (result record OutcomeERASED)
     else
     bind (clock_now rt) (\<lambda>now.
     if sp_erasure_pending_at record \<noteq> None
     then erase_destroy rt retention d proposal_reference context record now
     else
     bind (call_store rt (CallMarkPending record now)
             (rs_mark_erasure_pending retention (sp_tenant_reference record)
                (sp_proposal_reference record) (sp_revision record) now)) (\<lambda>marked.
     bind (required rt (rd_tenant_reference context) proposal_reference) (\<lambda>reread.
     if marked then erase_destroy rt retention d proposal_reference context reread now
     else if sp_erased_at reread \<noteq> None then return (result reread OutcomeERASED)
     else if sp_erasure_pending_at reread = None then return (result reread OutcomeCONFLICT)
     else erase_destroy rt retention d proposal_reference context reread now))))))"

section \<open>Every operation follows the store\<close>

context governed_runtime
begin

lemma steps_reconcile_observe [steps_intros]: "steps view good (reconcile_observe rt d t r record now)"
  unfolding reconcile_observe_def settle_verification_def Let_def by (intro steps_intros)

lemma steps_reconcile [steps_intros]: "steps view good (reconcile rt d t r)"
  unfolding reconcile_def Let_def by (intro steps_intros)

lemma steps_resume_verification [steps_intros]:
  "steps view good (resume_verification rt d t r n op ir)"
  unfolding resume_verification_def Let_def by (intro steps_intros)

lemma steps_read [steps_intros]:
  "steps view good (read rt d r c)" "steps view good (observation_context rt d r c)"
  unfolding read_def observation_context_def Let_def by (intro steps_intros)+

lemma steps_erase [steps_intros]: "steps view good (erase rt d r c)"
proof (cases "rt_retention_store rt")
  case None
  then show ?thesis by (simp add: erase_def steps_intros)
next
  case (Some retention)
  then show ?thesis
    unfolding erase_def erase_destroy_def Let_def
    by (simp only: option.case) (intro steps_intros steps_retention_calls)
qed

end

end
