(* ===== verification/Runtime_Traces.thy ===== *)
theory Runtime_Traces
  imports Runtime_Reconcile
begin

text \<open>
  Reasoning on the order of the calls an operation makes. \<open>trace_ok J\<close> says that every call of a
  trace is allowed by \<open>J\<close> given the calls made before it. The rules of this theory are the
  weakest preconditions of the primitives as introduction rules that forget everything about the
  world except its trace, so that a proof about the order of calls holds for every clock,
  host, store, interference and fault.
\<close>

section \<open>Ordered traces\<close>

definition trace_ok :: "(call list \<Rightarrow> call \<Rightarrow> bool) \<Rightarrow> call list \<Rightarrow> bool" where
  "trace_ok J tr \<longleftrightarrow> (\<forall>pre c post. tr = pre @ c # post \<longrightarrow> J pre c)"

abbreviation ordered :: "(call list \<Rightarrow> call \<Rightarrow> bool) \<Rightarrow> 's world \<Rightarrow> bool" where
  "ordered J w \<equiv> trace_ok J (w_trace w)"

lemma trace_ok_Nil [simp]: "trace_ok J []"
  by (simp add: trace_ok_def)

lemma trace_ok_snoc [simp]: "trace_ok J (tr @ [c]) \<longleftrightarrow> trace_ok J tr \<and> J tr c"
proof
  assume ok: "trace_ok J (tr @ [c])"
  have "J pre x" if "tr = pre @ x # post" for pre x post
    using ok that unfolding trace_ok_def by (metis Cons_eq_appendI append_assoc)
  with ok show "trace_ok J tr \<and> J tr c" by (auto simp: trace_ok_def)
next
  assume ok: "trace_ok J tr \<and> J tr c"
  show "trace_ok J (tr @ [c])"
    unfolding trace_ok_def
  proof (intro allI impI)
    fix pre x post
    assume eq: "tr @ [c] = pre @ x # post"
    show "J pre x"
    proof (cases post rule: rev_cases)
      case Nil
      with eq ok show ?thesis by simp
    next
      case (snoc post' y)
      with eq have "tr = pre @ x # post'" by simp
      with ok show ?thesis by (simp add: trace_ok_def)
    qed
  qed
qed

lemma trace_okD: "trace_ok J tr \<Longrightarrow> tr = pre @ c # post \<Longrightarrow> J pre c"
  by (simp add: trace_ok_def)

lemma trace_ok_append:
  assumes "trace_ok J tr" and "\<And>pre c. c \<in> set new \<Longrightarrow> J pre c"
  shows "trace_ok J (tr @ new)"
  using assms
proof (induction new rule: rev_induct)
  case Nil
  then show ?case by simp
next
  case (snoc c new)
  then show ?case by (simp flip: append_assoc)
qed

section \<open>Introduction rules\<close>

named_theorems trace_intros \<open>weakest preconditions that keep only the trace\<close>

lemma wpi_return [trace_intros]: "Q a w \<Longrightarrow> wp (return a) Q E w"
  by simp

lemma wpi_throw [trace_intros]: "E r w \<Longrightarrow> wp (throw r) Q E w"
  by simp

lemma wpi_raise [trace_intros]: "E (Raised e []) w \<Longrightarrow> wp (raise e) Q E w"
  by simp

lemma wpi_lift [trace_intros]:
  "(\<And>e. r = Inl e \<Longrightarrow> E e w) \<Longrightarrow> (\<And>a. r = Inr a \<Longrightarrow> Q a w) \<Longrightarrow> wp (lift r) Q E w"
  by (cases r) simp_all

lemma wpi_bind [trace_intros]: "wp m (\<lambda>a. wp (f a) Q E) E w \<Longrightarrow> wp (bind m f) Q E w"
  by simp

lemma wpi_handle [trace_intros]: "wp m Q (\<lambda>r. wp (h r) Q E) w \<Longrightarrow> wp (handle m h) Q E w"
  by simp

lemma wpi_attempt [trace_intros]:
  "wp m (\<lambda>a. Q (Inr a)) (\<lambda>r. Q (Inl r)) w \<Longrightarrow> wp (attempt m) Q E w"
  by simp

lemma wpi_if [trace_intros]:
  "(b \<Longrightarrow> wp m Q E w) \<Longrightarrow> (\<not> b \<Longrightarrow> wp n Q E w) \<Longrightarrow> wp (if b then m else n) Q E w"
  by simp

lemma wpi_case_option [trace_intros]:
  "(x = None \<Longrightarrow> wp m Q E w) \<Longrightarrow> (\<And>a. x = Some a \<Longrightarrow> wp (f a) Q E w) \<Longrightarrow>
   wp (case x of None \<Rightarrow> m | Some a \<Rightarrow> f a) Q E w"
  by (cases x) simp_all

lemma wpi_case_sum [trace_intros]:
  "(\<And>a. x = Inl a \<Longrightarrow> wp (f a) Q E w) \<Longrightarrow> (\<And>b. x = Inr b \<Longrightarrow> wp (g b) Q E w) \<Longrightarrow>
   wp (case x of Inl a \<Rightarrow> f a | Inr b \<Rightarrow> g b) Q E w"
  by (cases x) simp_all

lemma wpi_case_prod [trace_intros]:
  "(\<And>a b. x = (a, b) \<Longrightarrow> wp (f a b) Q E w) \<Longrightarrow> wp (case x of (a, b) \<Rightarrow> f a b) Q E w"
  by (cases x) simp_all

lemma wpi_clock [trace_intros]:
  "(\<And>now v. w_trace v = w_trace w \<Longrightarrow> Q now v) \<Longrightarrow> wp (clock_now rt) Q E w"
  by (simp add: wp_def clock_now_def)

lemma wpi_identifier [trace_intros]:
  "(\<And>x v. w_trace v = w_trace w \<Longrightarrow> Q x v) \<Longrightarrow> (\<And>e v. w_trace v = w_trace w \<Longrightarrow> E e v) \<Longrightarrow>
   wp (new_identifier rt p) Q E w"
  by (simp add: wp_def new_identifier_def split: sum.splits)

lemma wpi_safe_reference [trace_intros]:
  "Q () w \<Longrightarrow> E (Raised ValidationError []) w \<Longrightarrow> wp (safe_reference rt s) Q E w"
  by (simp add: safe_reference_def)

lemma wpi_call_host [trace_intros]:
  "(\<And>a v. w_trace v = w_trace w @ [entry (Inr a)] \<Longrightarrow> Q a v) \<Longrightarrow>
   (\<And>e v. w_trace v = w_trace w @ [entry (Inl e)] \<Longrightarrow> E e v) \<Longrightarrow>
   wp (call_host rt entry port) Q E w"
  by (simp add: wp_def call_host_def Let_def split: sum.splits)

lemma wpi_call_store [trace_intros]:
  "(\<And>a v. w_trace v = w_trace w @ [entry (Inr a)] \<Longrightarrow> Q a v) \<Longrightarrow>
   (\<And>e v. w_trace v = w_trace w @ [entry (Inl e)] \<Longrightarrow> E e v) \<Longrightarrow>
   wp (call_store rt entry m) Q E w"
  by (simp add: wp_def call_store_def Let_def split: sum.splits prod.splits)

lemma wpi_emits:
  assumes "emits P m"
    and "\<And>a v tr. w_trace v = w_trace w @ tr \<Longrightarrow> \<forall>c\<in>set tr. P c \<Longrightarrow> Q a v"
    and "\<And>e v tr. w_trace v = w_trace w @ tr \<Longrightarrow> \<forall>c\<in>set tr. P c \<Longrightarrow> E e v"
  shows "wp m Q E w"
proof -
  obtain r v where r: "m w = (r, v)" by force
  obtain tr where "w_trace v = w_trace w @ tr" "\<forall>c\<in>set tr. P c" using emitsD [OF assms(1) r] by blast
  with assms(2,3) r show ?thesis by (simp add: wp_def split: sum.splits)
qed

text \<open>Helpers whose calls are allowed anywhere keep an ordered trace ordered.\<close>

lemma wp_ordered_emits:
  fixes w :: "'s world"
  assumes "emits (\<lambda>c. \<forall>pre. J pre c) m" and "ordered J w"
    and "\<And>a v. ordered J v \<Longrightarrow> set (w_trace w) \<subseteq> set (w_trace v) \<Longrightarrow> Q a v"
    and "\<And>e v. ordered J v \<Longrightarrow> E e v"
  shows "wp m Q E w"
proof (rule wpi_emits [OF assms(1)])
  fix a and v :: "'s world" and tr
  assume tr: "w_trace v = w_trace w @ tr" "\<forall>c\<in>set tr. \<forall>pre. J pre c"
  then have "ordered J v" using assms(2) by (simp add: trace_ok_append)
  with tr(1) show "Q a v" by (intro assms(3)) auto
next
  fix e and v :: "'s world" and tr
  assume "w_trace v = w_trace w @ tr" "\<forall>c\<in>set tr. \<forall>pre. J pre c"
  then have "ordered J v" using assms(2) by (simp add: trace_ok_append)
  then show "E e v" by (rule assms(4))
qed

end
