(* ===== verification/Scenario.thy ===== *)
theory Scenario
  imports Runtime_Reconcile
begin

text \<open>
  A concrete host and concrete runs, on which the properties of the runtime are instantiated: a
  refund of one order, protected by a codec that stores its input and committed to by a provider
  whose digest is its input (the laws the runtime relies on hold for both), approved by one
  authority, executed and verified on an in-memory store nobody else uses.
\<close>

definition demo_action_type :: action_type where
  "demo_action_type = \<lparr>at_namespace = ''shop.orders'', at_name = ''refund'', at_version = 1\<rparr>"

definition demo_model :: "nat \<Rightarrow> int \<Rightarrow> host_model" where
  "demo_model cls amount = \<lparr>hm_class = cls, hm_json = JObj [(''amount'', JInt amount)]\<rparr>"

definition demo_prepared :: prepared_action where
  "demo_prepared =
     \<lparr>pa_private_snapshot = demo_model 2 7, pa_display_preview = demo_model 3 7,
      pa_semantic_effect_reference = ''order-1''\<rparr>"

definition demo_provider :: plain_commitment_provider where
  "demo_provider =
     \<lparr>cp_create = (\<lambda>n ref payload. Inr \<lparr>kc_algorithm = ''plain'', kc_key_handle = ''k'',
                     kc_key_version = ''1'', kc_digest = payload\<rparr>),
      cp_verify = (\<lambda>n ref payload c. Inr (kc_digest c = payload)),
      cp_destroy_commitment = (\<lambda>n c. Inr ())\<rparr>"

definition demo_codec :: plain_protection_codec where
  "demo_codec =
     \<lparr>pcodec_protect = (\<lambda>n ref payload. Inr \<lparr>pp_codec = ''plain'', pp_key_handle = ''k'',
                     pp_key_version = ''1'', pp_ciphertext = payload\<rparr>),
      pcodec_unprotect = (\<lambda>n p. Inr (pp_ciphertext p)),
      pcodec_destroy_payload = (\<lambda>n p. Inr ())\<rparr>"

definition demo_canonical :: bytes where
  "demo_canonical = [CHR 0x7B, CHR 0x22] @ ''amount'' @ [CHR 0x22] @ '':7}''"

definition demo_parse :: "nat \<Rightarrow> bytes \<Rightarrow> host_model outcome" where
  "demo_parse cls bs = (if bs = demo_canonical then Inr (demo_model cls 7) else fails ValidationError)"

definition allowed :: authorization_result where
  "allowed = \<lparr>ar_allowed = True, ar_reason_code = None\<rparr>"

definition demo_definition :: action_definition where
  "demo_definition =
     \<lparr>ad_action_type = demo_action_type, ad_command_model = 1, ad_private_snapshot_model = 2,
      ad_display_preview_model = 3, ad_result_model = 4,
      ad_preparation = (\<lambda>n c x. Inr demo_prepared),
      ad_can_prepare = (\<lambda>n c x. Inr allowed),
      ad_can_decide = (\<lambda>n e x. Inr allowed),
      ad_can_execute = (\<lambda>n s x. Inr allowed),
      ad_can_read = (\<lambda>n r x. Inr True),
      ad_authority_evaluator =
        (\<lambda>n b es. Inr (SingleApproval_evaluate (ConfirmingAuthority ''boss'') b es)),
      ad_state_resolver =
        (\<lambda>n s x. Inr \<lparr>rs_current_snapshot = s, rs_execution_precondition = ''v1'',
                      rs_materially_drifted = False, rs_replacement = None\<rparr>),
      ad_executor =
        (\<lambda>n s x p. Inr \<lparr>er_status = ExecACCEPTED, er_result = None, er_item_outcomes = [],
                        er_external_reference = None, er_reason_code = None\<rparr>),
      ad_verifier =
        (\<lambda>n x. Inr \<lparr>vr_status = VERIFIED_COMPLETION, vr_result = None, vr_item_outcomes = [],
                     vr_external_reference = None, vr_reason_code = None,
                     vr_settling_boundary_passed = False, vr_target_idempotency_guaranteed = False\<rparr>),
      ad_commitment_provider = PlainCommitmentProvider demo_provider,
      ad_protection_codec = PlainProtectionCodec demo_codec,
      ad_authorize_erasure = (\<lambda>n r x. Inr True),
      ad_proposal_ttl = 1000,
      ad_executor_identity = GovernedExecutor ''executor'',
      ad_target_identity = AuthoritativeTarget ''target'',
      ad_authority_audience = ''shop'',
      ad_authority_channel_assurance = ''signed'',
      ad_recovery_authorization = Some (\<lambda>n r x. Inr allowed),
      ad_verification_delay = 0,
      ad_max_verification_attempts = 3,
      ad_effect_kind = Single,
      ad_allow_resend_after_final_absence = False,
      ad_verification_lease_duration = 100,
      ad_nfc = (\<lambda>s. s),
      ad_parse_snapshot = demo_parse\<rparr>"

definition demo_base :: "mem_store action_runtime" where
  "demo_base =
     \<lparr>rt_store = memory_action_store, rt_retention_store = Some memory_retention_store,
      rt_clock = (\<lambda>n. 1000 + int n),
      rt_identifiers = (\<lambda>n prefix. Inr (prefix @ CHR '':'' # decimal n)),
      rt_event_sink = (\<lambda>n e. Inr ()),
      rt_runtime_revision = ''threvo-actions@1'',
      rt_safe_reference = (\<lambda>s. True),
      rt_others = (\<lambda>n s. s),
      rt_fault = (\<lambda>n. None)\<rparr>"

definition demo_runtime :: "mem_store action_runtime" where
  "demo_runtime = memory_runtime demo_base (\<lambda>_. [])"

definition demo_requester :: requesting_principal where
  "demo_requester = RequestingPrincipal ''alice''"

definition demo_evidence :: authority_evidence where
  "demo_evidence =
     \<lparr>ev_tenant_reference = ''t'', ev_action_type = demo_action_type,
      ev_proposal_instance_reference = ''p'', ev_semantic_effect_reference = ''order-1'',
      ev_authority = ConfirmingAuthority ''boss'', ev_audience = [''shop''], ev_decision = APPROVE,
      ev_proposal_commitment = projr (commitment_payload_v1 (\<lambda>s. s) ''p'' demo_canonical),
      ev_channel_assurance = ''signed'', ev_issued_at = 900, ev_expires_at = 1900,
      ev_external_attestation = None\<rparr>"

text \<open>The proposal of the run in a given status, and a store that holds it.\<close>

definition demo_commitment :: keyed_commitment where
  "demo_commitment =
     \<lparr>kc_algorithm = ''plain'', kc_key_handle = ''k'', kc_key_version = ''1'',
      kc_digest = projr (commitment_payload_v1 (\<lambda>s. s) ''p'' demo_canonical)\<rparr>"

definition demo_payload :: protected_payload where
  "demo_payload =
     \<lparr>pp_codec = ''plain'', pp_key_handle = ''k'', pp_key_version = ''1'', pp_ciphertext = demo_canonical\<rparr>"

definition demo_proposal :: "lifecycle_status \<Rightarrow> stored_proposal" where
  "demo_proposal status =
     \<lparr>sp_tenant_reference = ''t'', sp_proposal_reference = ''p'', sp_action_type = demo_action_type,
      sp_semantic_effect_reference = ''order-1'', sp_effect_kind = Single, sp_lifecycle_status = status,
      sp_revision = 1, sp_protected_private_snapshot = Some demo_payload,
      sp_commitment = Some demo_commitment, sp_display_preview = [(''amount'', JInt 7)],
      sp_requesting_principal = Some demo_requester, sp_proposing_agent = None, sp_created_at = 900,
      sp_expires_at = 1900,
      sp_authority_evidence = (if status = AWAITING_AUTHORITY then [] else [demo_evidence]),
      sp_receipts =
        [ProposalReceipt (receipt_base_of demo_runtime ''receipt:1'' ''p'' ''p'' 900 None None)
           ProposalPREPARED demo_requester None],
      sp_verification_attempts = 0, sp_max_verification_attempts = 3, sp_next_verification_at = None,
      sp_safe_result = None, sp_execution_precondition = None, sp_superseded_by = None,
      sp_erasure_pending_at = None, sp_erased_at = None\<rparr>"

definition demo_store :: "stored_proposal \<Rightarrow> mem_store" where
  "demo_store p =
     \<lparr>ms_proposals = (\<lambda>k. if k = (''t'', ''p'') then Some p else None),
      ms_effect_claims = (\<lambda>c. if c = (''t'', (''shop.orders'', ''refund'', 1), ''order-1'')
                             then Some ''p'' else None)\<rparr>"

definition demo_start :: "lifecycle_status \<Rightarrow> mem_store world" where
  "demo_start status = start (demo_store (demo_proposal status)) 0"

definition stored_status :: "mem_store world \<Rightarrow> lifecycle_status option" where
  "stored_status w = map_option sp_lifecycle_status (ms_proposals (w_store w) (''t'', ''p''))"

text \<open>The operations of the run.\<close>

definition demo_prepare :: "(mem_store world, action_operation_result) eff" where
  "demo_prepare = prepare demo_runtime demo_definition ''t'' (demo_model 1 7) demo_requester None (Some ''p'')"

definition demo_record :: "(mem_store world, action_operation_result) eff" where
  "demo_record = record_authority demo_runtime demo_definition demo_evidence (ConfirmingAuthority ''boss'') None"

definition demo_execute :: "(mem_store world, action_operation_result) eff" where
  "demo_execute = execute demo_runtime demo_definition ''t'' ''p''"

definition demo_reconcile :: "(mem_store world, action_operation_result) eff" where
  "demo_reconcile = reconcile demo_runtime demo_definition ''t'' ''p''"

lemma demo_evidence_simps [simp]:
  "ev_tenant_reference demo_evidence = ''t''" "ev_action_type demo_evidence = demo_action_type"
  "ev_proposal_instance_reference demo_evidence = ''p''"
  "ev_semantic_effect_reference demo_evidence = ''order-1''"
  "ev_proposal_commitment demo_evidence = projr (commitment_payload_v1 (\<lambda>s. s) ''p'' demo_canonical)"
  by (simp_all add: demo_evidence_def)

lemma demo_proposal_bound: "well_bound (demo_proposal st)"
  by (simp add: well_bound_def demo_proposal_def demo_commitment_def)

lemma demo_store_wf: "mem_wf (demo_store (demo_proposal st))"
  using demo_proposal_bound [of st]
  by (auto simp: mem_wf_def store_inv_def proposal_ok_def proposal_key_def owns_claim_def claim_key_def
      demo_store_def demo_proposal_def action_key_def demo_action_type_def)

end
