(* ===== verification/Dispatch.thy ===== *)
theory Dispatch
  imports Runtime_Traces Scenario
begin

text \<open>
  When the executor may be called. \<open>dispatch_allowed\<close> lists everything that must have happened
  earlier in the same operation; the theorems show that \<open>execute\<close> never calls the executor
  otherwise, so at most once, and that no other operation calls it at all.
\<close>

section \<open>Specification\<close>

definition authority_checked ::
  "action_definition \<Rightarrow> pystr \<Rightarrow> pystr \<Rightarrow> stored_proposal \<Rightarrow> keyed_commitment \<Rightarrow> call list \<Rightarrow> bool" where
  "authority_checked d t r record commitment before \<longleftrightarrow>
     CallGet t r (Inr (Some record)) \<in> set before
     \<and> sp_tenant_reference record = t \<and> sp_proposal_reference record = r
     \<and> sp_action_type record = ad_action_type d
     \<and> sp_lifecycle_status record = AUTHORIZED \<and> untouched record
     \<and> sp_commitment record = Some commitment
     \<and> (\<exists>ident payload. CallVerifyCommitment ident payload commitment (Inr True) \<in> set before)"

definition state_checked :: "resolved_state \<Rightarrow> call list \<Rightarrow> bool" where
  "state_checked resolved before \<longleftrightarrow>
     (\<exists>snapshot context. CallResolve snapshot context (Inr resolved) \<in> set before)
     \<and> \<not> rs_materially_drifted resolved"

definition evidence_checked ::
  "action_definition \<Rightarrow> stored_proposal \<Rightarrow> keyed_commitment \<Rightarrow> authority_evidence list \<Rightarrow> call list \<Rightarrow> bool" where
  "evidence_checked d record commitment evidence before \<longleftrightarrow>
     set evidence \<subseteq> set (sp_authority_evidence record)
     \<and> (\<exists>evaluation. CallEvaluate (authority_binding_of d record commitment) evidence (Inr evaluation)
            \<in> set before \<and> ae_satisfied evaluation)"

definition live_checked :: "resolved_state \<Rightarrow> call list \<Rightarrow> bool" where
  "live_checked resolved before \<longleftrightarrow>
     (\<exists>context authorization.
        CallCanExecute (rs_current_snapshot resolved) context (Inr authorization) \<in> set before
        \<and> ar_allowed authorization)"

definition admitted_last ::
  "action_definition \<Rightarrow> stored_proposal \<Rightarrow> resolved_state \<Rightarrow> instant \<Rightarrow> call list \<Rightarrow> bool" where
  "admitted_last d record resolved admitted_at before \<longleftrightarrow>
     (\<exists>executing claim earlier.
        before = earlier @ [CallAdmit record admitted_at executing (Inr claim)]
        \<and> claim \<in> {ClaimACQUIRED, ClaimOWNED_BY_PROPOSAL}
        \<and> sp_lifecycle_status executing = EXECUTING
        \<and> sp_execution_precondition executing = Some (rs_execution_precondition resolved))"

definition in_time ::
  "action_definition \<Rightarrow> stored_proposal \<Rightarrow> keyed_commitment \<Rightarrow> authority_evidence list \<Rightarrow> instant
     \<Rightarrow> execution_context \<Rightarrow> bool" where
  "in_time d record commitment evidence admitted_at context \<longleftrightarrow>
     ec_observed_at context < sp_expires_at record
     \<and> ec_observed_at context < admitted_at + ad_verification_lease_duration d
     \<and> (\<forall>e\<in>set evidence. av_valid (validate_authority_evidence e
            (authority_binding_of d record commitment) (ec_observed_at context)))
     \<and> ec_authorities context = map ev_authority (filter (\<lambda>e. ev_decision e = APPROVE) evidence)"

definition dispatch_allowed ::
  "action_definition \<Rightarrow> pystr \<Rightarrow> pystr \<Rightarrow> call list \<Rightarrow> call \<Rightarrow> bool" where
  "dispatch_allowed d t r before c =
     (case c of
        CallExecutor snapshot context precondition _ \<Rightarrow>
          \<not> list_ex is_executor_call before
          \<and> (\<exists>record commitment evidence resolved admitted_at.
              snapshot = rs_current_snapshot resolved
              \<and> precondition = rs_execution_precondition resolved
              \<and> authority_checked d t r record commitment before
              \<and> state_checked resolved before
              \<and> evidence_checked d record commitment evidence before
              \<and> live_checked resolved before
              \<and> admitted_last d record resolved admitted_at before
              \<and> in_time d record commitment evidence admitted_at context)
      | _ \<Rightarrow> True)"

abbreviation quiet :: "('s world, 'a) eff \<Rightarrow> bool" where
  "quiet m \<equiv> emits (\<lambda>c. \<not> is_executor_call c) m"

section \<open>Quiet operations\<close>

lemma dispatch_allowed_other: "\<not> is_executor_call c \<Longrightarrow> dispatch_allowed d t r pre c"
  by (cases c) (simp_all add: dispatch_allowed_def)

lemma dispatch_quiet_append [simp]:
  "trace_ok (dispatch_allowed d t r) tr \<Longrightarrow> \<forall>c\<in>set new. \<not> is_executor_call c \<Longrightarrow>
   trace_ok (dispatch_allowed d t r) (tr @ new)"
  by (simp add: trace_ok_append dispatch_allowed_other)

lemma quiet_persist [emits_intros]: "quiet (persist_prepared rt d t pr rq ag now ref)"
  unfolding persist_defs Let_def by (intro emits_intros) simp_all

lemma quiet_load_private [emits_intros]: "quiet (load_private rt d record)"
  unfolding load_private_def Let_def by (intro emits_intros) simp_all

lemma quiet_prepare: "quiet (prepare rt d t cmd rq ag ref)"
  unfolding prepare_def Let_def by (intro emits_intros) simp_all

lemma quiet_record_authority: "quiet (record_authority rt d e a ref)"
  unfolding record_authority_def Let_def by (intro emits_intros) simp_all

lemma quiet_expire_due: "quiet (expire_due rt d t r)"
  unfolding expire_due_def Let_def by (intro emits_intros) simp_all

lemma quiet_settle_execution [emits_intros]: "quiet (settle_execution rt d record x now)"
  unfolding settle_execution_def Let_def by (intro emits_intros) simp_all

lemma quiet_refusals [emits_intros]:
  "quiet (block rt d record now rc)"
  "quiet (supersede_stale rt d record repl now)"
  "quiet (expire_now rt record)"
  unfolding block_def supersede_stale_def expire_now_def Let_def by (intro emits_intros; simp)+

lemma quiet_reconcile [emits_intros]: "quiet (reconcile rt d t r)"
  unfolding reconcile_def reconcile_observe_def settle_verification_def Let_def
  by (intro emits_intros) simp_all

lemma quiet_resume_verification: "quiet (resume_verification rt d t r n op ir)"
  unfolding resume_verification_def Let_def by (intro emits_intros) simp_all

lemma quiet_read:
  "quiet (read rt d r c)" "quiet (observation_context rt d r c)"
  unfolding read_def observation_context_def Let_def by (intro emits_intros; simp)+

lemma quiet_erase: "quiet (erase rt d r c)"
  unfolding erase_def erase_destroy_def Let_def by (intro emits_intros) simp_all

section \<open>The guarded dispatch\<close>

text \<open>A quiet helper in tail position: nothing it does can break the order.\<close>

lemma quiet_tail:
  fixes w :: "'s world"
  assumes "quiet m" and "ordered (dispatch_allowed d t r) w"
  shows "wp m (\<lambda>_. ordered (dispatch_allowed d t r)) (\<lambda>_. ordered (dispatch_allowed d t r)) w"
  by (rule wp_ordered_emits [OF emits_mono [OF assms(1)] assms(2)])
    (simp_all add: dispatch_allowed_other)

lemma dispatch_refusal_None:
  assumes "dispatch_refusal d record binding evidence admitted_at at = None"
  shows "at < sp_expires_at record" "at < admitted_at + ad_verification_lease_duration d"
    "\<forall>e\<in>set evidence. av_valid (validate_authority_evidence e binding at)"
  using assms
  by (auto simp: dispatch_refusal_def valid_authority_evidence_fixed split: if_splits)

lemmas quiet_tails = quiet_tail [OF quiet_settle_execution] quiet_tail [OF quiet_refusals(1)]
  quiet_tail [OF quiet_refusals(2)] quiet_tail [OF quiet_refusals(3)]

lemma executor_call_allowed:
  assumes "\<not> list_ex is_executor_call tr"
    and "authority_checked d t r record commitment tr" and "state_checked resolved tr"
    and "evidence_checked d record commitment evidence tr" and "live_checked resolved tr"
    and "admitted_last d record resolved admitted_at tr"
    and "dispatch_refusal d record (authority_binding_of d record commitment) evidence admitted_at at = None"
    and "execution_context_of record at (Some evidence) = Inr ctx"
  shows "dispatch_allowed d t r tr
    (CallExecutor (rs_current_snapshot resolved) ctx (rs_execution_precondition resolved) res)"
proof -
  have "in_time d record commitment evidence admitted_at ctx"
    using dispatch_refusal_None [OF assms(7)] assms(8)
    by (auto simp: in_time_def execution_context_of_def split: option.splits)
  with assms(1-6) show ?thesis unfolding dispatch_allowed_def call.case by blast
qed

lemma ordered_execute_dispatch:
  fixes w :: "'s world"
  assumes "ordered (dispatch_allowed d t r) w" and "\<not> list_ex is_executor_call (w_trace w)"
    and "authority_checked d t r record commitment (w_trace w)" "state_checked resolved (w_trace w)"
      "evidence_checked d record commitment evidence (w_trace w)" "live_checked resolved (w_trace w)"
    and "admitted_last d record resolved admitted_at (w_trace w)"
  shows "wp (execute_dispatch rt d record executing (authority_binding_of d record commitment) evidence
      resolved admitted_at)
    (\<lambda>_. ordered (dispatch_allowed d t r)) (\<lambda>_. ordered (dispatch_allowed d t r)) w"
  unfolding execute_dispatch_def
  by (intro trace_intros quiet_tails) (use assms in \<open>simp_all add: executor_call_allowed\<close>)

lemma ordered_required:
  fixes w :: "'s world"
  assumes "ordered (dispatch_allowed d t r) w"
  shows "wp (bind (required rt a b) (\<lambda>current. return (f current)))
    (\<lambda>_. ordered (dispatch_allowed d t r)) (\<lambda>_. ordered (dispatch_allowed d t r)) w"
  by (rule quiet_tail [OF _ assms]) (intro emits_intros, simp)

lemma checked_append [simp]:
  "authority_checked d t r record commitment tr \<Longrightarrow> authority_checked d t r record commitment (tr @ tr')"
  "state_checked resolved tr \<Longrightarrow> state_checked resolved (tr @ tr')"
  "evidence_checked d record commitment evidence tr \<Longrightarrow>
   evidence_checked d record commitment evidence (tr @ tr')"
  "live_checked resolved tr \<Longrightarrow> live_checked resolved (tr @ tr')"
  by (auto simp: authority_checked_def state_checked_def evidence_checked_def live_checked_def)

lemma admitted_last_snoc:
  assumes "claim \<noteq> ClaimCONFLICT" "claim \<noteq> ClaimPROPOSAL_NOT_FOUND" "claim \<noteq> ClaimPROPOSAL_NOT_AUTHORIZED"
    and "sp_lifecycle_status executing = EXECUTING"
    and "sp_execution_precondition executing = Some (rs_execution_precondition resolved)"
  shows "admitted_last d record resolved at (tr @ [CallAdmit record at executing (Inr claim)])"
  using assms by (cases claim) (auto simp: admitted_last_def)

lemma ordered_execute_admit:
  fixes w :: "'s world"
  assumes "ordered (dispatch_allowed d t r) w" and "\<not> list_ex is_executor_call (w_trace w)"
    and "authority_checked d t r record commitment (w_trace w)" "state_checked resolved (w_trace w)"
      "evidence_checked d record commitment evidence (w_trace w)" "live_checked resolved (w_trace w)"
  shows "wp (execute_admit rt d record (authority_binding_of d record commitment) evidence resolved)
    (\<lambda>_. ordered (dispatch_allowed d t r)) (\<lambda>_. ordered (dispatch_allowed d t r)) w"
  unfolding execute_admit_def Let_def
  by (intro ordered_required ordered_execute_dispatch trace_intros quiet_tails)
    (use assms in \<open>simp_all add: dispatch_allowed_other admitted_last_snoc\<close>)

lemma ordered_execute_reauthorize:
  fixes w :: "'s world"
  assumes "ordered (dispatch_allowed d t r) w" and "\<not> list_ex is_executor_call (w_trace w)"
    and "authority_checked d t r record commitment (w_trace w)" "state_checked resolved (w_trace w)"
  shows "wp (execute_reauthorize rt d record (authority_binding_of d record commitment) resolved)
    (\<lambda>_. ordered (dispatch_allowed d t r)) (\<lambda>_. ordered (dispatch_allowed d t r)) w"
  unfolding execute_reauthorize_def evaluate_authority_def Let_def
  by (intro ordered_execute_admit trace_intros quiet_tails)
    (use assms in \<open>auto simp: dispatch_allowed_other evidence_checked_def live_checked_def
       valid_authority_evidence_def\<close>)

lemma ordered_execute:
  fixes w :: "'s world"
  assumes "ordered (dispatch_allowed d t r) w" and "\<not> list_ex is_executor_call (w_trace w)"
  shows "wp (execute rt d t r)
    (\<lambda>_. ordered (dispatch_allowed d t r)) (\<lambda>_. ordered (dispatch_allowed d t r)) w"
  unfolding execute_def required_def load_private_def protection_defs evaluate_authority_def Let_def
  by (intro ordered_execute_reauthorize trace_intros quiet_tails)
    (use assms in \<open>auto simp: dispatch_allowed_other authority_checked_def state_checked_def
       untouched_def\<close>)

section \<open>Properties\<close>

lemma wp_start:
  assumes "wp m (\<lambda>_. ordered J) (\<lambda>_. ordered J) (start s n)" and "m (start s n) = (res, w)"
  shows "ordered J w"
  using assms by (auto simp: wp_def split: sum.splits)

lemma start_trace [simp]: "w_trace (start s n) = []" "w_store (start s n) = s" "w_count (start s n) = n"
  by (simp_all add: start_def)

text \<open>
  C1: \<open>execute\<close> calls the executor at most once, and only if, earlier in the same operation, the
  stored proposal was read as authorized and not erased, its commitment was verified, the state
  resolver returned the very snapshot and precondition that are now passed on and reported no
  drift, the authority evaluator was satisfied by evidence of the proposal, the live authorization
  allowed that snapshot, and the call just before was an admission by the store of the proposal into
  \<open>EXECUTING\<close> with that precondition. At the instant passed to the executor the proposal and
  every piece of that evidence are unexpired and the execution lease has not run out. This holds
  for every host, clock, store, interference by other clients and fault.
\<close>

theorem execute_dispatch_guarded:
  assumes "execute rt d t r (start s n) = (res, w)"
    and "w_trace w = before @ CallExecutor snapshot ctx precond out # later"
  shows "dispatch_allowed d t r before (CallExecutor snapshot ctx precond out)"
proof -
  have "ordered (dispatch_allowed d t r) w"
    by (rule wp_start [OF ordered_execute assms(1)]) simp_all
  then show ?thesis using assms(2) by (rule trace_okD)
qed

theorem execute_dispatch_guarded_witness:
  "\<exists>before c later. w_trace (snd (demo_execute (demo_start AUTHORIZED))) = before @ c # later
     \<and> is_executor_call c \<and> dispatch_allowed demo_definition ''t'' ''p'' before c"
proof -
  let ?w = "snd (demo_execute (demo_start AUTHORIZED))"
  have "list_ex is_executor_call (w_trace ?w)" by code_simp
  then obtain c where c: "c \<in> set (w_trace ?w)" "is_executor_call c" by (auto simp: list_ex_iff)
  then obtain before later where split: "w_trace ?w = before @ c # later" by (meson split_list)
  obtain s x p out where "c = CallExecutor s x p out" using c(2) by (cases c) auto
  with execute_dispatch_guarded [of demo_runtime demo_definition "''t''" "''p''"
      "demo_store (demo_proposal AUTHORIZED)" 0 "fst (demo_execute (demo_start AUTHORIZED))" ?w before]
    split
  have "dispatch_allowed demo_definition ''t'' ''p'' before c"
    by (simp add: demo_execute_def demo_start_def)
  with split c(2) show ?thesis by blast
qed

end
