(* ===== verification/Evidence.thy ===== *)
theory Evidence
  imports Store_Base
begin

text \<open>
  \<open>evidence.py\<close>: the minimized export of one stored revision and its consistency check.

  The bundle's JSON dump is pydantic's and its hash is \<open>hashlib.sha256\<close>; both are arguments of
  \<open>evidence_digest\<close> (\<open>dump\<close>, \<open>sha256\<close>), and every property holds for all of them. The HTML
  rendering of a bundle is not modelled.
\<close>

section \<open>Frozen JSON objects\<close>

record frozen_json_entry =
  fj_name :: pystr
  fj_canonical_value :: bytes

type_synonym frozen_json_object = "frozen_json_entry list"

text \<open>The length of a \<open>str\<close> is its number of code points: the bytes that do not continue one.\<close>

definition str_length :: "pystr \<Rightarrow> int" where
  "str_length s = int (length (filter (\<lambda>c. of_char c < (128 :: int) \<or> (192 :: int) \<le> of_char c) s))"

definition freeze_entry :: "(pystr \<Rightarrow> pystr) \<Rightarrow> pystr \<times> json \<Rightarrow> frozen_json_entry outcome" where
  "freeze_entry nfc kv =
     (case canonicalize_v1 nfc (snd kv) of
        Inl e \<Rightarrow> fails ValidationError
      | Inr canonical \<Rightarrow>
          if str_length (fst kv) \<le> 255 \<and> str_length canonical \<le> 1048576
          then Inr \<lparr>fj_name = fst kv, fj_canonical_value = canonical\<rparr>
          else fails ValidationError)"

fun freeze_entries :: "(pystr \<Rightarrow> pystr) \<Rightarrow> (pystr \<times> json) list \<Rightarrow> frozen_json_object outcome" where
  "freeze_entries nfc [] = Inr []"
| "freeze_entries nfc (kv # kvs) =
     result_bind (freeze_entry nfc kv) (\<lambda>e.
     result_bind (freeze_entries nfc kvs) (\<lambda>es. Inr (e # es)))"

definition frozen_from_mapping :: "(pystr \<Rightarrow> pystr) \<Rightarrow> json_object \<Rightarrow> frozen_json_object outcome" where
  "frozen_from_mapping nfc value = freeze_entries nfc (sort_key fst value)"

definition is_empty :: "frozen_json_object \<Rightarrow> bool" where
  "is_empty f \<longleftrightarrow> f = []"

section \<open>Bundles\<close>

datatype evidence_omission =
    OmitPRIVATE_SNAPSHOT
  | OmitPROTECTED_PAYLOAD
  | OmitCOMMITMENT_AND_CUSTODY
  | OmitREPLAYABLE_AUTHORITY_EVIDENCE
  | OmitERASED_SOURCE_EVIDENCE
  | OmitLEGACY_RUNTIME_ATTRIBUTION
  | OmitHISTORICAL_AUTHORITY_UNAVAILABLE

record evidence_authority_summary =
  es_authority_reference :: pystr
  es_decision :: authority_decision
  es_audience :: "pystr list"
  es_channel_assurance :: pystr
  es_issued_at :: instant
  es_expires_at :: instant
  es_external_attestation :: "external_authority_attestation option"

record action_evidence_bundle =
  eb_exported_at :: instant
  eb_exporter_runtime_revision :: pystr
  eb_proposal_reference :: pystr
  eb_action_type :: action_type
  eb_semantic_effect_reference :: pystr
  eb_effect_kind :: effect_kind
  eb_source_revision :: int
  eb_lifecycle_status :: lifecycle_status
  eb_created_at :: instant
  eb_expires_at :: instant
  eb_erased :: bool
  eb_display_preview :: frozen_json_object
  eb_safe_result :: "frozen_json_object option"
  eb_authority_summaries :: "evidence_authority_summary list"
  eb_receipts :: "receipt list"
  eb_embedded_receipt_schema_versions :: "pystr list"
  eb_omitted :: "evidence_omission list"
  eb_content_digest :: pystr

definition evidence_digest ::
  "(bytes \<Rightarrow> pystr) \<Rightarrow> (action_evidence_bundle \<Rightarrow> json_object) \<Rightarrow> (pystr \<Rightarrow> pystr)
     \<Rightarrow> action_evidence_bundle \<Rightarrow> pystr outcome" where
  "evidence_digest sha256 dump nfc bundle =
     result_bind (canonicalize_v1 nfc (JObj (dump (bundle\<lparr>eb_content_digest := []\<rparr>))))
       (\<lambda>payload. Inr (sha256 payload))"

definition summary_of :: "authority_evidence \<Rightarrow> evidence_authority_summary" where
  "summary_of e =
     \<lparr>es_authority_reference = ca_reference (ev_authority e), es_decision = ev_decision e,
      es_audience = ev_audience e, es_channel_assurance = ev_channel_assurance e,
      es_issued_at = ev_issued_at e, es_expires_at = ev_expires_at e,
      es_external_attestation = ev_external_attestation e\<rparr>"

definition schema_versions :: "receipt list \<Rightarrow> pystr list" where
  "schema_versions receipts = sort (remdups (map (\<lambda>r. rb_schema_version (receipt_head r)) receipts))"

definition bundle_omissions :: "stored_proposal \<Rightarrow> evidence_omission list" where
  "bundle_omissions record =
     (let erased = (sp_erasure_pending_at record \<noteq> None \<or> sp_erased_at record \<noteq> None);
          receipts = (if erased then [] else sp_receipts record);
          summaries = (if erased then [] else map summary_of (sp_authority_evidence record)) in
      [OmitPRIVATE_SNAPSHOT, OmitPROTECTED_PAYLOAD, OmitCOMMITMENT_AND_CUSTODY,
       OmitREPLAYABLE_AUTHORITY_EVIDENCE]
      @ (if erased then [OmitERASED_SOURCE_EVIDENCE] else [])
      @ (if list_ex (\<lambda>r. rb_runtime_revision (receipt_head r) = None) receipts
         then [OmitLEGACY_RUNTIME_ATTRIBUTION] else [])
      @ (if \<not> erased \<and> sp_lifecycle_status record \<noteq> AWAITING_AUTHORITY \<and> summaries = []
         then [OmitHISTORICAL_AUTHORITY_UNAVAILABLE] else []))"

definition build_evidence_bundle ::
  "(bytes \<Rightarrow> pystr) \<Rightarrow> (action_evidence_bundle \<Rightarrow> json_object) \<Rightarrow> (pystr \<Rightarrow> pystr) \<Rightarrow> stored_proposal
     \<Rightarrow> instant \<Rightarrow> pystr \<Rightarrow> action_evidence_bundle outcome" where
  "build_evidence_bundle sha256 dump nfc record exported_at exporter_runtime_revision =
     (let erased = (sp_erasure_pending_at record \<noteq> None \<or> sp_erased_at record \<noteq> None);
          receipts = (if erased then [] else sp_receipts record) in
      result_bind (frozen_from_mapping nfc (if erased then [] else sp_display_preview record))
        (\<lambda>preview.
      result_bind (case (if erased then None else sp_safe_result record) of
                     None \<Rightarrow> Inr None
                   | Some j \<Rightarrow> result_bind (frozen_from_mapping nfc j) (\<lambda>f. Inr (Some f)))
        (\<lambda>safe_result.
      let bundle =
        \<lparr>eb_exported_at = exported_at,
         eb_exporter_runtime_revision = exporter_runtime_revision,
         eb_proposal_reference = sp_proposal_reference record,
         eb_action_type = sp_action_type record,
         eb_semantic_effect_reference = sp_semantic_effect_reference record,
         eb_effect_kind = sp_effect_kind record,
         eb_source_revision = sp_revision record,
         eb_lifecycle_status = sp_lifecycle_status record,
         eb_created_at = sp_created_at record,
         eb_expires_at = sp_expires_at record,
         eb_erased = erased,
         eb_display_preview = preview,
         eb_safe_result = safe_result,
         eb_authority_summaries =
           (if erased then [] else map summary_of (sp_authority_evidence record)),
         eb_receipts = receipts,
         eb_embedded_receipt_schema_versions = schema_versions receipts,
         eb_omitted = bundle_omissions record,
         eb_content_digest = replicate 64 CHR ''0''\<rparr> in
      result_bind (evidence_digest sha256 dump nfc bundle)
        (\<lambda>digest. Inr (bundle\<lparr>eb_content_digest := digest\<rparr>)))))"

section \<open>Validation\<close>

datatype evidence_validation_status = ValidCONSISTENT | ValidINCONSISTENT | ValidINSUFFICIENT

datatype evidence_validation_reason =
    WhyDIGEST_MISMATCH
  | WhyDUPLICATE_RECEIPT
  | WhyDANGLING_RECEIPT_LINK
  | WhyRECEIPT_IDENTITY_MISMATCH
  | WhyRECEIPT_VERSION_MISMATCH
  | WhyLIFECYCLE_EVIDENCE_MISMATCH
  | WhyERASED_SOURCE
  | WhyLEGACY_ATTRIBUTION_MISSING
  | WhyAUTHORITY_HISTORY_MISSING

record evidence_validation_report =
  vp_status :: evidence_validation_status
  vp_reasons :: "evidence_validation_reason list"
  vp_digest_matches :: bool

definition has_completion :: "receipt \<Rightarrow> bool" where
  "has_completion r = (verification_status_of r = Some ReceiptVERIFIED_COMPLETION)"

definition has_known_failure :: "receipt \<Rightarrow> bool" where
  "has_known_failure r =
     (case r of
        ExecutionReceipt _ s _ _ \<Rightarrow> s = ExecutionFAILED_KNOWN
      | VerificationReceipt _ s _ _ \<Rightarrow> s = ReceiptVERIFIED_TERMINAL_FAILURE
      | _ \<Rightarrow> False)"

definition starts_prepared :: "receipt list \<Rightarrow> bool" where
  "starts_prepared receipts =
     (case receipts of ProposalReceipt _ s _ _ # _ \<Rightarrow> s = ProposalPREPARED | _ \<Rightarrow> False)"

definition lifecycle_is_supported :: "action_evidence_bundle \<Rightarrow> bool" where
  "lifecycle_is_supported b =
     (if eb_erased b
      then eb_receipts b = [] \<and> eb_authority_summaries b = [] \<and> is_empty (eb_display_preview b)
           \<and> eb_safe_result b = None
      else if \<not> starts_prepared (eb_receipts b) then False
      else if eb_lifecycle_status b = VERIFIED then list_ex has_completion (eb_receipts b)
      else if eb_lifecycle_status b = FAILED_KNOWN then list_ex has_known_failure (eb_receipts b)
      else True)"

definition receipt_links :: "receipt \<Rightarrow> pystr option list" where
  "receipt_links r =
     [rb_corrects_receipt_reference (receipt_head r), rb_supersedes_receipt_reference (receipt_head r)]"

definition inconsistencies :: "bool \<Rightarrow> action_evidence_bundle \<Rightarrow> evidence_validation_reason list" where
  "inconsistencies digest_matches b =
     (let refs = map (\<lambda>r. rb_receipt_reference (receipt_head r)) (eb_receipts b);
          versions = schema_versions (eb_receipts b) in
      (if digest_matches then [] else [WhyDIGEST_MISMATCH])
      @ (if card (set refs) \<noteq> length refs then [WhyDUPLICATE_RECEIPT] else [])
      @ (if list_ex (\<lambda>r. list_ex (\<lambda>link. case link of None \<Rightarrow> False
              | Some x \<Rightarrow> x \<notin> set refs \<or> x = rb_receipt_reference (receipt_head r)) (receipt_links r))
            (eb_receipts b) then [WhyDANGLING_RECEIPT_LINK] else [])
      @ (if list_ex (\<lambda>r. rb_correlation_reference (receipt_head r) \<noteq> eb_proposal_reference b
              \<or> rb_causation_reference (receipt_head r) \<noteq> eb_proposal_reference b
                \<and> rb_causation_reference (receipt_head r) \<notin> set refs) (eb_receipts b)
         then [WhyRECEIPT_IDENTITY_MISMATCH] else [])
      @ (if versions \<noteq> eb_embedded_receipt_schema_versions b
            \<or> list_ex (\<lambda>v. v \<noteq> receipt_schema_version) versions
         then [WhyRECEIPT_VERSION_MISMATCH] else [])
      @ (if \<not> lifecycle_is_supported b then [WhyLIFECYCLE_EVIDENCE_MISMATCH] else []))"

definition insufficiencies :: "action_evidence_bundle \<Rightarrow> evidence_validation_reason list" where
  "insufficiencies b =
     (if eb_erased b \<or> OmitERASED_SOURCE_EVIDENCE \<in> set (eb_omitted b) then [WhyERASED_SOURCE] else [])
     @ (if OmitLEGACY_RUNTIME_ATTRIBUTION \<in> set (eb_omitted b)
           \<or> list_ex (\<lambda>r. rb_runtime_revision (receipt_head r) = None) (eb_receipts b)
        then [WhyLEGACY_ATTRIBUTION_MISSING] else [])
     @ (if OmitHISTORICAL_AUTHORITY_UNAVAILABLE \<in> set (eb_omitted b)
           \<or> \<not> eb_erased b \<and> eb_lifecycle_status b \<noteq> AWAITING_AUTHORITY \<and> eb_authority_summaries b = []
        then [WhyAUTHORITY_HISTORY_MISSING] else [])"

text \<open>\<open>tuple(dict.fromkeys(xs))\<close>: the first occurrence of each element, in order.\<close>

definition dict_fromkeys :: "'a list \<Rightarrow> 'a list" where
  "dict_fromkeys xs = rev (remdups (rev xs))"

definition validate_evidence_bundle ::
  "(bytes \<Rightarrow> pystr) \<Rightarrow> (action_evidence_bundle \<Rightarrow> json_object) \<Rightarrow> (pystr \<Rightarrow> pystr)
     \<Rightarrow> action_evidence_bundle \<Rightarrow> evidence_validation_report outcome" where
  "validate_evidence_bundle sha256 dump nfc b =
     result_bind (evidence_digest sha256 dump nfc b) (\<lambda>digest.
     let digest_matches = (digest = eb_content_digest b);
         inconsistent = inconsistencies digest_matches b;
         insufficient = insufficiencies b in
     Inr (if inconsistent \<noteq> []
          then \<lparr>vp_status = ValidINCONSISTENT, vp_reasons = dict_fromkeys inconsistent,
                vp_digest_matches = digest_matches\<rparr>
          else if insufficient \<noteq> []
          then \<lparr>vp_status = ValidINSUFFICIENT, vp_reasons = dict_fromkeys insufficient,
                vp_digest_matches = digest_matches\<rparr>
          else \<lparr>vp_status = ValidCONSISTENT, vp_reasons = [], vp_digest_matches = digest_matches\<rparr>))"

section \<open>Lemmas\<close>

text \<open>What a stored history must hold for its export to be found consistent.\<close>

definition supported_history :: "stored_proposal \<Rightarrow> bool" where
  "supported_history p \<longleftrightarrow>
     starts_prepared (sp_receipts p)
     \<and> (sp_lifecycle_status p = VERIFIED \<longrightarrow> list_ex has_completion (sp_receipts p))
     \<and> (sp_lifecycle_status p = FAILED_KNOWN \<longrightarrow> list_ex has_known_failure (sp_receipts p))"

definition linked_history :: "stored_proposal \<Rightarrow> bool" where
  "linked_history p \<longleftrightarrow>
     (let refs = map (\<lambda>r. rb_receipt_reference (receipt_head r)) (sp_receipts p) in
      distinct refs
      \<and> list_all (\<lambda>r. rb_correlation_reference (receipt_head r) = sp_proposal_reference p
          \<and> (rb_causation_reference (receipt_head r) = sp_proposal_reference p
             \<or> rb_causation_reference (receipt_head r) \<in> set refs)
          \<and> receipt_links r = [None, None]
          \<and> rb_schema_version (receipt_head r) = receipt_schema_version) (sp_receipts p))"

lemma build_evidence_bundle_Inr:
  assumes "build_evidence_bundle sha256 dump nfc p at revision = Inr b"
  defines "erased \<equiv> sp_erasure_pending_at p \<noteq> None \<or> sp_erased_at p \<noteq> None"
  shows "eb_erased b = erased"
    and "eb_receipts b = (if erased then [] else sp_receipts p)"
    and "eb_authority_summaries b = (if erased then [] else map summary_of (sp_authority_evidence p))"
    and "eb_embedded_receipt_schema_versions b = schema_versions (eb_receipts b)"
    and "eb_lifecycle_status b = sp_lifecycle_status p"
    and "eb_proposal_reference b = sp_proposal_reference p"
    and "eb_source_revision b = sp_revision p"
    and "eb_omitted b = bundle_omissions p"
    and "erased \<Longrightarrow> eb_display_preview b = [] \<and> eb_safe_result b = None"
    and "evidence_digest sha256 dump nfc b = Inr (eb_content_digest b)"
  using assms
  by (auto simp: build_evidence_bundle_def result_bind_eq_Inr evidence_digest_def Let_def erased_def
      frozen_from_mapping_def split: option.splits if_splits)

lemma schema_versions_const:
  assumes "list_all (\<lambda>r. rb_schema_version (receipt_head r) = v) rs"
  shows "\<not> list_ex (\<lambda>x. x \<noteq> v) (schema_versions rs)"
  using assms by (auto simp: schema_versions_def list_ex_iff list_all_iff)

end
