(* ===== verification/Recovery.thy ===== *)
theory Recovery
  imports Runtime_Reconcile Evidence
begin

text \<open>
  \<open>recovery.py\<close> (conditions, steps, the recovery worker) and the handlers of \<open>runtime.py\<close> that
  project a proposal for readers: \<open>read_recovery\<close>, \<open>_read_effect_owner\<close>, \<open>export_evidence\<close>.

  The work source and the lease schedule of the worker are host code: the pages it returns,
  the tokens and the acknowledgements are arguments. The worker runs over action groups, which are
  runtimes bound to a definition.
\<close>

section \<open>Conditions and steps\<close>

datatype action_recovery_condition =
    WAITING_FOR_AUTHORITY
  | READY_FOR_EXECUTION
  | EFFECT_OWNED_ELSEWHERE
  | ACTIVE_EXECUTION_LEASE
  | WAITING_FOR_PROVIDER
  | OBSERVATION_UNAVAILABLE
  | OUTCOME_UNPROVEN
  | OPERATOR_ATTENTION
  | RESOLVED
  | REPLACEMENT_REQUIRED
  | REFUSED
  | EXPIRY_DUE
  | ERASED

datatype action_recovery_operation =
    StepAWAIT_AUTHORITY
  | StepEXPIRE
  | StepEXECUTE
  | StepWAIT
  | StepRECONCILE
  | StepINSPECT_OWNER
  | StepOPERATOR_REVIEW
  | StepVIEW_RECORDED_OUTCOME
  | StepPREPARE_REPLACEMENT
  | StepNO_ACTION

datatype action_work_operation = WorkEXECUTE | WorkEXPIRE | WorkRECONCILE | WorkATTENTION

datatype action_effect_ownership =
    UNCLAIMED
  | OWNED_BY_THIS_PROPOSAL
  | OWNED_ELSEWHERE
  | OBSERVATION_UNCERTAIN

record action_recovery_step =
  st_operation :: action_recovery_operation
  st_not_before :: "instant option"
  st_reason_code :: "pystr option"

record action_recovery_owner_view =
  ow_proposal_reference :: pystr
  ow_revision :: int
  ow_lifecycle_status :: lifecycle_status
  ow_condition :: action_recovery_condition
  ow_next_check_at :: "instant option"

record action_recovery_view =
  av_proposal_reference :: pystr
  av_lifecycle_status :: lifecycle_status
  av_revision :: int
  av_erased :: bool
  av_observed_at :: instant
  av_expires_at :: "instant option"
  av_next_verification_at :: "instant option"
  av_verification_attempts :: "int option"
  av_max_verification_attempts :: "int option"
  av_last_verification_status :: "verification_receipt_status option"
  av_reason_code :: "pystr option"
  av_condition :: action_recovery_condition
  av_effect_ownership :: action_effect_ownership
  av_owner :: "action_recovery_owner_view option"
  av_recommended_steps :: "action_recovery_step list"

definition later_than :: "instant option \<Rightarrow> instant \<Rightarrow> bool" where
  "later_than x now = (case x of None \<Rightarrow> False | Some t \<Rightarrow> t > now)"

definition recovery_condition ::
  "lifecycle_status \<Rightarrow> instant \<Rightarrow> instant \<Rightarrow> instant option \<Rightarrow> verification_receipt_status option
     \<Rightarrow> action_recovery_condition" where
  "recovery_condition status observed_at expires_at next_verification_at last_verification_status =
     (if status \<in> {AWAITING_AUTHORITY, AUTHORIZED} \<and> expires_at \<le> observed_at then EXPIRY_DUE
      else if status = AWAITING_AUTHORITY then WAITING_FOR_AUTHORITY
      else if status = AUTHORIZED then READY_FOR_EXECUTION
      else if status = EXECUTING
      then (if later_than next_verification_at observed_at then ACTIVE_EXECUTION_LEASE
            else OUTCOME_UNPROVEN)
      else if status = FAILED_UNKNOWN then OUTCOME_UNPROVEN
      else if status = VERIFICATION_PENDING
      then (if later_than next_verification_at observed_at then WAITING_FOR_PROVIDER
            else if last_verification_status = Some ReceiptTARGET_UNAVAILABLE
            then OBSERVATION_UNAVAILABLE
            else if last_verification_status = Some ReceiptPROVISIONAL_ABSENCE
            then WAITING_FOR_PROVIDER
            else OUTCOME_UNPROVEN)
      else if status \<in> {VERIFICATION_UNRESOLVED, PARTIALLY_SUCCEEDED} then OPERATOR_ATTENTION
      else if status \<in> {VERIFIED, FAILED_KNOWN} then RESOLVED
      else if status \<in> {STALE, SUPERSEDED} then REPLACEMENT_REQUIRED
      else REFUSED)"

fun recovery_operation_for :: "action_recovery_condition \<Rightarrow> action_recovery_operation" where
  "recovery_operation_for WAITING_FOR_AUTHORITY = StepAWAIT_AUTHORITY"
| "recovery_operation_for READY_FOR_EXECUTION = StepEXECUTE"
| "recovery_operation_for EFFECT_OWNED_ELSEWHERE = StepINSPECT_OWNER"
| "recovery_operation_for ACTIVE_EXECUTION_LEASE = StepWAIT"
| "recovery_operation_for WAITING_FOR_PROVIDER = StepWAIT"
| "recovery_operation_for OBSERVATION_UNAVAILABLE = StepRECONCILE"
| "recovery_operation_for OUTCOME_UNPROVEN = StepRECONCILE"
| "recovery_operation_for OPERATOR_ATTENTION = StepOPERATOR_REVIEW"
| "recovery_operation_for RESOLVED = StepVIEW_RECORDED_OUTCOME"
| "recovery_operation_for REPLACEMENT_REQUIRED = StepPREPARE_REPLACEMENT"
| "recovery_operation_for REFUSED = StepNO_ACTION"
| "recovery_operation_for EXPIRY_DUE = StepEXPIRE"
| "recovery_operation_for ERASED = StepNO_ACTION"

definition recovery_steps ::
  "action_recovery_condition \<Rightarrow> instant option \<Rightarrow> pystr option \<Rightarrow> action_recovery_step list" where
  "recovery_steps condition next_verification_at reason_code =
     [\<lparr>st_operation = recovery_operation_for condition,
       st_not_before = (if condition \<in> {ACTIVE_EXECUTION_LEASE, WAITING_FOR_PROVIDER}
                        then next_verification_at else None),
       st_reason_code = reason_code\<rparr>]"

section \<open>Projections of the runtime\<close>

definition last_verification_status :: "receipt list \<Rightarrow> verification_receipt_status option" where
  "last_verification_status receipts =
     (case filter is_verification_receipt (rev receipts) of
        [] \<Rightarrow> None | r # _ \<Rightarrow> verification_status_of r)"

definition last_reason_code :: "receipt list \<Rightarrow> pystr option" where
  "last_reason_code receipts =
     (case filter (\<lambda>r. rb_reason_code (receipt_head r) \<noteq> None) (rev receipts) of
        [] \<Rightarrow> None | r # _ \<Rightarrow> rb_reason_code (receipt_head r))"

definition claim_owner ::
  "'s action_runtime \<Rightarrow> stored_proposal \<Rightarrow> ('s world, pystr option) eff" where
  "claim_owner rt record =
     call_store rt
       (CallClaimOwner (sp_tenant_reference record) (sp_action_type record)
          (sp_semantic_effect_reference record))
       (as_get_effect_claim_owner (rt_store rt) (sp_tenant_reference record) (sp_action_type record)
          (sp_semantic_effect_reference record))"

definition may_show_owner ::
  "'s action_runtime \<Rightarrow> action_definition \<Rightarrow> stored_proposal \<Rightarrow> stored_proposal option \<Rightarrow> pystr
     \<Rightarrow> read_context \<Rightarrow> ('s world, bool) eff" where
  "may_show_owner rt d record owner_record owner_reference context =
     (case owner_record of
        None \<Rightarrow> return False
      | Some owner \<Rightarrow>
          if sp_action_type owner = sp_action_type record
             \<and> sp_semantic_effect_reference owner = sp_semantic_effect_reference record
             \<and> sp_erasure_pending_at owner = None
             \<and> sp_erased_at owner = None
          then call_host rt (CallCanRead owner_reference context)
                 (\<lambda>n. ad_can_read d n owner_reference context)
          else return False)"

definition read_effect_owner ::
  "'s action_runtime \<Rightarrow> action_definition \<Rightarrow> stored_proposal \<Rightarrow> read_context \<Rightarrow> instant
     \<Rightarrow> ('s world, action_effect_ownership \<times> action_recovery_owner_view option) eff" where
  "read_effect_owner rt d record context observed_at =
     bind (attempt (claim_owner rt record)) (\<lambda>first. case first of
       Inl failure \<Rightarrow>
         if is_exception (exn_of failure) then return (OBSERVATION_UNCERTAIN, None) else throw failure
     | Inr None \<Rightarrow> return (UNCLAIMED, None)
     | Inr (Some owner_reference) \<Rightarrow>
     if owner_reference = sp_proposal_reference record then return (OWNED_BY_THIS_PROPOSAL, None)
     else
     bind (call_store rt (CallGet (sp_tenant_reference record) owner_reference)
             (as_get (rt_store rt) (sp_tenant_reference record) owner_reference)) (\<lambda>owner_record.
     bind (may_show_owner rt d record owner_record owner_reference context) (\<lambda>may_show.
     bind (attempt (claim_owner rt record)) (\<lambda>second. case second of
       Inl failure \<Rightarrow>
         if is_exception (exn_of failure) then return (OBSERVATION_UNCERTAIN, None) else throw failure
     | Inr confirmed_reference \<Rightarrow>
     if confirmed_reference \<noteq> Some owner_reference then return (OBSERVATION_UNCERTAIN, None)
     else
     case owner_record of
       None \<Rightarrow> return (OWNED_ELSEWHERE, None)
     | Some owner \<Rightarrow>
     if \<not> may_show then return (OWNED_ELSEWHERE, None)
     else return
       (OWNED_ELSEWHERE,
        Some \<lparr>ow_proposal_reference = sp_proposal_reference owner,
              ow_revision = sp_revision owner,
              ow_lifecycle_status = sp_lifecycle_status owner,
              ow_condition = recovery_condition (sp_lifecycle_status owner) observed_at
                (sp_expires_at owner) (sp_next_verification_at owner)
                (last_verification_status (sp_receipts owner)),
              ow_next_check_at = sp_next_verification_at owner\<rparr>)))))"

definition erased_view :: "stored_proposal \<Rightarrow> instant \<Rightarrow> action_recovery_view" where
  "erased_view record observed_at =
     \<lparr>av_proposal_reference = sp_proposal_reference record,
      av_lifecycle_status = sp_lifecycle_status record,
      av_revision = sp_revision record,
      av_erased = True,
      av_observed_at = observed_at,
      av_expires_at = None,
      av_next_verification_at = None,
      av_verification_attempts = None,
      av_max_verification_attempts = None,
      av_last_verification_status = None,
      av_reason_code = None,
      av_condition = ERASED,
      av_effect_ownership = OBSERVATION_UNCERTAIN,
      av_owner = None,
      av_recommended_steps = recovery_steps ERASED None None\<rparr>"

definition read_recovery ::
  "'s action_runtime \<Rightarrow> action_definition \<Rightarrow> pystr \<Rightarrow> read_context \<Rightarrow> ('s world, action_recovery_view) eff" where
  "read_recovery rt d proposal_reference context =
     bind (required rt (rd_tenant_reference context) proposal_reference) (\<lambda>record.
     if sp_action_type record \<noteq> ad_action_type d then raise ProposalNotFoundError
     else
     bind (call_host rt (CallCanRead proposal_reference context)
             (\<lambda>n. ad_can_read d n proposal_reference context)) (\<lambda>allowed.
     if \<not> allowed then raise ProposalNotFoundError
     else
     bind (clock_now rt) (\<lambda>observed_at.
     if sp_erasure_pending_at record \<noteq> None \<or> sp_erased_at record \<noteq> None
     then return (erased_view record observed_at)
     else
     let last_status = last_verification_status (sp_receipts record);
         condition0 = recovery_condition (sp_lifecycle_status record) observed_at
           (sp_expires_at record) (sp_next_verification_at record) last_status;
         reason_code = (if condition0 = EXPIRY_DUE \<and> last_reason_code (sp_receipts record) = None
                        then Some (reason_value ReasonPROPOSAL_EXPIRED)
                        else last_reason_code (sp_receipts record)) in
     bind (read_effect_owner rt d record context observed_at) (\<lambda>(ownership, owner).
     let condition = (if sp_lifecycle_status record = AUTHORIZED
                         \<and> ownership \<in> {OWNED_ELSEWHERE, OBSERVATION_UNCERTAIN}
                      then EFFECT_OWNED_ELSEWHERE else condition0) in
     return
       \<lparr>av_proposal_reference = sp_proposal_reference record,
        av_lifecycle_status = sp_lifecycle_status record,
        av_revision = sp_revision record,
        av_erased = False,
        av_observed_at = observed_at,
        av_expires_at = Some (sp_expires_at record),
        av_next_verification_at = sp_next_verification_at record,
        av_verification_attempts = Some (sp_verification_attempts record),
        av_max_verification_attempts = Some (sp_max_verification_attempts record),
        av_last_verification_status = last_status,
        av_reason_code = reason_code,
        av_condition = condition,
        av_effect_ownership = ownership,
        av_owner = owner,
        av_recommended_steps =
          recovery_steps condition (sp_next_verification_at record) reason_code\<rparr>))))"

definition export_evidence ::
  "(bytes \<Rightarrow> pystr) \<Rightarrow> (action_evidence_bundle \<Rightarrow> json_object) \<Rightarrow> 's action_runtime \<Rightarrow> action_definition
     \<Rightarrow> pystr \<Rightarrow> read_context \<Rightarrow> ('s world, action_evidence_bundle) eff" where
  "export_evidence sha256 dump rt d proposal_reference context =
     bind (required rt (rd_tenant_reference context) proposal_reference) (\<lambda>record.
     if sp_action_type record \<noteq> ad_action_type d then raise ProposalNotFoundError
     else
     bind (call_host rt (CallCanRead proposal_reference context)
             (\<lambda>n. ad_can_read d n proposal_reference context)) (\<lambda>allowed.
     if \<not> allowed then raise ProposalNotFoundError
     else
     bind (clock_now rt) (\<lambda>exported_at.
     lift (build_evidence_bundle sha256 dump (ad_nfc d) record exported_at
             (rt_runtime_revision rt)))))"

section \<open>The recovery worker\<close>

record action_work_cursor =
  wc_due_at :: instant
  wc_proposal_reference :: pystr

record action_work_item =
  wi_action_type :: action_type
  wi_proposal_reference :: pystr
  wi_operation :: action_work_operation
  wi_due_at :: instant
  wi_reason_code :: "pystr option"

record action_work_page =
  wp_tenant_reference :: pystr
  wp_cutoff :: instant
  wp_items :: "action_work_item list"
  wp_next_cursor :: "action_work_cursor option"

datatype recovery_worker_disposition =
    WorkerCOMPLETED | WorkerDEFERRED | WorkerATTENTION | WorkerALREADY_LEASED | WorkerLEASE_LOST

record recovery_worker_result =
  wr_proposal_reference :: pystr
  wr_disposition :: recovery_worker_disposition
  wr_operation :: action_work_operation
  wr_reason_code :: "pystr option"

text \<open>
  The worker's own state: the world in which its action groups run, the number of calls it made
  to its source and schedule, and its log of lease acknowledgements (the disposition it reported
  for a lease token and the schedule's answer).
\<close>

record lease_ack =
  la_token :: pystr
  la_next_attempt_at :: "instant option"
  la_attention_reason :: "pystr option"
  la_outcome :: "bool outcome"

record 's worker_state =
  wk_world :: "'s world"
  wk_calls :: nat
  wk_acks :: "lease_ack list"

record 's recovery_worker =
  rw_discover_due ::
    "nat \<Rightarrow> pystr \<Rightarrow> instant \<Rightarrow> int \<Rightarrow> action_work_cursor option \<Rightarrow> action_work_page outcome"
  rw_claim :: "nat \<Rightarrow> action_work_item \<Rightarrow> instant \<Rightarrow> instant \<Rightarrow> pystr option outcome"
  rw_complete :: "nat \<Rightarrow> pystr \<Rightarrow> pystr \<Rightarrow> instant option \<Rightarrow> pystr option \<Rightarrow> bool outcome"
  rw_actions :: "action_key \<rightharpoonup> 's action_runtime \<times> action_definition"
  rw_read_context :: read_context
  rw_lease_duration :: duration
  rw_retry_delay :: duration

definition in_world :: "('s world, 'a) eff \<Rightarrow> ('s worker_state, 'a) eff" where
  "in_world m k = (case m (wk_world k) of (r, w) \<Rightarrow> (r, k\<lparr>wk_world := w\<rparr>))"

definition ask :: "(nat \<Rightarrow> 'a outcome) \<Rightarrow> ('s worker_state, 'a) eff" where
  "ask f k = (f (wk_calls k), k\<lparr>wk_calls := Suc (wk_calls k)\<rparr>)"

definition complete_lease ::
  "'s recovery_worker \<Rightarrow> action_work_item \<Rightarrow> pystr \<Rightarrow> instant option \<Rightarrow> pystr option
     \<Rightarrow> ('s worker_state, bool) eff" where
  "complete_lease worker item token next_attempt_at attention_reason k =
     (let r = rw_complete worker (wk_calls k) (wi_proposal_reference item) token next_attempt_at
                attention_reason in
      (r, k\<lparr>wk_calls := Suc (wk_calls k),
            wk_acks := wk_acks k @ [\<lparr>la_token = token, la_next_attempt_at = next_attempt_at,
                                     la_attention_reason = attention_reason, la_outcome = r\<rparr>]\<rparr>))"

definition worker_result ::
  "action_work_item \<Rightarrow> recovery_worker_disposition \<Rightarrow> pystr option \<Rightarrow> recovery_worker_result" where
  "worker_result item ending reason_code =
     \<lparr>wr_proposal_reference = wi_proposal_reference item, wr_disposition = ending,
      wr_operation = wi_operation item, wr_reason_code = reason_code\<rparr>"

definition lease_lost :: "action_work_item \<Rightarrow> recovery_worker_result" where
  "lease_lost item = worker_result item WorkerLEASE_LOST (Some ''recovery_lease_lost'')"

definition acknowledge ::
  "'s recovery_worker \<Rightarrow> action_work_item \<Rightarrow> pystr \<Rightarrow> instant option \<Rightarrow> pystr option
     \<Rightarrow> recovery_worker_disposition \<Rightarrow> ('s worker_state, recovery_worker_result) eff" where
  "acknowledge worker item token next_attempt_at attention_reason ending =
     bind (complete_lease worker item token next_attempt_at attention_reason) (\<lambda>acknowledged.
     return (if \<not> acknowledged then lease_lost item
             else worker_result item ending attention_reason))"

text \<open>
  The \<open>try\<close> block of \<open>_run\<close>: \<open>None\<close> when the operation ran to its end, a result when the block
  returned early because execution is not recommended.
\<close>

definition run_operation_of_item ::
  "'s recovery_worker \<Rightarrow> 's action_runtime \<Rightarrow> action_definition \<Rightarrow> action_work_item \<Rightarrow> pystr \<Rightarrow> instant
     \<Rightarrow> ('s worker_state, recovery_worker_result option) eff" where
  "run_operation_of_item worker rt d item token now =
     (let tenant = rd_tenant_reference (rw_read_context worker); ref = wi_proposal_reference item in
      if wi_operation item = WorkEXECUTE
      then
        bind (in_world (read_recovery rt d ref (rw_read_context worker))) (\<lambda>view.
        if \<not> list_ex (\<lambda>step. st_operation step = StepEXECUTE) (av_recommended_steps view)
        then bind (acknowledge worker item token (Some (now + rw_retry_delay worker))
                     (Some ''recovery_execution_deferred'') WorkerDEFERRED) (\<lambda>r. return (Some r))
        else bind (in_world (execute rt d tenant ref)) (\<lambda>_. return None))
      else if wi_operation item = WorkEXPIRE
      then bind (in_world (expire_due rt d tenant ref)) (\<lambda>_. return None)
      else bind (in_world (reconcile rt d tenant ref)) (\<lambda>_. return None))"

definition run_item ::
  "'s recovery_worker \<Rightarrow> action_work_item \<Rightarrow> instant \<Rightarrow> ('s worker_state, recovery_worker_result) eff" where
  "run_item worker item now =
     bind (ask (\<lambda>n. rw_claim worker n item now (now + rw_lease_duration worker))) (\<lambda>claimed.
     case claimed of
       None \<Rightarrow> return (worker_result item WorkerALREADY_LEASED None)
     | Some token \<Rightarrow>
     case (rw_actions worker (action_key (wi_action_type item)), wi_operation item = WorkATTENTION) of
       (Some (rt, d), False) \<Rightarrow>
         bind (attempt (run_operation_of_item worker rt d item token now)) (\<lambda>r. case r of
           Inr (Some early) \<Rightarrow> return early
         | Inr None \<Rightarrow> acknowledge worker item token None None WorkerCOMPLETED
         | Inl failure \<Rightarrow>
             (case exn_of failure of
                AuthorizationDeniedError _ \<Rightarrow>
                  acknowledge worker item token None (Some ''recovery_authorization_denied'')
                    WorkerATTENTION
              | _ \<Rightarrow>
                  if is_exception (exn_of failure)
                  then acknowledge worker item token (Some (now + rw_retry_delay worker))
                         (Some ''recovery_operation_failed'') WorkerDEFERRED
                  else throw failure))
     | _ \<Rightarrow> acknowledge worker item token None
              (Some (py_or (wi_reason_code item) ''recovery_action_unconfigured'')) WorkerATTENTION)"

fun run_items ::
  "'s recovery_worker \<Rightarrow> instant \<Rightarrow> action_work_item list \<Rightarrow> ('s worker_state, recovery_worker_result list) eff" where
  "run_items worker now [] = return []"
| "run_items worker now (item # items) =
     bind (run_item worker item now) (\<lambda>r.
     bind (run_items worker now items) (\<lambda>rs. return (r # rs)))"

text \<open>
  The \<open>while True\<close> loop of \<open>scan\<close> ends when a page has no next cursor. The source is host code, so
  the loop may never end: the fuel bounds the number of pages, and running out of it is \<open>None\<close>.
\<close>

fun scan_from ::
  "'s recovery_worker \<Rightarrow> instant \<Rightarrow> int \<Rightarrow> nat \<Rightarrow> action_work_cursor option \<Rightarrow> recovery_worker_result list
     \<Rightarrow> ('s worker_state, recovery_worker_result list option) eff" where
  "scan_from worker cutoff page_size 0 cursor results = return None"
| "scan_from worker cutoff page_size (Suc fuel) cursor results =
     bind (ask (\<lambda>n. rw_discover_due worker n (rd_tenant_reference (rw_read_context worker)) cutoff
             page_size cursor)) (\<lambda>page.
     bind (run_items worker cutoff (wp_items page)) (\<lambda>rs.
     case wp_next_cursor page of
       None \<Rightarrow> return (Some (results @ rs))
     | Some cursor' \<Rightarrow> scan_from worker cutoff page_size fuel (Some cursor') (results @ rs)))"

definition scan ::
  "'s recovery_worker \<Rightarrow> nat \<Rightarrow> instant \<Rightarrow> int \<Rightarrow> ('s worker_state, recovery_worker_result list option) eff" where
  "scan worker fuel cutoff page_size = scan_from worker cutoff page_size fuel None []"

section \<open>Every projection follows the store\<close>

context governed_runtime
begin

lemma steps_read_recovery [steps_intros]: "steps view good (read_recovery rt d r c)"
  unfolding read_recovery_def read_effect_owner_def may_show_owner_def claim_owner_def Let_def
  by (intro steps_intros)

lemma steps_export_evidence [steps_intros]: "steps view good (export_evidence sha256 dump rt d r c)"
  unfolding export_evidence_def by (intro steps_intros)

end

end
