(* ===== verification/Sessions.thy ===== *)
theory Sessions
  imports Dispatch Recovery
begin

text \<open>
  Whole runs of the program: a process calls any public operations of \<open>ActionRuntime\<close> one after
  another, while other clients of the same store interleave their own calls at every await.
  The theorems on the store contract become theorems about every such run.
\<close>

section \<open>Operations and sessions\<close>

datatype operation =
    OpPrepare action_definition pystr host_model requesting_principal "proposing_agent option" "pystr option"
  | OpRecordAuthority action_definition authority_evidence confirming_authority "pystr option"
  | OpExpireDue action_definition pystr pystr
  | OpExecute action_definition pystr pystr
  | OpReconcile action_definition pystr pystr
  | OpResumeVerification action_definition pystr pystr int recovery_operator pystr
  | OpRead action_definition pystr read_context
  | OpReadRecovery action_definition pystr read_context
  | OpExportEvidence "bytes \<Rightarrow> pystr" "action_evidence_bundle \<Rightarrow> json_object" action_definition pystr read_context
  | OpObservationContext action_definition pystr read_context
  | OpErase action_definition pystr read_context

primrec run_operation :: "'s action_runtime \<Rightarrow> operation \<Rightarrow> 's world \<Rightarrow> 's world" where
  "run_operation rt (OpPrepare d t cmd rq ag ref) w = snd (prepare rt d t cmd rq ag ref w)"
| "run_operation rt (OpRecordAuthority d e a ref) w = snd (record_authority rt d e a ref w)"
| "run_operation rt (OpExpireDue d t r) w = snd (expire_due rt d t r w)"
| "run_operation rt (OpExecute d t r) w = snd (execute rt d t r w)"
| "run_operation rt (OpReconcile d t r) w = snd (reconcile rt d t r w)"
| "run_operation rt (OpResumeVerification d t r n op ir) w = snd (resume_verification rt d t r n op ir w)"
| "run_operation rt (OpRead d r c) w = snd (read rt d r c w)"
| "run_operation rt (OpReadRecovery d r c) w = snd (read_recovery rt d r c w)"
| "run_operation rt (OpExportEvidence sha256 dump d r c) w = snd (export_evidence sha256 dump rt d r c w)"
| "run_operation rt (OpObservationContext d r c) w = snd (observation_context rt d r c w)"
| "run_operation rt (OpErase d r c) w = snd (erase rt d r c w)"

definition session :: "'s action_runtime \<Rightarrow> operation list \<Rightarrow> 's world \<Rightarrow> 's world" where
  "session rt = fold (run_operation rt)"

fun is_read_operation :: "operation \<Rightarrow> bool" where
  "is_read_operation (OpRead _ _ _) = True"
| "is_read_operation (OpReadRecovery _ _ _) = True"
| "is_read_operation (OpExportEvidence _ _ _ _ _) = True"
| "is_read_operation (OpObservationContext _ _ _) = True"
| "is_read_operation _ = False"

fun is_execute_operation :: "operation \<Rightarrow> bool" where
  "is_execute_operation (OpExecute _ _ _) = True"
| "is_execute_operation _ = False"

section \<open>Sessions follow the store\<close>

lemma steps_run:
  assumes "steps view good m" and "good (w_store w)"
  shows "good (w_store (snd (m w))) \<and> store_path (view (w_store w)) (view (w_store (snd (m w))))"
  using assms by (simp add: steps_def)

context governed_runtime
begin

lemma run_operation_step:
  "good (w_store w) \<Longrightarrow> good (w_store (run_operation rt op w))
     \<and> store_path (view (w_store w)) (view (w_store (run_operation rt op w)))"
  by (cases op; simp only: run_operation.simps; rule steps_run; (intro steps_intros | assumption))

lemma session_step:
  "good (w_store w) \<Longrightarrow> good (w_store (session rt ops w))
     \<and> store_path (view (w_store w)) (view (w_store (session rt ops w)))"
proof (induction ops arbitrary: w)
  case Nil
  then show ?case by (simp add: session_def)
next
  case (Cons op ops)
  with run_operation_step [OF Cons.prems, of op] show ?case
    by (auto simp: session_def intro: rtranclp_trans)
qed

lemma session_live_unique:
  assumes "good (w_store w)"
    and "st_proposals (view (w_store (session rt ops w))) k1 = Some p1" "effect_live (sp_lifecycle_status p1)"
    and "st_proposals (view (w_store (session rt ops w))) k2 = Some p2" "effect_live (sp_lifecycle_status p2)"
    and "claim_key p1 = claim_key p2"
  shows "k1 = k2 \<and> p1 = p2"
  using session_step [OF assms(1)] good_inv live_unique assms(2-) by blast

lemma session_evolves:
  assumes "good (w_store w)" and "st_proposals (view (w_store w)) k = Some p"
  shows "\<exists>q. st_proposals (view (w_store (session rt ops w))) k = Some q \<and> evolves p q"
  using session_step [OF assms(1)] store_path_evolves assms(2) by blast

end

section \<open>Properties\<close>

text \<open>
  C2: effect exclusivity. However many operations a process runs on a shared in-memory store, and
  whatever other clients do to the store at every await, and whatever calls are lost, no two
  proposals of one tenant for one action and one semantic effect are ever both in a status in
  which the effect may have been, or may still be, carried out.
\<close>

theorem session_effect_exclusive:
  assumes "w = session (memory_runtime rt schedule) ops (start mem_init n)"
    and "ms_proposals (w_store w) k1 = Some p1" and "effect_live (sp_lifecycle_status p1)"
    and "ms_proposals (w_store w) k2 = Some p2" and "effect_live (sp_lifecycle_status p2)"
    and "sp_tenant_reference p1 = sp_tenant_reference p2"
    and "sp_action_type p1 = sp_action_type p2"
    and "sp_semantic_effect_reference p1 = sp_semantic_effect_reference p2"
  shows "k1 = k2"
  using mem_rt.session_live_unique [of "start mem_init n" rt schedule ops k1 p1 k2 p2] assms
  by (simp add: mem_wf_init claim_key_def)

definition demo_session :: "mem_store world" where
  "demo_session =
     session demo_runtime
       [OpPrepare demo_definition ''t'' (demo_model 1 7) demo_requester None (Some ''p''),
        OpRecordAuthority demo_definition demo_evidence (ConfirmingAuthority ''boss'') None,
        OpExecute demo_definition ''t'' ''p''] (start mem_init 0)"

theorem session_effect_exclusive_witness:
  "\<exists>p. ms_proposals (w_store demo_session) (''t'', ''p'') = Some p
     \<and> effect_live (sp_lifecycle_status p) \<and> (''t'', ''p'') = (''t'', ''p'')"
proof -
  have "stored_status demo_session = Some VERIFICATION_PENDING" by code_simp
  then obtain p where p: "ms_proposals (w_store demo_session) (''t'', ''p'') = Some p"
    "effect_live (sp_lifecycle_status p)"
    by (auto simp: stored_status_def effect_live_def)
  with session_effect_exclusive [OF demo_session_def [unfolded demo_runtime_def] p p] show ?thesis
    by blast
qed

text \<open>
  C7: one proposal through any run. Whatever a process and the other clients do, a stored
  proposal stays stored under its key with the same identity, its revision never decreases, a
  record read again at the same revision is the same record, and a status without successors
  is final.
\<close>

theorem session_proposal_evolves:
  assumes "mem_wf (w_store w)" and "ms_proposals (w_store w) k = Some p"
  shows "\<exists>q. ms_proposals (w_store (session (memory_runtime rt schedule) ops w)) k = Some q
    \<and> immutable_identity q = immutable_identity p \<and> sp_revision p \<le> sp_revision q
    \<and> (sp_revision q = sp_revision p \<longrightarrow> q = p)
    \<and> (final_status (sp_lifecycle_status p) \<longrightarrow> sp_lifecycle_status q = sp_lifecycle_status p)"
  using mem_rt.session_evolves [of w k p rt schedule ops] assms by (simp add: evolves_def)

theorem session_proposal_evolves_witness:
  "\<exists>q. ms_proposals (w_store (session (memory_runtime demo_base (\<lambda>_. []))
       [OpExecute demo_definition ''t'' ''p''] (demo_start BLOCKED))) (''t'', ''p'') = Some q
     \<and> sp_lifecycle_status q = BLOCKED"
  using session_proposal_evolves [of "demo_start BLOCKED" "(''t'', ''p'')" "demo_proposal BLOCKED"
      demo_base "\<lambda>_. []" "[OpExecute demo_definition ''t'' ''p'']"] demo_store_wf [of BLOCKED]
  by (auto simp: demo_start_def demo_store_def final_status_def demo_proposal_def)

end
