(* ===== verification/Justified.thy ===== *)
theory Justified
  imports Sessions
begin

text \<open>
  Why the runtime writes a status. \<open>status_justified\<close> says, for each status, what the call just
  before the write must have been and what it must have answered. The theorems show that every
  compare-and-set of every operation is justified in this sense, for every host, clock, store,
  interference and fault.
\<close>

section \<open>Specification\<close>

definition last_is :: "call list \<Rightarrow> call \<Rightarrow> bool" where
  "last_is before c \<longleftrightarrow> before \<noteq> [] \<and> last before = c"

definition verifier_said :: "call list \<Rightarrow> (verification_result \<Rightarrow> bool) \<Rightarrow> bool" where
  "verifier_said before Q \<longleftrightarrow> (\<exists>ctx v. last_is before (CallVerifier ctx (Inr v)) \<and> Q v)"

definition executor_said :: "call list \<Rightarrow> (execution_result \<Rightarrow> bool) \<Rightarrow> bool" where
  "executor_said before Q \<longleftrightarrow> (\<exists>s ctx pc x. last_is before (CallExecutor s ctx pc (Inr x)) \<and> Q x)"

definition refused_after_admission :: "call list \<Rightarrow> bool" where
  "refused_after_admission before \<longleftrightarrow>
     (\<exists>p at q claim. last_is before (CallAdmit p at q (Inr claim))
        \<and> claim \<in> {ClaimACQUIRED, ClaimOWNED_BY_PROPOSAL})"

definition authority_satisfied ::
  "action_definition \<Rightarrow> call list \<Rightarrow> stored_proposal \<Rightarrow> stored_proposal \<Rightarrow> bool" where
  "authority_satisfied d before p q \<longleftrightarrow>
     (\<exists>commitment es v at. sp_commitment p = Some commitment
        \<and> last_is before (CallEvaluate (authority_binding_of d p commitment) es (Inr v))
        \<and> ae_satisfied v
        \<and> set es \<subseteq> set (sp_authority_evidence q)
        \<and> list_all (\<lambda>e. av_valid (validate_authority_evidence e
             (authority_binding_of d p commitment) at)) es)"

definition resend_proved :: "action_definition \<Rightarrow> call list \<Rightarrow> bool" where
  "resend_proved d before \<longleftrightarrow>
     ad_allow_resend_after_final_absence d
     \<and> verifier_said before (\<lambda>v. vr_status v = AUTHORITATIVE_FINAL_ABSENCE
          \<and> vr_settling_boundary_passed v \<and> vr_target_idempotency_guaranteed v)"

fun status_justified ::
  "action_definition \<Rightarrow> call list \<Rightarrow> stored_proposal \<Rightarrow> stored_proposal \<Rightarrow> lifecycle_status \<Rightarrow> bool" where
  "status_justified d before p q VERIFIED =
     verifier_said before (\<lambda>v. vr_status v = VERIFIED_COMPLETION
       \<and> list_all (\<lambda>i. io_status i = ItemSUCCEEDED) (vr_item_outcomes v))"
| "status_justified d before p q PARTIALLY_SUCCEEDED =
     (sp_effect_kind p = Itemized \<and> verifier_said before (\<lambda>v. vr_status v = VERIFIED_COMPLETION
       \<and> \<not> list_all (\<lambda>i. io_status i = ItemSUCCEEDED) (vr_item_outcomes v)))"
| "status_justified d before p q AUTHORIZED =
     (if sp_lifecycle_status p = AWAITING_AUTHORITY then authority_satisfied d before p q
      else resend_proved d before)"
| "status_justified d before p q DENIED =
     (\<exists>e. ev_decision e = REJECT \<and> sp_authority_evidence q = sp_authority_evidence p @ [e])"
| "status_justified d before p q FAILED_KNOWN =
     (executor_said before (\<lambda>x. er_status x = ExecFAILED_KNOWN)
      \<or> refused_after_admission before
      \<or> verifier_said before (\<lambda>v. vr_status v \<in> {VERIFIED_TERMINAL_FAILURE, AUTHORITATIVE_FINAL_ABSENCE}))"
| "status_justified d before p q FAILED_UNKNOWN =
     executor_said before (\<lambda>x. er_status x = ExecFAILED_UNKNOWN
       \<or> er_status x = ExecPARTIALLY_SUCCEEDED
         \<and> (ad_effect_kind d \<noteq> Itemized \<or> sp_effect_kind p \<noteq> Itemized))"
| "status_justified d before p q STALE =
     (executor_said before (\<lambda>x. er_status x = ExecSTALE_NO_EFFECT)
      \<or> (\<exists>s ctx resolved. last_is before (CallResolve s ctx (Inr resolved))
            \<and> rs_materially_drifted resolved))"
| "status_justified d before p q EXECUTING = False"
| "status_justified d before p q _ = True"

definition write_justified :: "action_definition \<Rightarrow> call list \<Rightarrow> call \<Rightarrow> bool" where
  "write_justified d before c =
     (case c of CallCas p q _ \<Rightarrow> status_justified d before p q (sp_lifecycle_status q) | _ \<Rightarrow> True)"

fun is_cas_call :: "call \<Rightarrow> bool" where
  "is_cas_call (CallCas _ _ _) = True"
| "is_cas_call _ = False"

section \<open>Helpers\<close>

lemma last_is_snoc [simp]: "last_is (tr @ [c]) c' \<longleftrightarrow> c = c'"
  by (auto simp: last_is_def)

lemma last_is_append [simp]: "last_is (tr @ a # b # cs) c' \<longleftrightarrow> last_is (a # b # cs) c'"
  by (simp add: last_is_def)

lemma last_is_Cons [simp]: "last_is [c] c' \<longleftrightarrow> c = c'" "last_is (a # b # cs) c' \<longleftrightarrow> last_is (b # cs) c'"
  by (auto simp: last_is_def)

lemma write_justified_other [simp]: "\<not> is_cas_call c \<Longrightarrow> write_justified d pre c"
  by (cases c) (simp_all add: write_justified_def)

lemma write_justified_cas [simp]:
  "write_justified d pre (CallCas p q x) = status_justified d pre p q (sp_lifecycle_status q)"
  by (simp add: write_justified_def)

lemma justified_append [simp]:
  "trace_ok (write_justified d) tr \<Longrightarrow> \<forall>c\<in>set new. \<not> is_cas_call c \<Longrightarrow>
   trace_ok (write_justified d) (tr @ new)"
  by (simp add: trace_ok_append write_justified_other)

lemma justified_append_cas [simp]:
  assumes "trace_ok (write_justified d) tr" and "\<forall>c\<in>set new. \<not> is_cas_call c"
    and "status_justified d (tr @ new) p q (sp_lifecycle_status q)"
  shows "trace_ok (write_justified d) (tr @ new @ [CallCas p q x])"
  using assms by (simp flip: append_assoc)

lemma no_cas_tail:
  fixes w :: "'s world"
  assumes "emits (\<lambda>c. \<not> is_cas_call c) m" and "ordered (write_justified d) w"
    and "\<And>a v. ordered (write_justified d) v \<Longrightarrow> Q a v"
    and "\<And>e v. ordered (write_justified d) v \<Longrightarrow> E e v"
  shows "wp m Q E w"
  by (rule wp_ordered_emits [OF emits_mono [OF assms(1)] assms(2)])
    (simp_all add: write_justified_other assms(3,4))

lemma no_cas_persist: "emits (\<lambda>c. \<not> is_cas_call c) (persist_prepared rt d t pr rq ag now ref)"
  unfolding persist_defs Let_def by (intro emits_intros) simp_all

lemma no_cas_required: "emits (\<lambda>c. \<not> is_cas_call c) (required rt t r)"
  by (intro emits_intros) simp_all

lemma no_cas_emit: "emits (\<lambda>c. \<not> is_cas_call c) (emit rt p ty at rc)"
  by (intro emits_intros) simp_all

lemmas justified_tails = no_cas_tail [OF no_cas_required] no_cas_tail [OF no_cas_emit]
  no_cas_tail [OF no_cas_persist]

lemma wpi_cas:
  fixes w :: "'s world"
  assumes "ordered (write_justified d) w"
    and "status_justified d (w_trace w) p q (sp_lifecycle_status q)"
    and "\<And>won v. ordered (write_justified d) v \<Longrightarrow> Q won v"
    and "\<And>e v. ordered (write_justified d) v \<Longrightarrow> E e v"
  shows "wp (cas rt p q) Q E w"
  unfolding cas_def
  by (rule wpi_call_store) (use assms in simp_all)

section \<open>Every write is justified\<close>

abbreviation justified :: "action_definition \<Rightarrow> ('s world, 'a) eff \<Rightarrow> 's world \<Rightarrow> bool" where
  "justified d m w \<equiv> wp m (\<lambda>_. ordered (write_justified d)) (\<lambda>_. ordered (write_justified d)) w"

lemma authority_satisfied_last [simp]:
  assumes "sp_commitment p = Some c" and "ae_satisfied v" and "sp_authority_evidence q = es"
  shows "authority_satisfied d (tr @ [y, CallEvaluate (authority_binding_of d p c)
           (valid_authority_evidence es (authority_binding_of d p c) at) (Inr v)]) p q"
  unfolding authority_satisfied_def
proof (intro exI conjI)
  show "list_all (\<lambda>e. av_valid (validate_authority_evidence e (authority_binding_of d p c) at))
    (valid_authority_evidence es (authority_binding_of d p c) at)"
    by (auto simp: valid_authority_evidence_def list_all_iff)
qed (use assms in \<open>auto simp: valid_authority_evidence_def\<close>)

lemma record_authority_justified:
  fixes w :: "'s world"
  assumes "ordered (write_justified d) w"
  shows "justified d (record_authority rt d e a ref) w"
  unfolding record_authority_def Let_def
  by (intro trace_intros wpi_cas [where d = d] justified_tails [where d = d])
    (use assms in auto)

lemma expire_due_justified:
  fixes w :: "'s world"
  assumes "ordered (write_justified d) w"
  shows "justified d (expire_due rt d t r) w"
  unfolding expire_due_def Let_def
  by (intro trace_intros wpi_cas [where d = d] justified_tails [where d = d]) (use assms in simp_all)

lemma execution_target_justified:
  assumes "executor_said tr (\<lambda>x'. x' = x) \<or> er_status x = ExecFAILED_KNOWN \<and> refused_after_admission tr"
    and "execution_target d now (er_status (declared_execution d p x)) = (target, out, nxt)"
  shows "status_justified d tr p q target"
  using assms by (cases "er_status x") (auto simp: declared_execution_def executor_said_def split: if_splits)

lemma settle_execution_justified:
  fixes w :: "'s world"
  assumes "ordered (write_justified d) w"
    and "executor_said (w_trace w) (\<lambda>x'. x' = x)
      \<or> er_status x = ExecFAILED_KNOWN \<and> refused_after_admission (w_trace w)"
  shows "justified d (settle_execution rt d p x now) w"
  unfolding settle_execution_def Let_def
  by (intro trace_intros wpi_cas [where d = d] justified_tails [where d = d])
    (use assms in \<open>auto intro: execution_target_justified\<close>)

lemma block_justified:
  fixes w :: "'s world"
  assumes "ordered (write_justified d) w"
  shows "justified d (block rt d record now rc) w" "justified d (expire_now rt record) w"
  unfolding block_def expire_now_def Let_def
  by (intro trace_intros wpi_cas [where d = d] justified_tails [where d = d]; use assms in simp)+

lemma supersede_stale_justified:
  fixes w :: "'s world"
  assumes "ordered (write_justified d) w"
    and "\<exists>s ctx resolved. last_is (w_trace w) (CallResolve s ctx (Inr resolved)) \<and> rs_materially_drifted resolved"
  shows "justified d (supersede_stale rt d record repl now) w"
  unfolding supersede_stale_def Let_def
  by (intro trace_intros wpi_cas [where d = d] justified_tails [where d = d]) (use assms in simp_all)

lemma execute_justified:
  fixes w :: "'s world"
  assumes "ordered (write_justified d) w"
  shows "justified d (execute rt d t r) w"
  unfolding execute_defs evaluate_authority_def load_private_def protection_defs Let_def
  by (intro trace_intros justified_tails [where d = d] settle_execution_justified block_justified
        supersede_stale_justified)
    (use assms in \<open>auto simp: executor_said_def refused_after_admission_def intro: effect_claim_result.exhaust\<close>)

lemma verification_transition_justified:
  assumes "verifier_said tr (\<lambda>v'. v' = v)" and "verification_transition d p v n = (target, out, rc)"
    and "sp_lifecycle_status p = VERIFICATION_PENDING"
  shows "status_justified d tr p q target"
  using assms
  by (auto simp: verification_transition_def verifier_said_def resend_proved_def list_ex_iff list_all_iff
      split: if_splits)

lemma reconcile_observe_justified:
  fixes w :: "'s world"
  assumes "ordered (write_justified d) w" and "sp_lifecycle_status p = VERIFICATION_PENDING"
  shows "justified d (reconcile_observe rt d t r p now) w"
  unfolding reconcile_observe_def settle_verification_def Let_def
  by (intro trace_intros wpi_cas [where d = d] justified_tails [where d = d])
    (use assms in \<open>auto simp: verifier_said_def intro: verification_transition_justified\<close>)

lemma reconcile_justified:
  fixes w :: "'s world"
  assumes "ordered (write_justified d) w"
  shows "justified d (reconcile rt d t r) w"
  unfolding reconcile_def Let_def
  by (intro trace_intros wpi_cas [where d = d] justified_tails [where d = d] reconcile_observe_justified)
    (use assms in simp_all)

lemma resume_verification_justified:
  fixes w :: "'s world"
  assumes "ordered (write_justified d) w"
  shows "justified d (resume_verification rt d t r n op ir) w"
  unfolding resume_verification_def Let_def
  by (intro trace_intros wpi_cas [where d = d] justified_tails [where d = d] reconcile_justified)
    (use assms in simp_all)

section \<open>Properties\<close>

primrec op_definition :: "operation \<Rightarrow> action_definition" where
  "op_definition (OpPrepare d t cmd rq ag ref) = d"
| "op_definition (OpRecordAuthority d e a ref) = d"
| "op_definition (OpExpireDue d t r) = d"
| "op_definition (OpExecute d t r) = d"
| "op_definition (OpReconcile d t r) = d"
| "op_definition (OpResumeVerification d t r n op ir) = d"
| "op_definition (OpRead d r c) = d"
| "op_definition (OpReadRecovery d r c) = d"
| "op_definition (OpExportEvidence sha256 dump d r c) = d"
| "op_definition (OpObservationContext d r c) = d"
| "op_definition (OpErase d r c) = d"

lemma no_cas_operations:
  "emits (\<lambda>c. \<not> is_cas_call c) (prepare rt d t cmd rq ag ref)"
  "emits (\<lambda>c. \<not> is_cas_call c) (read rt d r c)"
  "emits (\<lambda>c. \<not> is_cas_call c) (observation_context rt d r c)"
  "emits (\<lambda>c. \<not> is_cas_call c) (read_recovery rt d r c)"
  "emits (\<lambda>c. \<not> is_cas_call c) (export_evidence sha256 dump rt d r c)"
  "emits (\<lambda>c. \<not> is_cas_call c) (erase rt d r c)"
  unfolding prepare_def read_def observation_context_def read_recovery_def read_effect_owner_def
    may_show_owner_def claim_owner_def export_evidence_def erase_def erase_destroy_def Let_def
  by (intro emits_intros no_cas_persist; simp)+

lemmas operation_justified =
  no_cas_operations [THEN no_cas_tail] record_authority_justified expire_due_justified
  execute_justified reconcile_justified resume_verification_justified

lemma justified_run:
  fixes w :: "'s world"
  assumes "justified d m w"
  shows "ordered (write_justified d) (snd (m w))"
  using assms by (cases "m w"; cases "fst (m w)") (auto simp: wp_def)

lemma operation_writes_justified:
  "ordered (write_justified (op_definition op)) (run_operation rt op (start s n))"
  by (cases op; simp only: run_operation.simps op_definition.simps; rule justified_run;
      rule operation_justified; simp)

lemma operation_cas_justified:
  assumes "w_trace (run_operation rt op (start s n)) = before @ CallCas p q out # later"
  shows "status_justified (op_definition op) before p q (sp_lifecycle_status q)"
  using trace_okD [OF operation_writes_justified assms] by simp

definition cas_to :: "lifecycle_status \<Rightarrow> call \<Rightarrow> bool" where
  "cas_to st c = (case c of CallCas p q out \<Rightarrow> sp_lifecycle_status q = st | _ \<Rightarrow> False)"

lemma split_cas:
  assumes "list_ex (cas_to st) tr"
  obtains before p q out later where "tr = before @ CallCas p q out # later" "sp_lifecycle_status q = st"
proof -
  from assms obtain c where c: "c \<in> set tr" "cas_to st c" by (auto simp: list_ex_iff)
  obtain p q out where pq: "c = CallCas p q out" "sp_lifecycle_status q = st"
    using c(2) by (cases c) (simp_all add: cas_to_def)
  obtain before later where "tr = before @ c # later" using c(1) by (meson split_list)
  with pq that show thesis by blast
qed






definition failing_definition :: action_definition where
  "failing_definition = demo_definition\<lparr>ad_executor :=
     (\<lambda>n s x p. Inr \<lparr>er_status = ExecFAILED_KNOWN, er_result = None, er_item_outcomes = [],
                     er_external_reference = None, er_reason_code = None\<rparr>)\<rparr>"


end
