(* ===== verification/Protected_State.thy ===== *)
theory Protected_State
  imports Sessions
begin

text \<open>
  The protected private snapshot: what \<open>prepare\<close> persists can be loaded again, nothing is loaded
  that the commitment does not cover, and the compensation of a failed preparation spares the key
  material of a proposal that the store reports as persisted.
\<close>

section \<open>Laws of the host ports\<close>

text \<open>
  The documented behaviour of the protection ports and of the model class: a commitment verifies
  against the bytes it was created for, a protected payload is revealed unchanged, and parsing the
  canonical bytes of a snapshot gives that snapshot back.
\<close>

definition commits :: "commitment_provider_port \<Rightarrow> bool" where
  "commits provider =
     (case provider of
        PlainCommitmentProvider p \<Rightarrow>
          \<forall>n m ref b c. cp_create p n ref b = Inr c \<longrightarrow> cp_verify p m ref b c = Inr True
      | ProposalBoundCommitmentProvider p \<Rightarrow>
          \<forall>n m i b c. cp_create_for p n i b = Inr c \<longrightarrow> cp_verify_for p m i b c = Inr True)"

definition reveals :: "protection_codec_port \<Rightarrow> bool" where
  "reveals codec =
     (case codec of
        PlainProtectionCodec c \<Rightarrow>
          \<forall>n m ref b x. pcodec_protect c n ref b = Inr x \<longrightarrow> pcodec_unprotect c m x = Inr b
      | ProposalBoundProtectionCodec c \<Rightarrow>
          \<forall>n m i b x. pcodec_protect_for c n i b = Inr x \<longrightarrow> pcodec_unprotect_for c m i x = Inr b)"

definition parses_back :: "action_definition \<Rightarrow> host_model \<Rightarrow> bool" where
  "parses_back d snapshot \<longleftrightarrow>
     (\<forall>canonical. canonicalize_v1 (ad_nfc d) (hm_json snapshot) = Inr canonical \<longrightarrow>
        ad_parse_snapshot d (ad_private_snapshot_model d) canonical = Inr snapshot)"

section \<open>The record of a prepared action\<close>

text \<open>What a persisted record holds: the payload and the commitment of the snapshot it was made from.\<close>

definition holds_snapshot :: "action_definition \<Rightarrow> host_model \<Rightarrow> stored_proposal \<Rightarrow> bool" where
  "holds_snapshot d snapshot p \<longleftrightarrow>
     (\<exists>canonical input payload commitment.
        canonicalize_v1 (ad_nfc d) (hm_json snapshot) = Inr canonical
        \<and> commitment_payload_v1 (ad_nfc d) (sp_proposal_reference p) canonical = Inr input
        \<and> sp_protected_private_snapshot p = Some payload
        \<and> sp_commitment p = Some commitment
        \<and> (\<exists>n. (case ad_protection_codec d of
              ProposalBoundProtectionCodec c \<Rightarrow> pcodec_protect_for c n
                \<lparr>pi_tenant_reference = sp_tenant_reference p,
                 pi_proposal_reference = sp_proposal_reference p\<rparr> canonical
            | PlainProtectionCodec c \<Rightarrow> pcodec_protect c n (sp_proposal_reference p) canonical)
            = Inr payload)
        \<and> (\<exists>n. (case ad_commitment_provider d of
              ProposalBoundCommitmentProvider c \<Rightarrow> cp_create_for c n
                \<lparr>pi_tenant_reference = sp_tenant_reference p,
                 pi_proposal_reference = sp_proposal_reference p\<rparr> input
            | PlainCommitmentProvider c \<Rightarrow> cp_create c n (sp_proposal_reference p) input)
            = Inr commitment))"

text \<open>Weakest preconditions that keep what a port answered.\<close>

lemma wp_host_answer:
  "(\<And>n a v. port n = Inr a \<Longrightarrow> Q a v) \<Longrightarrow> (\<And>e v. E e v) \<Longrightarrow> wp (call_host rt entry port) Q E w"
  by (simp add: wp_def call_host_def Let_def split: sum.splits)

lemma wp_store_answer:
  "(\<And>a v. Q a v) \<Longrightarrow> (\<And>e v. E e v) \<Longrightarrow> wp (call_store rt entry m) Q E w"
  by (simp add: wp_def call_store_def Let_def split: sum.splits prod.splits)

lemma wp_identifier_any: "(\<And>a v. Q a v) \<Longrightarrow> (\<And>e v. E e v) \<Longrightarrow> wp (new_identifier rt p) Q E w"
  by (simp add: wp_def new_identifier_def split: sum.splits)

lemma wp_safe_any: "(\<And>a v. Q a v) \<Longrightarrow> (\<And>e v. E e v) \<Longrightarrow> wp (safe_reference rt p) Q E w"
  by (simp add: safe_reference_def)

lemmas answer_intros = wpi_return wpi_throw wpi_raise wpi_lift wpi_bind wpi_attempt wpi_if
  wpi_case_option wpi_case_sum wp_host_answer wp_store_answer wp_identifier_any wp_safe_any

lemma model_json_object_Inr: "model_json_object m = Inr kvs \<longleftrightarrow> hm_json m = JObj kvs"
  by (auto simp: model_json_object_def split: json.splits)

lemma persist_prepared_holds:
  fixes w :: "'s world"
  shows "wp (persist_prepared rt d t pr rq ag now ref)
    (\<lambda>p _. holds_snapshot d (pa_private_snapshot pr) p) (\<lambda>_ _. True) w"
  unfolding persist_defs protection_defs Let_def
  by (intro answer_intros)
    (auto simp: holds_snapshot_def model_json_object_Inr
      split: protection_codec_port.splits commitment_provider_port.splits)

lemma load_private_holds:
  fixes w :: "'s world"
  assumes "holds_snapshot d snapshot p" and "commits (ad_commitment_provider d)"
    and "reveals (ad_protection_codec d)" and "parses_back d snapshot"
  shows "wp (load_private rt d p) (\<lambda>loaded _. loaded = Some snapshot) (\<lambda>_ _. False) w"
  using assms
  unfolding load_private_def protection_defs Let_def holds_snapshot_def parses_back_def
  by (auto simp: wp_def bind_def attempt_def call_host_def lift_def return_def Let_def commits_def reveals_def
      split: commitment_provider_port.splits protection_codec_port.splits sum.splits)

section \<open>Order of a compensation\<close>

fun is_destroy_call :: "call \<Rightarrow> bool" where
  "is_destroy_call (CallDestroyPayload _ _ _) = True"
| "is_destroy_call (CallDestroyCommitment _ _ _) = True"
| "is_destroy_call _ = False"

fun is_create_call :: "call \<Rightarrow> bool" where
  "is_create_call (CallCreate _ _) = True"
| "is_create_call _ = False"

definition may_compensate :: "call list \<Rightarrow> bool" where
  "may_compensate tr \<longleftrightarrow> \<not> list_ex is_create_call tr
     \<or> (\<exists>p e found. CallCreate p (Inl e) \<in> set tr
          \<and> CallGet (sp_tenant_reference p) (sp_proposal_reference p) (Inr found) \<in> set tr
          \<and> found \<noteq> Some p)"

definition compensation_allowed :: "call list \<Rightarrow> call \<Rightarrow> bool" where
  "compensation_allowed before c \<longleftrightarrow> \<not> is_destroy_call c \<or> may_compensate before"

lemma compensation_allowed_other [simp]: "\<not> is_destroy_call c \<Longrightarrow> compensation_allowed pre c"
  by (simp add: compensation_allowed_def)

lemma compensation_append [simp]:
  "trace_ok compensation_allowed tr \<Longrightarrow> \<forall>c\<in>set new. \<not> is_destroy_call c \<Longrightarrow>
   trace_ok compensation_allowed (tr @ new)"
  by (simp add: trace_ok_append)

abbreviation compensated :: "('s world, 'a) eff \<Rightarrow> 's world \<Rightarrow> bool" where
  "compensated m w \<equiv> wp m (\<lambda>_ v. ordered compensation_allowed v \<and> \<not> list_ex is_destroy_call (w_trace v))
     (\<lambda>_. ordered compensation_allowed) w"

lemma may_compensate_append: "may_compensate tr \<Longrightarrow> \<not> list_ex is_create_call tr' \<Longrightarrow> may_compensate (tr @ tr')"
  by (auto simp: may_compensate_def)

lemma compensation_allowedI: "may_compensate tr \<Longrightarrow> compensation_allowed tr c"
  by (simp add: compensation_allowed_def)

lemma may_compensate_none: "\<not> list_ex is_create_call tr \<Longrightarrow> may_compensate tr"
  by (simp add: may_compensate_def)

lemma may_compensate_reconciled:
  assumes "found \<noteq> Some p" and "sp_tenant_reference p = t" and "sp_proposal_reference p = r"
  shows "may_compensate (tr @ [a, b, CallCreate p (Inl e), CallGet t r (Inr found)])"
  using assms by (auto simp: may_compensate_def)

lemma persist_cleanup_compensated:
  fixes w :: "'s world"
  assumes "ordered compensation_allowed w" and "may_compensate (w_trace w)"
  shows "compensated (persist_cleanup rt d i pp c f) w"
  unfolding persist_cleanup_def destroy_payload_def destroy_commitment_def Let_def
  by (intro trace_intros)
    (use assms in \<open>simp_all add: compensation_allowedI may_compensate_append flip: append_assoc\<close>)

lemma persist_prepared_compensated:
  fixes w :: "'s world"
  assumes "ordered compensation_allowed w" and "\<not> list_ex is_destroy_call (w_trace w)"
    and "\<not> list_ex is_create_call (w_trace w)"
  shows "compensated (persist_prepared rt d t pr rq ag now ref) w"
  unfolding persist_prepared_def persist_reconcile_def prepared_record_def create_commitment_def
    protect_payload_def Let_def
  by (intro trace_intros persist_cleanup_compensated) 
    (use assms in \<open>auto simp: may_compensate_none may_compensate_reconciled\<close>)

lemma wp_persist_compensated:
  fixes w :: "'s world"
  assumes "ordered compensation_allowed w" and "\<not> list_ex is_destroy_call (w_trace w)"
    and "\<not> list_ex is_create_call (w_trace w)"
    and "\<And>p v. ordered compensation_allowed v \<Longrightarrow> \<not> list_ex is_destroy_call (w_trace v) \<Longrightarrow> Q p v"
    and "\<And>e v. ordered compensation_allowed v \<Longrightarrow> E e v"
  shows "wp (persist_prepared rt d t pr rq ag now ref) Q E w"
  by (rule wp_mono [OF persist_prepared_compensated [OF assms(1-3)]]) (use assms(4,5) in blast)+

lemma prepare_compensated:
  fixes w :: "'s world"
  assumes "w_trace w = []"
  shows "compensated (prepare rt d t cmd rq ag ref) w"
  unfolding prepare_def emit_def Let_def
  by (intro trace_intros wp_persist_compensated) (use assms in \<open>simp_all add: compensation_append [of "[]", simplified]\<close>)

section \<open>Properties\<close>

text \<open>
  C11: round trip of the private snapshot. If the host's codec reveals what it protected, its
  provider verifies what it committed to and the snapshot's model parses its own canonical JSON,
  then the record that \<open>_persist_prepared\<close> persisted, loaded at any later time and in any world,
  gives back exactly the prepared snapshot.
\<close>

theorem prepared_snapshot_loads:
  assumes "persist_prepared rt d t pr rq ag now ref w = (Inr p, w')"
    and "commits (ad_commitment_provider d)" and "reveals (ad_protection_codec d)"
    and "parses_back d (pa_private_snapshot pr)"
  shows "fst (load_private rt' d p v) = Inr (Some (pa_private_snapshot pr))"
proof -
  have "holds_snapshot d (pa_private_snapshot pr) p"
    using wpD_value [OF persist_prepared_holds assms(1)] .
  from load_private_holds [OF this assms(2-4), of rt' v] show ?thesis
    by (simp add: wp_def split: prod.splits sum.splits)
qed

theorem prepared_snapshot_loads_witness:
  "\<exists>p. fst (persist_prepared demo_runtime demo_definition ''t'' demo_prepared demo_requester None 1000
          (Some ''p'') (start mem_init 0)) = Inr p
     \<and> fst (load_private demo_runtime demo_definition p (start mem_init 50)) = Inr (Some (demo_model 2 7))"
proof -
  let ?r = "persist_prepared demo_runtime demo_definition ''t'' demo_prepared demo_requester None 1000
          (Some ''p'') (start mem_init 0)"
  have "\<not> isl (fst ?r)" by code_simp
  then obtain p where p: "?r = (Inr p, snd ?r)" by (cases "fst ?r"; cases ?r) auto
  have "canonicalize_v1 (ad_nfc demo_definition) (hm_json (demo_model 2 7)) = Inr demo_canonical"
    by code_simp
  then have "parses_back demo_definition (pa_private_snapshot demo_prepared)"
    by (simp add: parses_back_def demo_prepared_def demo_definition_def demo_parse_def)
  then have "fst (load_private demo_runtime demo_definition p (start mem_init 50))
      = Inr (Some (pa_private_snapshot demo_prepared))"
    by (intro prepared_snapshot_loads [OF p])
      (simp_all add: commits_def reveals_def demo_definition_def demo_provider_def demo_codec_def)
  with p show ?thesis by (metis demo_prepared_def fst_conv prepared_action.select_convs(1))
qed

text \<open>
  C12: tamper evidence. A snapshot is handed to the state resolver only if the codec revealed some
  bytes for the stored payload, the provider verified the stored commitment against the
  domain-separated commitment input of exactly those bytes and this proposal's reference, and
  parsing exactly those bytes gave the snapshot.
\<close>

theorem loaded_snapshot_is_committed:
  assumes "load_private rt d p (start s n) = (Inr (Some snapshot), w)"
  shows "\<exists>payload commitment canonical input.
    sp_protected_private_snapshot p = Some payload \<and> sp_commitment p = Some commitment
    \<and> CallUnprotect \<lparr>pi_tenant_reference = sp_tenant_reference p,
         pi_proposal_reference = sp_proposal_reference p\<rparr> payload (Inr canonical) \<in> set (w_trace w)
    \<and> commitment_payload_v1 (ad_nfc d) (sp_proposal_reference p) canonical = Inr input
    \<and> CallVerifyCommitment \<lparr>pi_tenant_reference = sp_tenant_reference p,
         pi_proposal_reference = sp_proposal_reference p\<rparr> input commitment (Inr True) \<in> set (w_trace w)
    \<and> ad_parse_snapshot d (ad_private_snapshot_model d) canonical = Inr snapshot"
    (is "?P snapshot w")
proof -
  have loaded: "wp (load_private rt d p)
      (\<lambda>loaded v. case loaded of None \<Rightarrow> True | Some x \<Rightarrow> ?P x v) (\<lambda>_ _. True) (start s n)"
    unfolding load_private_def unprotect_payload_def verify_commitment_def Let_def
    by (intro trace_intros) auto
  from wpD_value [OF loaded assms] show ?thesis by simp
qed

theorem loaded_snapshot_is_committed_witness:
  "\<exists>w canonical. load_private demo_runtime demo_definition (demo_proposal AUTHORIZED) (start mem_init 0)
       = (Inr (Some (demo_model 2 7)), w)
     \<and> CallUnprotect \<lparr>pi_tenant_reference = ''t'', pi_proposal_reference = ''p''\<rparr> demo_payload (Inr canonical)
         \<in> set (w_trace w)"
proof -
  let ?r = "load_private demo_runtime demo_definition (demo_proposal AUTHORIZED) (start mem_init 0)"
  have "fst ?r = Inr (Some (demo_model 2 7))" by code_simp
  then have r: "?r = (Inr (Some (demo_model 2 7)), snd ?r)" by (metis prod.collapse)
  from loaded_snapshot_is_committed [OF r] r show ?thesis by (auto simp: demo_proposal_def)
qed


definition broken_codec_definition :: action_definition where
  "broken_codec_definition = demo_definition\<lparr>ad_protection_codec :=
     PlainProtectionCodec (demo_codec\<lparr>pcodec_protect := (\<lambda>n ref b. fails (HostError ''kms''))\<rparr>)\<rparr>"


section \<open>A lost acknowledgement and a concurrent approval\<close>

text \<open>
  The reconciliation of a lost acknowledgement compares the stored record with the record that was
  to be created. If another client approves the proposal between the two calls, the stored
  revision differs, and the compensation destroys the key material of a live, authorized
  proposal. The run below has exactly one lost acknowledgement (of the creation) and one
  concurrent write (the approval of the created proposal).
\<close>

definition created_proposal :: stored_proposal where
  "created_proposal = the (ms_proposals (w_store (snd (demo_prepare (start mem_init 0)))) (''t'', ''p''))"

definition racing_runtime :: "mem_store action_runtime" where
  "racing_runtime =
     memory_runtime
       (demo_base\<lparr>rt_fault := (\<lambda>n. if n = 6 then Some (LostAfter (Raised (HostError ''reset'') [])) else None)\<rparr>)
       (\<lambda>n. if n = 7
            then [ClientCas ''t'' ''p'' 0 [AWAITING_AUTHORITY]
                    (created_proposal\<lparr>sp_authority_evidence := [demo_evidence],
                       sp_lifecycle_status := AUTHORIZED, sp_revision := 1\<rparr>)]
            else [])"

definition racing_world :: "mem_store world" where
  "racing_world = snd (prepare racing_runtime demo_definition ''t'' (demo_model 1 7) demo_requester None
     (Some ''p'') (start mem_init 0))"


end
