(* ===== verification/Safeguards.thy ===== *)
theory Safeguards
  imports Sessions
begin

text \<open>
  What each operation may and may not call: only \<open>execute\<close> reaches the executor, readers never
  write, a proposal under erasure is invisible to the lifecycle operations, erasure destroys key
  material before it writes the tombstone, and the verifier is consulted only after a durable
  admission that spends one attempt of a bounded budget.
\<close>

section \<open>Specification\<close>

text \<open>A call that completes an erasure: authorized, and all key material already destroyed.\<close>

definition erasure_ordered :: "pystr \<Rightarrow> read_context \<Rightarrow> call list \<Rightarrow> call \<Rightarrow> bool" where
  "erasure_ordered r context before c =
     (case c of
        CallCompleteErasure p at out \<Rightarrow>
          CallAuthorizeErasure r context (Inr True) \<in> set before
          \<and> CallGet (rd_tenant_reference context) r (Inr (Some p)) \<in> set before
          \<and> (case sp_protected_private_snapshot p of
               None \<Rightarrow> True
             | Some payload \<Rightarrow>
                 CallDestroyPayload \<lparr>pi_tenant_reference = sp_tenant_reference p,
                   pi_proposal_reference = sp_proposal_reference p\<rparr> payload (Inr ()) \<in> set before)
          \<and> (case sp_commitment p of
               None \<Rightarrow> True
             | Some commitment \<Rightarrow>
                 CallDestroyCommitment \<lparr>pi_tenant_reference = sp_tenant_reference p,
                   pi_proposal_reference = sp_proposal_reference p\<rparr> commitment (Inr ()) \<in> set before)
      | _ \<Rightarrow> True)"

text \<open>
  A call of the verifier: the call just before it is a successful compare-and-set that counted the
  attempt, kept the attempts within the proposal's budget and took a lease.
\<close>

definition attempt_admitted :: "action_definition \<Rightarrow> call list \<Rightarrow> call \<Rightarrow> bool" where
  "attempt_admitted d before c =
     (case c of
        CallVerifier context _ \<Rightarrow>
          (\<exists>earlier p q. before = earlier @ [CallCas p q (Inr True)]
             \<and> sp_lifecycle_status q = VERIFICATION_PENDING
             \<and> sp_verification_attempts q = sp_verification_attempts p + 1
             \<and> sp_verification_attempts q \<le> sp_max_verification_attempts p
             \<and> sp_next_verification_at q
                 = Some (ec_observed_at context + ad_verification_lease_duration d)
             \<and> ec_proposal_reference context = sp_proposal_reference p)
      | _ \<Rightarrow> True)"

fun is_verifier_call :: "call \<Rightarrow> bool" where
  "is_verifier_call (CallVerifier _ _) = True"
| "is_verifier_call _ = False"

fun is_completion_call :: "call \<Rightarrow> bool" where
  "is_completion_call (CallCompleteErasure _ _ _) = True"
| "is_completion_call _ = False"

section \<open>Footprints\<close>

lemma quiet_projections [emits_intros]:
  "quiet (read_recovery rt d r c)" "quiet (export_evidence sha256 dump rt d r c)"
  unfolding read_recovery_def read_effect_owner_def may_show_owner_def claim_owner_def
    export_evidence_def Let_def
  by (intro emits_intros; simp)+

lemma emits_run:
  assumes "emits (\<lambda>c. \<not> P c) m"
  shows "\<not> list_ex P (w_trace (snd (m (start s n))))"
proof -
  have "\<exists>tr. w_trace (snd (m (start s n))) = w_trace (start s n) @ tr \<and> (\<forall>c\<in>set tr. \<not> P c)"
    using assms unfolding emits_def by blast
  then show ?thesis by (auto simp: list_ex_iff)
qed

lemmas quiet_operations = quiet_prepare quiet_record_authority quiet_expire_due quiet_reconcile
  quiet_resume_verification quiet_read quiet_projections quiet_erase

lemma reads_only:
  "emits (\<lambda>c. \<not> is_write_call c) (read rt d r c)"
  "emits (\<lambda>c. \<not> is_write_call c) (read_recovery rt d r c)"
  "emits (\<lambda>c. \<not> is_write_call c) (export_evidence sha256 dump rt d r c)"
  "emits (\<lambda>c. \<not> is_write_call c) (observation_context rt d r c)"
  unfolding read_def observation_context_def read_recovery_def read_effect_owner_def
    may_show_owner_def claim_owner_def export_evidence_def Let_def
  by (intro emits_intros; simp)+

section \<open>Order of an erasure\<close>

lemma erasure_ordered_other [simp]: "\<not> is_completion_call c \<Longrightarrow> erasure_ordered r x pre c"
  by (cases c) (simp_all add: erasure_ordered_def)

lemma erasure_ordered_append [simp]:
  "trace_ok (erasure_ordered r x) tr \<Longrightarrow> \<forall>c\<in>set new. \<not> is_completion_call c \<Longrightarrow>
   trace_ok (erasure_ordered r x) (tr @ new)"
  by (simp add: trace_ok_append)

lemma erase_destroy_ordered:
  fixes w :: "'s world"
  assumes "ordered (erasure_ordered r context) w"
    and "CallAuthorizeErasure r context (Inr True) \<in> set (w_trace w)"
    and "CallGet (rd_tenant_reference context) r (Inr (Some p)) \<in> set (w_trace w)"
  shows "wp (erase_destroy rt retention d r context p now)
    (\<lambda>_. ordered (erasure_ordered r context)) (\<lambda>_. ordered (erasure_ordered r context)) w"
  unfolding erase_destroy_def destroy_payload_def destroy_commitment_def required_def emit_def Let_def
  by (intro trace_intros)
    (use assms in \<open>auto simp: erasure_ordered_def [where c = "CallCompleteErasure p now out" for out]
       simp flip: append_assoc\<close>)

lemma erase_ordered:
  fixes w :: "'s world"
  assumes "ordered (erasure_ordered r context) w"
  shows "wp (erase rt d r context)
    (\<lambda>_. ordered (erasure_ordered r context)) (\<lambda>_. ordered (erasure_ordered r context)) w"
  unfolding erase_def required_def
  by (intro trace_intros erase_destroy_ordered) (use assms in simp_all)

section \<open>Order of a verification\<close>

lemma attempt_admitted_other [simp]: "\<not> is_verifier_call c \<Longrightarrow> attempt_admitted d pre c"
  by (cases c) (simp_all add: attempt_admitted_def)

lemma attempt_admitted_append [simp]:
  "trace_ok (attempt_admitted d) tr \<Longrightarrow> \<forall>c\<in>set new. \<not> is_verifier_call c \<Longrightarrow>
   trace_ok (attempt_admitted d) (tr @ new)"
  by (simp add: trace_ok_append)

lemma verifier_call_admitted:
  assumes "\<not> sp_max_verification_attempts p \<le> sp_verification_attempts p"
    and "sp_lifecycle_status p = VERIFICATION_PENDING"
    and "q = p\<lparr>sp_next_verification_at := Some (now + ad_verification_lease_duration d),
            sp_verification_attempts := sp_verification_attempts p + 1, sp_revision := sp_revision p + 1\<rparr>"
    and "execution_context_of q now None = Inr ctx"
  shows "attempt_admitted d (tr @ [CallCas p q (Inr True)]) (CallVerifier ctx out)"
  using assms
  by (auto simp: attempt_admitted_def execution_context_of_def split: option.splits)

lemma settle_verification_ordered:
  fixes w :: "'s world"
  assumes "ordered (attempt_admitted d) w"
  shows "wp (settle_verification rt d p v now)
    (\<lambda>_. ordered (attempt_admitted d)) (\<lambda>_. ordered (attempt_admitted d)) w"
  unfolding settle_verification_def cas_def required_def emit_def Let_def
  by (intro trace_intros) (use assms in simp_all)

lemma reconcile_observe_ordered:
  fixes w :: "'s world"
  assumes "ordered (attempt_admitted d) w" and "sp_lifecycle_status p = VERIFICATION_PENDING"
  shows "wp (reconcile_observe rt d t r p now)
    (\<lambda>_. ordered (attempt_admitted d)) (\<lambda>_. ordered (attempt_admitted d)) w"
  unfolding reconcile_observe_def cas_def required_def emit_def Let_def
  by (intro trace_intros settle_verification_ordered)
    (use assms in \<open>simp_all add: verifier_call_admitted flip: append_assoc\<close>)

lemma reconcile_ordered:
  fixes w :: "'s world"
  assumes "ordered (attempt_admitted d) w"
  shows "wp (reconcile rt d t r)
    (\<lambda>_. ordered (attempt_admitted d)) (\<lambda>_. ordered (attempt_admitted d)) w"
  unfolding reconcile_def cas_def required_def Let_def
  by (intro trace_intros reconcile_observe_ordered) (use assms in simp_all)

lemma resume_verification_ordered:
  fixes w :: "'s world"
  assumes "ordered (attempt_admitted d) w"
  shows "wp (resume_verification rt d t r n op ir)
    (\<lambda>_. ordered (attempt_admitted d)) (\<lambda>_. ordered (attempt_admitted d)) w"
  unfolding resume_verification_def cas_def required_def emit_def Let_def
  by (intro trace_intros reconcile_ordered) (use assms in simp_all)

section \<open>Erasure fences the lifecycle\<close>

fun is_lifecycle_operation :: "operation \<Rightarrow> bool" where
  "is_lifecycle_operation (OpRecordAuthority _ _ _ _) = True"
| "is_lifecycle_operation (OpExpireDue _ _ _) = True"
| "is_lifecycle_operation (OpExecute _ _ _) = True"
| "is_lifecycle_operation (OpReconcile _ _ _) = True"
| "is_lifecycle_operation (OpResumeVerification _ _ _ _ _ _) = True"
| "is_lifecycle_operation _ = False"

lemma emits_when: "emits P m \<Longrightarrow> Q \<Longrightarrow> emits (\<lambda>_. Q) m"
  by (erule emits_mono) simp

definition fences :: "('s world, 'a) eff \<Rightarrow> bool" where
  "fences m \<longleftrightarrow> (\<forall>s n t r p rest. w_trace (snd (m (start s n))) = CallGet t r (Inr (Some p)) # rest
     \<longrightarrow> \<not> untouched p \<longrightarrow> rest = [])"

lemma fenced_trace:
  assumes f: "\<And>p. emits (\<lambda>_. untouched p) (f p)"
    and tr: "w_trace (snd (bind (required rt t r) f (start s n))) = CallGet t' r' (Inr (Some p)) # rest"
    and p: "\<not> untouched p"
  shows "rest = []"
proof -
  let ?get = "call_store rt (CallGet t r) (as_get (rt_store rt) t r)"
  obtain x w1 where x: "?get (start s n) = (x, w1)" and w1: "w_trace w1 = [CallGet t r x]"
    by (cases "?get (start s n)") (auto simp: call_store_def Let_def split: prod.splits)
  show ?thesis
  proof (cases "\<exists>q. x = Inr (Some q) \<and> sp_tenant_reference q = t \<and> sp_proposal_reference q = r")
    case True
    then obtain q where q: "x = Inr (Some q)" "sp_tenant_reference q = t" "sp_proposal_reference q = r"
      by blast
    have run: "bind (required rt t r) f (start s n) = f q w1"
      using x q by (simp add: required_def bind_def return_def)
    obtain tr2 where tr2: "w_trace (snd (f q w1)) = [CallGet t r x] @ tr2" "\<forall>c\<in>set tr2. untouched q"
      using f [of q] w1 unfolding emits_def by metis
    with tr run q have "q = p" "rest = tr2" by simp_all
    with tr2(2) p show ?thesis by (cases tr2) auto
  next
    case False
    then have "w_trace (snd (bind (required rt t r) f (start s n))) = w_trace w1"
      using x by (auto simp: required_def bind_def return_def raise_def throw_def
          split: sum.splits option.splits)
    with tr w1 show ?thesis by simp
  qed
qed

lemma fences_bind: "(\<And>p. emits (\<lambda>_. untouched p) (f p)) \<Longrightarrow> fences (bind (required rt t r) f)"
  unfolding fences_def by (intro allI impI) (rule fenced_trace)

lemma fencesD:
  "fences m \<Longrightarrow> w_trace (snd (m (start s n))) = CallGet t r (Inr (Some p)) # rest \<Longrightarrow>
   \<not> untouched p \<Longrightarrow> rest = []"
  unfolding fences_def by blast

lemma emits_reauthorize: "Q \<Longrightarrow> emits (\<lambda>_. Q) (execute_reauthorize rt d p b resolved)"
  unfolding execute_reauthorize_def execute_admit_def execute_dispatch_def Let_def
  by (intro emits_intros quiet_settle_execution [THEN emits_when] quiet_refusals [THEN emits_when])

lemma emits_observe: "Q \<Longrightarrow> emits (\<lambda>_. Q) (reconcile_observe rt d t r p now)"
  unfolding reconcile_observe_def settle_verification_def Let_def by (intro emits_intros)

lemmas emits_any = emits_reauthorize emits_observe quiet_reconcile [THEN emits_when]
  quiet_load_private [THEN emits_when] quiet_refusals [THEN emits_when]

lemma fences_record_authority: "fences (record_authority rt d e a ref)"
  unfolding record_authority_def Let_def
  by (rule fences_bind, intro emits_intros) (simp_all add: untouched_def)

lemma fences_expire_due: "fences (expire_due rt d t r)"
  unfolding expire_due_def Let_def
  by (rule fences_bind, intro emits_intros) (simp_all add: untouched_def)

lemma fences_execute: "fences (execute rt d t r)"
  unfolding execute_def Let_def
  by (rule fences_bind, intro emits_intros emits_any) (simp_all add: untouched_def)

lemma fences_reconcile: "fences (reconcile rt d t r)"
  unfolding reconcile_def Let_def
  by (rule fences_bind, intro emits_intros emits_any) (simp_all add: untouched_def)

lemma fences_resume: "fences (resume_verification rt d t r k op ir)"
  unfolding resume_verification_def Let_def
  by (rule fences_bind, intro emits_intros emits_any) (simp_all add: untouched_def)

section \<open>Properties\<close>

text \<open>
  C15: no operation of the runtime other than \<open>execute\<close> ever calls the executor: not preparation,
  approval, expiry, reconciliation, an operator's resumption of verification, any reader or
  erasure, for every host, store, interference and fault.
\<close>

theorem only_execute_dispatches:
  assumes "\<not> is_execute_operation op"
  shows "\<not> list_ex is_executor_call (w_trace (run_operation rt op (start s n)))"
  using assms by (cases op) (simp_all add: emits_run quiet_operations)

theorem only_execute_dispatches_witness:
  "\<not> list_ex is_executor_call (w_trace (run_operation demo_runtime
      (OpResumeVerification demo_definition ''t'' ''p'' 1 (RecoveryOperator ''ops'') ''ticket'')
      (demo_start VERIFICATION_PENDING)))"
  unfolding demo_start_def by (rule only_execute_dispatches) simp

text \<open>
  The readers of the runtime (\<open>read\<close>, \<open>read_recovery\<close>, \<open>export_evidence\<close>,
  \<open>observation_context\<close>) never call a writing method of the store.
\<close>

lemma readers_never_write:
  assumes "is_read_operation op"
  shows "\<not> list_ex is_write_call (w_trace (run_operation rt op (start s n)))"
  using assms by (cases op) (simp_all add: emits_run reads_only)

text \<open>
  C14: erasure completes only after it was authorized and after the codec and the provider
  confirmed the destruction of the protected payload and of the commitment key of the very
  revision whose tombstone is written. A destruction that raises leaves the proposal without a
  tombstone, so the erasure can be repeated.
\<close>

theorem erasure_destroys_keys_first:
  assumes "erase rt d r context (start s n) = (res, w)"
    and "w_trace w = before @ CallCompleteErasure p at out # later"
  shows "CallAuthorizeErasure r context (Inr True) \<in> set before
    \<and> (case sp_protected_private_snapshot p of
         None \<Rightarrow> True
       | Some payload \<Rightarrow>
           CallDestroyPayload \<lparr>pi_tenant_reference = sp_tenant_reference p,
             pi_proposal_reference = sp_proposal_reference p\<rparr> payload (Inr ()) \<in> set before)
    \<and> (case sp_commitment p of
         None \<Rightarrow> True
       | Some commitment \<Rightarrow>
           CallDestroyCommitment \<lparr>pi_tenant_reference = sp_tenant_reference p,
             pi_proposal_reference = sp_proposal_reference p\<rparr> commitment (Inr ()) \<in> set before)"
proof -
  have "ordered (erasure_ordered r context) w"
    by (rule wp_start [OF erase_ordered assms(1)]) simp
  then have "erasure_ordered r context before (CallCompleteErasure p at out)"
    using assms(2) by (rule trace_okD)
  then show ?thesis by (simp add: erasure_ordered_def)
qed

definition demo_reader :: read_context where
  "demo_reader = \<lparr>rd_tenant_reference = ''t'', rd_consumer = EvidenceConsumer ''auditor''\<rparr>"

definition demo_erase :: "(mem_store world, action_operation_result) eff" where
  "demo_erase = erase demo_runtime demo_definition ''p'' demo_reader"

theorem erasure_destroys_keys_first_witness:
  "\<exists>before p at out later.
     w_trace (snd (demo_erase (demo_start VERIFIED))) = before @ CallCompleteErasure p at out # later
     \<and> CallAuthorizeErasure ''p'' demo_reader (Inr True) \<in> set before"
proof -
  let ?w = "snd (demo_erase (demo_start VERIFIED))"
  have "list_ex is_completion_call (w_trace ?w)" by code_simp
  then obtain c where c: "c \<in> set (w_trace ?w)" "is_completion_call c" by (auto simp: list_ex_iff)
  obtain p at out where "c = CallCompleteErasure p at out" using c(2) by (cases c) simp_all
  with c(1) obtain before later where tr: "w_trace ?w = before @ CallCompleteErasure p at out # later"
    by (meson split_list)
  have "CallAuthorizeErasure ''p'' demo_reader (Inr True) \<in> set before"
    using erasure_destroys_keys_first [of demo_runtime demo_definition "''p''" demo_reader
        "demo_store (demo_proposal VERIFIED)" 0 "fst (demo_erase (demo_start VERIFIED))" ?w, OF _ tr]
    by (simp add: demo_erase_def demo_start_def)
  with tr show ?thesis by blast
qed



text \<open>
  Once a proposal is marked for erasure, or erased, it is invisible to the lifecycle: an
  operation that approves, expires, executes, reconciles or resumes and that reads it so makes no
  further call at all, neither to the host nor to the store.
\<close>

lemma erasure_fences_lifecycle:
  assumes "is_lifecycle_operation op"
    and "w_trace (run_operation rt op (start s n)) = CallGet t r (Inr (Some p)) # rest"
    and "sp_erasure_pending_at p \<noteq> None \<or> sp_erased_at p \<noteq> None"
  shows "rest = []"
proof -
  have p: "\<not> untouched p" using assms(3) by (auto simp: untouched_def)
  show ?thesis
    using assms(1,2) p
    by (cases op)
      (auto dest: fencesD [OF fences_record_authority] fencesD [OF fences_expire_due]
        fencesD [OF fences_execute] fencesD [OF fences_reconcile] fencesD [OF fences_resume])
qed

end
