(* ===== verification/Sqlite_Store.thy ===== *)
theory Sqlite_Store
  imports Memory_Store
begin

text \<open>
  \<open>stores/sqlite.py\<close> over the schema of \<open>_migrations/sqlite\<close>: the file-backed store. The database is
  the list of rows of its two tables; a statement is a function on these lists, with the
  primary keys, the foreign key and the update trigger of the schema; \<open>BEGIN IMMEDIATE\<close>,
  \<open>commit\<close> and \<open>rollback\<close> delimit a transaction that keeps or drops all its writes.

  Third-party code is the argument \<open>sqlite_config\<close>: pydantic's validation and JSON codec of a
  \<open>StoredProposal\<close> (over a type \<open>'d\<close> of texts), the \<open>CHECK\<close> clauses that look into the JSON text,
  the printing of instants and the engine's comparison of a printed instant with its own clock,
  whose reading \<open>db_now\<close> no operation changes. \<open>sqlite_laws\<close> states the documented round trip
  of the JSON codec.

  The theory interprets the store contract on this store and shows that every answer of it is an
  answer of the in-memory store.
\<close>

section \<open>Rows, tables and the engine\<close>

datatype 'd sql_value = SqlText 'd | SqlOther

record 'd proposal_row =
  pr_tenant_reference :: pystr
  pr_proposal_reference :: pystr
  pr_action_namespace :: pystr
  pr_action_name :: pystr
  pr_action_version :: int
  pr_semantic_effect_reference :: pystr
  pr_effect_kind :: pystr
  pr_lifecycle_status :: pystr
  pr_revision :: int
  pr_created_at :: pystr
  pr_expires_at :: pystr
  pr_proposal_data :: "'d sql_value"

record claim_row =
  cl_tenant_reference :: pystr
  cl_action_namespace :: pystr
  cl_action_name :: pystr
  cl_action_version :: int
  cl_semantic_effect_reference :: pystr
  cl_proposal_reference :: "pystr sql_value"
  cl_admitted_at :: pystr

record 'd sqlite_db =
  db_proposals :: "'d proposal_row list"
  db_effect_claims :: "claim_row list"
  db_now :: instant

record 'd sqlite_config =
  sq_model_validate :: "stored_proposal \<Rightarrow> stored_proposal outcome"
  sq_model_dump_json :: "stored_proposal \<Rightarrow> 'd"
  sq_model_validate_json :: "'d \<Rightarrow> stored_proposal outcome"
  sq_json_checks :: "'d proposal_row \<Rightarrow> bool"
  sq_isoformat :: "instant \<Rightarrow> pystr"
  sq_julianday_after :: "pystr \<Rightarrow> instant \<Rightarrow> bool"

fun lifecycle_value :: "lifecycle_status \<Rightarrow> pystr" where
  "lifecycle_value AWAITING_AUTHORITY = ''awaiting_authority''"
| "lifecycle_value DENIED = ''denied''"
| "lifecycle_value EXPIRED = ''expired''"
| "lifecycle_value AUTHORIZED = ''authorized''"
| "lifecycle_value BLOCKED = ''blocked''"
| "lifecycle_value STALE = ''stale''"
| "lifecycle_value SUPERSEDED = ''superseded''"
| "lifecycle_value EXECUTING = ''executing''"
| "lifecycle_value FAILED_KNOWN = ''failed_known''"
| "lifecycle_value FAILED_UNKNOWN = ''failed_unknown''"
| "lifecycle_value VERIFICATION_PENDING = ''verification_pending''"
| "lifecycle_value VERIFICATION_UNRESOLVED = ''verification_unresolved''"
| "lifecycle_value PARTIALLY_SUCCEEDED = ''partially_succeeded''"
| "lifecycle_value VERIFIED = ''verified''"

fun effect_kind_value :: "effect_kind \<Rightarrow> pystr" where
  "effect_kind_value Single = ''single''"
| "effect_kind_value Itemized = ''itemized''"

section \<open>The schema\<close>

definition trigger_transitions :: "(pystr \<times> pystr) list" where
  "trigger_transitions =
     [(''awaiting_authority'', ''denied''), (''awaiting_authority'', ''expired''),
      (''awaiting_authority'', ''authorized''), (''authorized'', ''expired''),
      (''authorized'', ''blocked''), (''authorized'', ''stale''), (''authorized'', ''executing''),
      (''stale'', ''superseded''), (''executing'', ''stale''), (''executing'', ''failed_known''),
      (''executing'', ''failed_unknown''), (''executing'', ''verification_pending''),
      (''failed_unknown'', ''verification_pending''), (''verification_pending'', ''authorized''),
      (''verification_pending'', ''executing''), (''verification_pending'', ''failed_known''),
      (''verification_pending'', ''failed_unknown''),
      (''verification_pending'', ''verification_unresolved''),
      (''verification_pending'', ''partially_succeeded''), (''verification_pending'', ''verified''),
      (''verification_unresolved'', ''verification_pending'')]"

definition enforce_proposal_update :: "'d proposal_row \<Rightarrow> 'd proposal_row \<Rightarrow> bool" where
  "enforce_proposal_update old new \<longleftrightarrow>
     pr_tenant_reference new = pr_tenant_reference old
     \<and> pr_proposal_reference new = pr_proposal_reference old
     \<and> pr_action_namespace new = pr_action_namespace old
     \<and> pr_action_name new = pr_action_name old
     \<and> pr_action_version new = pr_action_version old
     \<and> pr_semantic_effect_reference new = pr_semantic_effect_reference old
     \<and> pr_effect_kind new = pr_effect_kind old
     \<and> pr_created_at new = pr_created_at old
     \<and> pr_revision new = pr_revision old + 1
     \<and> (pr_lifecycle_status new = pr_lifecycle_status old
        \<or> (pr_lifecycle_status old, pr_lifecycle_status new) \<in> set trigger_transitions)"

definition row_key :: "'d proposal_row \<Rightarrow> proposal_key" where
  "row_key w = (pr_tenant_reference w, pr_proposal_reference w)"

definition claim_row_key :: "claim_row \<Rightarrow> claim_key" where
  "claim_row_key w =
     (cl_tenant_reference w,
      (cl_action_namespace w, cl_action_name w, cl_action_version w),
      cl_semantic_effect_reference w)"

text \<open>The foreign key of \<open>effect_claims\<close>.\<close>

definition references_proposal :: "'d sqlite_db \<Rightarrow> claim_row \<Rightarrow> bool" where
  "references_proposal db w \<longleftrightarrow>
     list_ex (\<lambda>v. pr_tenant_reference v = cl_tenant_reference w
        \<and> SqlText (pr_proposal_reference v) = cl_proposal_reference w
        \<and> pr_action_namespace v = cl_action_namespace w
        \<and> pr_action_name v = cl_action_name w
        \<and> pr_action_version v = cl_action_version w
        \<and> pr_semantic_effect_reference v = cl_semantic_effect_reference w) (db_proposals db)"

section \<open>Statements\<close>

definition select_proposal :: "proposal_key \<Rightarrow> 'd sqlite_db \<Rightarrow> 'd proposal_row option" where
  "select_proposal k db = find (\<lambda>w. row_key w = k) (db_proposals db)"

definition insert_proposal ::
  "'d sqlite_config \<Rightarrow> 'd proposal_row \<Rightarrow> 'd sqlite_db \<Rightarrow> 'd sqlite_db outcome" where
  "insert_proposal c w db =
     (if row_key w \<in> row_key ` set (db_proposals db) \<or> \<not> sq_json_checks c w
      then fails IntegrityError
      else Inr (db\<lparr>db_proposals := db_proposals db @ [w]\<rparr>))"

text \<open>\<open>UPDATE proposals SET \<dots> WHERE \<dots>\<close>: the rows that satisfy the guard are changed; the
  trigger or a check on one of them aborts the statement. The result is the row count.\<close>

definition update_proposals ::
  "'d sqlite_config \<Rightarrow> ('d proposal_row \<Rightarrow> bool) \<Rightarrow> ('d proposal_row \<Rightarrow> 'd proposal_row) \<Rightarrow>
   'd sqlite_db \<Rightarrow> (nat \<times> 'd sqlite_db) outcome" where
  "update_proposals c guard change db =
     (let hit = filter guard (db_proposals db) in
      if list_ex (\<lambda>w. \<not> enforce_proposal_update w (change w) \<or> \<not> sq_json_checks c (change w)) hit
      then fails IntegrityError
      else Inr (length hit,
                db\<lparr>db_proposals := map (\<lambda>w. if guard w then change w else w) (db_proposals db)\<rparr>))"

definition select_claim :: "claim_key \<Rightarrow> 'd sqlite_db \<Rightarrow> claim_row option" where
  "select_claim k db = find (\<lambda>w. claim_row_key w = k) (db_effect_claims db)"

definition insert_claim :: "claim_row \<Rightarrow> 'd sqlite_db \<Rightarrow> 'd sqlite_db outcome" where
  "insert_claim w db =
     (if claim_row_key w \<in> claim_row_key ` set (db_effect_claims db) \<or> \<not> references_proposal db w
      then fails IntegrityError
      else Inr (db\<lparr>db_effect_claims := db_effect_claims db @ [w]\<rparr>))"

definition update_claims ::
  "(claim_row \<Rightarrow> bool) \<Rightarrow> (claim_row \<Rightarrow> claim_row) \<Rightarrow> 'd sqlite_db \<Rightarrow> (nat \<times> 'd sqlite_db) outcome" where
  "update_claims guard change db =
     (let hit = filter guard (db_effect_claims db) in
      if list_ex (\<lambda>w. \<not> references_proposal db (change w)) hit then fails IntegrityError
      else Inr (length hit,
                db\<lparr>db_effect_claims := map (\<lambda>w. if guard w then change w else w) (db_effect_claims db)\<rparr>))"

text \<open>
  A transaction: the body ends with a raise, with a commit or with a rollback and a value.
\<close>

datatype ('a, 's) tx_end = Commit 'a 's | Rollback 'a

definition transaction :: "('s \<Rightarrow> ('a, 's) tx_end outcome) \<Rightarrow> ('s, 'a) eff" where
  "transaction body db =
     (case body db of
        Inl e \<Rightarrow> (Inl e, db)
      | Inr (Commit a db') \<Rightarrow> (Inr a, db')
      | Inr (Rollback a) \<Rightarrow> (Inr a, db))"

section \<open>Loading and updating a proposal\<close>

definition indexed_identity where
  "indexed_identity w =
     (pr_tenant_reference w, pr_proposal_reference w, pr_action_namespace w, pr_action_name w,
      pr_action_version w, pr_semantic_effect_reference w, pr_effect_kind w,
      pr_lifecycle_status w, pr_revision w, pr_created_at w, pr_expires_at w)"

definition model_identity where
  "model_identity c p =
     (sp_tenant_reference p, sp_proposal_reference p, at_namespace (sp_action_type p),
      at_name (sp_action_type p), at_version (sp_action_type p), sp_semantic_effect_reference p,
      effect_kind_value (sp_effect_kind p), lifecycle_value (sp_lifecycle_status p), sp_revision p,
      sq_isoformat c (sp_created_at p), sq_isoformat c (sp_expires_at p))"

definition sq_load ::
  "'d sqlite_config \<Rightarrow> pystr \<Rightarrow> pystr \<Rightarrow> 'd sqlite_db \<Rightarrow> stored_proposal option outcome" where
  "sq_load c t r db =
     (case select_proposal (t, r) db of
        None \<Rightarrow> Inr None
      | Some row \<Rightarrow>
          (case pr_proposal_data row of
             SqlOther \<Rightarrow> fails StoredDataCorruptionError
           | SqlText raw \<Rightarrow>
               (case sq_model_validate_json c raw of
                  Inl _ \<Rightarrow> fails StoredDataCorruptionError
                | Inr p \<Rightarrow>
                    if indexed_identity row \<noteq> model_identity c p
                    then fails StoredDataCorruptionError
                    else Inr (Some p))))"

definition sq_update ::
  "'d sqlite_config \<Rightarrow> stored_proposal \<Rightarrow> stored_proposal \<Rightarrow> 'd sqlite_db \<Rightarrow> 'd sqlite_db outcome" where
  "sq_update c current updated db =
     result_bind
       (update_proposals c
          (\<lambda>w. row_key w = (sp_tenant_reference current, sp_proposal_reference current)
               \<and> pr_revision w = sp_revision current
               \<and> pr_lifecycle_status w = lifecycle_value (sp_lifecycle_status current))
          (\<lambda>w. w\<lparr>pr_lifecycle_status := lifecycle_value (sp_lifecycle_status updated),
                 pr_revision := sp_revision updated,
                 pr_expires_at := sq_isoformat c (sp_expires_at updated),
                 pr_proposal_data := SqlText (sq_model_dump_json c updated)\<rparr>) db)
       (\<lambda>(rowcount, db').
          if rowcount \<noteq> 1 then fails (StoreInvariantError GuardedUpdateLost) else Inr db')"

section \<open>The action store\<close>

definition proposal_row_of :: "'d sqlite_config \<Rightarrow> stored_proposal \<Rightarrow> 'd proposal_row" where
  "proposal_row_of c p =
     \<lparr>pr_tenant_reference = sp_tenant_reference p,
      pr_proposal_reference = sp_proposal_reference p,
      pr_action_namespace = at_namespace (sp_action_type p),
      pr_action_name = at_name (sp_action_type p),
      pr_action_version = at_version (sp_action_type p),
      pr_semantic_effect_reference = sp_semantic_effect_reference p,
      pr_effect_kind = effect_kind_value (sp_effect_kind p),
      pr_lifecycle_status = lifecycle_value (sp_lifecycle_status p),
      pr_revision = sp_revision p,
      pr_created_at = sq_isoformat c (sp_created_at p),
      pr_expires_at = sq_isoformat c (sp_expires_at p),
      pr_proposal_data = SqlText (sq_model_dump_json c p)\<rparr>"

definition sq_create_sync :: "'d sqlite_config \<Rightarrow> stored_proposal \<Rightarrow> ('d sqlite_db, unit) eff" where
  "sq_create_sync c p =
     transaction (\<lambda>db.
       if select_proposal (sp_tenant_reference p, sp_proposal_reference p) db \<noteq> None
       then fails ProposalAlreadyExistsError
       else result_bind (insert_proposal c (proposal_row_of c p) db) (\<lambda>db'. Inr (Commit () db')))"

definition sq_create :: "'d sqlite_config \<Rightarrow> stored_proposal \<Rightarrow> ('d sqlite_db, unit) eff" where
  "sq_create c proposal =
     bind (lift (sq_model_validate c proposal)) (\<lambda>p.
     bind (lift (validate_proposal_create p)) (\<lambda>_.
     sq_create_sync c p))"

definition sq_get :: "'d sqlite_config \<Rightarrow> pystr \<Rightarrow> pystr \<Rightarrow> ('d sqlite_db, stored_proposal option) eff" where
  "sq_get c t r db = (sq_load c t r db, db)"

definition sq_select_owner :: "claim_key \<Rightarrow> 'd sqlite_db \<Rightarrow> pystr option outcome" where
  "sq_select_owner k db =
     (case select_claim k db of
        None \<Rightarrow> Inr None
      | Some row \<Rightarrow>
          (case cl_proposal_reference row of
             SqlOther \<Rightarrow> fails StoredDataCorruptionError
           | SqlText owner \<Rightarrow> Inr (Some owner)))"

definition sq_claim_owner :: "stored_proposal \<Rightarrow> 'd sqlite_db \<Rightarrow> pystr option outcome" where
  "sq_claim_owner p db =
     sq_select_owner
       (sp_tenant_reference p,
        (at_namespace (sp_action_type p), at_name (sp_action_type p), at_version (sp_action_type p)),
        sp_semantic_effect_reference p) db"

definition sq_get_effect_claim_owner ::
  "pystr \<Rightarrow> action_type \<Rightarrow> pystr \<Rightarrow> ('d sqlite_db, pystr option) eff" where
  "sq_get_effect_claim_owner t a x db =
     (sq_select_owner (t, (at_namespace a, at_name a, at_version a), x) db, db)"

definition sq_compare_and_set_sync ::
  "'d sqlite_config \<Rightarrow> pystr \<Rightarrow> pystr \<Rightarrow> int \<Rightarrow> lifecycle_status list \<Rightarrow> stored_proposal \<Rightarrow>
   ('d sqlite_db, bool) eff" where
  "sq_compare_and_set_sync c t r expected_revision expected_statuses updated =
     transaction (\<lambda>db.
       result_bind (sq_load c t r db) (\<lambda>loaded.
       case loaded of
         None \<Rightarrow> Inr (Rollback False)
       | Some current \<Rightarrow>
           if sp_revision current \<noteq> expected_revision
              \<or> sp_lifecycle_status current \<notin> set expected_statuses
           then Inr (Rollback False)
           else
             result_bind (validate_proposal_update current updated) (\<lambda>_.
             result_bind
               (if sp_lifecycle_status updated = EXECUTING \<and> sp_lifecycle_status current \<noteq> EXECUTING
                then result_bind (sq_claim_owner current db) (\<lambda>owner.
                       if owner \<noteq> Some (sp_proposal_reference current)
                       then fails (StoreInvariantError ExecutionWithoutClaim) else Inr ())
                else Inr ()) (\<lambda>_.
             result_bind (sq_update c current updated db) (\<lambda>db'.
             Inr (Commit True db'))))))"

definition sq_compare_and_set ::
  "'d sqlite_config \<Rightarrow> pystr \<Rightarrow> pystr \<Rightarrow> int \<Rightarrow> lifecycle_status list \<Rightarrow> stored_proposal \<Rightarrow>
   ('d sqlite_db, bool) eff" where
  "sq_compare_and_set c t r expected_revision expected_statuses updated =
     bind (lift (sq_model_validate c updated)) (\<lambda>updated'.
     sq_compare_and_set_sync c t r expected_revision expected_statuses updated')"

definition claim_row_of :: "'d sqlite_config \<Rightarrow> stored_proposal \<Rightarrow> instant \<Rightarrow> claim_row" where
  "claim_row_of c p admitted_at =
     \<lparr>cl_tenant_reference = sp_tenant_reference p,
      cl_action_namespace = at_namespace (sp_action_type p),
      cl_action_name = at_name (sp_action_type p),
      cl_action_version = at_version (sp_action_type p),
      cl_semantic_effect_reference = sp_semantic_effect_reference p,
      cl_proposal_reference = SqlText (sp_proposal_reference p),
      cl_admitted_at = sq_isoformat c admitted_at\<rparr>"

definition sq_claim_effect ::
  "'d sqlite_config \<Rightarrow> stored_proposal \<Rightarrow> instant \<Rightarrow> 'd sqlite_db \<Rightarrow>
   (effect_claim_result \<times> 'd sqlite_db) outcome" where
  "sq_claim_effect c p admitted_at db =
     result_bind (sq_claim_owner p db) (\<lambda>found.
     case found of
       None \<Rightarrow>
         result_bind (insert_claim (claim_row_of c p admitted_at) db) (\<lambda>db'. Inr (ClaimACQUIRED, db'))
     | Some owner \<Rightarrow>
         if owner = sp_proposal_reference p then Inr (ClaimOWNED_BY_PROPOSAL, db)
         else result_bind (sq_load c (sp_tenant_reference p) owner db) (\<lambda>owner_record.
           if (case owner_record of
                 None \<Rightarrow> False
               | Some o' \<Rightarrow> sp_lifecycle_status o' \<in> {FAILED_KNOWN, STALE})
           then result_bind
                  (update_claims
                     (\<lambda>w. claim_row_key w = claim_row_key (claim_row_of c p admitted_at)
                          \<and> cl_proposal_reference w = SqlText owner)
                     (\<lambda>w. w\<lparr>cl_proposal_reference := SqlText (sp_proposal_reference p),
                            cl_admitted_at := sq_isoformat c admitted_at\<rparr>) db)
                  (\<lambda>(rowcount, db').
                     Inr (if rowcount = 1 then ClaimACQUIRED else ClaimCONFLICT, db'))
           else Inr (ClaimCONFLICT, db)))"

definition sq_admit_execution_sync ::
  "'d sqlite_config \<Rightarrow> pystr \<Rightarrow> pystr \<Rightarrow> int \<Rightarrow> instant \<Rightarrow> stored_proposal \<Rightarrow>
   ('d sqlite_db, effect_claim_result) eff" where
  "sq_admit_execution_sync c t r expected_revision admitted_at updated =
     transaction (\<lambda>db.
       result_bind (sq_load c t r db) (\<lambda>loaded.
       case loaded of
         None \<Rightarrow> Inr (Rollback ClaimPROPOSAL_NOT_FOUND)
       | Some current \<Rightarrow>
           if sp_revision current \<noteq> expected_revision
              \<or> sp_lifecycle_status current \<noteq> AUTHORIZED
              \<or> sp_erasure_pending_at current \<noteq> None
              \<or> sp_erased_at current \<noteq> None
              \<or> sp_expires_at current \<le> admitted_at
              \<or> \<not> sq_julianday_after c (sq_isoformat c (sp_expires_at current)) (db_now db)
           then Inr (Rollback ClaimPROPOSAL_NOT_AUTHORIZED)
           else
             result_bind (validate_proposal_update current updated) (\<lambda>_.
             if sp_lifecycle_status updated \<noteq> EXECUTING
             then fails (StoreInvariantError AdmissionNotExecuting)
             else
               result_bind (sq_claim_effect c current admitted_at db) (\<lambda>(claim, db').
               if claim = ClaimCONFLICT then Inr (Rollback claim)
               else result_bind (sq_update c current updated db') (\<lambda>db''.
                    Inr (Commit claim db''))))))"

definition sq_admit_execution ::
  "'d sqlite_config \<Rightarrow> pystr \<Rightarrow> pystr \<Rightarrow> int \<Rightarrow> instant \<Rightarrow> stored_proposal \<Rightarrow>
   ('d sqlite_db, effect_claim_result) eff" where
  "sq_admit_execution c t r expected_revision admitted_at updated =
     bind (lift (sq_model_validate c updated)) (\<lambda>updated'.
     sq_admit_execution_sync c t r expected_revision admitted_at updated')"

definition sqlite_action_store :: "'d sqlite_config \<Rightarrow> 'd sqlite_db action_store" where
  "sqlite_action_store c =
     \<lparr>as_create = sq_create c, as_get = sq_get c, as_compare_and_set = sq_compare_and_set c,
      as_admit_execution = sq_admit_execution c,
      as_get_effect_claim_owner = sq_get_effect_claim_owner\<rparr>"

section \<open>The retention store\<close>

definition sq_mark_erasure_pending ::
  "'d sqlite_config \<Rightarrow> pystr \<Rightarrow> pystr \<Rightarrow> int \<Rightarrow> instant \<Rightarrow> ('d sqlite_db, bool) eff" where
  "sq_mark_erasure_pending c t r expected_revision pending_at =
     transaction (\<lambda>db.
       result_bind (sq_load c t r db) (\<lambda>loaded.
       case loaded of
         None \<Rightarrow> Inr (Rollback False)
       | Some current \<Rightarrow>
           if sp_revision current \<noteq> expected_revision
              \<or> \<not> erasable_lifecycle_status (sp_lifecycle_status current)
              \<or> sp_erased_at current \<noteq> None
           then Inr (Rollback False)
           else if sp_erasure_pending_at current \<noteq> None then Inr (Rollback True)
           else
             result_bind (sq_model_validate c (proposal_with_erasure_pending current pending_at)) (\<lambda>updated.
             result_bind (validate_proposal_update current updated) (\<lambda>_.
             result_bind (sq_update c current updated db) (\<lambda>db'.
             Inr (Commit True db'))))))"

definition sq_complete_erasure ::
  "'d sqlite_config \<Rightarrow> pystr \<Rightarrow> pystr \<Rightarrow> int \<Rightarrow> instant \<Rightarrow> ('d sqlite_db, bool) eff" where
  "sq_complete_erasure c t r expected_revision erased_at =
     transaction (\<lambda>db.
       result_bind (sq_load c t r db) (\<lambda>loaded.
       case loaded of
         None \<Rightarrow> Inr (Rollback False)
       | Some current \<Rightarrow>
           if sp_revision current \<noteq> expected_revision
              \<or> sp_erasure_pending_at current = None
              \<or> sp_erased_at current \<noteq> None
           then Inr (Rollback False)
           else
             result_bind (sq_model_validate c (erased_proposal current erased_at)) (\<lambda>updated.
             result_bind (validate_proposal_update current updated) (\<lambda>_.
             result_bind (sq_update c current updated db) (\<lambda>db'.
             Inr (Commit True db'))))))"

definition sqlite_retention_store :: "'d sqlite_config \<Rightarrow> 'd sqlite_db retention_store" where
  "sqlite_retention_store c =
     \<lparr>rs_mark_erasure_pending = sq_mark_erasure_pending c,
      rs_complete_erasure = sq_complete_erasure c\<rparr>"

section \<open>What the tables represent\<close>

definition sqlite_laws :: "'d sqlite_config \<Rightarrow> bool" where
  "sqlite_laws c \<longleftrightarrow>
     (\<forall>p q. sq_model_validate c p = Inr q \<longrightarrow>
        q = p \<and> sq_model_validate_json c (sq_model_dump_json c p) = Inr p)"

definition sq_view :: "'d sqlite_config \<Rightarrow> 'd sqlite_db \<Rightarrow> store_state" where
  "sq_view c db =
     \<lparr>st_proposals = (\<lambda>(t, r). case sq_load c t r db of Inr p \<Rightarrow> p | Inl _ \<Rightarrow> None),
      st_claims = (\<lambda>k. case sq_select_owner k db of Inr o' \<Rightarrow> o' | Inl _ \<Rightarrow> None)\<rparr>"

definition row_ok :: "'d sqlite_config \<Rightarrow> 'd proposal_row \<Rightarrow> bool" where
  "row_ok c w \<longleftrightarrow>
     (\<exists>p. w = proposal_row_of c p \<and> sq_model_validate_json c (sq_model_dump_json c p) = Inr p)"

definition tables_ok :: "'d sqlite_config \<Rightarrow> 'd sqlite_db \<Rightarrow> bool" where
  "tables_ok c db \<longleftrightarrow>
     (\<forall>w\<in>set (db_proposals db). row_ok c w) \<and> distinct (map row_key (db_proposals db))
     \<and> (\<forall>w\<in>set (db_effect_claims db). cl_proposal_reference w \<noteq> SqlOther)
     \<and> distinct (map claim_row_key (db_effect_claims db))"

definition sq_good :: "'d sqlite_config \<Rightarrow> 'd sqlite_db \<Rightarrow> bool" where
  "sq_good c db \<longleftrightarrow> sqlite_laws c \<and> tables_ok c db \<and> store_inv (sq_view c db)"

section \<open>Lemmas on rows and statements\<close>

lemma lifecycle_value_inject [simp]: "lifecycle_value s = lifecycle_value t \<longleftrightarrow> s = t"
  by (cases s; cases t) simp_all

lemma find_map_same: "(\<And>x. P (g x) = P x) \<Longrightarrow> find P (map g xs) = map_option g (find P xs)"
  by (induction xs) simp_all

lemma find_append: "find P (xs @ ys) = (case find P xs of None \<Rightarrow> find P ys | Some x \<Rightarrow> Some x)"
  by (induction xs) simp_all

lemma find_key_None: "find (\<lambda>w. key w = k) xs = None \<longleftrightarrow> k \<notin> key ` set xs"
  by (auto simp: find_None_iff)

lemma find_key_Some:
  "distinct (map key xs) \<Longrightarrow> find (\<lambda>w. key w = k) xs = Some w \<longleftrightarrow> w \<in> set xs \<and> key w = k"
  by (induction xs) (auto simp: rev_image_eqI)

lemma filter_key_one:
  "distinct (map key xs) \<Longrightarrow> w \<in> set xs \<Longrightarrow> key w = k \<Longrightarrow> G w \<Longrightarrow>
   filter (\<lambda>v. key v = k \<and> G v) xs = [w]"
  by (induction xs; auto simp: filter_empty_conv; metis imageI)

lemma map_key_same: "(\<And>w. key (g w) = key w) \<Longrightarrow> map key (map g xs) = map key xs"
  by simp

lemma row_key_of [simp]: "row_key (proposal_row_of c p) = proposal_key p"
  by (simp add: row_key_def proposal_row_of_def proposal_key_def)

lemma row_matches [simp]: "indexed_identity (proposal_row_of c p) = model_identity c p"
  by (simp add: indexed_identity_def model_identity_def proposal_row_of_def)

lemma row_data [simp]:
  "pr_proposal_data (proposal_row_of c p) = SqlText (sq_model_dump_json c p)"
  "pr_revision (proposal_row_of c p) = sp_revision p"
  "pr_lifecycle_status (proposal_row_of c p) = lifecycle_value (sp_lifecycle_status p)"
  by (simp_all add: proposal_row_of_def)

lemma claim_row_key_of [simp]: "claim_row_key (claim_row_of c p t) = claim_key p"
  by (simp add: claim_row_key_def claim_row_of_def claim_key_def action_key_def)

lemma claim_row_owner [simp]:
  "cl_proposal_reference (claim_row_of c p t) = SqlText (sp_proposal_reference p)"
  by (simp add: claim_row_of_def)

lemma sq_claim_owner_eq: "sq_claim_owner p = sq_select_owner (claim_key p)"
  by (simp add: sq_claim_owner_def claim_key_def action_key_def fun_eq_iff)

lemma select_key:
  "select_proposal k db = Some w \<Longrightarrow> w \<in> set (db_proposals db) \<and> row_key w = k"
  "select_claim j db = Some v \<Longrightarrow> v \<in> set (db_effect_claims db) \<and> claim_row_key v = j"
  by (auto simp: select_proposal_def select_claim_def find_Some_iff)

section \<open>Lemmas on well-formed tables\<close>

lemma load_ok:
  assumes "tables_ok c db"
  shows "sq_load c t r db = Inr (st_proposals (sq_view c db) (t, r))"
proof (cases "select_proposal (t, r) db")
  case None
  then show ?thesis by (simp add: sq_load_def sq_view_def)
next
  case (Some w)
  then have "w \<in> set (db_proposals db)"
    by (auto simp: select_proposal_def find_Some_iff)
  with assms have "row_ok c w" by (simp add: tables_ok_def)
  with Some show ?thesis
    by (auto simp: sq_load_def sq_view_def row_ok_def)
qed

lemma view_Some:
  assumes "tables_ok c db" and "st_proposals (sq_view c db) (t, r) = Some p"
  shows "proposal_row_of c p \<in> set (db_proposals db)" and "proposal_key p = (t, r)"
proof -
  from load_ok [OF assms(1), of t r] assms(2) obtain w where
    w: "select_proposal (t, r) db = Some w" and l: "sq_load c t r db = Inr (Some p)"
    by (auto simp: sq_load_def split: option.splits)
  then have mem: "w \<in> set (db_proposals db)" and key: "row_key w = (t, r)"
    by (auto simp: select_proposal_def find_Some_iff)
  with assms(1) obtain q where q: "w = proposal_row_of c q"
      "sq_model_validate_json c (sq_model_dump_json c q) = Inr q"
    by (auto simp: tables_ok_def row_ok_def)
  with w l have "q = p"
    by (auto simp: sq_load_def)
  with q mem key show "proposal_row_of c p \<in> set (db_proposals db)" "proposal_key p = (t, r)"
    by auto
qed

lemma owner_ok:
  assumes "tables_ok c db"
  shows "sq_select_owner k db = Inr (st_claims (sq_view c db) k)"
proof (cases "select_claim k db")
  case None
  then show ?thesis by (simp add: sq_select_owner_def sq_view_def)
next
  case (Some w)
  then have "w \<in> set (db_effect_claims db)"
    by (auto simp: select_claim_def find_Some_iff)
  with assms have "cl_proposal_reference w \<noteq> SqlOther" by (simp add: tables_ok_def)
  with Some show ?thesis
    by (auto simp: sq_select_owner_def sq_view_def split: sql_value.splits)
qed

lemma view_proposals_cong: "db_proposals db' = db_proposals db \<Longrightarrow>
    st_proposals (sq_view c db') = st_proposals (sq_view c db)"
  by (simp add: sq_view_def sq_load_def select_proposal_def)

lemma view_claims_cong: "db_effect_claims db' = db_effect_claims db \<Longrightarrow>
    st_claims (sq_view c db') = st_claims (sq_view c db)"
  by (simp add: sq_view_def sq_select_owner_def select_claim_def)

lemma view_eqI:
  "st_proposals (sq_view c db) = st_proposals s \<Longrightarrow> st_claims (sq_view c db) = st_claims s \<Longrightarrow>
   sq_view c db = s"
  by (cases s) (simp add: sq_view_def)

lemma load_of_row:
  assumes "select_proposal (t, r) db = Some (proposal_row_of c p)"
    and "sq_model_validate_json c (sq_model_dump_json c p) = Inr p"
  shows "st_proposals (sq_view c db) (t, r) = Some p"
  using assms by (simp add: sq_view_def sq_load_def)

text \<open>\<open>UPDATE\<close> of the one row of a proposal.\<close>

lemma sq_update_ok:
  assumes ok: "tables_ok c db" and cur: "st_proposals (sq_view c db) (t, r) = Some p"
    and ident: "immutable_identity q = immutable_identity p"
    and rt: "sq_model_validate_json c (sq_model_dump_json c q) = Inr q"
    and run: "sq_update c p q db = Inr db'"
  shows "tables_ok c db'" and "sq_view c db' = put_proposal (t, r) q (sq_view c db)"
proof -
  let ?g = "\<lambda>w. row_key w = (t, r) \<and> pr_revision w = sp_revision p
               \<and> pr_lifecycle_status w = lifecycle_value (sp_lifecycle_status p)"
  let ?ch = "\<lambda>w. w\<lparr>pr_lifecycle_status := lifecycle_value (sp_lifecycle_status q),
                 pr_revision := sp_revision q,
                 pr_expires_at := sq_isoformat c (sp_expires_at q),
                 pr_proposal_data := SqlText (sq_model_dump_json c q)\<rparr>"
  define f where "f = (\<lambda>w. if ?g w then ?ch w else w)"
  note row = view_Some [OF ok cur]
  have key: "(sp_tenant_reference p, sp_proposal_reference p) = (t, r)"
    using row(2) by (simp add: proposal_key_def)
  have db': "db' = db\<lparr>db_proposals := map f (db_proposals db)\<rparr>"
    using run by (auto simp: sq_update_def update_proposals_def key Let_def result_bind_eq_Inr f_def
        split: if_splits)
  have keyf: "row_key (f w) = row_key w" for w by (simp add: row_key_def f_def)
  have new: "f (proposal_row_of c p) = proposal_row_of c q"
    using identity_fields [OF ident] row(2)
    by (simp add: proposal_row_of_def row_key_def proposal_key_def f_def)
  have old: "f w = w" if "row_key w \<noteq> (t, r)" for w using that by (simp add: f_def)
  have dist: "distinct (map row_key (db_proposals db))" using ok by (simp add: tables_ok_def)
  have only: "w = proposal_row_of c p" if "w \<in> set (db_proposals db)" "row_key w = (t, r)" for w
    using that row dist by (auto simp: distinct_map inj_on_def)
  have "row_ok c (f w)" if w: "w \<in> set (db_proposals db)" for w
  proof (cases "row_key w = (t, r)")
    case True
    with only [OF w] new rt show ?thesis by (auto simp: row_ok_def)
  next
    case False
    with ok w show ?thesis by (simp add: tables_ok_def old)
  qed
  with ok show "tables_ok c db'"
    by (simp add: tables_ok_def db' o_def keyf)
  have sel: "select_proposal k db' = map_option f (select_proposal k db)" for k
    unfolding select_proposal_def db' by (simp add: find_map_same keyf)
  have "select_proposal (t, r) db = Some (proposal_row_of c p)"
    using row dist by (simp add: select_proposal_def find_key_Some)
  then have "select_proposal (t, r) db' = Some (proposal_row_of c q)"
    unfolding sel using new by simp
  then have at: "st_proposals (sq_view c db') (t, r) = Some q"
    using rt by (rule load_of_row)
  have "select_proposal k db' = select_proposal k db" if "k \<noteq> (t, r)" for k
    unfolding sel using that old
    by (cases "select_proposal k db") (auto dest: select_key)
  then have "st_proposals (sq_view c db') k = st_proposals (sq_view c db) k" if "k \<noteq> (t, r)" for k
    using that by (cases k) (auto simp: sq_view_def sq_load_def)
  with at show "sq_view c db' = put_proposal (t, r) q (sq_view c db)"
    by (intro view_eqI ext) (auto simp: db' intro!: fun_cong [OF view_claims_cong])
qed

text \<open>The claim table: \<open>INSERT\<close> and \<open>UPDATE\<close> of the row of one effect.\<close>

lemma insert_claim_ok:
  assumes ok: "tables_ok c db" and run: "insert_claim (claim_row_of c p t) db = Inr db'"
  shows "tables_ok c db'"
    and "sq_view c db' = put_claim (claim_key p) (sp_proposal_reference p) (sq_view c db)"
proof -
  from run have db': "db' = db\<lparr>db_effect_claims := db_effect_claims db @ [claim_row_of c p t]\<rparr>"
    and new: "claim_key p \<notin> claim_row_key ` set (db_effect_claims db)"
    by (auto simp: insert_claim_def split: if_splits)
  with ok show "tables_ok c db'"
    by (auto simp: tables_ok_def)
  have "select_claim k db' = (if k = claim_key p then Some (claim_row_of c p t) else select_claim k db)" for k
  proof (cases "k = claim_key p")
    case True
    with new show ?thesis by (simp add: select_claim_def db' find_append find_key_None [THEN iffD2])
  next
    case False
    then show ?thesis by (simp add: select_claim_def db' find_append split: option.splits)
  qed
  then show "sq_view c db' = put_claim (claim_key p) (sp_proposal_reference p) (sq_view c db)"
    by (intro view_eqI ext)
      (auto simp: db' sq_view_def sq_select_owner_def sq_load_def select_proposal_def)
qed

lemma update_claims_ok:
  assumes ok: "tables_ok c db" and own: "st_claims (sq_view c db) (claim_key p) = Some owner"
    and run: "update_claims (\<lambda>w. claim_row_key w = claim_key p \<and> cl_proposal_reference w = SqlText owner)
       (\<lambda>w. w\<lparr>cl_proposal_reference := SqlText (sp_proposal_reference p),
              cl_admitted_at := sq_isoformat c t\<rparr>) db = Inr (n, db')"
  shows "n = 1" and "tables_ok c db'"
    and "sq_view c db' = put_claim (claim_key p) (sp_proposal_reference p) (sq_view c db)"
proof -
  define f where "f = (\<lambda>w. if claim_row_key w = claim_key p \<and> cl_proposal_reference w = SqlText owner
      then w\<lparr>cl_proposal_reference := SqlText (sp_proposal_reference p),
             cl_admitted_at := sq_isoformat c t\<rparr> else w)"
  have dist: "distinct (map claim_row_key (db_effect_claims db))" using ok by (simp add: tables_ok_def)
  obtain v where sel: "select_claim (claim_key p) db = Some v" and v: "cl_proposal_reference v = SqlText owner"
    using owner_ok [OF ok, of "claim_key p"] own
    by (auto simp: sq_select_owner_def split: option.splits sql_value.splits)
  note vk = select_key(2) [OF sel]
  from run have db': "db' = db\<lparr>db_effect_claims := map f (db_effect_claims db)\<rparr>"
    and n: "n = length (filter (\<lambda>w. claim_row_key w = claim_key p \<and> cl_proposal_reference w = SqlText owner)
                (db_effect_claims db))"
    by (auto simp: update_claims_def Let_def f_def split: if_splits)
  show "n = 1"
    unfolding n using vk v by (simp add: filter_key_one [OF dist, of v])
  have keyf: "claim_row_key (f w) = claim_row_key w" for w by (simp add: claim_row_key_def f_def)
  have "cl_proposal_reference (f w) \<noteq> SqlOther" if "cl_proposal_reference w \<noteq> SqlOther" for w
    using that by (simp add: f_def)
  with ok show "tables_ok c db'" by (auto simp: tables_ok_def db' o_def keyf)
  have seln: "select_claim k db' = map_option f (select_claim k db)" for k
    unfolding select_claim_def db' by (simp add: find_map_same keyf)
  have "cl_proposal_reference (f v) = SqlText (sp_proposal_reference p)"
    using vk v by (simp add: f_def)
  moreover have "f w = w" if "claim_row_key w \<noteq> claim_key p" for w using that by (simp add: f_def)
  ultimately have "sq_select_owner k db' =
      (if k = claim_key p then Inr (Some (sp_proposal_reference p)) else sq_select_owner k db)" for k
    using sel by (cases "select_claim k db") (auto simp: sq_select_owner_def seln dest: select_key)
  then show "sq_view c db' = put_claim (claim_key p) (sp_proposal_reference p) (sq_view c db)"
    by (intro view_eqI ext) (auto simp: db' sq_view_def sq_load_def select_proposal_def)
qed

lemma claim_effect_cases:
  assumes ok: "tables_ok c db" and run: "sq_claim_effect c p t db = Inr (cl, db')"
  shows "cl = ClaimCONFLICT
    \<or> cl \<in> {ClaimACQUIRED, ClaimOWNED_BY_PROPOSAL} \<and> claimable (sq_view c db) p \<and> tables_ok c db'
      \<and> sq_view c db' = put_claim (claim_key p) (sp_proposal_reference p) (sq_view c db)"
proof (cases "st_claims (sq_view c db) (claim_key p)")
  case None
  with run ok show ?thesis
    by (auto simp: sq_claim_effect_def sq_claim_owner_eq owner_ok result_bind_eq_Inr claimable_def
        dest: insert_claim_ok)
next
  case (Some owner)
  show ?thesis
  proof (cases "owner = sp_proposal_reference p")
    case True
    with Some run ok show ?thesis
      by (auto simp: sq_claim_effect_def sq_claim_owner_eq owner_ok claimable_def put_claim_def
          fun_upd_idem)
  next
    case False
    with Some run ok show ?thesis
      by (auto simp: sq_claim_effect_def sq_claim_owner_eq owner_ok load_ok claimable_def
          releases_claim_def result_bind_eq_Inr dest: update_claims_ok split: option.splits if_splits)
  qed
qed

lemma insert_proposal_ok:
  assumes ok: "tables_ok c db" and rt: "sq_model_validate_json c (sq_model_dump_json c p) = Inr p"
    and run: "insert_proposal c (proposal_row_of c p) db = Inr db'"
  shows "tables_ok c db'" and "st_proposals (sq_view c db) (proposal_key p) = None"
    and "sq_view c db' = put_proposal (proposal_key p) p (sq_view c db)"
proof -
  from run have db': "db' = db\<lparr>db_proposals := db_proposals db @ [proposal_row_of c p]\<rparr>"
    and new: "proposal_key p \<notin> row_key ` set (db_proposals db)"
    by (auto simp: insert_proposal_def split: if_splits)
  with ok rt show "tables_ok c db'" by (auto simp: tables_ok_def row_ok_def)
  have none: "select_proposal (proposal_key p) db = None"
    using new by (simp add: select_proposal_def find_key_None)
  then show "st_proposals (sq_view c db) (proposal_key p) = None"
    by (simp add: sq_view_def sq_load_def split: prod.splits)
  have "select_proposal k db' =
      (if k = proposal_key p then Some (proposal_row_of c p) else select_proposal k db)" for k
    using none by (simp add: select_proposal_def db' find_append split: option.splits)
  with rt show "sq_view c db' = put_proposal (proposal_key p) p (sq_view c db)"
    by (intro view_eqI ext) (auto simp: db' sq_view_def sq_load_def sq_select_owner_def select_claim_def)
qed

section \<open>The operations implement the contract\<close>

lemma transaction_eq:
  "transaction body db = (Inr a, db') \<longleftrightarrow> body db = Inr (Commit a db') \<or> body db = Inr (Rollback a) \<and> db' = db"
  "transaction body db = (Inl e, db') \<longleftrightarrow> body db = Inl e \<and> db' = db"
  by (auto simp: transaction_def split: sum.splits tx_end.splits)

lemma bind_lift_eq:
  "bind (lift r) f s = (Inr a, s') \<longleftrightarrow> (\<exists>b. r = Inr b \<and> f b s = (Inr a, s'))"
  "bind (lift r) f s = (Inl e, s') \<longleftrightarrow> r = Inl e \<and> s' = s \<or> (\<exists>b. r = Inr b \<and> f b s = (Inl e, s'))"
  by (cases r; auto simp: bind_def lift_def)+

lemma sq_goodD:
  assumes "sq_good c db"
  shows "tables_ok c db" and "store_inv (sq_view c db)"
    and "sq_model_validate c p = Inr q \<Longrightarrow> q = p \<and> sq_model_validate_json c (sq_model_dump_json c p) = Inr p"
  using assms by (auto simp: sq_good_def sqlite_laws_def)

lemma sq_good_step:
  "sq_good c db \<Longrightarrow> tables_ok c db' \<Longrightarrow> store_step (sq_view c db) (sq_view c db') \<Longrightarrow> sq_good c db'"
  using store_step_inv by (auto simp: sq_good_def)

text \<open>A guarded update of a loaded proposal, as three of the operations end.\<close>

lemma sq_write_ok:
  assumes good: "sq_good c db" and cur: "st_proposals (sq_view c db) (t, r) = Some p"
    and val: "sq_model_validate c q0 = Inr q" "validate_proposal_update p q = Inr u"
    and claim: "enters_executing p q \<Longrightarrow> owns_claim (sq_view c db) p"
    and run: "sq_update c p q db = Inr db'"
  shows "sq_good c db' \<and> valid_update p q \<and> sq_view c db' = put_proposal (t, r) q (sq_view c db)"
proof -
  have up: "valid_update p q" using val(2) validate_proposal_update_ok by simp
  have rt: "sq_model_validate_json c (sq_model_dump_json c q) = Inr q"
    using sq_goodD(3) [OF good val(1)] by simp
  note w = sq_update_ok [OF sq_goodD(1) [OF good] cur _ rt run]
  have "immutable_identity q = immutable_identity p" using up by (simp add: valid_update_def)
  with w up store_step.update [OF cur up claim] sq_good_step [OF good] show ?thesis by simp
qed

lemma sq_create_ok:
  assumes good: "sq_good c db" and run: "sq_create c p db = (Inr u, db')"
  shows "sq_good c db' \<and> st_proposals (sq_view c db) (proposal_key p) = None \<and> valid_create p
    \<and> sq_view c db' = put_proposal (proposal_key p) p (sq_view c db)"
proof -
  from run obtain q where q: "sq_model_validate c p = Inr q"
    and vc: "validate_proposal_create q = Inr ()" and ins: "insert_proposal c (proposal_row_of c q) db = Inr db'"
    by (auto simp: sq_create_def bind_lift_eq sq_create_sync_def transaction_eq result_bind_eq_Inr
        split: if_splits)
  note rt = sq_goodD(3) [OF good q]
  have "valid_create p" using vc rt by (simp add: validate_proposal_create_ok)
  with insert_proposal_ok [of c db p db'] rt ins sq_goodD(1) [OF good] store_step.create [of "sq_view c db" p]
    sq_good_step [OF good, of db'] show ?thesis by simp
qed

lemma sq_cas_ok:
  assumes good: "sq_good c db" and run: "sq_compare_and_set c t r n sts q db = (Inr True, db')"
  shows "sq_good c db' \<and> (\<exists>p. st_proposals (sq_view c db) (t, r) = Some p \<and> sp_revision p = n
    \<and> sp_lifecycle_status p \<in> set sts \<and> valid_update p q
    \<and> (enters_executing p q \<longrightarrow> owns_claim (sq_view c db) p)
    \<and> sq_view c db' = put_proposal (t, r) q (sq_view c db))"
proof -
  note ok = sq_goodD(1) [OF good]
  from run obtain q' p where q: "sq_model_validate c q = Inr q'"
    and p: "st_proposals (sq_view c db) (t, r) = Some p" "sp_revision p = n" "sp_lifecycle_status p \<in> set sts"
    and up: "validate_proposal_update p q' = Inr ()" "sq_update c p q' db = Inr db'"
    and ex: "enters_executing p q' \<Longrightarrow> owns_claim (sq_view c db) p"
    by (auto simp: sq_compare_and_set_def bind_lift_eq sq_compare_and_set_sync_def transaction_eq
        result_bind_eq_Inr load_ok [OF ok] sq_claim_owner_eq owner_ok [OF ok] enters_executing_def
        owns_claim_def split: option.splits if_splits)
  have "q' = q" using sq_goodD(3) [OF good q] by simp
  with sq_write_ok [OF good p(1) q up(1) ex up(2)] p ex show ?thesis by auto
qed

lemma sq_admit_ok:
  assumes good: "sq_good c db" and run: "sq_admit_execution c t r n at q db = (Inr cl, db')"
  shows "if cl \<in> {ClaimACQUIRED, ClaimOWNED_BY_PROPOSAL}
    then sq_good c db' \<and> (\<exists>p. st_proposals (sq_view c db) (t, r) = Some p \<and> sp_revision p = n
          \<and> sp_lifecycle_status p = AUTHORIZED \<and> untouched p \<and> at < sp_expires_at p
          \<and> valid_update p q \<and> sp_lifecycle_status q = EXECUTING \<and> claimable (sq_view c db) p
          \<and> sq_view c db' = put_proposal (t, r) q
                (put_claim (claim_key p) (sp_proposal_reference p) (sq_view c db)))
    else db' = db"
proof (cases "cl \<in> {ClaimACQUIRED, ClaimOWNED_BY_PROPOSAL}")
  case False
  with run show ?thesis
    by (auto simp: sq_admit_execution_def bind_lift_eq sq_admit_execution_sync_def transaction_eq
        result_bind_eq_Inr sq_claim_effect_def split: option.splits if_splits)
next
  case True
  note ok = sq_goodD(1) [OF good]
  from run True obtain q' p db1 where q: "sq_model_validate c q = Inr q'"
    and p: "st_proposals (sq_view c db) (t, r) = Some p" "sp_revision p = n"
      "sp_lifecycle_status p = AUTHORIZED" "untouched p" "at < sp_expires_at p"
    and up: "validate_proposal_update p q' = Inr ()" "sp_lifecycle_status q' = EXECUTING"
    and cl: "sq_claim_effect c p at db = Inr (cl, db1)" and w: "sq_update c p q' db1 = Inr db'"
    by (auto simp: sq_admit_execution_def bind_lift_eq sq_admit_execution_sync_def transaction_eq
        result_bind_eq_Inr load_ok [OF ok] untouched_def split: option.splits if_splits)
  have q': "q' = q" and rt: "sq_model_validate_json c (sq_model_dump_json c q) = Inr q"
    using sq_goodD(3) [OF good q] by auto
  have vu: "valid_update p q" using up(1) q' validate_proposal_update_ok by simp
  from claim_effect_cases [OF ok cl] True have c1: "claimable (sq_view c db) p" "tables_ok c db1"
    "sq_view c db1 = put_claim (claim_key p) (sp_proposal_reference p) (sq_view c db)" by auto
  have p1: "st_proposals (sq_view c db1) (t, r) = Some p" using c1(3) p(1) by simp
  have ident: "immutable_identity q = immutable_identity p" using vu by (simp add: valid_update_def)
  note w1 = sq_update_ok [OF c1(2) p1 ident rt w [unfolded q']]
  have "store_step (sq_view c db) (sq_view c db')"
    unfolding w1(2) c1(3) using p vu up(2) q' c1(1) by (intro store_step.admit) auto
  with sq_good_step [OF good w1(1)] p vu up(2) q' c1 w1(2) True show ?thesis by auto
qed

lemma sq_mark_ok:
  assumes good: "sq_good c db" and run: "sq_mark_erasure_pending c t r n at db = (Inr True, db')"
  shows "sq_good c db' \<and> (\<exists>p. st_proposals (sq_view c db) (t, r) = Some p \<and> sp_revision p = n
    \<and> erasable_lifecycle_status (sp_lifecycle_status p) \<and> sp_erased_at p = None
    \<and> (if sp_erasure_pending_at p = None
       then sq_view c db' = put_proposal (t, r) (proposal_with_erasure_pending p at) (sq_view c db)
       else db' = db))"
proof -
  note ok = sq_goodD(1) [OF good]
  from run obtain p where p: "st_proposals (sq_view c db) (t, r) = Some p" "sp_revision p = n"
      "erasable_lifecycle_status (sp_lifecycle_status p)" "sp_erased_at p = None"
    and cases: "sp_erasure_pending_at p \<noteq> None \<and> db' = db
      \<or> sp_erasure_pending_at p = None \<and> (\<exists>q. sq_model_validate c (proposal_with_erasure_pending p at) = Inr q
          \<and> validate_proposal_update p q = Inr () \<and> sq_update c p q db = Inr db')"
    by (auto simp: sq_mark_erasure_pending_def transaction_eq result_bind_eq_Inr load_ok [OF ok]
        split: option.splits if_splits)
  from cases show ?thesis
  proof (elim disjE conjE exE)
    fix q assume q: "sq_model_validate c (proposal_with_erasure_pending p at) = Inr q"
      "validate_proposal_update p q = Inr ()" "sq_update c p q db = Inr db'"
      and none: "sp_erasure_pending_at p = None"
    have qe: "q = proposal_with_erasure_pending p at" using sq_goodD(3) [OF good q(1)] by simp
    then have "\<not> enters_executing p q" by (simp add: enters_executing_def proposal_with_erasure_pending_def)
    with sq_write_ok [OF good p(1) q(1,2) _ q(3)] p none qe show ?thesis by simp
  qed (use p good in auto)
qed

lemma sq_complete_ok:
  assumes good: "sq_good c db" and run: "sq_complete_erasure c t r n at db = (Inr True, db')"
  shows "sq_good c db' \<and> (\<exists>p. st_proposals (sq_view c db) (t, r) = Some p \<and> sp_revision p = n
    \<and> sp_erasure_pending_at p \<noteq> None \<and> sp_erased_at p = None
    \<and> sq_view c db' = put_proposal (t, r) (erased_proposal p at) (sq_view c db))"
proof -
  note ok = sq_goodD(1) [OF good]
  from run obtain p q where p: "st_proposals (sq_view c db) (t, r) = Some p" "sp_revision p = n"
      "sp_erasure_pending_at p \<noteq> None" "sp_erased_at p = None"
    and q: "sq_model_validate c (erased_proposal p at) = Inr q"
      "validate_proposal_update p q = Inr ()" "sq_update c p q db = Inr db'"
    by (auto simp: sq_complete_erasure_def transaction_eq result_bind_eq_Inr load_ok [OF ok]
        split: option.splits if_splits)
  have qe: "q = erased_proposal p at" using sq_goodD(3) [OF good q(1)] by simp
  then have "\<not> enters_executing p q" by (simp add: enters_executing_def erased_proposal_def)
  with sq_write_ok [OF good p(1) q(1,2) _ q(3)] p qe show ?thesis by simp
qed

lemma sq_same:
  "sq_create c p db = (Inl e, db') \<Longrightarrow> db' = db"
  "sq_compare_and_set c t r n sts q db = (Inl e, db') \<Longrightarrow> db' = db"
  "sq_compare_and_set c t r n sts q db = (Inr False, db') \<Longrightarrow> db' = db"
  "sq_admit_execution c t r n at q db = (Inl e, db') \<Longrightarrow> db' = db"
  "sq_mark_erasure_pending c t r n at db = (Inl e, db') \<Longrightarrow> db' = db"
  "sq_complete_erasure c t r n at db = (Inl e, db') \<Longrightarrow> db' = db"
  by (auto simp: sq_create_def sq_create_sync_def sq_compare_and_set_def sq_compare_and_set_sync_def
      sq_admit_execution_def sq_admit_execution_sync_def sq_mark_erasure_pending_def
      sq_complete_erasure_def bind_lift_eq transaction_eq result_bind_eq_Inr
      split: option.splits if_splits)

lemma sq_erasure_refused:
  "sq_mark_erasure_pending c t r n at db = (Inr False, db') \<Longrightarrow> db' = db"
  "sq_complete_erasure c t r n at db = (Inr False, db') \<Longrightarrow> db' = db"
  by (cases "sq_load c t r db" rule: sum.exhaust; cases "projr (sq_load c t r db)";
      auto simp: sq_mark_erasure_pending_def sq_complete_erasure_def transaction_eq result_bind_eq_Inr
        split: if_splits)+

interpretation sq: lifecycle_store "sqlite_action_store c" "sq_view c" "sq_good c"
  for c :: "'d sqlite_config"
proof unfold_locales
  show "sq_good c s \<Longrightarrow> store_inv (sq_view c s)" for s by (simp add: sq_good_def)
qed (auto simp: sqlite_action_store_def sq_get_def load_ok sq_goodD(1) sq_get_effect_claim_owner_def
      owner_ok action_key_def dest: sq_same sq_create_ok sq_cas_ok sq_admit_ok split: if_splits)

interpretation sq_retained: retained_store "sqlite_action_store c" "sq_view c" "sq_good c"
    "sqlite_retention_store c"
  for c :: "'d sqlite_config"
proof unfold_locales
  fix s t r n at s'
  assume "sq_good c s" "rs_mark_erasure_pending (sqlite_retention_store c) t r n at s = (Inr True, s')"
  then show "sq_good c s' \<and> (\<exists>p. st_proposals (sq_view c s) (t, r) = Some p \<and> sp_revision p = n
          \<and> erasable_lifecycle_status (sp_lifecycle_status p) \<and> sp_erased_at p = None
          \<and> (if sp_erasure_pending_at p = None
             then sq_view c s' = put_proposal (t, r) (proposal_with_erasure_pending p at) (sq_view c s)
             else s' = s))"
    using sq_mark_ok [of c s t r n at s'] by (simp add: sqlite_retention_store_def)
qed (auto simp: sqlite_retention_store_def dest: sq_same sq_erasure_refused sq_complete_ok)

end
