(* ===== verification/Store_Refinement.thy ===== *)
theory Store_Refinement
  imports Memory_Store
begin

text \<open>
  When a store refines the in-memory store: the calls of the two protocols, histories of answered
  calls, and the locale \<open>refining_store\<close>, which adds to the contract why a store refuses. Every history of such
  a store is a history of the in-memory store. The theories of the database stores interpret it.
\<close>

section \<open>Histories\<close>

text \<open>The calls of the two protocols, and a run of one call on either store.\<close>

datatype store_call =
    StoreCreate stored_proposal
  | StoreGet pystr pystr
  | StoreCas pystr pystr int "lifecycle_status list" stored_proposal
  | StoreAdmit pystr pystr int instant stored_proposal
  | StoreOwner pystr action_type pystr
  | StoreMark pystr pystr int instant
  | StoreErase pystr pystr int instant

datatype store_answer =
    Created
  | Found "stored_proposal option"
  | Swapped bool
  | Claimed effect_claim_result
  | Owner "pystr option"
  | Marked bool
  | Erased bool

definition answer :: "('a \<Rightarrow> store_answer) \<Rightarrow> ('s, 'a) eff \<Rightarrow> ('s, store_answer) eff" where
  "answer f m = bind m (\<lambda>a. return (f a))"

fun store_run :: "'s action_store \<Rightarrow> 's retention_store \<Rightarrow> store_call \<Rightarrow> ('s, store_answer) eff" where
  "store_run api ret (StoreCreate p) = answer (\<lambda>_. Created) (as_create api p)"
| "store_run api ret (StoreGet t r) = answer Found (as_get api t r)"
| "store_run api ret (StoreCas t r n sts q) = answer Swapped (as_compare_and_set api t r n sts q)"
| "store_run api ret (StoreAdmit t r n at q) = answer Claimed (as_admit_execution api t r n at q)"
| "store_run api ret (StoreOwner t a x) = answer Owner (as_get_effect_claim_owner api t a x)"
| "store_run api ret (StoreMark t r n at) = answer Marked (rs_mark_erasure_pending ret t r n at)"
| "store_run api ret (StoreErase t r n at) = answer Erased (rs_complete_erasure ret t r n at)"

text \<open>
  A history of a store: the calls that were answered, with their answers. A call that raises, and a
  refusal that is \<open>silent\<close>, leaves no entry (neither changes the store).
\<close>

fun store_history ::
  "(store_answer \<Rightarrow> bool) \<Rightarrow> 's action_store \<Rightarrow> 's retention_store \<Rightarrow> store_call list \<Rightarrow> 's
     \<Rightarrow> (store_call \<times> store_answer) list \<times> 's" where
  "store_history silent api ret [] s = ([], s)"
| "store_history silent api ret (x # xs) s =
     (case store_run api ret x s of
        (Inl _, s') \<Rightarrow> store_history silent api ret xs s'
      | (Inr a, s') \<Rightarrow>
          (case store_history silent api ret xs s' of
             (hist, s'') \<Rightarrow> (if silent a then hist else (x, a) # hist, s'')))"

text \<open>
  A database refuses an admission also by its own clock, which the in-memory store does not have; the
  PostgreSQL functions also refuse to mark a proposal whose erasure is pending already.
\<close>

fun clock_refusal :: "store_answer \<Rightarrow> bool" where
  "clock_refusal (Claimed ClaimPROPOSAL_NOT_AUTHORIZED) = True"
| "clock_refusal _ = False"

fun clock_or_mark_refusal :: "store_answer \<Rightarrow> bool" where
  "clock_or_mark_refusal (Marked False) = True"
| "clock_or_mark_refusal a = clock_refusal a"

lemma clock_refusal_iff: "clock_refusal a \<longleftrightarrow> a = Claimed ClaimPROPOSAL_NOT_AUTHORIZED"
  by (cases a rule: clock_refusal.cases) simp_all

lemma clock_or_mark_refusal_iff:
  "clock_or_mark_refusal a \<longleftrightarrow> a = Claimed ClaimPROPOSAL_NOT_AUTHORIZED \<or> a = Marked False"
  by (cases a rule: clock_or_mark_refusal.cases) (simp_all add: clock_refusal_iff)

lemma answer_eq:
  "answer f m s = (Inr b, s') \<longleftrightarrow> (\<exists>a. m s = (Inr a, s') \<and> b = f a)"
  "answer f m s = (Inl e, s') \<longleftrightarrow> m s = (Inl e, s')"
  by (auto simp: answer_def bind_def return_def split: prod.splits sum.splits)

text \<open>What a claim of an effect answers, as a function of the abstract store.\<close>

definition claim_answer :: "store_state \<Rightarrow> stored_proposal \<Rightarrow> effect_claim_result" where
  "claim_answer s p =
     (if \<not> claimable s p then ClaimCONFLICT
      else if owns_claim s p then ClaimOWNED_BY_PROPOSAL else ClaimACQUIRED)"

lemma mem_claim_answer:
  "claim_effect_locked (claim_key p) (sp_proposal_reference p) s =
     (claim_answer (mem_abs s) p,
      if claimable (mem_abs s) p
      then s\<lparr>ms_effect_claims := (ms_effect_claims s)(claim_key p \<mapsto> sp_proposal_reference p)\<rparr> else s)"
  by (auto simp: claim_effect_locked_def claim_answer_def claimable_def owns_claim_def releases_claim_def
      claim_key_def fun_upd_idem split: option.splits)

lemma mem_admit_answer:
  assumes "st_proposals (mem_abs m) (t, r) = Some p" and "proposal_key p = (t, r)"
    and "sp_revision p = n" "sp_lifecycle_status p = AUTHORIZED" "untouched p" "at < sp_expires_at p"
    and "valid_update p q" "sp_lifecycle_status q = EXECUTING"
  shows "mem_admit_execution t r n at q m =
      (Inr (claim_answer (mem_abs m) p), if claim_answer (mem_abs m) p = ClaimCONFLICT then m
        else m\<lparr>ms_effect_claims := (ms_effect_claims m)(claim_key p \<mapsto> r),
               ms_proposals := (ms_proposals m)((t, r) \<mapsto> q)\<rparr>)"
proof -
  have r: "sp_proposal_reference p = r" using assms(2) by (simp add: proposal_key_def)
  have "(sp_tenant_reference p, action_key (sp_action_type p), sp_semantic_effect_reference p) = claim_key p"
    by (simp add: claim_key_def)
  then show ?thesis
    using assms validate_proposal_update_ok [of p q] mem_claim_answer [of p m, unfolded r]
    by (auto simp: mem_admit_execution_def mem_abs_def untouched_def claim_answer_def split: if_splits)
qed

section \<open>Stores that refine the in-memory store\<close>

locale refining_store = retained_store api view good ret
  for api :: "'s action_store" and view :: "'s \<Rightarrow> store_state" and good :: "'s \<Rightarrow> bool"
    and ret :: "'s retention_store" +
  fixes silent :: "store_answer \<Rightarrow> bool"
  assumes silent_refusal: "silent x \<Longrightarrow> x = Claimed ClaimPROPOSAL_NOT_AUTHORIZED \<or> x = Marked False"
    and cas_refused: "good s \<Longrightarrow> as_compare_and_set api t r n sts q s = (Inr False, s') \<Longrightarrow>
        st_proposals (view s) (t, r) = Some p \<Longrightarrow> sp_revision p = n \<Longrightarrow> sp_lifecycle_status p \<notin> set sts"
    and admit_answers: "good s \<Longrightarrow> as_admit_execution api t r n at q s = (Inr a, s') \<Longrightarrow> \<not> silent (Claimed a) \<Longrightarrow>
        a = ClaimPROPOSAL_NOT_FOUND \<and> st_proposals (view s) (t, r) = None
        \<or> (\<exists>p. st_proposals (view s) (t, r) = Some p \<and> sp_revision p = n
            \<and> sp_lifecycle_status p = AUTHORIZED \<and> untouched p \<and> at < sp_expires_at p
            \<and> valid_update p q \<and> sp_lifecycle_status q = EXECUTING \<and> a = claim_answer (view s) p)"
    and mark_refused: "good s \<Longrightarrow> rs_mark_erasure_pending ret t r n at s = (Inr False, s') \<Longrightarrow>
        \<not> silent (Marked False) \<Longrightarrow> st_proposals (view s) (t, r) = Some p \<Longrightarrow> sp_revision p = n \<Longrightarrow>
        erasable_lifecycle_status (sp_lifecycle_status p) \<Longrightarrow> sp_erased_at p \<noteq> None"
    and complete_refused: "good s \<Longrightarrow> rs_complete_erasure ret t r n at s = (Inr False, s') \<Longrightarrow>
        st_proposals (view s) (t, r) = Some p \<Longrightarrow> sp_revision p = n \<Longrightarrow>
        sp_erasure_pending_at p \<noteq> None \<Longrightarrow> sp_erased_at p \<noteq> None"
begin

definition sim :: "'s \<Rightarrow> mem_store \<Rightarrow> bool" where
  "sim s m \<longleftrightarrow> good s \<and> mem_abs m = view s"

lemma simD:
  assumes "sim s m"
  shows "ms_proposals m = st_proposals (view s)" "ms_effect_claims m = st_claims (view s)"
    "good s" "mem_abs m = view s"
  using assms by (auto simp: sim_def mem_abs_def) (metis store_state.select_convs)+

lemma sim_key: "sim s m \<Longrightarrow> st_proposals (view s) k = Some p \<Longrightarrow> proposal_key p = k"
  using good_inv [of s] by (auto simp: sim_def dest!: store_invD simp: proposal_ok_def)

lemma sim_create:
  assumes "sim s m" and run: "as_create api p s = (Inr u, s')"
  shows "\<exists>m'. mem_create p m = (Inr u, m') \<and> sim s' m'"
proof -
  note ok = create_ok [OF simD(3) [OF assms(1)] run]
  have "validate_proposal_create p = Inr ()" using ok by (simp add: validate_proposal_create_ok)
  with ok simD [OF assms(1)] show ?thesis
    by (auto simp: mem_create_def Let_def proposal_key_def sim_def mem_abs_def)
qed

lemma sim_cas:
  assumes "sim s m" and run: "as_compare_and_set api t r n sts q s = (Inr b, s')"
  shows "\<exists>m'. mem_compare_and_set t r n sts q m = (Inr b, m') \<and> sim s' m'"
proof (cases b)
  case True
  then have run': "as_compare_and_set api t r n sts q s = (Inr True, s')" using run by simp
  from cas_true [OF simD(3) [OF assms(1)] run'] obtain p where
    p: "st_proposals (view s) (t, r) = Some p" "sp_revision p = n" "sp_lifecycle_status p \<in> set sts"
    "valid_update p q" "enters_executing p q \<longrightarrow> owns_claim (view s) p"
    and good: "good s'" and view: "view s' = put_proposal (t, r) q (view s)"
    by blast
  have "validate_proposal_update p q = Inr ()" using p(4) by (simp add: validate_proposal_update_ok)
  with p good view True simD [OF assms(1)] show ?thesis
    by (auto simp: mem_compare_and_set_def enters_executing_def owns_claim_def claim_key_def sim_def mem_abs_def)
next
  case False
  with run have run': "as_compare_and_set api t r n sts q s = (Inr False, s')" by simp
  note D = simD [OF assms(1)]
  have "s' = s" by (rule cas_false [OF D(3) run'])
  moreover have "mem_compare_and_set t r n sts q m = (Inr False, m)"
    using cas_refused [OF D(3) run'] D(1) by (auto simp: mem_compare_and_set_def split: option.splits)
  ultimately show ?thesis using assms(1) False by simp
qed

lemma sim_admit:
  assumes "sim s m" and run: "as_admit_execution api t r n at q s = (Inr a, s')" and "\<not> silent (Claimed a)"
  shows "\<exists>m'. mem_admit_execution t r n at q m = (Inr a, m') \<and> sim s' m'"
proof -
  note D = simD [OF assms(1)]
  from admit_answers [OF D(3) run assms(3)] show ?thesis
  proof (elim disjE conjE exE)
    assume none: "a = ClaimPROPOSAL_NOT_FOUND" "st_proposals (view s) (t, r) = None"
    then have "s' = s" by (intro admit_no [OF D(3) run]) simp
    then show ?thesis using assms(1) none D(1) by (auto simp: mem_admit_execution_def)
  next
    fix p assume some: "st_proposals (view s) (t, r) = Some p" "sp_revision p = n"
        "sp_lifecycle_status p = AUTHORIZED" "untouched p" "at < sp_expires_at p"
        "valid_update p q" "sp_lifecycle_status q = EXECUTING" "a = claim_answer (view s) p"
    note k = sim_key [OF assms(1) some(1)]
    have mem: "mem_admit_execution t r n at q m =
      (Inr a, if a = ClaimCONFLICT then m
        else m\<lparr>ms_effect_claims := (ms_effect_claims m)(claim_key p \<mapsto> r),
               ms_proposals := (ms_proposals m)((t, r) \<mapsto> q)\<rparr>)"
      using mem_admit_answer [of m t r p n at q] some k unfolding D(4) by simp
    show ?thesis
    proof (cases "a = ClaimCONFLICT")
      case True
      then have "s' = s" by (intro admit_no [OF D(3) run]) simp
      with True mem assms(1) show ?thesis by auto
    next
      case False
      then have a: "a \<in> {ClaimACQUIRED, ClaimOWNED_BY_PROPOSAL}"
        using some(8) by (auto simp: claim_answer_def split: if_splits)
      from admit_yes [OF D(3) run a] some(1) k
      have "good s'" "view s' = put_proposal (t, r) q (put_claim (claim_key p) r (view s))"
        by (auto simp: proposal_key_def)
      with mem False D(1,2,4) show ?thesis
        by (auto simp: sim_def mem_abs_def put_proposal_def put_claim_def)
    qed
  qed
qed

lemma sim_mark:
  assumes "sim s m" and run: "rs_mark_erasure_pending ret t r n at s = (Inr b, s')" and "\<not> silent (Marked b)"
  shows "\<exists>m'. mem_mark_erasure_pending t r n at m = (Inr b, m') \<and> sim s' m'"
proof (cases b)
  case True
  note D = simD [OF assms(1)]
  from True run have run': "rs_mark_erasure_pending ret t r n at s = (Inr True, s')" by simp
  from mark_true [OF D(3) run'] obtain p where
    "st_proposals (view s) (t, r) = Some p" "sp_revision p = n"
    "erasable_lifecycle_status (sp_lifecycle_status p)" "sp_erased_at p = None" "good s'"
    "if sp_erasure_pending_at p = None
     then view s' = put_proposal (t, r) (proposal_with_erasure_pending p at) (view s)
     else s' = s" by blast
  with True D assms(1) show ?thesis
    by (auto simp: mem_mark_erasure_pending_def sim_def mem_abs_def split: if_splits)
next
  case False
  with run have run': "rs_mark_erasure_pending ret t r n at s = (Inr False, s')" by simp
  note D = simD [OF assms(1)]
  have "s' = s" by (rule mark_false [OF D(3) run'])
  moreover have "mem_mark_erasure_pending t r n at m = (Inr False, m)"
    using mark_refused [OF D(3) run'] assms(3) False D(1)
    by (auto simp: mem_mark_erasure_pending_def split: option.splits)
  ultimately show ?thesis using assms(1) False by simp
qed

lemma sim_complete:
  assumes "sim s m" and run: "rs_complete_erasure ret t r n at s = (Inr b, s')"
  shows "\<exists>m'. mem_complete_erasure t r n at m = (Inr b, m') \<and> sim s' m'"
proof (cases b)
  case True
  note D = simD [OF assms(1)]
  from True run have run': "rs_complete_erasure ret t r n at s = (Inr True, s')" by simp
  from complete_true [OF D(3) run'] obtain p where
    "st_proposals (view s) (t, r) = Some p" "sp_revision p = n"
    "sp_erasure_pending_at p \<noteq> None" "sp_erased_at p = None" "good s'"
    "view s' = put_proposal (t, r) (erased_proposal p at) (view s)" by blast
  with True D show ?thesis
    by (auto simp: mem_complete_erasure_def sim_def mem_abs_def)
next
  case False
  with run have run': "rs_complete_erasure ret t r n at s = (Inr False, s')" by simp
  note D = simD [OF assms(1)]
  have "s' = s" by (rule complete_false [OF D(3) run'])
  moreover have "mem_complete_erasure t r n at m = (Inr False, m)"
    using complete_refused [OF D(3) run'] D(1)
    by (auto simp: mem_complete_erasure_def split: option.splits)
  ultimately show ?thesis using assms(1) False by simp
qed

lemma sim_step:
  assumes "sim s m" and run: "store_run api ret x s = (Inr a, s')" and "\<not> silent a"
  shows "\<exists>m'. store_run memory_action_store memory_retention_store x m = (Inr a, m') \<and> sim s' m'"
proof (cases x)
  case (StoreGet t r)
  with run get_ok [OF simD(3) [OF assms(1)], of t r] assms(1) simD(1) [OF assms(1)] show ?thesis
    by (auto simp: answer_eq memory_action_store_def mem_get_def)
next
  case (StoreOwner t at e)
  with run owner_ok [OF simD(3) [OF assms(1)], of t at e] assms(1) simD(2) [OF assms(1)] show ?thesis
    by (auto simp: answer_eq memory_action_store_def mem_get_effect_claim_owner_def)
qed (use assms in \<open>fastforce simp: answer_eq memory_action_store_def memory_retention_store_def
      dest: sim_create sim_cas sim_admit sim_mark sim_complete\<close>)+

lemma run_raise: "good s \<Longrightarrow> store_run api ret x s = (Inl e, s') \<Longrightarrow> s' = s"
  by (cases x) (auto simp: answer_eq get_ok owner_ok
      dest: create_raise cas_raise admit_raise mark_raise complete_raise)

lemma run_silent: "good s \<Longrightarrow> store_run api ret x s = (Inr a, s') \<Longrightarrow> silent a \<Longrightarrow> s' = s"
  using silent_refusal [of a] by (cases x) (auto simp: answer_eq dest: admit_no mark_false)

lemma refines_memory:
  assumes "sim s m" and "store_history silent api ret xs s = (hist, s')"
  shows "\<exists>m'. store_history silent memory_action_store memory_retention_store (map fst hist) m = (hist, m')
    \<and> sim s' m'"
  using assms
proof (induction xs arbitrary: s m hist)
  case Nil
  then show ?case by auto
next
  case (Cons x xs)
  obtain res s1 where run: "store_run api ret x s = (res, s1)" by force
  note good = simD(3) [OF Cons.prems(1)]
  show ?case
  proof (cases "\<exists>a. res = Inr a \<and> \<not> silent a")
    case False
    then have "s1 = s" using run_raise [OF good] run_silent [OF good] run by (cases res) auto
    with False run Cons.prems(2) have "store_history silent api ret xs s = (hist, s')"
      by (auto split: sum.splits prod.splits)
    then show ?thesis by (rule Cons.IH [OF Cons.prems(1)])
  next
    case True
    then obtain a where a: "res = Inr a" "\<not> silent a" by blast
    from sim_step [OF Cons.prems(1) run [unfolded a(1)] a(2)] obtain m1 where
      m1: "store_run memory_action_store memory_retention_store x m = (Inr a, m1)" "sim s1 m1" by blast
    from Cons.prems(2) run a obtain hist1 where h: "hist = (x, a) # hist1"
      "store_history silent api ret xs s1 = (hist1, s')"
      by (auto split: prod.splits)
    from Cons.IH [OF m1(2) h(2)] m1(1) h(1) a(2) show ?thesis by auto
  qed
qed

end

end
