(* ===== verification/Store_Properties.thy ===== *)
theory Store_Properties
  imports Scenario Sqlite_Store Store_Refinement
begin

text \<open>
  What the two stores guarantee to clients that race on one proposal or on one effect, proved once
  from the contract and stated for the stores; and the comparison of the stores with each other:
  every history of the SQLite store is a history of the in-memory store, and the SQLite schema
  and its adapter accept every update the in-memory store accepts.
\<close>

section \<open>Consequences of the contract\<close>

context lifecycle_store
begin

lemma cas_once:
  assumes "good s" and "as_compare_and_set api t r n sts q s = (Inr True, s')"
  shows "as_compare_and_set api t r n sts' q' s' \<noteq> (Inr True, s'')"
proof
  assume again: "as_compare_and_set api t r n sts' q' s' = (Inr True, s'')"
  from cas_true [OF assms] obtain p where p: "good s'" "sp_revision p = n" "valid_update p q"
    "view s' = put_proposal (t, r) q (view s)" by blast
  from cas_true [OF p(1) again] p(2,4) have "sp_revision q = sp_revision p" by auto
  with p(3) show False by (simp add: valid_update_def)
qed

lemma admit_excludes:
  assumes "good s" and "as_admit_execution api t r n at q s = (Inr c, s')"
    and c: "c \<in> {ClaimACQUIRED, ClaimOWNED_BY_PROPOSAL}"
    and p': "st_proposals (view s') (t, r') = Some p'" "r' \<noteq> r" "claim_key p' = claim_key q"
    and again: "as_admit_execution api t r' n' at' q' s' = (Inr c', s'')"
  shows "c' \<notin> {ClaimACQUIRED, ClaimOWNED_BY_PROPOSAL} \<and> s'' = s'"
proof -
  from admit_yes [OF assms(1,2) c] obtain p where
    g: "good s'" and q: "sp_lifecycle_status q = EXECUTING"
    and s': "view s' = put_proposal (t, r) q (put_claim (claim_key p) (sp_proposal_reference p) (view s))"
    by blast
  have "c' \<notin> {ClaimACQUIRED, ClaimOWNED_BY_PROPOSAL}"
  proof
    assume "c' \<in> {ClaimACQUIRED, ClaimOWNED_BY_PROPOSAL}"
    from admit_yes [OF g again this] p'(1) have "claimable (view s') p'" by auto
    moreover have "st_proposals (view s') (t, r) = Some q" by (simp add: s')
    ultimately show False
      using other_owner_kept [OF good_inv [OF g] p'(1), of "(t, r)" q] p'(2,3) q
      by (auto simp: effect_live_def)
  qed
  with admit_no [OF g again] show ?thesis by blast
qed

end

section \<open>Racing clients\<close>

definition demo_next :: "lifecycle_status \<Rightarrow> stored_proposal" where
  "demo_next st = (demo_proposal AUTHORIZED)\<lparr>sp_lifecycle_status := st, sp_revision := 2\<rparr>"

text \<open>
  One winner per revision. Once a compare-and-set on the in-memory store that expected some
  revision succeeded, every other compare-and-set on the same proposal that expects the same
  revision, whatever statuses it accepts and whatever it wants to write, is refused and changes
  nothing.
\<close>

lemma compare_and_set_single_winner:
  assumes "mem_compare_and_set t r n sts q s = (Inr True, s')"
  shows "mem_compare_and_set t r n sts' q' s' = (Inr False, s')"
  using assms
  by (auto simp: mem_compare_and_set_def valid_update_def split: option.splits if_splits sum.splits
      dest: validate_proposal_update_ok [THEN iffD1])

text \<open>
  One owner per effect. After the in-memory store admitted a proposal into execution, no other
  proposal of the same tenant, action and semantic effect is admitted: the attempt is refused or
  raises, and the store keeps the owner.
\<close>

lemma admission_excludes_others:
  assumes "mem_wf s"
    and "mem_admit_execution t r n at q s = (Inr c, s')" and "c \<in> {ClaimACQUIRED, ClaimOWNED_BY_PROPOSAL}"
    and "ms_proposals s' (t, r') = Some p'" and "r' \<noteq> r" and "claim_key p' = claim_key q"
  shows "\<exists>res. mem_admit_execution t r' n' at' q' s' = (res, s')
    \<and> res \<noteq> Inr ClaimACQUIRED \<and> res \<noteq> Inr ClaimOWNED_BY_PROPOSAL"
proof -
  obtain res s2 where run: "mem_admit_execution t r' n' at' q' s' = (res, s2)" by force
  have wf': "mem_wf s'" using mem.admit_yes [of s t r n at q c s'] assms(1-3) by (simp add: memory_action_store_def)
  show ?thesis
  proof (cases res)
    case (Inl e)
    with run mem_admit_cases [OF wf' run] show ?thesis by simp
  next
    case (Inr c')
    with mem.admit_excludes [of s t r n at q c s' r' p' n' at' q' c' s2] assms run show ?thesis
      by (auto simp: memory_action_store_def)
  qed
qed

definition demo_rival :: stored_proposal where
  "demo_rival = (demo_proposal AUTHORIZED)\<lparr>sp_proposal_reference := ''q'', sp_authority_evidence := [],
     sp_receipts := []\<rparr>"

definition demo_race :: mem_store where
  "demo_race = (demo_store (demo_proposal AUTHORIZED))\<lparr>ms_proposals :=
     (ms_proposals (demo_store (demo_proposal AUTHORIZED)))((''t'', ''q'') \<mapsto> demo_rival)\<rparr>"

lemma demo_race_wf: "mem_wf demo_race"
  using demo_proposal_bound [of AUTHORIZED]
  by (auto simp: mem_wf_def store_inv_def proposal_ok_def proposal_key_def demo_race_def demo_rival_def
      demo_store_def demo_proposal_def well_bound_def effect_live_def)

section \<open>The SQLite store refines the in-memory store\<close>

lemma sq_claim_answer:
  assumes ok: "tables_ok c db" and run: "sq_claim_effect c p t db = Inr (cl, db')"
  shows "cl = claim_answer (sq_view c db) p"
proof (cases "st_claims (sq_view c db) (claim_key p)")
  case None
  with run ok show ?thesis
    by (auto simp: sq_claim_effect_def sq_claim_owner_eq owner_ok result_bind_eq_Inr claimable_def
        claim_answer_def owns_claim_def)
next
  case (Some owner)
  with run ok show ?thesis
    by (auto simp: sq_claim_effect_def sq_claim_owner_eq owner_ok load_ok claimable_def claim_answer_def
        owns_claim_def releases_claim_def result_bind_eq_Inr dest: update_claims_ok(1)
        split: option.splits if_splits)
qed

text \<open>Why the SQLite store refuses.\<close>

lemma sq_cas_refused:
  assumes good: "sq_good c db" and run: "sq_compare_and_set c t r n sts q db = (Inr False, db')"
    and "st_proposals (sq_view c db) (t, r) = Some p" and "sp_revision p = n"
  shows "sp_lifecycle_status p \<notin> set sts"
  using run assms(3,4) sq_goodD(1) [OF good]
  by (auto simp: sq_compare_and_set_def sq_compare_and_set_sync_def bind_lift_eq
      transaction_eq result_bind_eq_Inr load_ok split: if_splits)

lemma sq_admit_answers:
  assumes good: "sq_good c db" and run: "sq_admit_execution c t r n at q db = (Inr cl, db')"
    and auth: "cl \<noteq> ClaimPROPOSAL_NOT_AUTHORIZED"
  shows "cl = ClaimPROPOSAL_NOT_FOUND \<and> st_proposals (sq_view c db) (t, r) = None
    \<or> (\<exists>p. st_proposals (sq_view c db) (t, r) = Some p \<and> sp_revision p = n
        \<and> sp_lifecycle_status p = AUTHORIZED \<and> untouched p \<and> at < sp_expires_at p
        \<and> valid_update p q \<and> sp_lifecycle_status q = EXECUTING \<and> cl = claim_answer (sq_view c db) p)"
proof (cases "st_proposals (sq_view c db) (t, r)")
  case None
  with run sq_goodD(1) [OF good] show ?thesis
    by (auto simp: sq_admit_execution_def sq_admit_execution_sync_def bind_lift_eq transaction_eq load_ok)
next
  case (Some p)
  note ok = sq_goodD(1) [OF good]
  from run Some auth obtain q' db1 where q': "sq_model_validate c q = Inr q'"
    and p: "sp_revision p = n" "sp_lifecycle_status p = AUTHORIZED" "untouched p" "at < sp_expires_at p"
    and up: "validate_proposal_update p q' = Inr ()" "sp_lifecycle_status q' = EXECUTING"
    and cl: "sq_claim_effect c p at db = Inr (cl, db1)"
    by (auto simp: sq_admit_execution_def sq_admit_execution_sync_def bind_lift_eq transaction_eq
        result_bind_eq_Inr load_ok [OF ok] untouched_def split: if_splits)
  have "q' = q" using sq_goodD(3) [OF good q'] by simp
  with Some p up sq_claim_answer [OF ok cl] show ?thesis by (simp add: validate_proposal_update_ok)
qed

lemma sq_mark_refused:
  assumes good: "sq_good c db" and run: "sq_mark_erasure_pending c t r n at db = (Inr False, db')"
    and "st_proposals (sq_view c db) (t, r) = Some p" and "sp_revision p = n"
    and "erasable_lifecycle_status (sp_lifecycle_status p)"
  shows "sp_erased_at p \<noteq> None"
  using run assms(3-5) sq_goodD(1) [OF good]
  by (auto simp: sq_mark_erasure_pending_def transaction_eq result_bind_eq_Inr load_ok split: if_splits)

lemma sq_complete_refused:
  assumes good: "sq_good c db" and run: "sq_complete_erasure c t r n at db = (Inr False, db')"
    and "st_proposals (sq_view c db) (t, r) = Some p" and "sp_revision p = n" and "sp_erasure_pending_at p \<noteq> None"
  shows "sp_erased_at p \<noteq> None"
  using run assms(3-5) sq_goodD(1) [OF good]
  by (auto simp: sq_complete_erasure_def transaction_eq result_bind_eq_Inr load_ok split: if_splits)

interpretation sq_refining: refining_store "sqlite_action_store c" "sq_view c" "sq_good c"
    "sqlite_retention_store c" clock_refusal
  for c :: "'d sqlite_config"
proof unfold_locales
  fix s t r n at q a s'
  assume "sq_good c s" "as_admit_execution (sqlite_action_store c) t r n at q s = (Inr a, s')"
    "\<not> clock_refusal (Claimed a)"
  then show "a = ClaimPROPOSAL_NOT_FOUND \<and> st_proposals (sq_view c s) (t, r) = None
      \<or> (\<exists>p. st_proposals (sq_view c s) (t, r) = Some p \<and> sp_revision p = n
          \<and> sp_lifecycle_status p = AUTHORIZED \<and> untouched p \<and> at < sp_expires_at p
          \<and> valid_update p q \<and> sp_lifecycle_status q = EXECUTING \<and> a = claim_answer (sq_view c s) p)"
    using sq_admit_answers [of c s t r n at q a s'] by (simp add: sqlite_action_store_def clock_refusal_iff)
qed (simp_all add: sqlite_action_store_def sqlite_retention_store_def clock_refusal_iff
      sq_cas_refused sq_mark_refused sq_complete_refused)


text \<open>A codec that keeps the proposal itself as its text and prints instants coarsely, on an
  empty database.\<close>

definition demo_sqlite :: "stored_proposal sqlite_config" where
  "demo_sqlite =
     \<lparr>sq_model_validate = (\<lambda>p. Inr p), sq_model_dump_json = (\<lambda>p. p),
      sq_model_validate_json = (\<lambda>p. Inr p), sq_json_checks = (\<lambda>_. True),
      sq_isoformat = (\<lambda>t. if t < 1500 then ''early'' else ''late''),
      sq_julianday_after = (\<lambda>s now. s = ''late'' \<and> now < 1500)\<rparr>"

definition demo_db :: "stored_proposal sqlite_db" where
  "demo_db = \<lparr>db_proposals = [], db_effect_claims = [], db_now = 1000\<rparr>"

lemma demo_db_good: "sq_good demo_sqlite demo_db" "sq_view demo_sqlite demo_db = mem_abs mem_init"
  by (auto simp: sq_good_def sqlite_laws_def tables_ok_def demo_sqlite_def demo_db_def sq_view_def
      sq_load_def select_proposal_def sq_select_owner_def select_claim_def store_inv_def mem_abs_def mem_init_def)

definition demo_light :: "lifecycle_status \<Rightarrow> int \<Rightarrow> stored_proposal" where
  "demo_light st n = demo_rival\<lparr>sp_lifecycle_status := st, sp_revision := n, sp_commitment := None,
     sp_protected_private_snapshot := None\<rparr>"

definition demo_calls :: "store_call list" where
  "demo_calls =
     [StoreCreate (demo_light AWAITING_AUTHORITY 0),
      StoreCas ''t'' ''q'' 0 [AWAITING_AUTHORITY] (demo_light AUTHORIZED 1),
      StoreAdmit ''t'' ''q'' 1 1000 (demo_light EXECUTING 2)]"


section \<open>The SQLite schema agrees with the checks of the adapter\<close>

lemma trigger_typed:
  "trigger_transitions = map (map_prod lifecycle_value lifecycle_value)
     [(AWAITING_AUTHORITY, DENIED), (AWAITING_AUTHORITY, EXPIRED), (AWAITING_AUTHORITY, AUTHORIZED),
      (AUTHORIZED, EXPIRED), (AUTHORIZED, BLOCKED), (AUTHORIZED, STALE), (AUTHORIZED, EXECUTING),
      (STALE, SUPERSEDED), (EXECUTING, STALE), (EXECUTING, FAILED_KNOWN), (EXECUTING, FAILED_UNKNOWN),
      (EXECUTING, VERIFICATION_PENDING), (FAILED_UNKNOWN, VERIFICATION_PENDING),
      (VERIFICATION_PENDING, AUTHORIZED), (VERIFICATION_PENDING, EXECUTING),
      (VERIFICATION_PENDING, FAILED_KNOWN), (VERIFICATION_PENDING, FAILED_UNKNOWN),
      (VERIFICATION_PENDING, VERIFICATION_UNRESOLVED), (VERIFICATION_PENDING, PARTIALLY_SUCCEEDED),
      (VERIFICATION_PENDING, VERIFIED), (VERIFICATION_UNRESOLVED, VERIFICATION_PENDING)]"
  by (simp add: trigger_transitions_def)

lemma trigger_table:
  "(lifecycle_value s, lifecycle_value t) \<in> set trigger_transitions
     \<longleftrightarrow> t \<in> set (allowed_lifecycle_transitions s)"
  by (cases s) (auto simp: trigger_typed simp del: lifecycle_value.simps)

lemma effect_kind_value_inject [simp]: "effect_kind_value a = effect_kind_value b \<longleftrightarrow> a = b"
  by (cases a; cases b) simp_all

text \<open>
  C19: the update trigger of the SQLite schema (after its last migration) admits the replacement of
  one proposal by another exactly when the proposal's identity is kept, the revision advances by one
  and the status is kept or moves along \<open>ALLOWED_LIFECYCLE_TRANSITIONS\<close>: the Python table and the
  twenty-one clauses of the trigger say the same.
\<close>

theorem trigger_agrees_with_table:
  "enforce_proposal_update (proposal_row_of c p) (proposal_row_of c q) \<longleftrightarrow>
     (sp_tenant_reference q, sp_proposal_reference q, action_key (sp_action_type q),
      sp_semantic_effect_reference q, sp_effect_kind q, sq_isoformat c (sp_created_at q))
     = (sp_tenant_reference p, sp_proposal_reference p, action_key (sp_action_type p),
        sp_semantic_effect_reference p, sp_effect_kind p, sq_isoformat c (sp_created_at p))
     \<and> sp_revision q = sp_revision p + 1
     \<and> (sp_lifecycle_status q = sp_lifecycle_status p
        \<or> sp_lifecycle_status q \<in> set (allowed_lifecycle_transitions (sp_lifecycle_status p)))"
  by (auto simp: enforce_proposal_update_def proposal_row_of_def trigger_table action_key_def)

lemma sq_update_accepts:
  assumes ok: "tables_ok c db" and cur: "st_proposals (sq_view c db) (t, r) = Some p"
    and up: "valid_update p q" and chk: "sq_json_checks c (proposal_row_of c q)"
  shows "\<exists>db'. sq_update c p q db = Inr db'"
proof -
  let ?g = "\<lambda>w. row_key w = (t, r) \<and> pr_revision w = sp_revision p
               \<and> pr_lifecycle_status w = lifecycle_value (sp_lifecycle_status p)"
  note row = view_Some [OF ok cur]
  have ident: "immutable_identity q = immutable_identity p" using up by (simp add: valid_update_def)
  have key: "(sp_tenant_reference p, sp_proposal_reference p) = (t, r)"
    using row(2) by (simp add: proposal_key_def)
  have new: "(proposal_row_of c p)\<lparr>pr_lifecycle_status := lifecycle_value (sp_lifecycle_status q),
      pr_revision := sp_revision q, pr_expires_at := sq_isoformat c (sp_expires_at q),
      pr_proposal_data := SqlText (sq_model_dump_json c q)\<rparr> = proposal_row_of c q"
    using identity_fields [OF ident] by (simp add: proposal_row_of_def)
  have "enforce_proposal_update (proposal_row_of c p) (proposal_row_of c q)"
    using up identity_fields [OF ident]
    by (auto simp: enforce_proposal_update_def proposal_row_of_def trigger_table valid_update_def status_step_def)
  moreover have "filter ?g (db_proposals db) = [proposal_row_of c p]"
    using ok row by (intro filter_key_one) (auto simp: tables_ok_def)
  ultimately show ?thesis
    using chk by (simp add: sq_update_def update_proposals_def Let_def key new)
qed



end
