(* ===== verification/Postgres_Store.thy ===== *)
theory Postgres_Store
  imports Sqlite_Store Store_Refinement
begin

text \<open>
  \<open>stores/postgres.py\<close> over the schema of \<open>_migrations/postgres\<close> after its last migration. A table is a map
  from its primary key to rows, a child table the list of its rows; a statement is a function on these, with the
  keys, the foreign keys, the checks, the update trigger and the functions of the schema. Every method runs in
  one transaction that first locks the row of the proposal (and, to claim an effect, an advisory lock of
  that effect), and a function of the schema is one transaction: the model runs each as one step, as the server's
  locks provide.

  A \<open>jsonb\<close> object is a map from its keys to values of a type \<open>'v\<close>. Third-party code is the argument
  \<open>pg_config\<close>: pydantic's codec of a \<open>StoredProposal\<close> and of its parts, the printing of instants by pydantic, by
  \<open>datetime\<close> and by the server, the path operator of \<open>jsonb\<close>, and whether the connected role owns the
  tables. \<open>pg_laws\<close> states the documented round trip of the codec, however its instants were printed.
  An exception of the driver is \<open>HostError\<close> with its \<open>sqlstate\<close>.

  \<open>Postgres_Refinement\<close> interprets the store contract on this store, for a role that does not own the tables.
\<close>

section \<open>Rows, tables and the codec\<close>

type_synonym 'v jsonb = "pystr \<rightharpoonup> 'v"

record 'v pg_proposal =
  gr_tenant_reference :: pystr
  gr_proposal_reference :: pystr
  gr_action_namespace :: pystr
  gr_action_name :: pystr
  gr_action_version :: int
  gr_semantic_effect_reference :: pystr
  gr_effect_kind :: pystr
  gr_lifecycle_status :: pystr
  gr_revision :: int
  gr_commitment_digest :: "pystr option"
  gr_created_at :: instant
  gr_expires_at :: instant
  gr_status_changed_at :: instant
  gr_next_verification_at :: "instant option"
  gr_proposal_data :: "'v jsonb"

record 'v pg_evidence =
  ge_tenant_reference :: pystr
  ge_proposal_reference :: pystr
  ge_sequence :: nat
  ge_action_namespace :: pystr
  ge_action_name :: pystr
  ge_action_version :: int
  ge_semantic_effect_reference :: pystr
  ge_commitment_digest :: pystr
  ge_data :: 'v

record 'v pg_receipt =
  gt_tenant_reference :: pystr
  gt_proposal_reference :: pystr
  gt_sequence :: nat
  gt_receipt_reference :: pystr
  gt_data :: 'v

record pg_claim =
  gl_proposal_reference :: pystr
  gl_admitted_at :: instant

record 'v pg_db =
  gd_proposals :: "proposal_key \<rightharpoonup> 'v pg_proposal"
  gd_evidence :: "'v pg_evidence list"
  gd_receipts :: "'v pg_receipt list"
  gd_claims :: "claim_key \<rightharpoonup> pg_claim"
  gd_now :: instant

record 'v pg_config =
  gk_null :: 'v
  gk_text :: "pystr \<Rightarrow> 'v"
  gk_number :: "int \<Rightarrow> 'v"
  gk_array :: "'v list \<Rightarrow> 'v"
  gk_object :: "json_object \<Rightarrow> 'v"
  gk_action_type :: "action_type \<Rightarrow> 'v"
  gk_payload :: "protected_payload \<Rightarrow> 'v"
  gk_commitment :: "keyed_commitment \<Rightarrow> 'v"
  gk_principal :: "requesting_principal \<Rightarrow> 'v"
  gk_agent :: "proposing_agent \<Rightarrow> 'v"
  gk_evidence :: "authority_evidence \<Rightarrow> 'v"
  gk_receipt :: "receipt \<Rightarrow> 'v"
  gk_dump_time :: "instant \<Rightarrow> pystr"
  gk_isoformat :: "instant \<Rightarrow> pystr"
  gk_server_time :: "instant \<Rightarrow> pystr"
  gk_path :: "'v \<Rightarrow> pystr list \<Rightarrow> pystr option"
  gk_cast_integer :: "pystr \<Rightarrow> int"
  gk_validate :: "'v jsonb \<Rightarrow> stored_proposal outcome"
  gk_owns_tables :: bool

definition nullable :: "'v pg_config \<Rightarrow> ('a \<Rightarrow> 'v) \<Rightarrow> 'a option \<Rightarrow> 'v" where
  "nullable c f x = (case x of None \<Rightarrow> gk_null c | Some a \<Rightarrow> f a)"

text \<open>The SQL operator \<open>->>\<close> yields \<open>NULL\<close>: the key is missing, or its value is the JSON null.\<close>

definition is_null :: "'v pg_config \<Rightarrow> 'v jsonb \<Rightarrow> pystr \<Rightarrow> bool" where
  "is_null c data k \<longleftrightarrow> data k = None \<or> data k = Some (gk_null c)"

text \<open>
  \<open>_parent_data\<close>: the fields of a proposal that are not in \<open>_PARENT_EXCLUDE\<close>; \<open>pending\<close> and \<open>erased\<close>
  print the two instants among them (pydantic's dump, or the server's \<open>to_jsonb\<close>).
\<close>

definition parent_document ::
  "'v pg_config \<Rightarrow> (instant \<Rightarrow> pystr) \<Rightarrow> (instant \<Rightarrow> pystr) \<Rightarrow> stored_proposal \<Rightarrow> 'v jsonb" where
  "parent_document c pending erased p =
     [''protected_private_snapshot'' \<mapsto> nullable c (gk_payload c) (sp_protected_private_snapshot p),
      ''commitment'' \<mapsto> nullable c (gk_commitment c) (sp_commitment p),
      ''display_preview'' \<mapsto> gk_object c (sp_display_preview p),
      ''requesting_principal'' \<mapsto> nullable c (gk_principal c) (sp_requesting_principal p),
      ''proposing_agent'' \<mapsto> nullable c (gk_agent c) (sp_proposing_agent p),
      ''verification_attempts'' \<mapsto> gk_number c (sp_verification_attempts p),
      ''max_verification_attempts'' \<mapsto> gk_number c (sp_max_verification_attempts p),
      ''safe_result'' \<mapsto> nullable c (gk_object c) (sp_safe_result p),
      ''execution_precondition'' \<mapsto> nullable c (gk_text c) (sp_execution_precondition p),
      ''superseded_by'' \<mapsto> nullable c (gk_text c) (sp_superseded_by p),
      ''erasure_pending_at'' \<mapsto> nullable c (\<lambda>t. gk_text c (pending t)) (sp_erasure_pending_at p),
      ''erased_at'' \<mapsto> nullable c (\<lambda>t. gk_text c (erased t)) (sp_erased_at p)]"

definition parent_data :: "'v pg_config \<Rightarrow> stored_proposal \<Rightarrow> 'v jsonb" where
  "parent_data c = parent_document c (gk_dump_time c) (gk_dump_time c)"

text \<open>What \<open>_load\<close> adds to the parent: the columns and the children, in the order of their sequence.\<close>

definition column_document :: "'v pg_config \<Rightarrow> 'v pg_proposal \<Rightarrow> 'v list \<Rightarrow> 'v list \<Rightarrow> 'v jsonb" where
  "column_document c w evidence receipts =
     [''tenant_reference'' \<mapsto> gk_text c (gr_tenant_reference w),
      ''proposal_reference'' \<mapsto> gk_text c (gr_proposal_reference w),
      ''action_type'' \<mapsto> gk_action_type c \<lparr>at_namespace = gr_action_namespace w, at_name = gr_action_name w,
                                        at_version = gr_action_version w\<rparr>,
      ''semantic_effect_reference'' \<mapsto> gk_text c (gr_semantic_effect_reference w),
      ''effect_kind'' \<mapsto> gk_text c (gr_effect_kind w),
      ''lifecycle_status'' \<mapsto> gk_text c (gr_lifecycle_status w),
      ''revision'' \<mapsto> gk_number c (gr_revision w),
      ''created_at'' \<mapsto> gk_text c (gk_isoformat c (gr_created_at w)),
      ''expires_at'' \<mapsto> gk_text c (gk_isoformat c (gr_expires_at w)),
      ''next_verification_at'' \<mapsto> nullable c (\<lambda>t. gk_text c (gk_isoformat c t)) (gr_next_verification_at w),
      ''authority_evidence'' \<mapsto> gk_array c evidence,
      ''receipts'' \<mapsto> gk_array c receipts]"

section \<open>The schema\<close>

text \<open>
  The trigger \<open>enforce_proposal_update\<close> (\<open>005_operator_recovery.sql\<close>); the transitions are generated from the
  Python table (\<open>_postgres_lifecycle_transition_predicate\<close> in \<open>migrations.py\<close>); \<open>owner\<close> says that the
  statement runs with the rights of the owner of the tables.
\<close>

definition pg_all_statuses :: "lifecycle_status list" where
  "pg_all_statuses =
     [AWAITING_AUTHORITY, DENIED, EXPIRED, AUTHORIZED, BLOCKED, STALE, SUPERSEDED, EXECUTING, FAILED_KNOWN,
      FAILED_UNKNOWN, VERIFICATION_PENDING, VERIFICATION_UNRESOLVED, PARTIALLY_SUCCEEDED, VERIFIED]"

definition pg_transition_predicate :: "(pystr \<times> pystr) list" where
  "pg_transition_predicate =
     [(lifecycle_value source, lifecycle_value target).
        source \<leftarrow> pg_all_statuses, target \<leftarrow> pg_all_statuses,
        target \<in> set (allowed_lifecycle_transitions source)]"

definition protected_fields :: "pystr list" where
  "protected_fields = [''protected_private_snapshot'', ''commitment'', ''erasure_pending_at'', ''erased_at'']"

definition pg_row_identity :: "'v pg_proposal \<Rightarrow> pystr \<times> pystr \<times> pystr \<times> pystr \<times> int \<times> pystr \<times> pystr \<times> instant" where
  "pg_row_identity w =
     (gr_tenant_reference w, gr_proposal_reference w, gr_action_namespace w, gr_action_name w,
      gr_action_version w, gr_semantic_effect_reference w, gr_effect_kind w, gr_created_at w)"

definition pg_enforce_update :: "bool \<Rightarrow> 'v pg_proposal \<Rightarrow> 'v pg_proposal \<Rightarrow> unit outcome" where
  "pg_enforce_update owner old new =
     (if (gr_commitment_digest new \<noteq> gr_commitment_digest old
          \<or> list_ex (\<lambda>k. gr_proposal_data new k \<noteq> gr_proposal_data old k) protected_fields) \<and> \<not> owner
      then fails (HostError ''42501'')
      else if pg_row_identity new \<noteq> pg_row_identity old then fails (HostError ''23514'')
      else if gr_revision new \<noteq> gr_revision old + 1 then fails (HostError ''23514'')
      else if gr_lifecycle_status new \<noteq> gr_lifecycle_status old
              \<and> (gr_lifecycle_status old, gr_lifecycle_status new) \<notin> set pg_transition_predicate
      then fails (HostError ''23514'')
      else Inr ())"

text \<open>The \<open>CHECK\<close> clauses of a proposal, and the ranges of \<open>integer\<close> and \<open>bigint\<close>.\<close>

definition pg_proposal_checks :: "'v pg_proposal \<Rightarrow> unit outcome" where
  "pg_proposal_checks w =
     (if 2 ^ 31 \<le> gr_action_version w \<or> 2 ^ 63 \<le> gr_revision w then fails (HostError ''22003'')
      else if gr_action_version w \<le> 0 \<or> gr_effect_kind w \<notin> {''single'', ''itemized''}
              \<or> gr_lifecycle_status w \<notin> set (map lifecycle_value pg_all_statuses)
              \<or> gr_revision w < 0 \<or> gr_expires_at w \<le> gr_created_at w
      then fails (HostError ''23514'')
      else Inr ())"

definition pg_key :: "'v pg_proposal \<Rightarrow> proposal_key" where
  "pg_key w = (gr_tenant_reference w, gr_proposal_reference w)"

definition evidence_key :: "'v pg_evidence \<Rightarrow> proposal_key" where
  "evidence_key v = (ge_tenant_reference v, ge_proposal_reference v)"

definition receipt_key :: "'v pg_receipt \<Rightarrow> proposal_key" where
  "receipt_key v = (gt_tenant_reference v, gt_proposal_reference v)"

text \<open>A check on the text at a path passes if there is none.\<close>

definition path_is :: "'v pg_config \<Rightarrow> 'v \<Rightarrow> pystr list \<Rightarrow> (pystr \<Rightarrow> bool) \<Rightarrow> bool" where
  "path_is c data path holds = (case gk_path c data path of None \<Rightarrow> True | Some x \<Rightarrow> holds x)"

definition evidence_checks :: "'v pg_config \<Rightarrow> 'v pg_evidence \<Rightarrow> bool" where
  "evidence_checks c v \<longleftrightarrow>
     path_is c (ge_data v) [''tenant_reference''] (\<lambda>x. x = ge_tenant_reference v)
     \<and> path_is c (ge_data v) [''proposal_instance_reference''] (\<lambda>x. x = ge_proposal_reference v)
     \<and> path_is c (ge_data v) [''action_type'', ''namespace''] (\<lambda>x. x = ge_action_namespace v)
     \<and> path_is c (ge_data v) [''action_type'', ''name''] (\<lambda>x. x = ge_action_name v)
     \<and> path_is c (ge_data v) [''action_type'', ''version''] (\<lambda>x. gk_cast_integer c x = ge_action_version v)
     \<and> path_is c (ge_data v) [''semantic_effect_reference''] (\<lambda>x. x = ge_semantic_effect_reference v)
     \<and> path_is c (ge_data v) [''proposal_commitment''] (\<lambda>x. x = ge_commitment_digest v)"

definition evidence_parent :: "'v pg_db \<Rightarrow> 'v pg_evidence \<Rightarrow> bool" where
  "evidence_parent db v \<longleftrightarrow>
     (case gd_proposals db (evidence_key v) of
        None \<Rightarrow> False
      | Some w \<Rightarrow> gr_action_namespace w = ge_action_namespace v \<and> gr_action_name w = ge_action_name v
          \<and> gr_action_version w = ge_action_version v
          \<and> gr_semantic_effect_reference w = ge_semantic_effect_reference v
          \<and> gr_commitment_digest w = Some (ge_commitment_digest v))"

definition receipt_checks :: "'v pg_config \<Rightarrow> 'v pg_receipt \<Rightarrow> bool" where
  "receipt_checks c v \<longleftrightarrow>
     path_is c (gt_data v) [''receipt_reference''] (\<lambda>x. x = gt_receipt_reference v)
     \<and> path_is c (gt_data v) [''correlation_reference''] (\<lambda>x. x = gt_proposal_reference v)"

section \<open>Statements\<close>

definition pg_insert_proposal :: "'v pg_proposal \<Rightarrow> 'v pg_db \<Rightarrow> 'v pg_db outcome" where
  "pg_insert_proposal w db =
     result_bind (pg_proposal_checks w) (\<lambda>_.
     if gd_proposals db (pg_key w) \<noteq> None then fails (HostError ''23505'')
     else Inr (db\<lparr>gd_proposals := (gd_proposals db)(pg_key w \<mapsto> w)\<rparr>))"

definition pg_insert_evidence :: "'v pg_config \<Rightarrow> 'v pg_evidence \<Rightarrow> 'v pg_db \<Rightarrow> 'v pg_db outcome" where
  "pg_insert_evidence c v db =
     (if \<not> evidence_checks c v then fails (HostError ''23514'')
      else if list_ex (\<lambda>u. evidence_key u = evidence_key v \<and> ge_sequence u = ge_sequence v) (gd_evidence db)
      then fails (HostError ''23505'')
      else if \<not> evidence_parent db v then fails (HostError ''23503'')
      else Inr (db\<lparr>gd_evidence := gd_evidence db @ [v]\<rparr>))"

definition pg_insert_receipt :: "'v pg_config \<Rightarrow> 'v pg_receipt \<Rightarrow> 'v pg_db \<Rightarrow> 'v pg_db outcome" where
  "pg_insert_receipt c v db =
     (if \<not> receipt_checks c v then fails (HostError ''23514'')
      else if list_ex (\<lambda>u. receipt_key u = receipt_key v
                \<and> (gt_sequence u = gt_sequence v \<or> gt_receipt_reference u = gt_receipt_reference v)) (gd_receipts db)
      then fails (HostError ''23505'')
      else if gd_proposals db (receipt_key v) = None then fails (HostError ''23503'')
      else Inr (db\<lparr>gd_receipts := gd_receipts db @ [v]\<rparr>))"

text \<open>\<open>executemany\<close>: the rows one after the other.\<close>

fun pg_execute_many :: "('r \<Rightarrow> 's \<Rightarrow> 's outcome) \<Rightarrow> 'r list \<Rightarrow> 's \<Rightarrow> 's outcome" where
  "pg_execute_many ins [] db = Inr db"
| "pg_execute_many ins (v # vs) db = result_bind (ins v db) (\<lambda>db'. pg_execute_many ins vs db')"

text \<open>\<open>UPDATE\<close> of the row with a primary key, if it satisfies the guard. The result says whether it was found.\<close>

definition pg_update ::
  "bool \<Rightarrow> proposal_key \<Rightarrow> ('v pg_proposal \<Rightarrow> bool) \<Rightarrow> ('v pg_proposal \<Rightarrow> 'v pg_proposal) \<Rightarrow> 'v pg_db
     \<Rightarrow> (bool \<times> 'v pg_db) outcome" where
  "pg_update owner k guard change db =
     (case gd_proposals db k of
        None \<Rightarrow> Inr (False, db)
      | Some w \<Rightarrow>
          if \<not> guard w then Inr (False, db)
          else result_bind (pg_enforce_update owner w (change w)) (\<lambda>_.
               result_bind (pg_proposal_checks (change w)) (\<lambda>_.
               Inr (True, db\<lparr>gd_proposals := (gd_proposals db)(k \<mapsto> change w)\<rparr>))))"

definition claim_parent :: "'v pg_db \<Rightarrow> claim_key \<Rightarrow> pystr \<Rightarrow> bool" where
  "claim_parent db k owner \<longleftrightarrow>
     (case k of (t, (ns, nm, v), x) \<Rightarrow>
        (case gd_proposals db (t, owner) of
           None \<Rightarrow> False
         | Some w \<Rightarrow> gr_action_namespace w = ns \<and> gr_action_name w = nm \<and> gr_action_version w = v
             \<and> gr_semantic_effect_reference w = x))"

definition pg_insert_claim :: "claim_key \<Rightarrow> pg_claim \<Rightarrow> 'v pg_db \<Rightarrow> 'v pg_db outcome" where
  "pg_insert_claim k v db =
     (if gd_claims db k \<noteq> None then fails (HostError ''23505'')
      else if \<not> claim_parent db k (gl_proposal_reference v) then fails (HostError ''23503'')
      else Inr (db\<lparr>gd_claims := (gd_claims db)(k \<mapsto> v)\<rparr>))"

section \<open>Loading and writing a proposal\<close>

definition select_evidence :: "proposal_key \<Rightarrow> 'v pg_db \<Rightarrow> 'v list" where
  "select_evidence k db =
     map ge_data (sort_key ge_sequence (filter (\<lambda>v. evidence_key v = k) (gd_evidence db)))"

definition select_receipts :: "proposal_key \<Rightarrow> 'v pg_db \<Rightarrow> 'v list" where
  "select_receipts k db =
     map gt_data (sort_key gt_sequence (filter (\<lambda>v. receipt_key v = k) (gd_receipts db)))"

definition pg_load :: "'v pg_config \<Rightarrow> pystr \<Rightarrow> pystr \<Rightarrow> 'v pg_db \<Rightarrow> stored_proposal option outcome" where
  "pg_load c t r db =
     (case gd_proposals db (t, r) of
        None \<Rightarrow> Inr None
      | Some w \<Rightarrow>
          (case gk_validate c
                  (gr_proposal_data w ++ column_document c w (select_evidence (t, r) db) (select_receipts (t, r) db)) of
             Inl _ \<Rightarrow> fails StoredDataCorruptionError
           | Inr p \<Rightarrow> Inr (Some p)))"

definition evidence_row :: "'v pg_config \<Rightarrow> stored_proposal \<Rightarrow> pystr \<Rightarrow> nat \<Rightarrow> authority_evidence \<Rightarrow> 'v pg_evidence" where
  "evidence_row c p digest n e =
     \<lparr>ge_tenant_reference = sp_tenant_reference p, ge_proposal_reference = sp_proposal_reference p,
      ge_sequence = n, ge_action_namespace = at_namespace (sp_action_type p),
      ge_action_name = at_name (sp_action_type p), ge_action_version = at_version (sp_action_type p),
      ge_semantic_effect_reference = sp_semantic_effect_reference p, ge_commitment_digest = digest,
      ge_data = gk_evidence c e\<rparr>"

definition receipt_row :: "'v pg_config \<Rightarrow> stored_proposal \<Rightarrow> nat \<Rightarrow> receipt \<Rightarrow> 'v pg_receipt" where
  "receipt_row c p n r =
     \<lparr>gt_tenant_reference = sp_tenant_reference p, gt_proposal_reference = sp_proposal_reference p,
      gt_sequence = n, gt_receipt_reference = rb_receipt_reference (receipt_head r),
      gt_data = gk_receipt c r\<rparr>"

definition insert_new_evidence ::
  "'v pg_config \<Rightarrow> nat \<Rightarrow> stored_proposal \<Rightarrow> 'v pg_db \<Rightarrow> 'v pg_db outcome" where
  "insert_new_evidence c offset updated db =
     (let fresh = drop offset (sp_authority_evidence updated) in
      if fresh = [] then Inr db
      else case sp_commitment updated of
             None \<Rightarrow> fails (StoreInvariantError EvidenceWithoutCommitment)
           | Some commitment \<Rightarrow>
               pg_execute_many (pg_insert_evidence c)
                 (map (\<lambda>(n, e). evidence_row c updated (kc_digest commitment) n e) (enumerate offset fresh)) db)"

definition insert_new_receipts ::
  "'v pg_config \<Rightarrow> nat \<Rightarrow> stored_proposal \<Rightarrow> 'v pg_db \<Rightarrow> 'v pg_db outcome" where
  "insert_new_receipts c offset updated db =
     pg_execute_many (pg_insert_receipt c)
       (map (\<lambda>(n, r). receipt_row c updated n r) (enumerate offset (drop offset (sp_receipts updated)))) db"

definition insert_children ::
  "'v pg_config \<Rightarrow> stored_proposal option \<Rightarrow> stored_proposal \<Rightarrow> 'v pg_db \<Rightarrow> 'v pg_db outcome" where
  "insert_children c current updated db =
     result_bind
       (insert_new_evidence c
          (case current of None \<Rightarrow> 0 | Some p \<Rightarrow> length (sp_authority_evidence p)) updated db) (\<lambda>db'.
     insert_new_receipts c (case current of None \<Rightarrow> 0 | Some p \<Rightarrow> length (sp_receipts p)) updated db')"

definition update_parent ::
  "'v pg_config \<Rightarrow> stored_proposal \<Rightarrow> stored_proposal \<Rightarrow> 'v pg_db \<Rightarrow> 'v pg_db outcome" where
  "update_parent c current updated db =
     result_bind
       (pg_update (gk_owns_tables c) (sp_tenant_reference current, sp_proposal_reference current)
          (\<lambda>w. gr_revision w = sp_revision current
               \<and> gr_lifecycle_status w = lifecycle_value (sp_lifecycle_status current))
          (\<lambda>w. w\<lparr>gr_lifecycle_status := lifecycle_value (sp_lifecycle_status updated),
                 gr_revision := sp_revision updated,
                 gr_expires_at := sp_expires_at updated,
                 gr_status_changed_at :=
                   (if gr_lifecycle_status w \<noteq> lifecycle_value (sp_lifecycle_status updated) then gd_now db
                    else gr_status_changed_at w),
                 gr_next_verification_at := sp_next_verification_at updated,
                 gr_proposal_data := parent_data c updated\<rparr>) db)
       (\<lambda>(found, db'). if \<not> found then fails (StoreInvariantError GuardedUpdateLost) else Inr db')"

section \<open>The action store\<close>

definition pg_row_of :: "'v pg_config \<Rightarrow> stored_proposal \<Rightarrow> 'v pg_proposal" where
  "pg_row_of c p =
     \<lparr>gr_tenant_reference = sp_tenant_reference p,
      gr_proposal_reference = sp_proposal_reference p,
      gr_action_namespace = at_namespace (sp_action_type p),
      gr_action_name = at_name (sp_action_type p),
      gr_action_version = at_version (sp_action_type p),
      gr_semantic_effect_reference = sp_semantic_effect_reference p,
      gr_effect_kind = effect_kind_value (sp_effect_kind p),
      gr_lifecycle_status = lifecycle_value (sp_lifecycle_status p),
      gr_revision = sp_revision p,
      gr_commitment_digest = map_option kc_digest (sp_commitment p),
      gr_created_at = sp_created_at p,
      gr_expires_at = sp_expires_at p,
      gr_status_changed_at = sp_created_at p,
      gr_next_verification_at = sp_next_verification_at p,
      gr_proposal_data = parent_data c p\<rparr>"

definition pg_create :: "'v pg_config \<Rightarrow> stored_proposal \<Rightarrow> ('v pg_db, unit) eff" where
  "pg_create c p =
     bind (lift (validate_proposal_create p)) (\<lambda>_.
     bind (attempt (transaction (\<lambda>db.
             result_bind (pg_insert_proposal (pg_row_of c p) db) (\<lambda>db'.
             result_bind (insert_children c None p db') (\<lambda>db''. Inr (Commit () db'')))))) (\<lambda>written.
     case written of
       Inl e \<Rightarrow> if exn_of e = HostError ''23505'' then raise ProposalAlreadyExistsError else throw e
     | Inr _ \<Rightarrow> return ()))"

definition pg_get :: "'v pg_config \<Rightarrow> pystr \<Rightarrow> pystr \<Rightarrow> ('v pg_db, stored_proposal option) eff" where
  "pg_get c t r db = (pg_load c t r db, db)"

definition pg_claim_owner :: "stored_proposal \<Rightarrow> 'v pg_db \<Rightarrow> pystr option" where
  "pg_claim_owner p db = map_option gl_proposal_reference (gd_claims db (claim_key p))"

definition pg_get_effect_claim_owner :: "pystr \<Rightarrow> action_type \<Rightarrow> pystr \<Rightarrow> ('v pg_db, pystr option) eff" where
  "pg_get_effect_claim_owner t a x db =
     (Inr (map_option gl_proposal_reference (gd_claims db (t, action_key a, x))), db)"

definition pg_compare_and_set ::
  "'v pg_config \<Rightarrow> pystr \<Rightarrow> pystr \<Rightarrow> int \<Rightarrow> lifecycle_status list \<Rightarrow> stored_proposal \<Rightarrow> ('v pg_db, bool) eff" where
  "pg_compare_and_set c t r expected_revision expected_statuses updated =
     transaction (\<lambda>db.
       result_bind (pg_load c t r db) (\<lambda>loaded.
       case loaded of
         None \<Rightarrow> Inr (Commit False db)
       | Some current \<Rightarrow>
           if sp_revision current \<noteq> expected_revision \<or> sp_lifecycle_status current \<notin> set expected_statuses
           then Inr (Commit False db)
           else
             result_bind (validate_proposal_update current updated) (\<lambda>_.
             if sp_lifecycle_status updated = EXECUTING \<and> sp_lifecycle_status current \<noteq> EXECUTING
                \<and> pg_claim_owner current db \<noteq> Some (sp_proposal_reference current)
             then fails (StoreInvariantError ExecutionWithoutClaim)
             else
               result_bind (insert_children c (Some current) updated db) (\<lambda>db'.
               result_bind (update_parent c current updated db') (\<lambda>db''.
               Inr (Commit True db''))))))"

text \<open>The function \<open>transfer_failed_known_effect_claim\<close> (\<open>002_stale_no_effect.sql\<close>).\<close>

definition claim_owner_settled :: "'v pg_db \<Rightarrow> pystr \<Rightarrow> pystr \<Rightarrow> bool" where
  "claim_owner_settled db t owner \<longleftrightarrow>
     (case gd_proposals db (t, owner) of
        None \<Rightarrow> False
      | Some w \<Rightarrow> gr_lifecycle_status w \<in> {''failed_known'', ''stale''})"

definition claim_replacement_ready :: "'v pg_config \<Rightarrow> 'v pg_db \<Rightarrow> claim_key \<Rightarrow> pystr \<Rightarrow> instant \<Rightarrow> bool" where
  "claim_replacement_ready c db k replacement admitted_at \<longleftrightarrow>
     claim_parent db k replacement
     \<and> (case gd_proposals db (fst k, replacement) of
          None \<Rightarrow> False
        | Some w \<Rightarrow>
            gr_lifecycle_status w = ''authorized'' \<and> max admitted_at (gd_now db) < gr_expires_at w
            \<and> is_null c (gr_proposal_data w) ''erasure_pending_at'' \<and> is_null c (gr_proposal_data w) ''erased_at'')"

definition transfer_effect_claim ::
  "'v pg_config \<Rightarrow> claim_key \<Rightarrow> pystr \<Rightarrow> pystr \<Rightarrow> instant \<Rightarrow> 'v pg_db \<Rightarrow> bool \<times> 'v pg_db" where
  "transfer_effect_claim c k owner replacement admitted_at db =
     (if map_option gl_proposal_reference (gd_claims db k) = Some owner
         \<and> claim_owner_settled db (fst k) owner \<and> claim_replacement_ready c db k replacement admitted_at
      then (True, db\<lparr>gd_claims := (gd_claims db)(k \<mapsto>
                      \<lparr>gl_proposal_reference = replacement, gl_admitted_at = admitted_at\<rparr>)\<rparr>)
      else (False, db))"

definition pg_claim_effect ::
  "'v pg_config \<Rightarrow> stored_proposal \<Rightarrow> instant \<Rightarrow> 'v pg_db \<Rightarrow> (effect_claim_result \<times> 'v pg_db) outcome" where
  "pg_claim_effect c p admitted_at db =
     (case pg_claim_owner p db of
        None \<Rightarrow>
          result_bind (pg_insert_claim (claim_key p)
              \<lparr>gl_proposal_reference = sp_proposal_reference p, gl_admitted_at = admitted_at\<rparr> db) (\<lambda>db'.
          Inr (ClaimACQUIRED, db'))
      | Some owner \<Rightarrow>
          if owner = sp_proposal_reference p then Inr (ClaimOWNED_BY_PROPOSAL, db)
          else if claim_owner_settled db (sp_tenant_reference p) owner
          then (case transfer_effect_claim c (claim_key p) owner (sp_proposal_reference p) admitted_at db of
                  (transferred, db') \<Rightarrow> Inr (if transferred then ClaimACQUIRED else ClaimCONFLICT, db'))
          else Inr (ClaimCONFLICT, db))"

definition pg_admit_execution ::
  "'v pg_config \<Rightarrow> pystr \<Rightarrow> pystr \<Rightarrow> int \<Rightarrow> instant \<Rightarrow> stored_proposal \<Rightarrow> ('v pg_db, effect_claim_result) eff" where
  "pg_admit_execution c t r expected_revision admitted_at updated =
     transaction (\<lambda>db.
       result_bind (pg_load c t r db) (\<lambda>loaded.
       case loaded of
         None \<Rightarrow> Inr (Commit ClaimPROPOSAL_NOT_FOUND db)
       | Some current \<Rightarrow>
           let database_unexpired = map_option (\<lambda>w. gd_now db < gr_expires_at w) (gd_proposals db (t, r)) in
           if sp_revision current \<noteq> expected_revision
              \<or> sp_lifecycle_status current \<noteq> AUTHORIZED
              \<or> sp_erasure_pending_at current \<noteq> None
              \<or> sp_erased_at current \<noteq> None
              \<or> sp_expires_at current \<le> admitted_at
              \<or> database_unexpired \<noteq> Some True
           then Inr (Commit ClaimPROPOSAL_NOT_AUTHORIZED db)
           else
             result_bind (validate_proposal_update current updated) (\<lambda>_.
             if sp_lifecycle_status updated \<noteq> EXECUTING
             then fails (StoreInvariantError AdmissionNotExecuting)
             else
               result_bind (pg_claim_effect c current admitted_at db) (\<lambda>(claim, db').
               if claim = ClaimCONFLICT then Inr (Commit claim db')
               else
                 result_bind (insert_children c (Some current) updated db') (\<lambda>db''.
                 result_bind (update_parent c current updated db'') (\<lambda>db'''.
                 Inr (Commit claim db''')))))))"

definition postgres_action_store :: "'v pg_config \<Rightarrow> 'v pg_db action_store" where
  "postgres_action_store c =
     \<lparr>as_create = pg_create c, as_get = pg_get c, as_compare_and_set = pg_compare_and_set c,
      as_admit_execution = pg_admit_execution c, as_get_effect_claim_owner = pg_get_effect_claim_owner\<rparr>"

section \<open>The retention store\<close>

text \<open>The functions \<open>mark_erasure_pending\<close> and \<open>complete_erasure\<close> run with the rights of the owner.\<close>

definition pg_mark_erasure_pending ::
  "'v pg_config \<Rightarrow> pystr \<Rightarrow> pystr \<Rightarrow> int \<Rightarrow> instant \<Rightarrow> ('v pg_db, bool) eff" where
  "pg_mark_erasure_pending c t r expected_revision pending_at =
     transaction (\<lambda>db.
       result_bind
         (pg_update True (t, r)
            (\<lambda>w. gr_revision w = expected_revision
                 \<and> gr_lifecycle_status w \<notin> {''executing'', ''failed_unknown'', ''verification_pending''}
                 \<and> is_null c (gr_proposal_data w) ''erasure_pending_at''
                 \<and> is_null c (gr_proposal_data w) ''erased_at'')
            (\<lambda>w. w\<lparr>gr_revision := gr_revision w + 1,
                   gr_proposal_data := (gr_proposal_data w)
                     (''erasure_pending_at'' \<mapsto> gk_text c (gk_server_time c pending_at))\<rparr>) db)
         (\<lambda>(found, db'). Inr (Commit found db')))"

definition erased_document :: "'v pg_config \<Rightarrow> instant \<Rightarrow> 'v jsonb \<Rightarrow> 'v jsonb" where
  "erased_document c erased_at data =
     data(''protected_private_snapshot'' \<mapsto> gk_null c, ''commitment'' \<mapsto> gk_null c,
          ''display_preview'' \<mapsto> gk_object c [], ''requesting_principal'' \<mapsto> gk_null c,
          ''proposing_agent'' \<mapsto> gk_null c, ''safe_result'' \<mapsto> gk_null c,
          ''execution_precondition'' \<mapsto> gk_null c, ''erasure_pending_at'' \<mapsto> gk_null c,
          ''erased_at'' \<mapsto> gk_text c (gk_server_time c erased_at))"

definition pg_complete_erasure ::
  "'v pg_config \<Rightarrow> pystr \<Rightarrow> pystr \<Rightarrow> int \<Rightarrow> instant \<Rightarrow> ('v pg_db, bool) eff" where
  "pg_complete_erasure c t r expected_revision erased_at =
     transaction (\<lambda>db.
       if (case gd_proposals db (t, r) of
             None \<Rightarrow> True
           | Some w \<Rightarrow> gr_revision w \<noteq> expected_revision
               \<or> is_null c (gr_proposal_data w) ''erasure_pending_at''
               \<or> \<not> is_null c (gr_proposal_data w) ''erased_at'')
       then Inr (Commit False db)
       else
         result_bind
           (pg_update True (t, r) (\<lambda>w. gr_revision w = expected_revision)
              (\<lambda>w. w\<lparr>gr_revision := gr_revision w + 1, gr_commitment_digest := None,
                     gr_next_verification_at := None,
                     gr_proposal_data := erased_document c erased_at (gr_proposal_data w)\<rparr>)
              (db\<lparr>gd_evidence := filter (\<lambda>v. evidence_key v \<noteq> (t, r)) (gd_evidence db),
                  gd_receipts := filter (\<lambda>v. receipt_key v \<noteq> (t, r)) (gd_receipts db)\<rparr>))
           (\<lambda>(found, db'). Inr (Commit found db')))"

definition postgres_retention_store :: "'v pg_config \<Rightarrow> 'v pg_db retention_store" where
  "postgres_retention_store c =
     \<lparr>rs_mark_erasure_pending = pg_mark_erasure_pending c, rs_complete_erasure = pg_complete_erasure c\<rparr>"

end
