(* ===== verification/Postgres_Refinement.thy ===== *)
theory Postgres_Refinement
  imports Postgres_Store Store_Properties
begin

text \<open>
  The PostgreSQL store implements the store contract: the tables of a role that does not own them
  represent a store, each operation is a step of the contract, and every history is one of the in-memory store.
  Further: the tables keep their types and references in every history, whatever the codec does, and the
  role that does not own the tables never changes protected state.
\<close>

section \<open>What the tables represent\<close>

definition pg_times :: "'v pg_config \<Rightarrow> (instant \<Rightarrow> pystr) set" where
  "pg_times c = {gk_dump_time c, gk_server_time c}"

definition pg_laws :: "'v pg_config \<Rightarrow> bool" where
  "pg_laws c \<longleftrightarrow>
     (\<forall>p. \<forall>pending\<in>pg_times c. \<forall>erased\<in>pg_times c.
        gk_validate c
          (parent_document c pending erased p
           ++ column_document c (pg_row_of c p) (map (gk_evidence c) (sp_authority_evidence p))
                (map (gk_receipt c) (sp_receipts p))) = Inr p)"

definition pg_columns where
  "pg_columns w =
     (pg_row_identity w, gr_lifecycle_status w, gr_revision w, gr_expires_at w, gr_next_verification_at w)"

definition pg_children :: "'v pg_config \<Rightarrow> 'v pg_db \<Rightarrow> stored_proposal \<Rightarrow> bool" where
  "pg_children c db p \<longleftrightarrow>
     map (\<lambda>v. (ge_sequence v, ge_data v)) (filter (\<lambda>v. evidence_key v = proposal_key p) (gd_evidence db))
       = enumerate 0 (map (gk_evidence c) (sp_authority_evidence p))
     \<and> map (\<lambda>v. (gt_sequence v, gt_data v)) (filter (\<lambda>v. receipt_key v = proposal_key p) (gd_receipts db))
       = enumerate 0 (map (gk_receipt c) (sp_receipts p))"

definition represents :: "'v pg_config \<Rightarrow> 'v pg_db \<Rightarrow> stored_proposal \<Rightarrow> 'v pg_proposal \<Rightarrow> bool" where
  "represents c db p w \<longleftrightarrow>
     (\<exists>pending\<in>pg_times c. \<exists>erased\<in>pg_times c. gr_proposal_data w = parent_document c pending erased p)
     \<and> pg_columns w = pg_columns (pg_row_of c p) \<and> pg_children c db p"

definition pg_tables_ok :: "'v pg_config \<Rightarrow> 'v pg_db \<Rightarrow> bool" where
  "pg_tables_ok c db \<longleftrightarrow>
     (\<forall>k w. gd_proposals db k = Some w \<longrightarrow> (\<exists>p. proposal_key p = k \<and> represents c db p w))
     \<and> (\<forall>v\<in>set (gd_evidence db). gd_proposals db (evidence_key v) \<noteq> None)
     \<and> (\<forall>v\<in>set (gd_receipts db). gd_proposals db (receipt_key v) \<noteq> None)"

definition pg_view :: "'v pg_config \<Rightarrow> 'v pg_db \<Rightarrow> store_state" where
  "pg_view c db =
     \<lparr>st_proposals = (\<lambda>(t, r). case pg_load c t r db of Inr p \<Rightarrow> p | Inl _ \<Rightarrow> None),
      st_claims = (\<lambda>k. map_option gl_proposal_reference (gd_claims db k))\<rparr>"

definition pg_good :: "'v pg_config \<Rightarrow> 'v pg_db \<Rightarrow> bool" where
  "pg_good c db \<longleftrightarrow> pg_laws c \<and> \<not> gk_owns_tables c \<and> pg_tables_ok c db \<and> store_inv (pg_view c db)"

section \<open>Lemmas on the documents\<close>

lemma column_document_cong: "pg_columns w = pg_columns v \<Longrightarrow> column_document c w es rs = column_document c v es rs"
  by (simp add: pg_columns_def pg_row_identity_def column_document_def)

lemma pg_timesI [simp]: "gk_dump_time c \<in> pg_times c" "gk_server_time c \<in> pg_times c"
  by (simp_all add: pg_times_def)

lemma parent_document_at:
  "parent_document c pe er p ''erasure_pending_at'' = Some (nullable c (\<lambda>t. gk_text c (pe t)) (sp_erasure_pending_at p))"
  "parent_document c pe er p ''erased_at'' = Some (nullable c (\<lambda>t. gk_text c (er t)) (sp_erased_at p))"
  by (simp_all add: parent_document_def)

lemma text_not_null:
  assumes "pg_laws c" and "e \<in> pg_times c"
  shows "gk_text c (e t) \<noteq> gk_null c"
proof
  assume eq: "gk_text c (e t) = gk_null c"
  define p where "p = (undefined :: stored_proposal)\<lparr>sp_erased_at := None\<rparr>"
  define q where "q = p\<lparr>sp_erased_at := Some t\<rparr>"
  have doc: "parent_document c e e q = parent_document c e e p"
    using eq by (simp add: parent_document_def q_def p_def nullable_def)
  have col: "column_document c (pg_row_of c q) es rs = column_document c (pg_row_of c p) es rs" for es rs
    by (rule column_document_cong) (simp add: pg_columns_def pg_row_identity_def pg_row_of_def q_def)
  have "Inr q = gk_validate c (parent_document c e e p ++ column_document c (pg_row_of c p)
      (map (gk_evidence c) (sp_authority_evidence p)) (map (gk_receipt c) (sp_receipts p)))"
    using assms(1)[unfolded pg_laws_def, rule_format, OF assms(2) assms(2), of q]
    unfolding doc col by (simp add: q_def)
  also have "\<dots> = Inr p" using assms(1)[unfolded pg_laws_def, rule_format, OF assms(2) assms(2), of p] .
  finally have "sp_erased_at q = sp_erased_at p" by simp
  then show False by (simp add: q_def p_def)
qed

lemma nullable_null:
  "pg_laws c \<Longrightarrow> e \<in> pg_times c \<Longrightarrow> nullable c (\<lambda>t. gk_text c (e t)) x = gk_null c \<longleftrightarrow> x = None"
  using text_not_null by (auto simp: nullable_def split: option.splits)

lemma representsI:
  "pe \<in> pg_times c \<Longrightarrow> er \<in> pg_times c \<Longrightarrow> gr_proposal_data w = parent_document c pe er p
    \<Longrightarrow> pg_columns w = pg_columns (pg_row_of c p) \<Longrightarrow> pg_children c db p \<Longrightarrow> represents c db p w"
  unfolding represents_def by blast

lemma represents_null:
  assumes "pg_laws c" and "represents c db p w"
  shows "is_null c (gr_proposal_data w) ''erasure_pending_at'' \<longleftrightarrow> sp_erasure_pending_at p = None"
    and "is_null c (gr_proposal_data w) ''erased_at'' \<longleftrightarrow> sp_erased_at p = None"
  using assms by (auto simp: represents_def is_null_def parent_document_at nullable_null)

lemma represents_columns:
  assumes "represents c db p w"
  shows "gr_lifecycle_status w = lifecycle_value (sp_lifecycle_status p)" and "gr_revision w = sp_revision p"
    and "gr_expires_at w = sp_expires_at p" and "pg_row_identity w = pg_row_identity (pg_row_of c p)"
  using assms by (simp_all add: represents_def pg_columns_def pg_row_of_def)

lemma pg_key_of [simp]: "pg_key (pg_row_of c p) = proposal_key p"
  by (simp add: pg_key_def pg_row_of_def proposal_key_def)

lemma identity_rows: "immutable_identity q = immutable_identity p \<Longrightarrow> pg_row_identity (pg_row_of c q) = pg_row_identity (pg_row_of c p)"
  using identity_fields [of q p] by (simp add: pg_row_identity_def pg_row_of_def)

lemma enumerated_data:
  assumes "map (\<lambda>v. (sq v, dt v)) rows = enumerate 0 xs"
  shows "map dt (sort_key sq rows) = xs"
proof -
  have "map sq rows = map fst (enumerate 0 xs)" "map dt rows = map snd (enumerate 0 xs)"
    unfolding assms [symmetric] by simp_all
  then have "sorted (map sq rows)" "map dt rows = xs" by simp_all
  then show ?thesis by (simp add: sorted_sort_id sort_key_id_if_sorted)
qed

lemma children_select:
  assumes "pg_children c db p"
  shows "select_evidence (proposal_key p) db = map (gk_evidence c) (sp_authority_evidence p)"
    and "select_receipts (proposal_key p) db = map (gk_receipt c) (sp_receipts p)"
  using assms enumerated_data unfolding pg_children_def select_evidence_def select_receipts_def by blast+

lemma load_represented:
  assumes "pg_laws c" and "gd_proposals db (t, r) = Some w" and "represents c db p w" and "proposal_key p = (t, r)"
  shows "pg_load c t r db = Inr (Some p)"
proof -
  from assms(3) obtain pe er where d: "pe \<in> pg_times c" "er \<in> pg_times c" "gr_proposal_data w = parent_document c pe er p"
    and cols: "pg_columns w = pg_columns (pg_row_of c p)" and ch: "pg_children c db p"
    by (auto simp: represents_def)
  show ?thesis
    using assms(1)[unfolded pg_laws_def, rule_format, OF d(1,2), of p] children_select [OF ch] assms(2,4)
    by (simp add: pg_load_def d(3) column_document_cong [OF cols])
qed

lemma tables_row: "pg_tables_ok c db \<Longrightarrow> gd_proposals db k = Some w \<Longrightarrow> \<exists>p. proposal_key p = k \<and> represents c db p w"
  unfolding pg_tables_ok_def by blast

lemma load_tables:
  assumes "pg_laws c" and "pg_tables_ok c db"
  shows "pg_load c t r db = Inr (st_proposals (pg_view c db) (t, r))"
proof (cases "gd_proposals db (t, r)")
  case None
  then show ?thesis by (simp add: pg_load_def pg_view_def)
next
  case (Some w)
  with assms(2) obtain p where "proposal_key p = (t, r)" "represents c db p w" using tables_row by blast
  from load_represented [OF assms(1) Some this(2,1)] show ?thesis by (simp add: pg_view_def)
qed

lemma view_row:
  assumes "pg_laws c" and "pg_tables_ok c db" and "st_proposals (pg_view c db) k = Some p"
  obtains w where "gd_proposals db k = Some w" "represents c db p w" "proposal_key p = k"
proof -
  obtain t r where k: "k = (t, r)" by (cases k)
  have l: "pg_load c t r db = Inr (Some p)" using load_tables [OF assms(1,2)] assms(3) k by simp
  then obtain w where w: "gd_proposals db (t, r) = Some w" by (auto simp: pg_load_def split: option.splits)
  with assms(2) obtain q where q: "proposal_key q = (t, r)" "represents c db q w" using tables_row by blast
  from load_represented [OF assms(1) w q(2,1)] l have "q = p" by simp
  with w q k show thesis by (intro that) simp_all
qed

lemma view_of_tables:
  assumes "pg_laws c" and "pg_tables_ok c db" and "gd_proposals db k = Some w" "represents c db p w" "proposal_key p = k"
  shows "st_proposals (pg_view c db) k = Some p"
  using load_represented [OF assms(1) _ assms(4)] assms(3,5) by (cases k) (simp add: pg_view_def)

lemma view_none: "gd_proposals db k = None \<Longrightarrow> st_proposals (pg_view c db) k = None"
  by (cases k) (simp add: pg_view_def pg_load_def)

lemma represents_cong:
  assumes "filter (\<lambda>v. evidence_key v = proposal_key p) (gd_evidence db') = filter (\<lambda>v. evidence_key v = proposal_key p) (gd_evidence db)"
    and "filter (\<lambda>v. receipt_key v = proposal_key p) (gd_receipts db') = filter (\<lambda>v. receipt_key v = proposal_key p) (gd_receipts db)"
  shows "represents c db' p w \<longleftrightarrow> represents c db p w"
  using assms by (simp add: represents_def pg_children_def)

text \<open>
  A write of one row: elsewhere the tables are as before, here the new row represents a proposal.
\<close>

lemma row_written:
  assumes laws: "pg_laws c" and ok: "pg_tables_ok c db" and k: "proposal_key q = k"
    and rows: "gd_proposals db' = (gd_proposals db)(k \<mapsto> w)" and new: "represents c db' q w"
    and ev: "filter (\<lambda>v. evidence_key v \<noteq> k) (gd_evidence db') = filter (\<lambda>v. evidence_key v \<noteq> k) (gd_evidence db)"
    and rc: "filter (\<lambda>v. receipt_key v \<noteq> k) (gd_receipts db') = filter (\<lambda>v. receipt_key v \<noteq> k) (gd_receipts db)"
    and claims: "gd_claims db' = gd_claims db"
  shows "pg_tables_ok c db' \<and> pg_view c db' = put_proposal k q (pg_view c db)"
proof -
  have other: "represents c db' p v \<longleftrightarrow> represents c db p v" if "proposal_key p \<noteq> k" for p v
  proof (rule represents_cong)
    have "filter (\<lambda>v. evidence_key v = proposal_key p) xs
        = filter (\<lambda>v. evidence_key v = proposal_key p) (filter (\<lambda>v. evidence_key v \<noteq> k) xs)" for xs :: "'a pg_evidence list"
      using that by (auto intro: filter_cong)
    then show "filter (\<lambda>v. evidence_key v = proposal_key p) (gd_evidence db')
        = filter (\<lambda>v. evidence_key v = proposal_key p) (gd_evidence db)" using ev by metis
    have "filter (\<lambda>v. receipt_key v = proposal_key p) xs
        = filter (\<lambda>v. receipt_key v = proposal_key p) (filter (\<lambda>v. receipt_key v \<noteq> k) xs)" for xs :: "'a pg_receipt list"
      using that by (auto intro: filter_cong)
    then show "filter (\<lambda>v. receipt_key v = proposal_key p) (gd_receipts db')
        = filter (\<lambda>v. receipt_key v = proposal_key p) (gd_receipts db)" using rc by metis
  qed
  have "gd_proposals db' (evidence_key v) \<noteq> None" if "v \<in> set (gd_evidence db')" for v
  proof (cases "evidence_key v = k")
    case False
    then have "v \<in> set (filter (\<lambda>v. evidence_key v \<noteq> k) (gd_evidence db'))" using that by simp
    then show ?thesis using ok False unfolding ev by (simp add: pg_tables_ok_def rows)
  qed (simp add: rows)
  moreover have "gd_proposals db' (receipt_key v) \<noteq> None" if "v \<in> set (gd_receipts db')" for v
  proof (cases "receipt_key v = k")
    case False
    then have "v \<in> set (filter (\<lambda>v. receipt_key v \<noteq> k) (gd_receipts db'))" using that by simp
    then show ?thesis using ok False unfolding rc by (simp add: pg_tables_ok_def rows)
  qed (simp add: rows)
  moreover have "\<exists>p. proposal_key p = j \<and> represents c db' p v" if "gd_proposals db' j = Some v" for j v
  proof (cases "j = k")
    case True
    with that k new show ?thesis by (auto simp: rows)
  next
    case False
    with that tables_row [OF ok, of j v] other show ?thesis by (auto simp: rows)
  qed
  ultimately have ok': "pg_tables_ok c db'" by (simp add: pg_tables_ok_def)
  have "st_proposals (pg_view c db') j = ((st_proposals (pg_view c db))(k \<mapsto> q)) j" for j
  proof (cases "j = k")
    case True
    then show ?thesis using view_of_tables [OF laws ok' _ new k] by (simp add: rows)
  next
    case False
    show ?thesis
    proof (cases "gd_proposals db j")
      case None
      then show ?thesis using False by (simp add: view_none rows)
    next
      case (Some v)
      with ok obtain p where p: "proposal_key p = j" "represents c db p v" using tables_row by blast
      have "represents c db' p v" using other p False by simp
      then show ?thesis
        using view_of_tables [OF laws ok' _ _ p(1)] view_of_tables [OF laws ok Some p(2,1)] Some False
        by (simp add: rows)
    qed
  qed
  then have "st_proposals (pg_view c db') = (st_proposals (pg_view c db))(k \<mapsto> q)" by blast
  with claims ok' show ?thesis
    by (simp add: put_proposal_def pg_view_def)
qed

section \<open>Lemmas on the statements\<close>

lemma execute_evidence:
  "pg_execute_many (pg_insert_evidence c) vs db = Inr db' \<Longrightarrow>
     db' = db\<lparr>gd_evidence := gd_evidence db @ vs\<rparr> \<and> (\<forall>v\<in>set vs. gd_proposals db (evidence_key v) \<noteq> None)"
proof (induction vs arbitrary: db)
  case (Cons v vs)
  then obtain mid where "pg_insert_evidence c v db = Inr mid" "pg_execute_many (pg_insert_evidence c) vs mid = Inr db'"
    by (auto simp: result_bind_eq_Inr)
  with Cons.IH [OF this(2)] show ?case
    by (auto simp: pg_insert_evidence_def evidence_parent_def split: if_splits option.splits)
qed simp

lemma execute_receipts:
  "pg_execute_many (pg_insert_receipt c) vs db = Inr db' \<Longrightarrow>
     db' = db\<lparr>gd_receipts := gd_receipts db @ vs\<rparr> \<and> (\<forall>v\<in>set vs. gd_proposals db (receipt_key v) \<noteq> None)"
proof (induction vs arbitrary: db)
  case (Cons v vs)
  then obtain mid where "pg_insert_receipt c v db = Inr mid" "pg_execute_many (pg_insert_receipt c) vs mid = Inr db'"
    by (auto simp: result_bind_eq_Inr)
  with Cons.IH [OF this(2)] show ?case
    by (auto simp: pg_insert_receipt_def split: if_splits)
qed simp

text \<open>New children of a proposal: rows with its key, in sequence after the old ones.\<close>

definition fresh_children :: "'v pg_config \<Rightarrow> nat \<Rightarrow> nat \<Rightarrow> stored_proposal \<Rightarrow> 'v pg_evidence list \<Rightarrow> 'v pg_receipt list \<Rightarrow> bool" where
  "fresh_children c m n q es rs \<longleftrightarrow>
     (\<forall>v\<in>set es. evidence_key v = proposal_key q) \<and> (\<forall>v\<in>set rs. receipt_key v = proposal_key q)
     \<and> map (\<lambda>v. (ge_sequence v, ge_data v)) es = enumerate m (map (gk_evidence c) (drop m (sp_authority_evidence q)))
     \<and> map (\<lambda>v. (gt_sequence v, gt_data v)) rs = enumerate n (map (gk_receipt c) (drop n (sp_receipts q)))"

lemma enumerate_map: "enumerate n (map f xs) = map (\<lambda>(i, x). (i, f x)) (enumerate n xs)"
  by (induction xs arbitrary: n) simp_all

lemma insert_children_run:
  assumes "insert_children c current q db = Inr db'"
  shows "\<exists>es rs. db' = db\<lparr>gd_evidence := gd_evidence db @ es, gd_receipts := gd_receipts db @ rs\<rparr>
    \<and> fresh_children c (case current of None \<Rightarrow> 0 | Some p \<Rightarrow> length (sp_authority_evidence p))
        (case current of None \<Rightarrow> 0 | Some p \<Rightarrow> length (sp_receipts p)) q es rs"
proof -
  let ?m = "case current of None \<Rightarrow> 0 | Some p \<Rightarrow> length (sp_authority_evidence p)"
  let ?n = "case current of None \<Rightarrow> 0 | Some p \<Rightarrow> length (sp_receipts p)"
  from assms obtain mid where ev: "insert_new_evidence c ?m q db = Inr mid"
    and rc: "insert_new_receipts c ?n q mid = Inr db'"
    by (auto simp: insert_children_def result_bind_eq_Inr)
  define rs where "rs = map (\<lambda>(n, r). receipt_row c q n r) (enumerate ?n (drop ?n (sp_receipts q)))"
  have db': "db' = mid\<lparr>gd_receipts := gd_receipts mid @ rs\<rparr>"
    using execute_receipts [OF rc [unfolded insert_new_receipts_def]] by (simp add: rs_def)
  have rsp: "\<forall>v\<in>set rs. receipt_key v = proposal_key q"
    "map (\<lambda>v. (gt_sequence v, gt_data v)) rs = enumerate ?n (map (gk_receipt c) (drop ?n (sp_receipts q)))"
    by (auto simp: rs_def receipt_row_def receipt_key_def proposal_key_def enumerate_map)
  obtain es where mid: "mid = db\<lparr>gd_evidence := gd_evidence db @ es\<rparr>"
    and esp: "\<forall>v\<in>set es. evidence_key v = proposal_key q"
    "map (\<lambda>v. (ge_sequence v, ge_data v)) es = enumerate ?m (map (gk_evidence c) (drop ?m (sp_authority_evidence q)))"
  proof (cases "drop ?m (sp_authority_evidence q) = []")
    case True
    then show thesis using ev by (intro that [of "[]"]) (simp_all add: insert_new_evidence_def)
  next
    case False
    then obtain k where k: "sp_commitment q = Some k"
      using ev by (cases "sp_commitment q") (simp_all add: insert_new_evidence_def Let_def fails_def)
    have run: "pg_execute_many (pg_insert_evidence c)
        (map (\<lambda>(n, e). evidence_row c q (kc_digest k) n e) (enumerate ?m (drop ?m (sp_authority_evidence q)))) db = Inr mid"
      using ev False by (simp add: insert_new_evidence_def Let_def k)
    from execute_evidence [OF run] show thesis
      by (intro that [of "map (\<lambda>(n, e). evidence_row c q (kc_digest k) n e)
            (enumerate ?m (drop ?m (sp_authority_evidence q)))"])
        (auto simp: evidence_row_def evidence_key_def proposal_key_def enumerate_map)
  qed
  have "db' = db\<lparr>gd_evidence := gd_evidence db @ es, gd_receipts := gd_receipts db @ rs\<rparr>"
    by (simp add: db' mid)
  moreover have "fresh_children c ?m ?n q es rs"
    using esp rsp by (simp add: fresh_children_def)
  ultimately show ?thesis by blast
qed

lemma children_grown:
  assumes "pg_children c db p" and "appends_history p q" and "proposal_key q = proposal_key p"
    and "fresh_children c (length (sp_authority_evidence p)) (length (sp_receipts p)) q es rs"
  shows "pg_children c (db\<lparr>gd_evidence := gd_evidence db @ es, gd_receipts := gd_receipts db @ rs\<rparr>) q"
proof -
  from assms(2) obtain e2 r2 where a: "sp_authority_evidence q = sp_authority_evidence p @ e2"
    "sp_receipts q = sp_receipts p @ r2" by (auto simp: appends_history_def)
  have "filter (\<lambda>v. evidence_key v = proposal_key p) es = es" "filter (\<lambda>v. receipt_key v = proposal_key p) rs = rs"
    using assms(3,4) by (auto simp: fresh_children_def intro: filter_True)
  with assms a show ?thesis
    by (simp add: pg_children_def fresh_children_def enumerate_append_eq)
qed

lemma appended_elsewhere:
  assumes "fresh_children c m n q es rs" and "proposal_key q = k"
  shows "filter (\<lambda>v. evidence_key v \<noteq> k) (xs @ es) = filter (\<lambda>v. evidence_key v \<noteq> k) xs"
    and "filter (\<lambda>v. receipt_key v \<noteq> k) (ys @ rs) = filter (\<lambda>v. receipt_key v \<noteq> k) ys"
  using assms by (auto simp: fresh_children_def filter_empty_conv)

lemma lifecycle_in_predicate:
  "(lifecycle_value s, lifecycle_value t) \<in> set pg_transition_predicate \<longleftrightarrow> t \<in> set (allowed_lifecycle_transitions s)"
proof -
  have "x \<in> set pg_all_statuses" for x by (cases x) (simp_all add: pg_all_statuses_def)
  then show ?thesis by (auto simp: pg_transition_predicate_def)
qed

text \<open>The write that compare-and-set and admission end with.\<close>

lemma pg_write_ok:
  assumes laws: "pg_laws c" and owner: "\<not> gk_owns_tables c" and ok: "pg_tables_ok c db"
    and cur: "st_proposals (pg_view c db) (t, r) = Some p" and up: "valid_update p q"
    and bare: "sp_erased_at p \<noteq> None \<Longrightarrow> \<not> has_content p"
    and ch: "insert_children c (Some p) q db = Inr db1" and run: "update_parent c p q db1 = Inr db2"
  shows "pg_tables_ok c db2 \<and> pg_view c db2 = put_proposal (t, r) q (pg_view c db)"
proof -
  have ident: "immutable_identity q = immutable_identity p" using up by (simp add: valid_update_def)
  obtain w where w: "gd_proposals db (t, r) = Some w" "represents c db p w" "proposal_key p = (t, r)"
    using view_row [OF laws ok cur] .
  from insert_children_run [OF ch] obtain es rs where
    db1: "db1 = db\<lparr>gd_evidence := gd_evidence db @ es, gd_receipts := gd_receipts db @ rs\<rparr>"
    and fresh: "fresh_children c (length (sp_authority_evidence p)) (length (sp_receipts p)) q es rs" by auto
  have key: "(sp_tenant_reference p, sp_proposal_reference p) = (t, r)" using w(3) by (simp add: proposal_key_def)
  have kq: "proposal_key q = (t, r)" using keys_of_identity(1) [OF ident] w(3) by simp
  define v where "v = w\<lparr>gr_lifecycle_status := lifecycle_value (sp_lifecycle_status q),
                 gr_revision := sp_revision q, gr_expires_at := sp_expires_at q,
                 gr_status_changed_at :=
                   (if gr_lifecycle_status w \<noteq> lifecycle_value (sp_lifecycle_status q) then gd_now db1
                    else gr_status_changed_at w),
                 gr_next_verification_at := sp_next_verification_at q,
                 gr_proposal_data := parent_data c q\<rparr>"
  have db2: "db2 = db1\<lparr>gd_proposals := (gd_proposals db1)((t, r) \<mapsto> v)\<rparr>"
    and trig: "pg_enforce_update (gk_owns_tables c) w v = Inr ()"
    using run w(1) by (auto simp: update_parent_def pg_update_def key result_bind_eq_Inr v_def db1
        split: if_splits option.splits)
  have erased: "sp_erased_at q = None \<longleftrightarrow> sp_erased_at p = None"
  proof -
    from w(2) obtain pe er where d: "er \<in> pg_times c" "gr_proposal_data w = parent_document c pe er p"
      by (auto simp: represents_def)
    have "parent_data c q ''erased_at'' = gr_proposal_data w ''erased_at''"
      using trig owner by (auto simp: pg_enforce_update_def protected_fields_def v_def split: if_splits)
    then show ?thesis
      using nullable_null [OF laws pg_timesI(1), of "sp_erased_at q"] nullable_null [OF laws d(1), of "sp_erased_at p"]
      by (simp add: d(2) parent_data_def parent_document_at)
  qed
  have hist: "appends_history p q"
  proof (cases "sp_erased_at q = None")
    case True
    with up show ?thesis by (simp add: valid_update_def)
  next
    case False
    with up bare erased show ?thesis by (auto simp: valid_update_def has_content_def appends_history_def)
  qed
  have "pg_children c db1 q"
    using children_grown [OF _ hist _ fresh, of db] w(2,3) kq by (simp add: represents_def db1)
  then have "pg_children c db2 q" by (simp add: pg_children_def db2)
  moreover have "pg_columns v = pg_columns (pg_row_of c q)"
    using represents_columns(4) [OF w(2)] identity_rows [OF ident, of c]
    by (simp add: pg_columns_def v_def pg_row_of_def pg_row_identity_def)
  ultimately have "represents c db2 q v"
    unfolding represents_def by (auto simp: v_def parent_data_def intro!: bexI [of _ "gk_dump_time c"])
  then show ?thesis
    using row_written [OF laws ok kq, of db2 v] appended_elsewhere [OF fresh kq] by (simp add: db2 db1)
qed

lemma insert_children_claims: "insert_children c current q (db\<lparr>gd_claims := m\<rparr>) = Inr db'
   \<Longrightarrow> gd_claims db' = m"
  using insert_children_run by fastforce

lemma tables_claims: "pg_tables_ok c (db\<lparr>gd_claims := m\<rparr>) = pg_tables_ok c db"
  by (simp add: pg_tables_ok_def represents_def pg_children_def)

lemma view_claims: "pg_view c (db\<lparr>gd_claims := m\<rparr>) =
    \<lparr>st_proposals = st_proposals (pg_view c db), st_claims = (\<lambda>k. map_option gl_proposal_reference (m k))\<rparr>"
  by (simp add: pg_view_def pg_load_def select_evidence_def select_receipts_def fun_eq_iff split: option.splits)

section \<open>The operations implement the contract\<close>

lemma pg_goodD:
  assumes "pg_good c db"
  shows "pg_laws c" and "\<not> gk_owns_tables c" and "pg_tables_ok c db" and "store_inv (pg_view c db)"
    and "pg_load c t r db = Inr (st_proposals (pg_view c db) (t, r))"
    and "st_proposals (pg_view c db) k = Some p \<Longrightarrow> sp_erased_at p \<noteq> None \<Longrightarrow> \<not> has_content p"
  using assms load_tables by (auto simp: pg_good_def proposal_ok_def dest!: store_invD)

lemma pg_good_step:
  "pg_good c db \<Longrightarrow> pg_tables_ok c db' \<Longrightarrow> store_step (pg_view c db) (pg_view c db') \<Longrightarrow> pg_good c db'"
  using store_step_inv by (auto simp: pg_good_def)

lemma pg_owner_view [simp]: "st_claims (pg_view c db) k = map_option gl_proposal_reference (gd_claims db k)"
  by (simp add: pg_view_def)

lemma attempt_transaction:
  "bind (attempt (transaction body)) f db =
     (case body db of Inl e \<Rightarrow> f (Inl e) db | Inr (Commit a db') \<Rightarrow> f (Inr a) db' | Inr (Rollback a) \<Rightarrow> f (Inr a) db)"
  by (simp add: bind_def attempt_def transaction_def split: sum.splits tx_end.splits)

lemma pg_create_run:
  assumes "pg_create c p db = (Inr u, db')"
  shows "validate_proposal_create p = Inr () \<and> (\<exists>db1. pg_insert_proposal (pg_row_of c p) db = Inr db1
    \<and> insert_children c None p db1 = Inr db')"
  using assms
  by (auto simp: pg_create_def bind_lift_eq attempt_transaction result_bind_def return_def raise_def throw_def
      split: sum.splits tx_end.splits if_splits)

lemma pg_create_raises: "pg_create c p db = (Inl e, db') \<Longrightarrow> db' = db"
  by (auto simp: pg_create_def bind_lift_eq attempt_transaction result_bind_def return_def raise_def throw_def
      split: sum.splits tx_end.splits if_splits)

lemma pg_create_ok:
  assumes good: "pg_good c db" and run: "pg_create c p db = (Inr u, db')"
  shows "pg_good c db' \<and> st_proposals (pg_view c db) (proposal_key p) = None \<and> valid_create p
    \<and> pg_view c db' = put_proposal (proposal_key p) p (pg_view c db)"
proof -
  note G = pg_goodD [OF good]
  from pg_create_run [OF run] obtain db1 where vc: "validate_proposal_create p = Inr ()"
    and ins: "pg_insert_proposal (pg_row_of c p) db = Inr db1" and ch: "insert_children c None p db1 = Inr db'" by blast
  have valid: "valid_create p" using vc by (simp add: validate_proposal_create_ok)
  have new: "gd_proposals db (proposal_key p) = None"
    and db1: "db1 = db\<lparr>gd_proposals := (gd_proposals db)(proposal_key p \<mapsto> pg_row_of c p)\<rparr>"
    using ins by (auto simp: pg_insert_proposal_def result_bind_eq_Inr split: if_splits)
  from insert_children_run [OF ch] obtain es rs where
    db': "db' = db1\<lparr>gd_evidence := gd_evidence db1 @ es, gd_receipts := gd_receipts db1 @ rs\<rparr>"
    and fresh: "fresh_children c 0 0 p es rs" by auto
  have "filter (\<lambda>v. evidence_key v = proposal_key p) (gd_evidence db) = []"
    "filter (\<lambda>v. receipt_key v = proposal_key p) (gd_receipts db) = []"
    using G(3) new by (auto simp: pg_tables_ok_def filter_empty_conv)
  moreover have "filter (\<lambda>v. evidence_key v = proposal_key p) es = es" "filter (\<lambda>v. receipt_key v = proposal_key p) rs = rs"
    using fresh by (auto simp: fresh_children_def intro: filter_True)
  ultimately have "pg_children c db' p"
    using fresh by (simp add: pg_children_def fresh_children_def db' db1)
  then have "represents c db' p (pg_row_of c p)"
    by (auto simp: represents_def pg_row_of_def parent_data_def intro!: bexI [of _ "gk_dump_time c"])
  then have w: "pg_tables_ok c db' \<and> pg_view c db' = put_proposal (proposal_key p) p (pg_view c db)"
    using row_written [where q = p and w = "pg_row_of c p" and db' = db', OF G(1,3) refl] appended_elsewhere [OF fresh refl]
    by (simp add: db' db1)
  moreover have none: "st_proposals (pg_view c db) (proposal_key p) = None" by (rule view_none [OF new])
  ultimately show ?thesis
    using valid store_step.create [OF none valid] pg_good_step [OF good] by simp
qed

lemma pg_cas_run:
  assumes good: "pg_good c db" and run: "pg_compare_and_set c t r n sts q db = (Inr b, db')"
  shows "if b then \<exists>p db1. st_proposals (pg_view c db) (t, r) = Some p \<and> sp_revision p = n
          \<and> sp_lifecycle_status p \<in> set sts \<and> valid_update p q
          \<and> (enters_executing p q \<longrightarrow> owns_claim (pg_view c db) p)
          \<and> insert_children c (Some p) q db = Inr db1 \<and> update_parent c p q db1 = Inr db'
    else db' = db \<and> (\<forall>p. st_proposals (pg_view c db) (t, r) = Some p \<longrightarrow> sp_revision p = n
          \<longrightarrow> sp_lifecycle_status p \<notin> set sts)"
  using run
  by (auto simp: pg_compare_and_set_def transaction_eq result_bind_eq_Inr pg_goodD(5) [OF good]
      pg_claim_owner_def enters_executing_def owns_claim_def validate_proposal_update_ok
      split: option.splits if_splits)

lemma pg_cas_ok:
  assumes good: "pg_good c db" and run: "pg_compare_and_set c t r n sts q db = (Inr True, db')"
  shows "pg_good c db' \<and> (\<exists>p. st_proposals (pg_view c db) (t, r) = Some p \<and> sp_revision p = n
    \<and> sp_lifecycle_status p \<in> set sts \<and> valid_update p q
    \<and> (enters_executing p q \<longrightarrow> owns_claim (pg_view c db) p)
    \<and> pg_view c db' = put_proposal (t, r) q (pg_view c db))"
proof -
  note G = pg_goodD [OF good]
  from pg_cas_run [OF good run] obtain p db1 where
    p: "st_proposals (pg_view c db) (t, r) = Some p" "sp_revision p = n" "sp_lifecycle_status p \<in> set sts"
    "valid_update p q" "enters_executing p q \<longrightarrow> owns_claim (pg_view c db) p"
    and w: "insert_children c (Some p) q db = Inr db1" "update_parent c p q db1 = Inr db'" by auto
  have "pg_tables_ok c db' \<and> pg_view c db' = put_proposal (t, r) q (pg_view c db)"
    using pg_write_ok [OF G(1,2,3) p(1,4) _ w] G(6) [OF p(1)] by blast
  with p store_step.update [OF p(1,4)] pg_good_step [OF good] show ?thesis by auto
qed

text \<open>A claim writes at most the claim of the effect.\<close>

lemma pg_claim_cases:
  assumes laws: "pg_laws c" and ok: "pg_tables_ok c db" and cur: "st_proposals (pg_view c db) (t, r) = Some p"
    and run: "pg_claim_effect c p at db = Inr (cl, db')"
    and ready: "sp_lifecycle_status p = AUTHORIZED" "untouched p" "at < sp_expires_at p"
      "\<exists>w. gd_proposals db (t, r) = Some w \<and> gd_now db < gr_expires_at w"
  shows "cl = claim_answer (pg_view c db) p
    \<and> (if cl = ClaimCONFLICT then db' = db
       else \<exists>m. db' = db\<lparr>gd_claims := m\<rparr> \<and> claimable (pg_view c db) p
         \<and> pg_view c db' = put_claim (claim_key p) (sp_proposal_reference p) (pg_view c db))"
proof (cases "gd_claims db (claim_key p)")
  case None
  with run show ?thesis
    by (auto simp: pg_claim_effect_def pg_claim_owner_def pg_insert_claim_def claim_answer_def claimable_def
        owns_claim_def view_claims put_claim_def fun_eq_iff result_bind_eq_Inr split: if_splits)
next
  case (Some v)
  show ?thesis
  proof (cases "gl_proposal_reference v = sp_proposal_reference p")
    case True
    with Some run have "cl = ClaimOWNED_BY_PROPOSAL" "db' = db" by (auto simp: pg_claim_effect_def pg_claim_owner_def)
    moreover have "put_claim (claim_key p) (sp_proposal_reference p) (pg_view c db) = pg_view c db"
      using Some True by (simp add: put_claim_def fun_upd_idem)
    ultimately show ?thesis
      using Some True by (auto simp: claim_answer_def claimable_def owns_claim_def intro!: exI [of _ "gd_claims db"])
  next
    case False
    define settled where "settled = claim_owner_settled db (sp_tenant_reference p) (gl_proposal_reference v)"
    have key: "fst (claim_key p) = sp_tenant_reference p" by (simp add: claim_key_def)
    have rel: "settled \<longleftrightarrow> claimable (pg_view c db) p"
    proof (cases "gd_proposals db (sp_tenant_reference p, gl_proposal_reference v)")
      case None
      then show ?thesis
        using Some False by (simp add: settled_def claim_owner_settled_def claimable_def view_none)
    next
      case (Some w)
      then obtain q where q: "proposal_key q = (sp_tenant_reference p, gl_proposal_reference v)" "represents c db q w"
        using tables_row [OF ok] by blast
      have "st_proposals (pg_view c db) (sp_tenant_reference p, gl_proposal_reference v) = Some q"
        by (rule view_of_tables [OF laws ok Some q(2,1)])
      moreover have "gr_lifecycle_status w \<in> {''failed_known'', ''stale''} \<longleftrightarrow> releases_claim (sp_lifecycle_status q)"
        unfolding represents_columns(1) [OF q(2)]
        by (cases "sp_lifecycle_status q") (simp_all add: releases_claim_def)
      ultimately show ?thesis
        using \<open>gd_claims db (claim_key p) = Some v\<close> False Some by (simp add: settled_def claim_owner_settled_def claimable_def)
    qed
    obtain w where w: "gd_proposals db (t, r) = Some w" "represents c db p w" "proposal_key p = (t, r)"
      using view_row [OF laws ok cur] .
    have replacement: "claim_replacement_ready c db (claim_key p) (sp_proposal_reference p) at"
    proof -
      have id: "pg_row_identity w = pg_row_identity (pg_row_of c p)" by (rule represents_columns(4) [OF w(2)])
      have "(sp_tenant_reference p, sp_proposal_reference p) = (t, r)" using w(3) by (simp add: proposal_key_def)
      then show ?thesis
        using w ready represents_columns [OF w(2)] represents_null [OF laws w(2)] id
        by (auto simp: claim_replacement_ready_def claim_parent_def claim_key_def action_key_def untouched_def
            pg_row_identity_def pg_row_of_def)
    qed
    show ?thesis
    proof (cases settled)
      case True
      with False Some run replacement have "cl = ClaimACQUIRED"
        "db' = db\<lparr>gd_claims := (gd_claims db)(claim_key p \<mapsto> \<lparr>gl_proposal_reference = sp_proposal_reference p, gl_admitted_at = at\<rparr>)\<rparr>"
        by (auto simp: pg_claim_effect_def pg_claim_owner_def settled_def transfer_effect_claim_def key)
      moreover have "\<not> owns_claim (pg_view c db) p" using Some False by (simp add: owns_claim_def)
      ultimately show ?thesis
        using True rel by (auto simp: claim_answer_def view_claims put_claim_def fun_eq_iff)
    next
      case unsettled: False
      with False Some run have "cl = ClaimCONFLICT" "db' = db"
        by (auto simp: pg_claim_effect_def pg_claim_owner_def settled_def)
      with unsettled rel show ?thesis by (simp add: claim_answer_def)
    qed
  qed
qed

lemma pg_admit_run:
  assumes good: "pg_good c db" and run: "pg_admit_execution c t r n at q db = (Inr cl, db')"
    and auth: "cl \<noteq> ClaimPROPOSAL_NOT_AUTHORIZED" and found: "cl \<noteq> ClaimPROPOSAL_NOT_FOUND"
  shows "\<exists>p w db1. st_proposals (pg_view c db) (t, r) = Some p \<and> sp_revision p = n
    \<and> sp_lifecycle_status p = AUTHORIZED \<and> untouched p \<and> at < sp_expires_at p
    \<and> gd_proposals db (t, r) = Some w \<and> gd_now db < gr_expires_at w
    \<and> valid_update p q \<and> sp_lifecycle_status q = EXECUTING
    \<and> pg_claim_effect c p at db = Inr (cl, db1)
    \<and> (if cl = ClaimCONFLICT then db' = db1
       else \<exists>db2. insert_children c (Some p) q db1 = Inr db2 \<and> update_parent c p q db2 = Inr db')"
proof -
  from run auth found obtain p where p: "st_proposals (pg_view c db) (t, r) = Some p"
    by (cases "st_proposals (pg_view c db) (t, r)")
      (auto simp: pg_admit_execution_def transaction_eq result_bind_eq_Inr pg_goodD(5) [OF good])
  with run auth have "sp_revision p = n" "sp_lifecycle_status p = AUTHORIZED" "untouched p" "at < sp_expires_at p"
    "map_option (\<lambda>w. gd_now db < gr_expires_at w) (gd_proposals db (t, r)) = Some True"
    "valid_update p q" "sp_lifecycle_status q = EXECUTING"
    by (auto simp: pg_admit_execution_def transaction_eq result_bind_eq_Inr pg_goodD(5) [OF good] Let_def
        untouched_def validate_proposal_update_ok split: if_splits)
  moreover from run auth p calculation obtain db1 where "pg_claim_effect c p at db = Inr (cl, db1)"
    "if cl = ClaimCONFLICT then db' = db1
       else \<exists>db2. insert_children c (Some p) q db1 = Inr db2 \<and> update_parent c p q db2 = Inr db'"
    by (auto simp: pg_admit_execution_def transaction_eq result_bind_eq_Inr pg_goodD(5) [OF good] Let_def
        untouched_def split: if_splits)
  ultimately show ?thesis using p by auto
qed

lemma pg_admit_answers:
  assumes good: "pg_good c db" and run: "pg_admit_execution c t r n at q db = (Inr cl, db')"
    and auth: "cl \<noteq> ClaimPROPOSAL_NOT_AUTHORIZED"
  shows "cl = ClaimPROPOSAL_NOT_FOUND \<and> st_proposals (pg_view c db) (t, r) = None
    \<or> (\<exists>p. st_proposals (pg_view c db) (t, r) = Some p \<and> sp_revision p = n
        \<and> sp_lifecycle_status p = AUTHORIZED \<and> untouched p \<and> at < sp_expires_at p
        \<and> valid_update p q \<and> sp_lifecycle_status q = EXECUTING \<and> cl = claim_answer (pg_view c db) p)"
proof (cases "cl = ClaimPROPOSAL_NOT_FOUND")
  case True
  have "cl \<noteq> ClaimPROPOSAL_NOT_FOUND" if "st_proposals (pg_view c db) (t, r) = Some p" for p
  proof -
    have "claim \<noteq> ClaimPROPOSAL_NOT_FOUND" if "pg_claim_effect c p at db = Inr (claim, db1)" for claim db1
      using that by (auto simp: pg_claim_effect_def result_bind_eq_Inr split: option.splits if_splits prod.splits)
    with run that auth show ?thesis
      by (auto simp: pg_admit_execution_def transaction_eq result_bind_eq_Inr pg_goodD(5) [OF good] Let_def
          split: if_splits)
  qed
  with True show ?thesis by (cases "st_proposals (pg_view c db) (t, r)") auto
next
  case False
  from pg_admit_run [OF good run auth False] obtain p w db1 where
    p: "st_proposals (pg_view c db) (t, r) = Some p" "sp_revision p = n"
    and ready: "sp_lifecycle_status p = AUTHORIZED" "untouched p" "at < sp_expires_at p"
    and w: "gd_proposals db (t, r) = Some w \<and> gd_now db < gr_expires_at w"
    and up: "valid_update p q" "sp_lifecycle_status q = EXECUTING"
    and cl: "pg_claim_effect c p at db = Inr (cl, db1)" by blast
  from pg_claim_cases [OF pg_goodD(1,3) [OF good] p(1) cl ready] w have "cl = claim_answer (pg_view c db) p" by blast
  with p ready up show ?thesis by blast
qed

lemma pg_admit_ok:
  assumes good: "pg_good c db" and run: "pg_admit_execution c t r n at q db = (Inr cl, db')"
    and yes: "cl \<in> {ClaimACQUIRED, ClaimOWNED_BY_PROPOSAL}"
  shows "pg_good c db' \<and> (\<exists>p. st_proposals (pg_view c db) (t, r) = Some p \<and> sp_revision p = n
          \<and> sp_lifecycle_status p = AUTHORIZED \<and> untouched p \<and> at < sp_expires_at p
          \<and> valid_update p q \<and> sp_lifecycle_status q = EXECUTING \<and> claimable (pg_view c db) p
          \<and> pg_view c db' = put_proposal (t, r) q
                (put_claim (claim_key p) (sp_proposal_reference p) (pg_view c db)))"
proof -
  note G = pg_goodD [OF good]
  have ne: "cl \<noteq> ClaimPROPOSAL_NOT_AUTHORIZED" "cl \<noteq> ClaimPROPOSAL_NOT_FOUND" "cl \<noteq> ClaimCONFLICT"
    using yes by auto
  from pg_admit_run [OF good run ne(1,2)] ne(3) obtain p w db1 db2 where
    p: "st_proposals (pg_view c db) (t, r) = Some p" "sp_revision p = n"
    and ready: "sp_lifecycle_status p = AUTHORIZED" "untouched p" "at < sp_expires_at p"
    and w: "gd_proposals db (t, r) = Some w \<and> gd_now db < gr_expires_at w"
    and up: "valid_update p q" "sp_lifecycle_status q = EXECUTING"
    and cl: "pg_claim_effect c p at db = Inr (cl, db1)"
    and wr: "insert_children c (Some p) q db1 = Inr db2" "update_parent c p q db2 = Inr db'" by auto
  from pg_claim_cases [OF G(1,3) p(1) cl ready] w ne(3) obtain m where
    db1: "db1 = db\<lparr>gd_claims := m\<rparr>" and able: "claimable (pg_view c db) p"
    and v1: "pg_view c db1 = put_claim (claim_key p) (sp_proposal_reference p) (pg_view c db)" by auto
  have cur1: "st_proposals (pg_view c db1) (t, r) = Some p" using v1 p(1) by simp
  have ok1: "pg_tables_ok c db1" using G(3) by (simp add: db1 tables_claims)
  have w2: "pg_tables_ok c db' \<and> pg_view c db' = put_proposal (t, r) q (pg_view c db1)"
    using pg_write_ok [OF G(1,2) ok1 cur1 up(1) _ wr] G(6) [OF p(1)] by blast
  have "store_step (pg_view c db) (pg_view c db')"
    using w2 v1 store_step.admit [OF p(1) up(1) ready(1,2) up(2) able] by simp
  with pg_good_step [OF good] w2 v1 p ready up able show ?thesis by auto
qed

lemma pg_admit_no:
  assumes good: "pg_good c db" and run: "pg_admit_execution c t r n at q db = (Inr cl, db')"
    and no: "cl \<notin> {ClaimACQUIRED, ClaimOWNED_BY_PROPOSAL}"
  shows "db' = db"
proof (cases "cl = ClaimCONFLICT")
  case True
  then have ne: "cl \<noteq> ClaimPROPOSAL_NOT_AUTHORIZED" "cl \<noteq> ClaimPROPOSAL_NOT_FOUND" by auto
  from pg_admit_run [OF good run ne] True obtain p w where
    p: "st_proposals (pg_view c db) (t, r) = Some p"
    and ready: "sp_lifecycle_status p = AUTHORIZED" "untouched p" "at < sp_expires_at p"
    and w: "gd_proposals db (t, r) = Some w \<and> gd_now db < gr_expires_at w"
    and cl: "pg_claim_effect c p at db = Inr (cl, db')" by auto
  from pg_claim_cases [OF pg_goodD(1,3) [OF good] p cl ready] w True show ?thesis by auto
next
  case False
  with no have "cl \<in> {ClaimPROPOSAL_NOT_FOUND, ClaimPROPOSAL_NOT_AUTHORIZED}" by (cases cl) auto
  moreover have "claim \<noteq> ClaimPROPOSAL_NOT_FOUND \<and> claim \<noteq> ClaimPROPOSAL_NOT_AUTHORIZED"
    if "pg_claim_effect c p at db = Inr (claim, db1)" for p claim db1
    using that by (auto simp: pg_claim_effect_def result_bind_eq_Inr split: option.splits if_splits prod.splits)
  ultimately show ?thesis
    using run
    by (auto simp: pg_admit_execution_def transaction_eq result_bind_eq_Inr pg_goodD(5) [OF good] Let_def
        split: if_splits option.splits)
qed

section \<open>Erasure\<close>

lemma marked_document:
  assumes "gr_proposal_data w = parent_document c pe er p"
  shows "(gr_proposal_data w)(''erasure_pending_at'' \<mapsto> gk_text c (e t)) = parent_document c e er (proposal_with_erasure_pending p t)"
  by (simp add: assms parent_document_def proposal_with_erasure_pending_def nullable_def fun_upd_twist)

lemma erased_document_eq:
  "erased_document c t (parent_document c pe er p) = parent_document c pe (gk_server_time c) (erased_proposal p t)"
  by (rule ext) (simp add: erased_document_def parent_document_def erased_proposal_def nullable_def)

lemma pg_update_run:
  "pg_update owner k guard change db = Inr (found, db') \<longleftrightarrow>
     (if found then \<exists>w. gd_proposals db k = Some w \<and> guard w \<and> pg_enforce_update owner w (change w) = Inr ()
          \<and> pg_proposal_checks (change w) = Inr () \<and> db' = db\<lparr>gd_proposals := (gd_proposals db)(k \<mapsto> change w)\<rparr>
      else db' = db \<and> (\<forall>w. gd_proposals db k = Some w \<longrightarrow> \<not> guard w))"
  by (auto simp: pg_update_def result_bind_eq_Inr split: option.splits)

lemma pg_mark_run:
  assumes "pg_mark_erasure_pending c t r n at db = (Inr b, db')"
  shows "pg_update True (t, r)
            (\<lambda>w. gr_revision w = n
                 \<and> gr_lifecycle_status w \<notin> {''executing'', ''failed_unknown'', ''verification_pending''}
                 \<and> is_null c (gr_proposal_data w) ''erasure_pending_at''
                 \<and> is_null c (gr_proposal_data w) ''erased_at'')
            (\<lambda>w. w\<lparr>gr_revision := gr_revision w + 1,
                   gr_proposal_data := (gr_proposal_data w)
                     (''erasure_pending_at'' \<mapsto> gk_text c (gk_server_time c at))\<rparr>) db = Inr (b, db')"
  using assms by (auto simp: pg_mark_erasure_pending_def transaction_eq result_bind_eq_Inr)

lemma erasable_value: "lifecycle_value s \<notin> {''executing'', ''failed_unknown'', ''verification_pending''}
    \<longleftrightarrow> erasable_lifecycle_status s"
  by (cases s) (simp_all add: erasable_lifecycle_status_def)

lemma pg_mark_ok:
  assumes good: "pg_good c db" and run: "pg_mark_erasure_pending c t r n at db = (Inr True, db')"
  shows "pg_good c db' \<and> (\<exists>p. st_proposals (pg_view c db) (t, r) = Some p \<and> sp_revision p = n
    \<and> erasable_lifecycle_status (sp_lifecycle_status p) \<and> untouched p
    \<and> pg_view c db' = put_proposal (t, r) (proposal_with_erasure_pending p at) (pg_view c db))"
proof -
  note G = pg_goodD [OF good]
  from pg_mark_run [OF run] obtain w where w: "gd_proposals db (t, r) = Some w" "gr_revision w = n"
    and st: "gr_lifecycle_status w \<notin> {''executing'', ''failed_unknown'', ''verification_pending''}"
    and null: "is_null c (gr_proposal_data w) ''erasure_pending_at''" "is_null c (gr_proposal_data w) ''erased_at''"
    and db': "db' = db\<lparr>gd_proposals := (gd_proposals db)((t, r) \<mapsto> w\<lparr>gr_revision := gr_revision w + 1,
                   gr_proposal_data := (gr_proposal_data w)
                     (''erasure_pending_at'' \<mapsto> gk_text c (gk_server_time c at))\<rparr>)\<rparr>"
    unfolding pg_update_run by auto
  obtain p where p: "proposal_key p = (t, r)" "represents c db p w" using tables_row [OF G(3) w(1)] by blast
  have cur: "st_proposals (pg_view c db) (t, r) = Some p" by (rule view_of_tables [OF G(1,3) w(1) p(2,1)])
  note cols = represents_columns [OF p(2)]
  have er: "erasable_lifecycle_status (sp_lifecycle_status p)" using st unfolding cols(1) erasable_value .
  have un: "untouched p" using null represents_null [OF G(1) p(2)] by (simp add: untouched_def)
  let ?q = "proposal_with_erasure_pending p at"
  let ?v = "w\<lparr>gr_revision := gr_revision w + 1, gr_proposal_data := (gr_proposal_data w)
                     (''erasure_pending_at'' \<mapsto> gk_text c (gk_server_time c at))\<rparr>"
  have "represents c db' ?q ?v"
  proof -
    from p(2) obtain pe ee where d: "pe \<in> pg_times c" "ee \<in> pg_times c" "gr_proposal_data w = parent_document c pe ee p"
      by (auto simp: represents_def)
    have "gr_proposal_data ?v = parent_document c (gk_server_time c) ee ?q"
      using marked_document [OF d(3), of "gk_server_time c" at] by simp
    moreover have "pg_children c db' ?q = pg_children c db p"
      by (simp add: pg_children_def db' proposal_with_erasure_pending_def proposal_key_def)
    ultimately show ?thesis
      using p(2) d(2)
      by (intro representsI [OF pg_timesI(2) d(2)])
        (simp_all add: represents_def pg_columns_def pg_row_identity_def pg_row_of_def proposal_with_erasure_pending_def)
  qed
  then have "pg_tables_ok c db' \<and> pg_view c db' = put_proposal (t, r) ?q (pg_view c db)"
    using p(1) by (intro row_written [OF G(1,3)]) (simp_all add: db' proposal_key_def proposal_with_erasure_pending_def)
  with pg_good_step [OF good] store_step.mark_pending [OF cur er un] cur w(2) cols(2) er un show ?thesis by auto
qed

lemma pg_complete_ok:
  fixes c :: "'v pg_config"
  assumes good: "pg_good c db" and run: "pg_complete_erasure c t r n at db = (Inr True, db')"
  shows "pg_good c db' \<and> (\<exists>p. st_proposals (pg_view c db) (t, r) = Some p \<and> sp_revision p = n
    \<and> sp_erasure_pending_at p \<noteq> None \<and> sp_erased_at p = None
    \<and> pg_view c db' = put_proposal (t, r) (erased_proposal p at) (pg_view c db))"
proof -
  note G = pg_goodD [OF good]
  define change :: "'v pg_proposal \<Rightarrow> 'v pg_proposal" where "change = (\<lambda>w. w\<lparr>gr_revision := gr_revision w + 1, gr_commitment_digest := None,
                     gr_next_verification_at := None,
                     gr_proposal_data := erased_document c at (gr_proposal_data w)\<rparr>)"
  define bare where "bare = db\<lparr>gd_evidence := filter (\<lambda>v. evidence_key v \<noteq> (t, r)) (gd_evidence db),
                  gd_receipts := filter (\<lambda>v. receipt_key v \<noteq> (t, r)) (gd_receipts db)\<rparr>"
  from run obtain w where w: "gd_proposals db (t, r) = Some w" "gr_revision w = n"
    and null: "\<not> is_null c (gr_proposal_data w) ''erasure_pending_at''" "is_null c (gr_proposal_data w) ''erased_at''"
    and up: "pg_update True (t, r) (\<lambda>w. gr_revision w = n) change bare = Inr (True, db')"
    by (auto simp: pg_complete_erasure_def transaction_eq result_bind_eq_Inr change_def bare_def
        split: if_splits option.splits)
  have db': "db' = bare\<lparr>gd_proposals := (gd_proposals db)((t, r) \<mapsto> change w)\<rparr>"
    using up w(1) unfolding pg_update_run by (auto simp: bare_def)
  obtain p where p: "proposal_key p = (t, r)" "represents c db p w" using tables_row [OF G(3) w(1)] by blast
  have cur: "st_proposals (pg_view c db) (t, r) = Some p" by (rule view_of_tables [OF G(1,3) w(1) p(2,1)])
  have pend: "sp_erasure_pending_at p \<noteq> None" "sp_erased_at p = None"
    using null represents_null [OF G(1) p(2)] by simp_all
  let ?q = "erased_proposal p at"
  have "represents c db' ?q (change w)"
  proof -
    from p(2) obtain pe ee where d: "pe \<in> pg_times c" "gr_proposal_data w = parent_document c pe ee p"
      by (auto simp: represents_def)
    have "gr_proposal_data (change w) = parent_document c pe (gk_server_time c) ?q"
      by (simp add: change_def d(2) erased_document_eq)
    moreover have "pg_children c db' ?q"
      using p(1) by (simp add: pg_children_def db' bare_def erased_proposal_def proposal_key_def)
    ultimately show ?thesis
      using p(2) d(1)
      by (intro representsI [OF d(1) pg_timesI(2)])
        (simp_all add: represents_def pg_columns_def pg_row_identity_def pg_row_of_def erased_proposal_def change_def)
  qed
  then have "pg_tables_ok c db' \<and> pg_view c db' = put_proposal (t, r) ?q (pg_view c db)"
    using p(1) by (intro row_written [OF G(1,3)]) (simp_all add: db' bare_def proposal_key_def erased_proposal_def)
  with pg_good_step [OF good] store_step.complete [OF cur pend] cur w(2) represents_columns(2) [OF p(2)] pend
  show ?thesis by auto
qed

lemma pg_complete_refused:
  assumes good: "pg_good c db" and run: "pg_complete_erasure c t r n at db = (Inr False, db')"
  shows "db' = db \<and> (\<forall>p. st_proposals (pg_view c db) (t, r) = Some p \<longrightarrow> sp_revision p = n
    \<longrightarrow> sp_erasure_pending_at p \<noteq> None \<longrightarrow> sp_erased_at p \<noteq> None)"
proof -
  note G = pg_goodD [OF good]
  have no: "db' = db" "gd_proposals db (t, r) = Some w \<Longrightarrow> gr_revision w \<noteq> n
      \<or> is_null c (gr_proposal_data w) ''erasure_pending_at'' \<or> \<not> is_null c (gr_proposal_data w) ''erased_at''" for w
    using run by (auto simp: pg_complete_erasure_def transaction_eq result_bind_eq_Inr pg_update_run
        split: if_splits option.splits)
  have "sp_erased_at p \<noteq> None" if cur: "st_proposals (pg_view c db) (t, r) = Some p" and n: "sp_revision p = n"
    "sp_erasure_pending_at p \<noteq> None" for p
  proof -
    obtain w where w: "gd_proposals db (t, r) = Some w" "represents c db p w"
      using view_row [OF G(1,3) cur] by metis
    from no(2) [OF w(1)] n represents_null [OF G(1) w(2)] represents_columns(2) [OF w(2)] show ?thesis by auto
  qed
  with no(1) show ?thesis by blast
qed

lemma pg_same:
  "pg_compare_and_set c t r n sts q db = (Inl e, db') \<Longrightarrow> db' = db"
  "pg_admit_execution c t r n at q db = (Inl e, db') \<Longrightarrow> db' = db"
  "pg_mark_erasure_pending c t r n at db = (Inl e, db') \<Longrightarrow> db' = db"
  "pg_mark_erasure_pending c t r n at db = (Inr False, db') \<Longrightarrow> db' = db"
  "pg_complete_erasure c t r n at db = (Inl e, db') \<Longrightarrow> db' = db"
  using pg_mark_run [of c t r n at db False db']
  by (auto simp: pg_compare_and_set_def pg_admit_execution_def pg_mark_erasure_pending_def pg_complete_erasure_def
      transaction_eq pg_update_run)

section \<open>The contract\<close>

interpretation pg: lifecycle_store "postgres_action_store c" "pg_view c" "pg_good c"
  for c :: "'v pg_config"
proof unfold_locales
  show "pg_good c s \<Longrightarrow> store_inv (pg_view c s)" for s by (simp add: pg_good_def)
qed (auto simp: postgres_action_store_def pg_get_def pg_goodD(5) pg_get_effect_claim_owner_def
      dest: pg_create_raises pg_same pg_create_ok pg_cas_ok pg_cas_run pg_admit_ok pg_admit_no split: if_splits)

interpretation pg_refining: refining_store "postgres_action_store c" "pg_view c" "pg_good c"
    "postgres_retention_store c" clock_or_mark_refusal
  for c :: "'v pg_config"
proof unfold_locales
  fix s t r n at q a s'
  assume "pg_good c s" "as_admit_execution (postgres_action_store c) t r n at q s = (Inr a, s')"
    "\<not> clock_or_mark_refusal (Claimed a)"
  then show "a = ClaimPROPOSAL_NOT_FOUND \<and> st_proposals (pg_view c s) (t, r) = None
      \<or> (\<exists>p. st_proposals (pg_view c s) (t, r) = Some p \<and> sp_revision p = n
          \<and> sp_lifecycle_status p = AUTHORIZED \<and> untouched p \<and> at < sp_expires_at p
          \<and> valid_update p q \<and> sp_lifecycle_status q = EXECUTING \<and> a = claim_answer (pg_view c s) p)"
    using pg_admit_answers [of c s t r n at q a s'] by (simp add: postgres_action_store_def clock_or_mark_refusal_iff)
next
  fix s t r n at s'
  assume "pg_good c s" "rs_mark_erasure_pending (postgres_retention_store c) t r n at s = (Inr True, s')"
  with pg_mark_ok [of c s t r n at s'] show "pg_good c s' \<and> (\<exists>p. st_proposals (pg_view c s) (t, r) = Some p \<and> sp_revision p = n
          \<and> erasable_lifecycle_status (sp_lifecycle_status p) \<and> sp_erased_at p = None
          \<and> (if sp_erasure_pending_at p = None
             then pg_view c s' = put_proposal (t, r) (proposal_with_erasure_pending p at) (pg_view c s)
             else s' = s))" by (auto simp: postgres_retention_store_def untouched_def)
qed (auto simp: postgres_action_store_def postgres_retention_store_def clock_or_mark_refusal_iff
      dest: pg_same pg_complete_ok pg_complete_refused pg_cas_run)

section \<open>Integrity of the tables\<close>

text \<open>
  The keys, checks and foreign keys of the schema, as a property of the tables. No statement checks a foreign
  key when a referenced row is updated or its children are deleted: that is shown to be unnecessary.
\<close>

definition pg_integrity :: "'v pg_config \<Rightarrow> 'v pg_db \<Rightarrow> bool" where
  "pg_integrity c db \<longleftrightarrow>
     (\<forall>k w. gd_proposals db k = Some w \<longrightarrow> pg_key w = k \<and> pg_proposal_checks w = Inr ())
     \<and> (\<forall>v\<in>set (gd_evidence db). evidence_checks c v \<and> evidence_parent db v)
     \<and> (\<forall>v\<in>set (gd_receipts db). receipt_checks c v \<and> gd_proposals db (receipt_key v) \<noteq> None)
     \<and> (\<forall>k v. gd_claims db k = Some v \<longrightarrow> claim_parent db k (gl_proposal_reference v))"

text \<open>The references survive as long as the referenced columns do.\<close>

lemma parents_kept:
  assumes "gd_proposals db k = Some w" and "gd_proposals db' = (gd_proposals db)(k \<mapsto> v)"
    and "pg_row_identity v = pg_row_identity w"
  shows "claim_parent db j owner \<Longrightarrow> claim_parent db' j owner"
    and "gd_proposals db i \<noteq> None \<Longrightarrow> gd_proposals db' i \<noteq> None"
    and "evidence_parent db e \<Longrightarrow> gr_commitment_digest v = gr_commitment_digest w \<or> evidence_key e \<noteq> k
      \<Longrightarrow> evidence_parent db' e"
  using assms
  by (auto simp: claim_parent_def evidence_parent_def pg_row_identity_def split: prod.splits option.splits if_splits)

lemma integrity_row: "pg_integrity c db \<Longrightarrow> gd_proposals db k = Some w \<Longrightarrow> pg_key w = k \<and> pg_proposal_checks w = Inr ()"
  unfolding pg_integrity_def by blast

lemma integrity_claim: "pg_integrity c db \<Longrightarrow> gd_claims db k = Some v \<Longrightarrow> claim_parent db k (gl_proposal_reference v)"
  unfolding pg_integrity_def by blast

text \<open>An update leaves the digest alone, or the proposal has no evidence.\<close>

lemma integrity_update:
  assumes "pg_integrity c db" and "pg_update owner k guard change db = Inr (found, db')"
    and digest: "(\<forall>w. gr_commitment_digest (change w) = gr_commitment_digest w)
      \<or> (\<forall>v\<in>set (gd_evidence db). evidence_key v \<noteq> k)"
  shows "pg_integrity c db'"
proof (cases found)
  case True
  with assms(2) obtain w where w: "gd_proposals db k = Some w" "pg_enforce_update owner w (change w) = Inr ()"
    "pg_proposal_checks (change w) = Inr ()" "db' = db\<lparr>gd_proposals := (gd_proposals db)(k \<mapsto> change w)\<rparr>"
    unfolding pg_update_run by auto
  have id: "pg_row_identity (change w) = pg_row_identity w"
    using w(2) by (auto simp: pg_enforce_update_def split: if_splits)
  have rows: "gd_proposals db' = (gd_proposals db)(k \<mapsto> change w)" by (simp add: w(4))
  note kept = parents_kept [OF w(1) rows id]
  have "pg_key (change w) = pg_key w" using id by (simp add: pg_row_identity_def pg_key_def)
  then have "pg_key v = j \<and> pg_proposal_checks v = Inr ()" if "gd_proposals db' j = Some v" for j v
    using that integrity_row [OF assms(1)] w(1,3) by (auto simp: rows split: if_splits)
  moreover have "\<forall>v\<in>set (gd_evidence db'). evidence_checks c v \<and> evidence_parent db' v"
    using assms(1) kept(3) digest by (auto simp: pg_integrity_def w(4))
  moreover have "\<forall>v\<in>set (gd_receipts db'). receipt_checks c v \<and> gd_proposals db' (receipt_key v) \<noteq> None"
    using assms(1) kept(2) by (auto simp: pg_integrity_def w(4))
  moreover have "claim_parent db' j (gl_proposal_reference v)" if "gd_claims db' j = Some v" for j v
    using kept(1) integrity_claim [OF assms(1)] that by (simp add: w(4))
  ultimately show ?thesis by (auto simp: pg_integrity_def)
next
  case False
  with assms(2) have "db' = db" unfolding pg_update_run by simp
  with assms(1) show ?thesis by simp
qed

lemma integrity_insert_evidence:
  "pg_integrity c db \<Longrightarrow> pg_insert_evidence c v db = Inr db' \<Longrightarrow> pg_integrity c db'"
  by (auto simp: pg_integrity_def pg_insert_evidence_def evidence_parent_def claim_parent_def split: if_splits)

lemma integrity_insert_receipt:
  "pg_integrity c db \<Longrightarrow> pg_insert_receipt c v db = Inr db' \<Longrightarrow> pg_integrity c db'"
  by (auto simp: pg_integrity_def pg_insert_receipt_def evidence_parent_def claim_parent_def split: if_splits)

lemma integrity_many:
  assumes "\<And>v db db'. pg_integrity c db \<Longrightarrow> ins v db = Inr db' \<Longrightarrow> pg_integrity c db'"
  shows "pg_integrity c db \<Longrightarrow> pg_execute_many ins vs db = Inr db' \<Longrightarrow> pg_integrity c db'"
  by (induction vs arbitrary: db) (auto simp: result_bind_eq_Inr dest: assms)

lemma integrity_new_evidence:
  assumes "pg_integrity c db" and "insert_new_evidence c m q db = Inr db'"
  shows "pg_integrity c db'"
proof (cases "sp_commitment q")
  case None
  with assms show ?thesis by (simp add: insert_new_evidence_def Let_def fails_def split: if_splits)
next
  case (Some k)
  with assms integrity_many [where ins = "pg_insert_evidence c", OF integrity_insert_evidence assms(1)]
  show ?thesis by (simp add: insert_new_evidence_def Let_def split: if_splits)
qed

lemma integrity_children:
  assumes "pg_integrity c db" and "insert_children c current q db = Inr db'"
  shows "pg_integrity c db'"
proof -
  from assms(2) obtain mid m n where run: "insert_new_evidence c m q db = Inr mid"
    "pg_execute_many (pg_insert_receipt c)
       (map (\<lambda>(n, r). receipt_row c q n r) (enumerate n (drop n (sp_receipts q)))) mid = Inr db'"
    unfolding insert_children_def result_bind_eq_Inr insert_new_receipts_def by (elim exE conjE)
  from integrity_many [where ins = "pg_insert_receipt c", OF integrity_insert_receipt
      integrity_new_evidence [OF assms(1) run(1)] run(2)] show ?thesis by simp
qed

lemma integrity_insert_proposal:
  assumes "pg_integrity c db" and "pg_insert_proposal w db = Inr db'"
  shows "pg_integrity c db'"
proof -
  have new: "gd_proposals db (pg_key w) = None" and checks: "pg_proposal_checks w = Inr ()"
    and db': "db' = db\<lparr>gd_proposals := (gd_proposals db)(pg_key w \<mapsto> w)\<rparr>"
    using assms(2) by (auto simp: pg_insert_proposal_def result_bind_eq_Inr split: if_splits)
  have "evidence_parent db' e" if "evidence_parent db e" for e
    using that new by (auto simp: evidence_parent_def db' split: option.splits)
  moreover have "claim_parent db' j owner" if "claim_parent db j owner" for j owner
    using that new by (auto simp: claim_parent_def db' split: option.splits prod.splits)
  ultimately show ?thesis using assms(1) checks by (auto simp: pg_integrity_def db')
qed

lemma integrity_claims:
  assumes "pg_integrity c db" and "claim_parent db k (gl_proposal_reference v)"
  shows "pg_integrity c (db\<lparr>gd_claims := (gd_claims db)(k \<mapsto> v)\<rparr>)"
  using assms by (auto simp: pg_integrity_def evidence_parent_def claim_parent_def)

lemma integrity_claim_effect:
  assumes "pg_integrity c db" and "pg_claim_effect c p at db = Inr (cl, db')"
  shows "pg_integrity c db'"
  using assms
  by (auto simp: pg_claim_effect_def pg_insert_claim_def transfer_effect_claim_def claim_replacement_ready_def
      result_bind_eq_Inr intro: integrity_claims split: option.splits if_splits prod.splits)

lemma integrity_update_parent:
  assumes "pg_integrity c db" and "update_parent c p q db = Inr db'"
  shows "pg_integrity c db'"
proof -
  from assms(2) obtain found mid where "pg_update (gk_owns_tables c) (sp_tenant_reference p, sp_proposal_reference p)
          (\<lambda>w. gr_revision w = sp_revision p
               \<and> gr_lifecycle_status w = lifecycle_value (sp_lifecycle_status p))
          (\<lambda>w. w\<lparr>gr_lifecycle_status := lifecycle_value (sp_lifecycle_status q),
                 gr_revision := sp_revision q,
                 gr_expires_at := sp_expires_at q,
                 gr_status_changed_at :=
                   (if gr_lifecycle_status w \<noteq> lifecycle_value (sp_lifecycle_status q) then gd_now db
                    else gr_status_changed_at w),
                 gr_next_verification_at := sp_next_verification_at q,
                 gr_proposal_data := parent_data c q\<rparr>) db = Inr (found, mid)" and "db' = mid"
    by (auto simp: update_parent_def result_bind_eq_Inr split: if_splits)
  from integrity_update [OF assms(1) this(1)] this(2) show ?thesis by simp
qed

lemma integrity_complete:
  assumes "pg_integrity c db" and "pg_complete_erasure c t r n at db = (Inr b, db')"
  shows "pg_integrity c db'"
proof (cases b)
  case True
  define bare where "bare = db\<lparr>gd_evidence := filter (\<lambda>v. evidence_key v \<noteq> (t, r)) (gd_evidence db),
                  gd_receipts := filter (\<lambda>v. receipt_key v \<noteq> (t, r)) (gd_receipts db)\<rparr>"
  from assms(1) have "pg_integrity c bare"
    by (auto simp: pg_integrity_def bare_def evidence_parent_def claim_parent_def)
  moreover have "pg_update True (t, r) (\<lambda>w. gr_revision w = n) (\<lambda>w. w\<lparr>gr_revision := gr_revision w + 1,
      gr_commitment_digest := None, gr_next_verification_at := None,
      gr_proposal_data := erased_document c at (gr_proposal_data w)\<rparr>) bare = Inr (True, db')"
    using assms(2) True
    by (auto simp: pg_complete_erasure_def transaction_eq result_bind_eq_Inr bare_def
        split: if_splits option.splits)
  ultimately show ?thesis by (rule integrity_update) (simp add: bare_def)
next
  case False
  with assms show ?thesis
    by (auto simp: pg_complete_erasure_def transaction_eq result_bind_eq_Inr pg_update_run
        split: if_splits option.splits)
qed

text \<open>What a run of an operation consists of, whatever the codec does.\<close>

lemma pg_cas_cases:
  assumes "pg_compare_and_set c t r n sts q db = (Inr b, db')"
  shows "db' = db \<or> (\<exists>p db1. insert_children c (Some p) q db = Inr db1 \<and> update_parent c p q db1 = Inr db')"
  using assms
  by (auto simp: pg_compare_and_set_def transaction_eq result_bind_eq_Inr split: option.splits if_splits)

lemma pg_admit_cases:
  assumes "pg_admit_execution c t r n at q db = (Inr b, db')"
  shows "db' = db \<or> (\<exists>p cl db1. pg_claim_effect c p at db = Inr (cl, db1)
    \<and> (db' = db1 \<or> (\<exists>db2. insert_children c (Some p) q db1 = Inr db2 \<and> update_parent c p q db2 = Inr db')))"
proof -
  from assms obtain l where "pg_load c t r db = Inr l"
    by (auto simp: pg_admit_execution_def transaction_eq result_bind_eq_Inr)
  with assms show ?thesis
    by (cases l) (auto simp: pg_admit_execution_def transaction_eq result_bind_eq_Inr Let_def split: if_splits)
qed

lemma integrity_run:
  assumes "pg_integrity c db" and "store_run (postgres_action_store c) (postgres_retention_store c) x db = (res, db')"
  shows "pg_integrity c db'"
proof (cases res)
  case (Inl e)
  with assms show ?thesis
    by (cases x) (auto simp: answer_eq postgres_action_store_def postgres_retention_store_def pg_get_def
        pg_get_effect_claim_owner_def dest: pg_create_raises pg_same)
next
  case (Inr a)
  with assms show ?thesis
  proof (cases x)
    case (StoreCreate p)
    with Inr assms pg_create_run [of c p db _ db'] show ?thesis
      by (auto simp: answer_eq postgres_action_store_def dest: integrity_insert_proposal integrity_children)
  next
    case (StoreMark t r n at)
    with Inr assms(2) obtain b where "pg_mark_erasure_pending c t r n at db = (Inr b, db')"
      by (auto simp: answer_eq postgres_retention_store_def)
    from integrity_update [OF assms(1) pg_mark_run [OF this]] show ?thesis by simp
  next
    case (StoreErase t r n at)
    with Inr assms show ?thesis
      by (auto simp: answer_eq postgres_retention_store_def intro: integrity_complete)
  next
    case (StoreAdmit t r n at q)
    with Inr assms(2) obtain cl where "pg_admit_execution c t r n at q db = (Inr cl, db')"
      by (auto simp: answer_eq postgres_action_store_def)
    from pg_admit_cases [OF this] assms(1) show ?thesis
      by (metis integrity_claim_effect integrity_children integrity_update_parent)
  qed (auto simp: answer_eq postgres_action_store_def pg_get_def pg_get_effect_claim_owner_def
      dest!: pg_cas_cases intro: integrity_children integrity_update_parent)
qed

section \<open>Protected state\<close>

definition protected_kept :: "'v pg_db \<Rightarrow> 'v pg_db \<Rightarrow> bool" where
  "protected_kept db db' \<longleftrightarrow>
     (\<forall>k w. gd_proposals db k = Some w \<longrightarrow>
        (\<exists>w'. gd_proposals db' k = Some w' \<and> gr_commitment_digest w' = gr_commitment_digest w
           \<and> (\<forall>field\<in>set protected_fields. gr_proposal_data w' field = gr_proposal_data w field)))"

fun runtime_call :: "store_call \<Rightarrow> bool" where
  "runtime_call (StoreMark _ _ _ _) = False"
| "runtime_call (StoreErase _ _ _ _) = False"
| "runtime_call _ = True"

lemma protected_same: "gd_proposals db' = gd_proposals db \<Longrightarrow> protected_kept db db'"
  by (auto simp: protected_kept_def)

lemma protected_trans: "protected_kept a b \<Longrightarrow> protected_kept b d \<Longrightarrow> protected_kept a d"
  unfolding protected_kept_def by (metis (no_types, lifting))

lemma protected_children: "insert_children c current q db = Inr db' \<Longrightarrow> protected_kept db db'"
  using insert_children_run [of c current q db db'] by (auto intro: protected_same)

lemma protected_claim: "pg_claim_effect c p at db = Inr (cl, db') \<Longrightarrow> protected_kept db db'"
  by (auto simp: pg_claim_effect_def pg_insert_claim_def transfer_effect_claim_def result_bind_eq_Inr
      intro!: protected_same split: option.splits if_splits prod.splits)

lemma protected_insert: "pg_insert_proposal w db = Inr db' \<Longrightarrow> protected_kept db db'"
  by (auto simp: pg_insert_proposal_def result_bind_eq_Inr protected_kept_def split: if_splits)

lemma protected_update:
  assumes "pg_update False k guard change db = Inr (found, db')"
  shows "protected_kept db db'"
proof (cases found)
  case True
  with assms obtain w where w: "gd_proposals db k = Some w" "pg_enforce_update False w (change w) = Inr ()"
    "db' = db\<lparr>gd_proposals := (gd_proposals db)(k \<mapsto> change w)\<rparr>" unfolding pg_update_run by auto
  have "gr_commitment_digest (change w) = gr_commitment_digest w
      \<and> (\<forall>field\<in>set protected_fields. gr_proposal_data (change w) field = gr_proposal_data w field)"
    using w(2) by (auto simp: pg_enforce_update_def list_ex_iff split: if_splits)
  with w(1,3) show ?thesis by (auto simp: protected_kept_def)
next
  case False
  with assms show ?thesis unfolding pg_update_run by (simp add: protected_same)
qed

lemma protected_update_parent:
  assumes "\<not> gk_owns_tables c" and "update_parent c p q db = Inr db'"
  shows "protected_kept db db'"
  using assms by (auto simp: update_parent_def result_bind_eq_Inr split: if_splits intro: protected_update)

lemma protected_run:
  assumes "\<not> gk_owns_tables c" and "runtime_call x"
    and "store_run (postgres_action_store c) ret x db = (res, db')"
  shows "protected_kept db db'"
proof (cases res)
  case (Inl e)
  with assms(2,3) have "db' = db"
    by (cases x) (auto simp: answer_eq postgres_action_store_def pg_get_def
        pg_get_effect_claim_owner_def dest: pg_create_raises pg_same)
  then show ?thesis by (simp add: protected_same)
next
  case (Inr a)
  show ?thesis
  proof (cases x)
    case (StoreCreate p)
    with Inr assms(3) pg_create_run [of c p db _ db'] show ?thesis
      by (auto simp: answer_eq postgres_action_store_def intro: protected_trans protected_insert protected_children)
  next
    case (StoreCas t r n sts q)
    with Inr assms(3) obtain b where "pg_compare_and_set c t r n sts q db = (Inr b, db')"
      by (auto simp: answer_eq postgres_action_store_def)
    from pg_cas_cases [OF this] show ?thesis
      using protected_trans protected_children protected_update_parent [OF assms(1)] protected_same by metis
  next
    case (StoreAdmit t r n at q)
    with Inr assms(3) obtain cl where "pg_admit_execution c t r n at q db = (Inr cl, db')"
      by (auto simp: answer_eq postgres_action_store_def)
    from pg_admit_cases [OF this] show ?thesis
      using protected_trans protected_children protected_claim protected_update_parent [OF assms(1)] protected_same
      by metis
  qed (use assms(2,3) Inr in \<open>auto simp: answer_eq postgres_action_store_def pg_get_def pg_get_effect_claim_owner_def
      protected_same\<close>)
qed

section \<open>Properties\<close>


text \<open>
  C6: the tables keep their types and their references. In every history, erasure included and
  whatever pydantic makes of the documents, every row stays under its primary key and inside the types, ranges
  and vocabularies of its columns, and every evidence row, receipt row and claim refers to a proposal with the
  same action, effect and commitment.
\<close>

theorem postgres_tables_typed:
  assumes "pg_integrity c db"
    and "store_history silent (postgres_action_store c) (postgres_retention_store c) xs db = (hist, db')"
  shows "pg_integrity c db'"
  using assms
proof (induction xs arbitrary: db hist)
  case (Cons x xs)
  obtain res mid where run: "store_run (postgres_action_store c) (postgres_retention_store c) x db = (res, mid)" by force
  obtain rest where "store_history silent (postgres_action_store c) (postgres_retention_store c) xs mid = (rest, db')"
    using Cons.prems(2) run by (auto split: sum.splits prod.splits)
  then show ?case using Cons.IH integrity_run [OF Cons.prems(1) run] by blast
qed simp

text \<open>
  C5: only the retention boundary touches protected state. A role that does not own the tables may make any
  calls of the action store: the commitment digest, the protected snapshot, the commitment and the two erasure
  fields of every stored proposal stay exactly as they were written.
\<close>

theorem runtime_role_keeps_protected_state:
  assumes "\<not> gk_owns_tables c" and "list_all runtime_call xs"
    and "store_history silent (postgres_action_store c) ret xs db = (hist, db')"
  shows "protected_kept db db'"
  using assms(2,3)
proof (induction xs arbitrary: db hist)
  case (Cons x xs)
  obtain res mid where run: "store_run (postgres_action_store c) ret x db = (res, mid)" by force
  obtain rest where "store_history silent (postgres_action_store c) ret xs mid = (rest, db')"
    using Cons.prems(2) run by (auto split: sum.splits prod.splits)
  then show ?case
    using Cons.IH [of mid rest] Cons.prems(1) protected_run [OF assms(1) _ run] protected_trans by simp blast
qed (simp add: protected_same)

section \<open>A run\<close>

text \<open>A codec whose values keep what they encode; instants are signed decimal numbers.\<close>

datatype demo_value =
    VNull
  | VText pystr
  | VNumber int
  | VArray "demo_value list"
  | VObject json_object
  | VAction action_type
  | VPayload protected_payload
  | VCommitment keyed_commitment
  | VPrincipal requesting_principal
  | VAgent proposing_agent
  | VEvidence authority_evidence
  | VReceipt receipt

fun v_text :: "demo_value \<Rightarrow> pystr" where "v_text (VText s) = s" | "v_text _ = []"
fun v_number :: "demo_value \<Rightarrow> int" where "v_number (VNumber n) = n" | "v_number _ = 0"
fun v_array :: "demo_value \<Rightarrow> demo_value list" where "v_array (VArray vs) = vs" | "v_array _ = []"
fun v_object :: "demo_value \<Rightarrow> json_object" where "v_object (VObject x) = x" | "v_object _ = []"
fun v_action :: "demo_value \<Rightarrow> action_type" where "v_action (VAction x) = x"
  | "v_action _ = \<lparr>at_namespace = [], at_name = [], at_version = 1\<rparr>"
fun v_payload :: "demo_value \<Rightarrow> protected_payload option" where "v_payload (VPayload x) = Some x" | "v_payload _ = None"
fun v_commitment :: "demo_value \<Rightarrow> keyed_commitment option" where "v_commitment (VCommitment x) = Some x" | "v_commitment _ = None"
fun v_principal :: "demo_value \<Rightarrow> requesting_principal option" where "v_principal (VPrincipal x) = Some x" | "v_principal _ = None"
fun v_agent :: "demo_value \<Rightarrow> proposing_agent option" where "v_agent (VAgent x) = Some x" | "v_agent _ = None"
fun v_evidence :: "demo_value \<Rightarrow> authority_evidence list" where "v_evidence (VEvidence x) = [x]" | "v_evidence _ = []"
fun v_receipt :: "demo_value \<Rightarrow> receipt list" where "v_receipt (VReceipt x) = [x]" | "v_receipt _ = []"
fun v_optional :: "(demo_value \<Rightarrow> 'a) \<Rightarrow> demo_value \<Rightarrow> 'a option" where
  "v_optional f VNull = None"
| "v_optional f v = Some (f v)"

definition demo_time :: "instant \<Rightarrow> pystr" where
  "demo_time t = (if t < 0 then CHR ''-'' # decimal (nat (- t)) else CHR ''+'' # decimal (nat t))"

definition demo_instant :: "pystr \<Rightarrow> instant" where
  "demo_instant s = (if take 1 s = ''-'' then - int (digits_value (tl s)) else int (digits_value (tl s)))"

definition demo_field :: "demo_value jsonb \<Rightarrow> pystr \<Rightarrow> demo_value" where
  "demo_field doc k = (case doc k of None \<Rightarrow> VNull | Some v \<Rightarrow> v)"

definition demo_validate :: "demo_value jsonb \<Rightarrow> stored_proposal outcome" where
  "demo_validate doc =
     (let text = (\<lambda>k. v_text (demo_field doc k)); instant = (\<lambda>k. demo_instant (text k)) in
      Inr \<lparr>sp_tenant_reference = text ''tenant_reference'', sp_proposal_reference = text ''proposal_reference'',
           sp_action_type = v_action (demo_field doc ''action_type''),
           sp_semantic_effect_reference = text ''semantic_effect_reference'',
           sp_effect_kind = (if text ''effect_kind'' = ''single'' then Single else Itemized),
           sp_lifecycle_status = hd (filter (\<lambda>s. lifecycle_value s = text ''lifecycle_status'') pg_all_statuses),
           sp_revision = v_number (demo_field doc ''revision''),
           sp_protected_private_snapshot = v_payload (demo_field doc ''protected_private_snapshot''),
           sp_commitment = v_commitment (demo_field doc ''commitment''),
           sp_display_preview = v_object (demo_field doc ''display_preview''),
           sp_requesting_principal = v_principal (demo_field doc ''requesting_principal''),
           sp_proposing_agent = v_agent (demo_field doc ''proposing_agent''),
           sp_created_at = instant ''created_at'', sp_expires_at = instant ''expires_at'',
           sp_authority_evidence = concat (map v_evidence (v_array (demo_field doc ''authority_evidence''))),
           sp_receipts = concat (map v_receipt (v_array (demo_field doc ''receipts''))),
           sp_verification_attempts = v_number (demo_field doc ''verification_attempts''),
           sp_max_verification_attempts = v_number (demo_field doc ''max_verification_attempts''),
           sp_next_verification_at = v_optional (\<lambda>v. demo_instant (v_text v)) (demo_field doc ''next_verification_at''),
           sp_safe_result = v_optional v_object (demo_field doc ''safe_result''),
           sp_execution_precondition = v_optional v_text (demo_field doc ''execution_precondition''),
           sp_superseded_by = v_optional v_text (demo_field doc ''superseded_by''),
           sp_erasure_pending_at = v_optional (\<lambda>v. demo_instant (v_text v)) (demo_field doc ''erasure_pending_at''),
           sp_erased_at = v_optional (\<lambda>v. demo_instant (v_text v)) (demo_field doc ''erased_at'')\<rparr>)"

definition demo_postgres :: "demo_value pg_config" where
  "demo_postgres =
     \<lparr>gk_null = VNull, gk_text = VText, gk_number = VNumber, gk_array = VArray, gk_object = VObject,
      gk_action_type = VAction, gk_payload = VPayload, gk_commitment = VCommitment, gk_principal = VPrincipal,
      gk_agent = VAgent, gk_evidence = VEvidence, gk_receipt = VReceipt, gk_dump_time = demo_time,
      gk_isoformat = demo_time, gk_server_time = demo_time, gk_path = (\<lambda>v path. None), gk_cast_integer = (\<lambda>s. 0),
      gk_validate = demo_validate, gk_owns_tables = False\<rparr>"

definition demo_tables :: "demo_value pg_db" where
  "demo_tables =
     \<lparr>gd_proposals = (\<lambda>k. None), gd_evidence = [], gd_receipts = [], gd_claims = (\<lambda>k. None), gd_now = 1000\<rparr>"

lemma demo_instant_time: "demo_instant (demo_time t) = t"
  by (auto simp: demo_instant_def demo_time_def decimal_value)

lemma demo_status: "hd (filter (\<lambda>s. s = st) pg_all_statuses) = st"
  by (cases st) (simp_all add: pg_all_statuses_def)

abbreviation demo_document :: "stored_proposal \<Rightarrow> demo_value jsonb" where
  "demo_document p \<equiv>
     parent_document demo_postgres demo_time demo_time p
     ++ column_document demo_postgres (pg_row_of demo_postgres p) (map VEvidence (sp_authority_evidence p))
          (map VReceipt (sp_receipts p))"

lemma demo_nullable [simp]:
  "v_payload (nullable demo_postgres VPayload a) = a"
  "v_commitment (nullable demo_postgres VCommitment k) = k"
  "v_principal (nullable demo_postgres VPrincipal r) = r"
  "v_agent (nullable demo_postgres VAgent g) = g"
  "v_optional v_object (nullable demo_postgres VObject x) = x"
  "v_optional v_text (nullable demo_postgres VText y) = y"
  "v_optional (\<lambda>v. demo_instant (v_text v)) (nullable demo_postgres (\<lambda>t. VText (demo_time t)) z) = z"
  by (cases a; cases k; cases r; cases g; cases x; cases y; cases z;
      simp add: nullable_def demo_postgres_def demo_instant_time)+

lemma demo_document_codec [simp]:
  "gk_text demo_postgres = VText" "gk_number demo_postgres = VNumber" "gk_array demo_postgres = VArray"
  "gk_object demo_postgres = VObject" "gk_action_type demo_postgres = VAction" "gk_payload demo_postgres = VPayload"
  "gk_commitment demo_postgres = VCommitment" "gk_principal demo_postgres = VPrincipal"
  "gk_agent demo_postgres = VAgent" "gk_isoformat demo_postgres = demo_time"
  "gk_evidence demo_postgres = VEvidence" "gk_receipt demo_postgres = VReceipt"
  "gk_validate demo_postgres = demo_validate"
  by (simp_all add: demo_postgres_def)

lemma demo_parent_fields:
  "demo_field (demo_document p) ''protected_private_snapshot'' = nullable demo_postgres VPayload (sp_protected_private_snapshot p)"
  "demo_field (demo_document p) ''commitment'' = nullable demo_postgres VCommitment (sp_commitment p)"
  "demo_field (demo_document p) ''display_preview'' = VObject (sp_display_preview p)"
  "demo_field (demo_document p) ''requesting_principal'' = nullable demo_postgres VPrincipal (sp_requesting_principal p)"
  "demo_field (demo_document p) ''proposing_agent'' = nullable demo_postgres VAgent (sp_proposing_agent p)"
  "demo_field (demo_document p) ''verification_attempts'' = VNumber (sp_verification_attempts p)"
  "demo_field (demo_document p) ''max_verification_attempts'' = VNumber (sp_max_verification_attempts p)"
  "demo_field (demo_document p) ''safe_result'' = nullable demo_postgres VObject (sp_safe_result p)"
  "demo_field (demo_document p) ''execution_precondition'' = nullable demo_postgres VText (sp_execution_precondition p)"
  "demo_field (demo_document p) ''superseded_by'' = nullable demo_postgres VText (sp_superseded_by p)"
  "demo_field (demo_document p) ''erasure_pending_at'' = nullable demo_postgres (\<lambda>t. VText (demo_time t)) (sp_erasure_pending_at p)"
  "demo_field (demo_document p) ''erased_at'' = nullable demo_postgres (\<lambda>t. VText (demo_time t)) (sp_erased_at p)"
  by (simp_all add: demo_field_def parent_document_def column_document_def)

lemma demo_column_fields:
  "demo_field (demo_document p) ''tenant_reference'' = VText (sp_tenant_reference p)"
  "demo_field (demo_document p) ''proposal_reference'' = VText (sp_proposal_reference p)"
  "demo_field (demo_document p) ''action_type'' = VAction (sp_action_type p)"
  "demo_field (demo_document p) ''semantic_effect_reference'' = VText (sp_semantic_effect_reference p)"
  "demo_field (demo_document p) ''effect_kind'' = VText (effect_kind_value (sp_effect_kind p))"
  "demo_field (demo_document p) ''lifecycle_status'' = VText (lifecycle_value (sp_lifecycle_status p))"
  "demo_field (demo_document p) ''revision'' = VNumber (sp_revision p)"
  "demo_field (demo_document p) ''created_at'' = VText (demo_time (sp_created_at p))"
  "demo_field (demo_document p) ''expires_at'' = VText (demo_time (sp_expires_at p))"
  "demo_field (demo_document p) ''next_verification_at'' = nullable demo_postgres (\<lambda>t. VText (demo_time t)) (sp_next_verification_at p)"
  "demo_field (demo_document p) ''authority_evidence'' = VArray (map VEvidence (sp_authority_evidence p))"
  "demo_field (demo_document p) ''receipts'' = VArray (map VReceipt (sp_receipts p))"
  by (simp_all add: demo_field_def column_document_def pg_row_of_def)

lemma demo_roundtrip: "demo_validate (demo_document p) = Inr p"
proof -
  have "concat (map v_evidence (map VEvidence es)) = es" for es by (induction es) simp_all
  moreover have "concat (map v_receipt (map VReceipt rs)) = rs" for rs by (induction rs) simp_all
  moreover have "(if effect_kind_value k = ''single'' then Single else Itemized) = k" for k by (cases k) simp_all
  ultimately show ?thesis
    unfolding demo_validate_def Let_def demo_parent_fields demo_column_fields
    by (simp add: demo_instant_time demo_status)
qed

lemma demo_postgres_laws: "pg_laws demo_postgres"
  using demo_roundtrip by (simp add: pg_laws_def pg_times_def) (simp add: demo_postgres_def)

lemma demo_tables_good: "pg_good demo_postgres demo_tables" "pg_view demo_postgres demo_tables = mem_abs mem_init"
proof -
  show "pg_view demo_postgres demo_tables = mem_abs mem_init"
    by (simp add: pg_view_def pg_load_def demo_tables_def mem_abs_def mem_init_def fun_eq_iff)
  then show "pg_good demo_postgres demo_tables"
    by (simp add: pg_good_def demo_postgres_laws pg_tables_ok_def demo_tables_def store_inv_def mem_abs_def mem_init_def)
      (simp add: demo_postgres_def)
qed


abbreviation demo_history :: "store_call list \<Rightarrow> demo_value pg_db \<Rightarrow> (store_call \<times> store_answer) list \<times> demo_value pg_db" where
  "demo_history \<equiv> store_history clock_or_mark_refusal (postgres_action_store demo_postgres) (postgres_retention_store demo_postgres)"

text \<open>A proposal that was denied is marked and erased.\<close>

definition demo_erasure :: "store_call list" where
  "demo_erasure =
     [StoreCreate (demo_light AWAITING_AUTHORITY 0),
      StoreCas ''t'' ''q'' 0 [AWAITING_AUTHORITY] (demo_light DENIED 1),
      StoreMark ''t'' ''q'' 1 1000, StoreErase ''t'' ''q'' 2 1001]"

definition demo_erased :: "demo_value pg_db" where
  "demo_erased = snd (demo_history demo_erasure demo_tables)"

theorem postgres_tables_typed_witness:
  "pg_integrity demo_postgres demo_erased
   \<and> map_option gr_revision (gd_proposals demo_erased (''t'', ''q'')) = Some 3"
proof
  have "pg_integrity demo_postgres demo_tables" by (simp add: pg_integrity_def demo_tables_def)
  moreover obtain hist where "demo_history demo_erasure demo_tables = (hist, demo_erased)"
    unfolding demo_erased_def by (metis prod.collapse)
  ultimately show "pg_integrity demo_postgres demo_erased" by (rule postgres_tables_typed)
  show "map_option gr_revision (gd_proposals demo_erased (''t'', ''q'')) = Some 3" by code_simp
qed

definition demo_created :: "demo_value pg_db" where
  "demo_created = snd (demo_history (take 1 demo_calls) demo_tables)"

definition demo_executing :: "demo_value pg_db" where
  "demo_executing = snd (demo_history (drop 1 demo_calls) demo_created)"

theorem runtime_role_keeps_protected_state_witness:
  "map_option (\<lambda>w. gr_proposal_data w ''erased_at'') (gd_proposals demo_executing (''t'', ''q''))
     = map_option (\<lambda>w. gr_proposal_data w ''erased_at'') (gd_proposals demo_created (''t'', ''q''))
   \<and> map_option gr_lifecycle_status (gd_proposals demo_executing (''t'', ''q'')) = Some ''executing''"
proof
  obtain hist where "demo_history (drop 1 demo_calls) demo_created = (hist, demo_executing)"
    unfolding demo_executing_def by (metis prod.collapse)
  moreover have "list_all runtime_call (drop 1 demo_calls)" by (simp add: demo_calls_def)
  moreover have "\<not> gk_owns_tables demo_postgres" by (simp add: demo_postgres_def)
  ultimately have kept: "protected_kept demo_created demo_executing"
    using runtime_role_keeps_protected_state by blast
  have "map_option gr_revision (gd_proposals demo_created (''t'', ''q'')) = Some 0" by code_simp
  then obtain w where w: "gd_proposals demo_created (''t'', ''q'') = Some w" by auto
  from kept [unfolded protected_kept_def, rule_format, OF w] w
  show "map_option (\<lambda>w. gr_proposal_data w ''erased_at'') (gd_proposals demo_executing (''t'', ''q''))
     = map_option (\<lambda>w. gr_proposal_data w ''erased_at'') (gd_proposals demo_created (''t'', ''q''))"
    by (auto simp: protected_fields_def)
  show "map_option gr_lifecycle_status (gd_proposals demo_executing (''t'', ''q'')) = Some ''executing''" by code_simp
qed

end
