(* ===== verification/Base64.thy ===== *)
theory Base64
  imports Prelude
begin

text \<open>
  \<open>base64.b64encode\<close> and \<open>base64.b64decode(\<dots>, validate=True)\<close> of the standard library, with which
  the protection adapters print ciphertexts into records, and their round trip. A decoding error
  (\<open>binascii.Error\<close>) is \<open>None\<close>.
\<close>

definition sextet_char :: "nat \<Rightarrow> char" where
  "sextet_char n =
     (if n < 26 then char_of (65 + n)
      else if n < 52 then char_of (71 + n)
      else if n < 62 then char_of (n - 4)
      else if n = 62 then CHR ''+'' else CHR 0x2F)"

definition sextet_value :: "char \<Rightarrow> nat option" where
  "sextet_value c =
     (let n = of_char c in
      if 65 \<le> n \<and> n \<le> 90 then Some (n - 65)
      else if 97 \<le> n \<and> n \<le> 122 then Some (n - 71)
      else if 48 \<le> n \<and> n \<le> 57 then Some (n + 4)
      else if n = 43 then Some 62
      else if n = 47 then Some 63
      else None)"

fun b64encode :: "bytes \<Rightarrow> pystr" where
  "b64encode [] = []"
| "b64encode [a] =
     [sextet_char (of_char a div 4), sextet_char (of_char a mod 4 * 16), CHR ''='', CHR ''='']"
| "b64encode [a, b] =
     [sextet_char (of_char a div 4), sextet_char (of_char a mod 4 * 16 + of_char b div 16),
      sextet_char (of_char b mod 16 * 4), CHR ''='']"
| "b64encode (a # b # c # rest) =
     [sextet_char (of_char a div 4), sextet_char (of_char a mod 4 * 16 + of_char b div 16),
      sextet_char (of_char b mod 16 * 4 + of_char c div 64), sextet_char (of_char c mod 64)]
     @ b64encode rest"

fun b64decode :: "pystr \<Rightarrow> bytes option" where
  "b64decode [] = Some []"
| "b64decode (a # b # c # d # rest) =
     (case (sextet_value a, sextet_value b) of
        (Some x, Some y) \<Rightarrow>
          if c = CHR ''='' \<and> d = CHR ''='' \<and> rest = [] then Some [char_of (x * 4 + y div 16)]
          else (case sextet_value c of
              None \<Rightarrow> None
            | Some z \<Rightarrow>
                if d = CHR ''='' \<and> rest = []
                then Some [char_of (x * 4 + y div 16), char_of (y mod 16 * 16 + z div 4)]
                else (case sextet_value d of
                    None \<Rightarrow> None
                  | Some v \<Rightarrow>
                      map_option (\<lambda>bs. char_of (x * 4 + y div 16) # char_of (y mod 16 * 16 + z div 4)
                          # char_of (z mod 4 * 64 + v) # bs) (b64decode rest)))
      | _ \<Rightarrow> None)"
| "b64decode _ = None"

lemma byte_less: "of_char c < (256 :: nat)"
  by (cases c) (simp add: of_char_def horner_sum_simps)

lemma sextet_value_char: "n < 64 \<Longrightarrow> sextet_value (sextet_char n) = Some n"
  by (auto simp: sextet_value_def sextet_char_def Let_def)

lemma sextet_not_pad: "n < 64 \<Longrightarrow> sextet_char n \<noteq> CHR ''=''"
  using sextet_value_char [of n] by (auto simp: sextet_value_def Let_def)

lemma byte_parts:
  "of_char a div 4 < (64 :: nat)" "of_char a div 16 < (16 :: nat)" "of_char a div 64 < (4 :: nat)"
  using byte_less [of a] by (simp_all add: less_mult_imp_div_less)

lemma sextet_less: "i < 4 \<Longrightarrow> m < 16 \<Longrightarrow> i * 16 + m < (64 :: nat)" "i < 16 \<Longrightarrow> m < 4 \<Longrightarrow> i * 4 + m < (64 :: nat)"
  by linarith+

lemma sextets_less:
  "of_char a mod 4 * 16 + of_char b div 16 < (64 :: nat)"
  "of_char a mod 4 * 16 < (64 :: nat)" "of_char b mod 16 * 4 < (64 :: nat)"
  "of_char b mod 16 * 4 + of_char c div 64 < (64 :: nat)" "of_char c mod 64 < (64 :: nat)"
  using sextet_less(1) [of "of_char a mod 4" "of_char b div 16"] sextet_less(1) [of "of_char a mod 4" 0]
    sextet_less(2) [of "of_char b mod 16" 0] sextet_less(2) [of "of_char b mod 16" "of_char c div 64"]
  by (simp_all add: byte_parts)

lemma div_digit: "m < d \<Longrightarrow> (k * d + m) div d = (k :: nat)"
  by (cases "d = 0") simp_all

lemma mod_digit: "m < d \<Longrightarrow> (k * d + m) mod d = (m :: nat)"
  by simp

lemma byte_first: "m < 16 \<Longrightarrow> of_char a div 4 * 4 + (of_char a mod 4 * 16 + m) div 16 = (of_char a :: nat)"
  by (simp only: div_digit div_mult_mod_eq)

lemma byte_second:
  "m < 4 \<Longrightarrow> (k * 16 + of_char b div 16) mod 16 * 16 + (of_char b mod 16 * 4 + m) div 4 = (of_char b :: nat)"
  by (simp only: div_digit mod_digit [OF byte_parts(2)] div_mult_mod_eq)

lemma byte_third: "(k * 4 + of_char c div 64) mod 4 * 64 + of_char c mod 64 = (of_char c :: nat)"
  by (simp only: mod_digit [OF byte_parts(3)] div_mult_mod_eq)

lemma b64decode_encode: "b64decode (b64encode bs) = Some bs"
proof (induction bs rule: b64encode.induct)
  case (2 a)
  show ?case
    using byte_first [of 0 a] by (simp add: sextet_value_char byte_parts sextets_less sextet_not_pad)
next
  case (3 a b)
  show ?case
    using byte_first [OF byte_parts(2), of a b] byte_second [of 0 "of_char a mod 4" b]
    by (simp add: sextet_value_char byte_parts sextets_less sextet_not_pad)
next
  case (4 a b c rest)
  then show ?case
    using byte_first [OF byte_parts(2), of a b] byte_second [OF byte_parts(3), of "of_char a mod 4" b c]
      byte_third [of "of_char b mod 16" c]
    by (simp add: sextet_value_char byte_parts sextets_less sextet_not_pad)
qed simp

end
