(* ===== verification/Key_Envelopes.thy ===== *)
theory Key_Envelopes
  imports Registry Base64
begin

text \<open>
  What the two envelope protections (\<open>integrations/local_kek.py\<close>, \<open>integrations/aws_kms.py\<close>) share: the
  purposes, the protocol of the store of wrapped keys with the contract the adapters rely on,
  the length-prefixed metadata, and the world they run in.

  Key material lives in mutable \<open>bytearray\<close>s, which the code overwrites after use. The model keeps
  them: \<open>kw_heap\<close> is the list of all buffers allocated so far, and \<open>zero\<close> overwrites one. The host's
  parts are arguments indexed by the number \<open>kw_count\<close> of interactions so far, so that they may
  answer differently each time.
\<close>

section \<open>Purposes and the store of wrapped keys\<close>

datatype envelope_purpose = PurposeCommitment | PurposePayload

fun purpose_value :: "envelope_purpose \<Rightarrow> pystr" where
  "purpose_value PurposeCommitment = ''commitment''"
| "purpose_value PurposePayload = ''payload''"

datatype key_delete_outcome = KeyDELETED | KeyALREADY_ABSENT | KeyMISMATCH

record ('s, 'e) wrapped_key_store =
  wk_put :: "pystr \<Rightarrow> 'e \<Rightarrow> ('s, unit) eff"
  wk_get :: "pystr \<Rightarrow> ('s, 'e option) eff"
  wk_delete_if_matches ::
    "pystr \<Rightarrow> proposal_identity \<Rightarrow> envelope_purpose \<Rightarrow> pystr \<Rightarrow> ('s, key_delete_outcome) eff"

record 's kek_world =
  kw_keys :: 's
  kw_count :: nat
  kw_heap :: "bytes list"

section \<open>Interactions and buffers\<close>

definition ask :: "(nat \<Rightarrow> 'a outcome) \<Rightarrow> ('s kek_world, 'a) eff" where
  "ask port w = (port (kw_count w), w\<lparr>kw_count := kw_count w + 1\<rparr>)"

definition on_keys :: "('s, 'a) eff \<Rightarrow> ('s kek_world, 'a) eff" where
  "on_keys m w = (case m (kw_keys w) of (r, s) \<Rightarrow> (r, w\<lparr>kw_keys := s, kw_count := kw_count w + 1\<rparr>))"

definition alloc :: "bytes \<Rightarrow> ('s kek_world, nat) eff" where
  "alloc b w = (Inr (length (kw_heap w)), w\<lparr>kw_heap := kw_heap w @ [b]\<rparr>)"

definition peek :: "nat \<Rightarrow> ('s kek_world, bytes) eff" where
  "peek i w = (if i < length (kw_heap w) then (Inr (kw_heap w ! i), w) else (fails ValueError, w))"

definition blank :: "bytes \<Rightarrow> bytes" where
  "blank b = replicate (length b) (CHR 0x00)"

definition zero :: "nat \<Rightarrow> ('s kek_world, unit) eff" where
  "zero i w = (Inr (), w\<lparr>kw_heap := (kw_heap w)[i := blank (kw_heap w ! i)]\<rparr>)"

definition finally_zero :: "('s kek_world, 'a) eff \<Rightarrow> nat \<Rightarrow> ('s kek_world, 'a) eff" where
  "finally_zero m i = (\<lambda>w. case m w of (r, w') \<Rightarrow> (r, snd (zero i w')))"

text \<open>
  Storing an envelope: if the write raises, the entry is read back. The original failure is raised
  again unless the entry is there; a read that fails leaves the outcome unknown. \<open>rejected\<close> says
  which failures prove that nothing was written.
\<close>

definition reconciled_put ::
  "('s, 'e) wrapped_key_store \<Rightarrow> (raised \<Rightarrow> bool) \<Rightarrow> py_exn \<Rightarrow> pystr \<Rightarrow> 'e \<Rightarrow> ('s kek_world, unit) eff" where
  "reconciled_put store rejected unknown key_handle envelope =
     handle (on_keys (wk_put store key_handle envelope)) (\<lambda>failure.
       if rejected failure then throw failure
       else
         bind (attempt (on_keys (wk_get store key_handle))) (\<lambda>reread.
         case reread of
           Inl reconciliation_failure \<Rightarrow>
             if exn_of failure = CancelledError then throw (add_note failure ReconciliationInterrupted)
             else throw (Raised unknown [ReconciliationFailed (exn_of reconciliation_failure)])
         | Inr persisted \<Rightarrow>
             if persisted = Some envelope
             then if exn_of failure = CancelledError
                  then throw (add_note failure PersistedBeforeCancellation)
                  else return ()
             else if persisted \<noteq> None then raise ValueError
             else throw failure))"

definition delete_checked :: "key_delete_outcome \<Rightarrow> ('s kek_world, unit) eff" where
  "delete_checked outcome =
     (if outcome \<in> {KeyDELETED, KeyALREADY_ABSENT} then return () else raise ValueError)"

section \<open>Length-prefixed metadata\<close>

fun length_prefixed :: "pystr list \<Rightarrow> bytes outcome" where
  "length_prefixed [] = Inr []"
| "length_prefixed (p # ps) =
     result_bind (to_bytes_big 4 (length p)) (\<lambda>n. result_bind (length_prefixed ps) (\<lambda>rest. Inr (n @ p @ rest)))"

section \<open>The contract of the store\<close>

text \<open>
  What the adapter relies on: \<open>get\<close> changes nothing and a value it returns is the entry; a put that
  returns stored the envelope, a put that raises stored it or did not; a deletion that reports the
  entry deleted or absent leaves no entry, a mismatch leaves everything.
\<close>

locale wrapped_keys =
  fixes store :: "('s, 'e) wrapped_key_store" and entries :: "'s \<Rightarrow> pystr \<Rightarrow> 'e option"
  assumes get_same: "wk_get store k s = (r, s') \<Longrightarrow> entries s' = entries s"
    and get_value: "wk_get store k s = (Inr found, s') \<Longrightarrow> found = entries s k"
    and put_stores: "wk_put store k e s = (Inr u, s') \<Longrightarrow> entries s' = (entries s)(k \<mapsto> e)"
    and put_raises: "wk_put store k e s = (Inl x, s') \<Longrightarrow>
        entries s' = entries s \<or> entries s' = (entries s)(k \<mapsto> e)"
    and put_rejected: "wk_put store k e s = (Inl x, s') \<Longrightarrow> exn_of x = WrappedKeyWriteRejectedError \<Longrightarrow>
        entries s' = entries s"
    and delete_gone: "wk_delete_if_matches store k i p v s = (Inr c, s') \<Longrightarrow> c \<noteq> KeyMISMATCH \<Longrightarrow>
        entries s' = (entries s)(k := None)"
    and delete_kept: "wk_delete_if_matches store k i p v s = (Inr KeyMISMATCH, s') \<Longrightarrow> entries s' = entries s"
begin

lemma wp_get:
  assumes "\<And>s'. entries s' = entries s \<Longrightarrow> Q (entries s k) s'" and "\<And>e s'. entries s' = entries s \<Longrightarrow> E e s'"
  shows "wp (wk_get store k) Q E s"
proof (rule wpI_cases)
  show "Q a t" if "wk_get store k s = (Inr a, t)" for a t
    using assms(1) [OF get_same [OF that]] get_value [OF that] by simp
  show "E r t" if "wk_get store k s = (Inl r, t)" for r t
    using assms(2) [OF get_same [OF that]] .
qed

end

section \<open>Lemmas\<close>

lemma wp_ask [simp]:
  "wp (ask port) Q E w = (case port (kw_count w) of
     Inl r \<Rightarrow> E r (w\<lparr>kw_count := kw_count w + 1\<rparr>) | Inr a \<Rightarrow> Q a (w\<lparr>kw_count := kw_count w + 1\<rparr>))"
  by (simp add: wp_def ask_def split: sum.splits)

lemma wp_alloc [simp]:
  "wp (alloc b) Q E w = Q (length (kw_heap w)) (w\<lparr>kw_heap := kw_heap w @ [b]\<rparr>)"
  by (simp add: wp_def alloc_def)

lemma wp_peek [simp]:
  "wp (peek i) Q E w = (if i < length (kw_heap w) then Q (kw_heap w ! i) w else E (Raised ValueError []) w)"
  by (simp add: wp_def peek_def fails_def)

lemma wp_zero [simp]:
  "wp (zero i) Q E w = Q () (w\<lparr>kw_heap := (kw_heap w)[i := blank (kw_heap w ! i)]\<rparr>)"
  by (simp add: wp_def zero_def)

lemma wp_finally_zero [simp]:
  "wp (finally_zero m i) Q E w =
     wp m (\<lambda>a w. Q a (snd (zero i w))) (\<lambda>r w. E r (snd (zero i w))) w"
  by (simp add: wp_def finally_zero_def split: prod.splits sum.splits)

lemma wp_on_keys:
  "wp (on_keys m) Q E w =
     wp m (\<lambda>a s. Q a (w\<lparr>kw_keys := s, kw_count := kw_count w + 1\<rparr>))
          (\<lambda>r s. E r (w\<lparr>kw_keys := s, kw_count := kw_count w + 1\<rparr>)) (kw_keys w)"
  by (simp add: wp_def on_keys_def split: prod.splits sum.splits)

definition is_blank :: "bytes \<Rightarrow> bool" where
  "is_blank b \<longleftrightarrow> list_all (\<lambda>c. c = CHR 0x00) b"

lemma is_blank_blank [simp]: "is_blank (blank b)"
  by (simp add: is_blank_def blank_def list_all_iff)

lemma snd_zero [simp]:
  "kw_heap (snd (zero i w)) = (kw_heap w)[i := blank (kw_heap w ! i)]"
  "kw_keys (snd (zero i w)) = kw_keys w"
  by (simp_all add: zero_def)

text \<open>All buffers allocated since \<open>w\<close> are overwritten.\<close>

definition swept :: "'s kek_world \<Rightarrow> 's kek_world \<Rightarrow> bool" where
  "swept w w' \<longleftrightarrow> list_all is_blank (drop (length (kw_heap w)) (kw_heap w'))"

lemma swept_same: "kw_heap w' = kw_heap w \<Longrightarrow> swept w w'"
  by (simp add: swept_def)

lemma on_keys_heap [simp]: "kw_heap (snd (on_keys m w)) = kw_heap w"
  by (simp add: on_keys_def split: prod.splits)

lemma wp_on_keys_heap:
  assumes "\<And>a w'. kw_heap w' = kw_heap w \<Longrightarrow> Q a w'" and "\<And>e w'. kw_heap w' = kw_heap w \<Longrightarrow> E e w'"
  shows "wp (on_keys m) Q E w"
  using assms by (auto simp: wp_def on_keys_def split: prod.splits sum.splits)

lemma length_prefixed_inj:
  assumes "length_prefixed ps = Inr m" and "length_prefixed qs = Inr m" and "length ps = length qs"
  shows "ps = qs"
  using assms
proof (induction ps arbitrary: qs m)
  case Nil
  then show ?case by simp
next
  case (Cons p ps)
  then obtain q qs' where qs: "qs = q # qs'" by (cases qs) auto
  from Cons.prems(1) obtain r where r: "length p < 256 ^ 4" "length_prefixed ps = Inr r"
    "m = be_bytes 4 (length p) @ p @ r"
    by (auto simp: result_bind_eq_Inr to_bytes_big_Inr)
  from Cons.prems(2) qs obtain r' where r': "length q < 256 ^ 4" "length_prefixed qs' = Inr r'"
    "m = be_bytes 4 (length q) @ q @ r'"
    by (auto simp: result_bind_eq_Inr to_bytes_big_Inr)
  from r(3) r'(3) have "be_bytes 4 (length p) = be_bytes 4 (length q)" "p @ r = q @ r'"
    by (simp_all add: append_eq_append_conv)
  moreover from this(1) have "length p = length q" using r(1) r'(1) by (rule be_bytes_inj [rotated 2])
  ultimately have "p = q" "r = r'" by simp_all
  with Cons.IH [OF r(2), of qs'] r'(2) Cons.prems(3) qs show ?case by simp
qed

lemma purpose_value_inject [simp]: "purpose_value p = purpose_value q \<longleftrightarrow> p = q"
  by (cases p; cases q) simp_all

lemma wp_reconciled_put_heap:
  assumes "\<And>a w'. kw_heap w' = kw_heap w \<Longrightarrow> Q a w'" and "\<And>e w'. kw_heap w' = kw_heap w \<Longrightarrow> E e w'"
  shows "wp (reconciled_put store rejected unknown k e) Q E w"
  using assms
  by (auto simp: reconciled_put_def split: sum.splits intro!: wp_on_keys_heap)

context wrapped_keys
begin

lemma reconciled_put_stores:
  assumes "\<And>r. rejected r \<Longrightarrow> exn_of r = WrappedKeyWriteRejectedError"
  shows "wp (reconciled_put store rejected unknown k e)
    (\<lambda>_ w'. entries (kw_keys w') k = Some e)
    (\<lambda>r w'. entries (kw_keys w') k = Some e \<longrightarrow>
       entries (kw_keys w) k = Some e \<or> exn_of r = CancelledError \<and> notes_of r \<noteq> []
       \<or> exn_of r = unknown) w"
proof -
  have "wp (wk_put store k e) (\<lambda>_ s'. entries s' k = Some e)
      (\<lambda>x s'. entries s' k = entries (kw_keys w) k
         \<or> entries s' k = Some e \<and> exn_of x \<noteq> WrappedKeyWriteRejectedError) (kw_keys w)"
    by (rule wpI_cases) (use put_stores put_raises put_rejected in fastforce)+
  then show ?thesis
    unfolding reconciled_put_def wp_handle wp_on_keys
    by (rule wp_mono)
      (use assms in \<open>auto simp: wp_on_keys add_note_def split: sum.splits intro!: wp_get\<close>)
qed

end

end
