(* ===== verification/Local_Kek.thy ===== *)
theory Local_Kek
  imports Key_Envelopes
begin

text \<open>
  \<open>integrations/local_kek.py\<close>: envelope protection under a host's versioned key encryption key (KEK).
  Every value has its own data key; the data key is wrapped under the current KEK and stored as an
  envelope; destroying the envelope makes the value unreadable.

  The host's parts are arguments: the KEK provider and the envelope store (the two protocols of the
  file), the random source \<open>secrets\<close>, the authenticated cipher of the \<open>cryptography\<close> package and the
  keyed hash.
\<close>

section \<open>Records and protocols\<close>

record kek_material =
  km_version :: pystr
  km_key :: bytes

record wrapped_data_key =
  wd_tenant_reference :: pystr
  wd_proposal_reference :: pystr
  wd_purpose :: envelope_purpose
  wd_kek_version :: pystr
  wd_ciphertext :: bytes

record 's kek_host =
  kh_current :: "nat \<Rightarrow> kek_material outcome"
  kh_resolve :: "nat \<Rightarrow> pystr \<Rightarrow> kek_material option outcome"
  kh_envelopes :: "('s, wrapped_data_key) wrapped_key_store"
  kh_token_hex :: "nat \<Rightarrow> pystr"
  kh_token_bytes :: "nat \<Rightarrow> nat \<Rightarrow> bytes"
  kh_encrypt :: "bytes \<Rightarrow> bytes \<Rightarrow> bytes \<Rightarrow> bytes \<Rightarrow> bytes"
  kh_decrypt :: "bytes \<Rightarrow> bytes \<Rightarrow> bytes \<Rightarrow> bytes \<Rightarrow> bytes option"
  kh_hmac :: "bytes \<Rightarrow> bytes \<Rightarrow> pystr"
  kh_safe_reference :: "pystr \<Rightarrow> bool"

section \<open>Metadata and key checks\<close>

definition kek_metadata :: "pystr \<Rightarrow> proposal_identity \<Rightarrow> envelope_purpose \<Rightarrow> pystr \<Rightarrow> bytes outcome" where
  "kek_metadata key_handle ident purpose kek_version =
     result_bind (length_prefixed [key_handle, pi_tenant_reference ident, pi_proposal_reference ident,
       purpose_value purpose, kek_version])
       (\<lambda>parts. Inr (''threvo-actions:local-kek-envelope:v1'' @ parts))"

definition validate_kek :: "'s kek_host \<Rightarrow> pystr \<Rightarrow> bytes \<Rightarrow> pystr option \<Rightarrow> unit outcome" where
  "validate_kek h version key expected_version =
     (if \<not> kh_safe_reference h version then fails ValidationError
      else if expected_version \<noteq> None \<and> expected_version \<noteq> Some version then fails ValueError
      else if length key \<noteq> 32 then fails ValueError
      else Inr ())"

definition envelope_matches ::
  "wrapped_data_key \<Rightarrow> proposal_identity \<Rightarrow> envelope_purpose \<Rightarrow> pystr \<Rightarrow> bool" where
  "envelope_matches env ident purpose kek_version \<longleftrightarrow>
     wd_tenant_reference env = pi_tenant_reference ident
     \<and> wd_proposal_reference env = pi_proposal_reference ident
     \<and> wd_purpose env = purpose
     \<and> wd_kek_version env = kek_version"

definition wrapped_data_key_new ::
  "proposal_identity \<Rightarrow> envelope_purpose \<Rightarrow> pystr \<Rightarrow> bytes \<Rightarrow> wrapped_data_key outcome" where
  "wrapped_data_key_new ident purpose kek_version ciphertext =
     (if length ciphertext < 28 then fails ValidationError
      else Inr \<lparr>wd_tenant_reference = pi_tenant_reference ident,
                wd_proposal_reference = pi_proposal_reference ident,
                wd_purpose = purpose, wd_kek_version = kek_version, wd_ciphertext = ciphertext\<rparr>)"

section \<open>Key management\<close>

definition new_key ::
  "'s kek_host \<Rightarrow> proposal_identity \<Rightarrow> envelope_purpose \<Rightarrow>
   ('s kek_world, pystr \<times> nat \<times> wrapped_data_key) eff" where
  "new_key h ident purpose =
     bind (ask (\<lambda>n. Inr (''local-envelope:'' @ kh_token_hex h n))) (\<lambda>handle.
     bind (ask (\<lambda>n. Inr (kh_token_bytes h n 32))) (\<lambda>raw.
     bind (alloc raw) (\<lambda>data_key.
     bind (ask (kh_current h)) (\<lambda>kek.
     bind (alloc (km_key kek)) (\<lambda>kek_key.
     bind (finally_zero
             (Prelude.handle
               (bind (peek kek_key) (\<lambda>key.
                bind (lift (validate_kek h (km_version kek) key None)) (\<lambda>_.
                bind (ask (\<lambda>n. Inr (kh_token_bytes h n 12))) (\<lambda>nonce.
                bind (lift (kek_metadata handle ident purpose (km_version kek))) (\<lambda>aad.
                bind (peek data_key) (\<lambda>secret.
                return (nonce @ kh_encrypt h key nonce secret aad)))))))
               (\<lambda>e. bind (zero data_key) (\<lambda>_. throw e)))
             kek_key) (\<lambda>wrapped.
     bind (lift (wrapped_data_key_new ident purpose (km_version kek) wrapped)) (\<lambda>envelope.
     return (handle, data_key, envelope))))))))"

definition unwrap :: "'s kek_host \<Rightarrow> pystr \<Rightarrow> wrapped_data_key \<Rightarrow> ('s kek_world, nat) eff" where
  "unwrap h key_handle envelope =
     bind (ask (\<lambda>n. kh_resolve h n (wd_kek_version envelope))) (\<lambda>found.
     case found of
       None \<Rightarrow> raise KeyError
     | Some kek \<Rightarrow>
         bind (alloc (km_key kek)) (\<lambda>kek_key.
         bind (finally_zero
                 (bind (peek kek_key) (\<lambda>key.
                  bind (lift (validate_kek h (km_version kek) key (Some (wd_kek_version envelope)))) (\<lambda>_.
                  bind (lift (kek_metadata key_handle
                          \<lparr>pi_tenant_reference = wd_tenant_reference envelope,
                           pi_proposal_reference = wd_proposal_reference envelope\<rparr>
                          (wd_purpose envelope) (wd_kek_version envelope))) (\<lambda>aad.
                  case kh_decrypt h key (take 12 (wd_ciphertext envelope))
                         (drop 12 (wd_ciphertext envelope)) aad of
                    None \<Rightarrow> raise ValueError
                  | Some plaintext \<Rightarrow> return plaintext))))
                 kek_key) (\<lambda>plaintext.
         bind (alloc plaintext) (\<lambda>data_key.
         if length plaintext \<noteq> 32 then bind (zero data_key) (\<lambda>_. raise ValueError)
         else return data_key))))"

definition store_key :: "'s kek_host \<Rightarrow> pystr \<Rightarrow> wrapped_data_key \<Rightarrow> ('s kek_world, unit) eff" where
  "store_key h key_handle envelope =
     reconciled_put (kh_envelopes h) (\<lambda>failure. exn_of failure = WrappedKeyWriteRejectedError)
       (WrappedKeyPersistenceOutcomeUnknownError (wd_tenant_reference envelope)
          (wd_proposal_reference envelope) key_handle (purpose_value (wd_purpose envelope)))
       key_handle envelope"

definition destroy_key ::
  "'s kek_host \<Rightarrow> pystr \<Rightarrow> proposal_identity \<Rightarrow> envelope_purpose \<Rightarrow> pystr \<Rightarrow> ('s kek_world, unit) eff" where
  "destroy_key h key_handle ident purpose kek_version =
     bind (on_keys (wk_delete_if_matches (kh_envelopes h) key_handle ident purpose kek_version)) delete_checked"

section \<open>The commitment provider\<close>

definition kek_algorithm :: pystr where "kek_algorithm = ''hmac-sha256''"
definition kek_codec :: pystr where "kek_codec = ''local-kek-envelope-aes256-gcm-v1''"

definition kek_create_for ::
  "'s kek_host \<Rightarrow> proposal_identity \<Rightarrow> bytes \<Rightarrow> ('s kek_world, keyed_commitment) eff" where
  "kek_create_for h ident canonical_payload =
     bind (new_key h ident PurposeCommitment) (\<lambda>(key_handle, data_key, envelope).
     bind (finally_zero
             (bind (peek data_key) (\<lambda>key.
              bind (lift (kek_metadata key_handle ident PurposeCommitment (wd_kek_version envelope))) (\<lambda>aad.
              return (kh_hmac h key (aad @ canonical_payload)))))
             data_key) (\<lambda>digest.
     bind (store_key h key_handle envelope) (\<lambda>_.
     return \<lparr>kc_algorithm = kek_algorithm, kc_key_handle = key_handle,
             kc_key_version = wd_kek_version envelope, kc_digest = digest\<rparr>)))"

definition kek_verify_for ::
  "'s kek_host \<Rightarrow> proposal_identity \<Rightarrow> bytes \<Rightarrow> keyed_commitment \<Rightarrow> ('s kek_world, bool) eff" where
  "kek_verify_for h ident canonical_payload commitment =
     (if kc_algorithm commitment \<noteq> kek_algorithm then return False
      else
        bind (on_keys (wk_get (kh_envelopes h) (kc_key_handle commitment))) (\<lambda>found.
        case found of
          None \<Rightarrow> return False
        | Some envelope \<Rightarrow>
            if \<not> envelope_matches envelope ident PurposeCommitment (kc_key_version commitment)
            then return False
            else
              bind (attempt (unwrap h (kc_key_handle commitment) envelope)) (\<lambda>unwrapped.
              case unwrapped of
                Inl e \<Rightarrow> if is_key_or_value_error (exn_of e) then return False else throw e
              | Inr data_key \<Rightarrow>
                  finally_zero
                    (bind (peek data_key) (\<lambda>key.
                     bind (lift (kek_metadata (kc_key_handle commitment) ident PurposeCommitment
                             (wd_kek_version envelope))) (\<lambda>aad.
                     return (kh_hmac h key (aad @ canonical_payload) = kc_digest commitment))))
                    data_key)))"

definition kek_destroy_commitment_for ::
  "'s kek_host \<Rightarrow> proposal_identity \<Rightarrow> keyed_commitment \<Rightarrow> ('s kek_world, unit) eff" where
  "kek_destroy_commitment_for h ident commitment =
     (if kc_algorithm commitment \<noteq> kek_algorithm then raise ValueError
      else destroy_key h (kc_key_handle commitment) ident PurposeCommitment (kc_key_version commitment))"

section \<open>The protection codec\<close>

definition kek_protect_for ::
  "'s kek_host \<Rightarrow> proposal_identity \<Rightarrow> bytes \<Rightarrow> ('s kek_world, protected_payload) eff" where
  "kek_protect_for h ident canonical_payload =
     bind (new_key h ident PurposePayload) (\<lambda>(key_handle, data_key, envelope).
     bind (ask (\<lambda>n. Inr (kh_token_bytes h n 12))) (\<lambda>nonce.
     bind (finally_zero
             (bind (peek data_key) (\<lambda>key.
              bind (lift (kek_metadata key_handle ident PurposePayload (wd_kek_version envelope))) (\<lambda>aad.
              return (nonce @ kh_encrypt h key nonce canonical_payload aad))))
             data_key) (\<lambda>ciphertext.
     bind (store_key h key_handle envelope) (\<lambda>_.
     return \<lparr>pp_codec = kek_codec, pp_key_handle = key_handle,
             pp_key_version = wd_kek_version envelope, pp_ciphertext = b64encode ciphertext\<rparr>))))"

definition kek_unprotect_for ::
  "'s kek_host \<Rightarrow> proposal_identity \<Rightarrow> protected_payload \<Rightarrow> ('s kek_world, bytes) eff" where
  "kek_unprotect_for h ident payload =
     (if pp_codec payload \<noteq> kek_codec then raise ValueError
      else
        bind (on_keys (wk_get (kh_envelopes h) (pp_key_handle payload))) (\<lambda>found.
        case found of
          None \<Rightarrow> raise ValueError
        | Some envelope \<Rightarrow>
            if \<not> envelope_matches envelope ident PurposePayload (pp_key_version payload)
            then raise ValueError
            else
              case b64decode (pp_ciphertext payload) of
                None \<Rightarrow> raise ValueError
              | Some encoded \<Rightarrow>
                  if length encoded < 28 then raise ValueError
                  else
                    bind (unwrap h (pp_key_handle payload) envelope) (\<lambda>data_key.
                    finally_zero
                      (bind (peek data_key) (\<lambda>key.
                       bind (lift (kek_metadata (pp_key_handle payload) ident PurposePayload
                               (wd_kek_version envelope))) (\<lambda>aad.
                       case kh_decrypt h key (take 12 encoded) (drop 12 encoded) aad of
                         None \<Rightarrow> raise ValueError
                       | Some opened \<Rightarrow> return opened)))
                      data_key)))"

definition kek_destroy_payload_for ::
  "'s kek_host \<Rightarrow> proposal_identity \<Rightarrow> protected_payload \<Rightarrow> ('s kek_world, unit) eff" where
  "kek_destroy_payload_for h ident payload =
     (if pp_codec payload \<noteq> kek_codec then raise ValueError
      else destroy_key h (pp_key_handle payload) ident PurposePayload (pp_key_version payload))"

section \<open>The store of wrapped keys\<close>

text \<open>The store of \<open>tests/integration/local_kek\<close>: a dictionary.\<close>

type_synonym envelope_entries = "pystr \<Rightarrow> wrapped_data_key option"

definition memory_envelope_store :: "(envelope_entries, wrapped_data_key) wrapped_key_store" where
  "memory_envelope_store =
     \<lparr>wk_put = (\<lambda>k e s. if s k \<noteq> None then (fails ValueError, s) else (Inr (), s(k \<mapsto> e))),
      wk_get = (\<lambda>k s. (Inr (s k), s)),
      wk_delete_if_matches = (\<lambda>k ident purpose version s.
        case s k of
          None \<Rightarrow> (Inr KeyALREADY_ABSENT, s)
        | Some envelope \<Rightarrow>
            if wd_tenant_reference envelope \<noteq> pi_tenant_reference ident
               \<or> wd_proposal_reference envelope \<noteq> pi_proposal_reference ident
               \<or> wd_purpose envelope \<noteq> purpose
               \<or> wd_kek_version envelope \<noteq> version
            then (Inr KeyMISMATCH, s)
            else (Inr KeyDELETED, s(k := None)))\<rparr>"

interpretation mk: wrapped_keys memory_envelope_store "\<lambda>s. s"
  by unfold_locales
    (auto simp: memory_envelope_store_def fails_def split: if_splits option.splits)

section \<open>Lemmas: buffers\<close>

lemma unwrap_swept:
  "wp (unwrap h k e)
     (\<lambda>i w'. \<exists>b d. kw_heap w' = kw_heap w @ [b, d] \<and> is_blank b \<and> i = Suc (length (kw_heap w)))
     (\<lambda>_ w'. swept w w') w"
  by (auto simp: unwrap_def swept_def list_update_append nth_append split: sum.splits option.splits)

definition kek_laws :: "'s kek_host \<Rightarrow> bool" where
  "kek_laws h \<longleftrightarrow>
     (\<forall>k n p a. kh_decrypt h k n (kh_encrypt h k n p a) a = Some p
        \<and> length (kh_encrypt h k n p a) = length p + 16)
     \<and> (\<forall>n m. length (kh_token_bytes h n m) = m)"

lemma new_key_swept:
  assumes "kek_laws h"
  shows "wp (new_key h ident p)
     (\<lambda>x w'. \<exists>d b. kw_heap w' = kw_heap w @ [d, b] \<and> fst (snd x) = length (kw_heap w) \<and> is_blank b)
     (\<lambda>e w'. swept w w' \<or> kh_current h (kw_count w + 2) = Inl e) w"
  using assms
  by (auto simp: new_key_def swept_def list_update_append nth_append wrapped_data_key_new_def kek_laws_def
      split: sum.splits option.splits)

text \<open>The six operations of the adapter.\<close>

datatype kek_call =
    KekCreate bytes
  | KekVerify bytes keyed_commitment
  | KekDestroyCommitment keyed_commitment
  | KekProtect bytes
  | KekUnprotect protected_payload
  | KekDestroyPayload protected_payload

fun kek_run :: "'s kek_host \<Rightarrow> proposal_identity \<Rightarrow> kek_call \<Rightarrow> ('s kek_world, unit) eff" where
  "kek_run h ident (KekCreate b) = bind (kek_create_for h ident b) (\<lambda>_. return ())"
| "kek_run h ident (KekVerify b c) = bind (kek_verify_for h ident b c) (\<lambda>_. return ())"
| "kek_run h ident (KekDestroyCommitment c) = kek_destroy_commitment_for h ident c"
| "kek_run h ident (KekProtect b) = bind (kek_protect_for h ident b) (\<lambda>_. return ())"
| "kek_run h ident (KekUnprotect p) = bind (kek_unprotect_for h ident p) (\<lambda>_. return ())"
| "kek_run h ident (KekDestroyPayload p) = kek_destroy_payload_for h ident p"

lemma kek_run_swept:
  assumes "kek_laws h"
  shows "wp (kek_run h ident x) (\<lambda>_ w'. swept w w') (\<lambda>e w'. swept w w' \<or> kh_current h (kw_count w + 2) = Inl e) w"
proof (cases x)
  case (KekCreate b)
  show ?thesis unfolding KekCreate kek_run.simps kek_create_for_def wp_bind
    by (rule wp_mono [OF new_key_swept [OF assms]])
      (auto simp: store_key_def swept_def list_update_append nth_append split: sum.splits prod.splits intro!: wp_reconciled_put_heap)
next
  case (KekProtect b)
  show ?thesis unfolding KekProtect kek_run.simps kek_protect_for_def wp_bind
    by (rule wp_mono [OF new_key_swept [OF assms]])
      (auto simp: store_key_def swept_def list_update_append nth_append split: sum.splits prod.splits intro!: wp_reconciled_put_heap)
next
  case (KekVerify b c)
  then show ?thesis
    by (auto simp: kek_verify_for_def swept_def list_update_append nth_append split: option.splits sum.splits
        intro!: wp_on_keys_heap wp_mono [OF unwrap_swept])
next
  case (KekUnprotect p)
  then show ?thesis
    by (auto simp: kek_unprotect_for_def swept_def list_update_append nth_append split: option.splits sum.splits
        intro!: wp_on_keys_heap wp_mono [OF unwrap_swept])
qed (auto simp: kek_destroy_commitment_for_def kek_destroy_payload_for_def destroy_key_def delete_checked_def swept_same
      intro!: wp_on_keys_heap)

section \<open>Lemmas: what the operations store and return\<close>

lemma new_key_result:
  assumes "new_key h ident purpose w = (Inr (k, i, env), w')"
  obtains kek n key aad nonce m where "kh_current h n = Inr kek" "key = km_key kek"
    "kek_metadata k ident purpose (km_version kek) = Inr aad" "validate_kek h (km_version kek) key None = Inr ()"
    "nonce = kh_token_bytes h m 12"
    "env = \<lparr>wd_tenant_reference = pi_tenant_reference ident, wd_proposal_reference = pi_proposal_reference ident,
       wd_purpose = purpose, wd_kek_version = km_version kek,
       wd_ciphertext = nonce @ kh_encrypt h key nonce (kw_heap w' ! i) aad\<rparr>"
    "i < length (kw_heap w')" "length (kw_heap w' ! i) = length (kh_token_bytes h (kw_count w + 1) 32)"
    "kw_keys w' = kw_keys w"
proof -
  have "wp (new_key h ident purpose)
    (\<lambda>(k, i, env) w'. \<exists>kek n aad m. kh_current h n = Inr kek
      \<and> kek_metadata k ident purpose (km_version kek) = Inr aad \<and> validate_kek h (km_version kek) (km_key kek) None = Inr ()
      \<and> env = \<lparr>wd_tenant_reference = pi_tenant_reference ident, wd_proposal_reference = pi_proposal_reference ident,
         wd_purpose = purpose, wd_kek_version = km_version kek,
         wd_ciphertext = kh_token_bytes h m 12 @ kh_encrypt h (km_key kek) (kh_token_bytes h m 12) (kw_heap w' ! i) aad\<rparr>
      \<and> i < length (kw_heap w') \<and> length (kw_heap w' ! i) = length (kh_token_bytes h (kw_count w + 1) 32)
      \<and> kw_keys w' = kw_keys w) (\<lambda>_ _. True) w"
    by (auto simp: new_key_def list_update_append nth_append wrapped_data_key_new_def split: sum.splits option.splits)
  with assms that show thesis by (fastforce simp: wp_def)
qed

definition kek_stable :: "'s kek_host \<Rightarrow> bool" where
  "kek_stable h \<longleftrightarrow>
     (\<forall>m n kek. kh_current h m = Inr kek \<longrightarrow> kh_resolve h n (km_version kek) = Inr (Some kek))"

lemma unwrap_result:
  assumes "kek_laws h" and "kek_stable h" and "kh_current h n = Inr kek"
    and "kek_metadata k ident purpose (km_version kek) = Inr aad"
    and "validate_kek h (km_version kek) (km_key kek) None = Inr ()"
    and "length d = 32" and "length nonce = 12"
  shows "wp (unwrap h k \<lparr>wd_tenant_reference = pi_tenant_reference ident,
       wd_proposal_reference = pi_proposal_reference ident, wd_purpose = purpose,
       wd_kek_version = km_version kek, wd_ciphertext = nonce @ kh_encrypt h (km_key kek) nonce d aad\<rparr>)
     (\<lambda>i w'. i < length (kw_heap w') \<and> kw_heap w' ! i = d) (\<lambda>_ _. False) w"
proof -
  have res: "kh_resolve h m (km_version kek) = Inr (Some kek)" for m
    using assms(2,3) by (simp add: kek_stable_def)
  have dec: "kh_decrypt h (km_key kek) nonce (kh_encrypt h (km_key kek) nonce d aad) aad = Some d"
    using assms(1) by (simp add: kek_laws_def)
  have val: "validate_kek h (km_version kek) (km_key kek) (Some (km_version kek)) = Inr ()"
    using assms(5) by (simp add: validate_kek_def split: if_splits)
  have meta: "kek_metadata k \<lparr>pi_tenant_reference = pi_tenant_reference ident,
      pi_proposal_reference = pi_proposal_reference ident\<rparr> purpose (km_version kek) = Inr aad"
    using assms(4) by (cases ident) simp
  show ?thesis
    using assms(6,7) by (simp add: unwrap_def res dec val meta nth_append list_update_append)
qed

lemma store_key_stores:
  assumes "wrapped_keys (kh_envelopes h) entries"
  shows "wp (store_key h k e)
    (\<lambda>_ w'. entries (kw_keys w') k = Some e)
    (\<lambda>r w'. entries (kw_keys w') k = Some e \<longrightarrow>
       entries (kw_keys w) k = Some e \<or> exn_of r = CancelledError \<and> notes_of r \<noteq> []
       \<or> exn_of r = WrappedKeyPersistenceOutcomeUnknownError (wd_tenant_reference e)
          (wd_proposal_reference e) k (purpose_value (wd_purpose e))) w"
  unfolding store_key_def by (rule wrapped_keys.reconciled_put_stores [OF assms]) simp

section \<open>Properties\<close>

text \<open>
  The authenticated metadata determines everything it binds: two metadata strings are equal only
  if key handle, tenant, proposal, purpose and KEK version are all equal, so an envelope or a
  ciphertext authenticated for one of them authenticates for no other.
\<close>

lemma kek_metadata_injective:
  assumes "kek_metadata k ident purpose version = Inr m" and "kek_metadata k' ident' purpose' version' = Inr m"
  shows "k = k' \<and> ident = ident' \<and> purpose = purpose' \<and> version = version'"
proof -
  from assms obtain r where
    "length_prefixed [k, pi_tenant_reference ident, pi_proposal_reference ident, purpose_value purpose, version] = Inr r"
    "length_prefixed [k', pi_tenant_reference ident', pi_proposal_reference ident', purpose_value purpose', version'] = Inr r"
    by (auto simp: kek_metadata_def result_bind_eq_Inr)
  then have "[k, pi_tenant_reference ident, pi_proposal_reference ident, purpose_value purpose, version]
    = [k', pi_tenant_reference ident', pi_proposal_reference ident', purpose_value purpose', version']"
    by (rule length_prefixed_inj) simp
  then show ?thesis by (cases ident; cases ident') simp
qed

definition demo_identity :: proposal_identity where
  "demo_identity = \<lparr>pi_tenant_reference = ''t'', pi_proposal_reference = ''p''\<rparr>"

text \<open>
  C23: protecting and reading back. With an authenticated cipher that decrypts what it encrypted and
  a KEK provider that still resolves the version it had as current, the adapter returns exactly the
  payload it protected, at any later time at which the envelope is still stored, also after the
  KEK was rotated.
\<close>

theorem kek_protect_roundtrip:
  assumes laws: "kek_laws h" and stable: "kek_stable h" and contract: "wrapped_keys (kh_envelopes h) entries"
    and run: "kek_protect_for h ident payload w = (Inr p, w1)"
    and kept: "entries (kw_keys w2) (pp_key_handle p) = entries (kw_keys w1) (pp_key_handle p)"
    and answers: "wk_get (kh_envelopes h) (pp_key_handle p) (kw_keys w2) = (Inr v, s2)"
  shows "fst (kek_unprotect_for h ident p w2) = Inr payload"
proof -
  from run obtain k i env wa where nk: "new_key h ident PurposePayload w = (Inr (k, i, env), wa)"
    by (auto simp: kek_protect_for_def bind_def split: prod.splits sum.splits)
  from new_key_result [OF nk] obtain kek n aad m where
    kek: "kh_current h n = Inr kek" "kek_metadata k ident PurposePayload (km_version kek) = Inr aad"
      "validate_kek h (km_version kek) (km_key kek) None = Inr ()" and
    env: "env = \<lparr>wd_tenant_reference = pi_tenant_reference ident, wd_proposal_reference = pi_proposal_reference ident,
       wd_purpose = PurposePayload, wd_kek_version = km_version kek,
       wd_ciphertext = kh_token_bytes h m 12 @ kh_encrypt h (km_key kek) (kh_token_bytes h m 12) (kw_heap wa ! i) aad\<rparr>"
    and i: "i < length (kw_heap wa)" "length (kw_heap wa ! i) = 32"
    using laws by (metis kek_laws_def)
  let ?nonce = "kh_token_bytes h (kw_count wa) 12"
  have "wp (kek_protect_for h ident payload)
    (\<lambda>p w1. p = \<lparr>pp_codec = kek_codec, pp_key_handle = k, pp_key_version = km_version kek,
         pp_ciphertext = b64encode (?nonce @ kh_encrypt h (kw_heap wa ! i) ?nonce payload aad)\<rparr>
       \<and> entries (kw_keys w1) k = Some env) (\<lambda>_ _. True) w"
    unfolding kek_protect_for_def wp_bind
    using i kek(2) laws
    by (simp add: wp_def [of "new_key _ _ _"] nk env kek_laws_def)
      (auto intro!: wp_mono [OF store_key_stores [OF contract]])
  with run have p: "p = \<lparr>pp_codec = kek_codec, pp_key_handle = k, pp_key_version = km_version kek,
         pp_ciphertext = b64encode (?nonce @ kh_encrypt h (kw_heap wa ! i) ?nonce payload aad)\<rparr>"
    and stored: "entries (kw_keys w1) k = Some env"
    by (auto simp: wp_def)
  have v: "v = Some env"
    using wrapped_keys.get_value [OF contract answers] kept stored p by simp
  have nonce: "length ?nonce = 12" and nonce2: "length (kh_token_bytes h m 12) = 12"
    using laws by (simp_all add: kek_laws_def)
  have "wp (kek_unprotect_for h ident p) (\<lambda>a _. a = payload) (\<lambda>_ _. False) w2"
    using answers v nonce laws i kek(2)
    by (auto simp: kek_unprotect_for_def p wp_on_keys wp_def [of "wk_get _ _"] envelope_matches_def env
        b64decode_encode kek_laws_def intro!: wp_mono [OF unwrap_result [OF laws stable kek(1,2,3) i(2) nonce2]])
  then show ?thesis by (auto simp: wp_def split: prod.splits sum.splits)
qed

text \<open>A host with a transparent cipher, one KEK and the dictionary store.\<close>

definition demo_kek_host :: "envelope_entries kek_host" where
  "demo_kek_host =
     \<lparr>kh_current = (\<lambda>n. Inr \<lparr>km_version = ''v1'', km_key = replicate 32 (CHR ''k'')\<rparr>),
      kh_resolve = (\<lambda>n v. Inr (if v = ''v1'' then Some \<lparr>km_version = ''v1'', km_key = replicate 32 (CHR ''k'')\<rparr>
                               else None)),
      kh_envelopes = memory_envelope_store,
      kh_token_hex = (\<lambda>n. ''0''), kh_token_bytes = (\<lambda>n m. replicate m (CHR ''r'')),
      kh_encrypt = (\<lambda>k n p a. p @ replicate 16 (CHR ''#'')),
      kh_decrypt = (\<lambda>k n c a. Some (take (length c - 16) c)),
      kh_hmac = (\<lambda>k b. ''d''), kh_safe_reference = (\<lambda>s. True)\<rparr>"

definition demo_kek_world :: "envelope_entries kek_world" where
  "demo_kek_world = \<lparr>kw_keys = (\<lambda>_. None), kw_count = 0, kw_heap = []\<rparr>"

lemma demo_kek_laws: "kek_laws demo_kek_host" "kek_stable demo_kek_host"
  by (auto simp: kek_laws_def kek_stable_def demo_kek_host_def)

lemma demo_kek_envelopes: "kh_envelopes demo_kek_host = memory_envelope_store"
  by (simp add: demo_kek_host_def)

lemma demo_kek_contract: "wrapped_keys (kh_envelopes demo_kek_host) (\<lambda>s. s)"
  using mk.wrapped_keys_axioms by (simp add: demo_kek_envelopes)

theorem kek_protect_roundtrip_witness:
  "\<exists>p w. kek_protect_for demo_kek_host demo_identity ''pay'' demo_kek_world = (Inr p, w)
     \<and> fst (kek_unprotect_for demo_kek_host demo_identity p w) = Inr ''pay''"
proof -
  have "\<not> isl (fst (kek_protect_for demo_kek_host demo_identity ''pay'' demo_kek_world))" by code_simp
  then obtain p w where run: "kek_protect_for demo_kek_host demo_identity ''pay'' demo_kek_world = (Inr p, w)"
    by (metis isl_def prod.collapse sum.exhaust)
  have "wk_get (kh_envelopes demo_kek_host) (pp_key_handle p) (kw_keys w) = (Inr (kw_keys w (pp_key_handle p)), kw_keys w)"
    by (simp add: demo_kek_envelopes memory_envelope_store_def)
  from kek_protect_roundtrip [OF demo_kek_laws demo_kek_contract run refl this] run show ?thesis by blast
qed


definition demo_kek_payload :: protected_payload where
  "demo_kek_payload =
     \<lparr>pp_codec = kek_codec, pp_key_handle = ''h'', pp_key_version = ''v1'', pp_ciphertext = []\<rparr>"


text \<open>
  Storing a wrapped key reports truthfully. If it returns, the envelope is stored. If it raises and
  the envelope was stored nevertheless, the raise says so: it is a cancellation with a note, or
  \<open>LocalWrappedKeyPersistenceOutcomeUnknownError\<close> for that key handle.
\<close>

lemma kek_store_reports:
  assumes contract: "wrapped_keys (kh_envelopes h) entries" and fresh: "entries (kw_keys w) k = None"
    and run: "store_key h k e w = (res, w')"
  shows "case res of
      Inr _ \<Rightarrow> entries (kw_keys w') k = Some e
    | Inl r \<Rightarrow> entries (kw_keys w') k \<noteq> Some e \<or> exn_of r = CancelledError \<and> notes_of r \<noteq> []
        \<or> exn_of r = WrappedKeyPersistenceOutcomeUnknownError (wd_tenant_reference e)
            (wd_proposal_reference e) k (purpose_value (wd_purpose e))"
  using store_key_stores [OF contract, of k e w] fresh run
  by (auto simp: wp_def split: sum.splits)

text \<open>
  Key hygiene. Whatever the host's parts do, when an operation of the adapter returns or
  raises, every buffer of key material it allocated, data keys and copies of the KEK alike, has
  been overwritten; the one exception is a failure of the KEK provider before the fresh data key was
  used for anything.
\<close>

lemma kek_keys_overwritten:
  assumes "kek_laws h" and "kek_run h ident x w = (res, w')"
  shows "list_all is_blank (drop (length (kw_heap w)) (kw_heap w'))
    \<or> (\<exists>e. res = Inl e \<and> kh_current h (kw_count w + 2) = Inl e)"
  using kek_run_swept [OF assms(1), of ident x w] assms(2)
  by (auto simp: wp_def swept_def split: sum.splits)

end
