(* ===== verification/Aws_Kms.thy ===== *)
theory Aws_Kms
  imports Key_Envelopes
begin

text \<open>
  \<open>integrations/aws_kms.py\<close>: envelope protection with data keys that a key management service
  generates and unwraps. The service (\<open>KmsDataKeyClient\<close>), the store of wrapped keys, the random
  source, the cipher, the keyed hash and SHA-256 are arguments.
\<close>

section \<open>Records and protocols\<close>

record generated_data_key =
  gd_plaintext :: bytes
  gd_ciphertext :: bytes
  gd_resolved_key_id :: pystr

record kms_wrapped_key =
  kk_tenant_reference :: pystr
  kk_proposal_reference :: pystr
  kk_purpose :: envelope_purpose
  kk_key_id :: pystr
  kk_key_version :: pystr
  kk_ciphertext :: bytes

type_synonym encryption_context = "(pystr \<times> pystr) list"

record 's kms_host =
  kms_key_id :: pystr
  kms_generate_data_key :: "nat \<Rightarrow> pystr \<Rightarrow> encryption_context \<Rightarrow> nat \<Rightarrow> generated_data_key outcome"
  kms_decrypt_data_key :: "nat \<Rightarrow> pystr \<Rightarrow> bytes \<Rightarrow> encryption_context \<Rightarrow> bytes outcome"
  kms_envelopes :: "('s, kms_wrapped_key) wrapped_key_store"
  kms_token_hex :: "nat \<Rightarrow> pystr"
  kms_token_bytes :: "nat \<Rightarrow> nat \<Rightarrow> bytes"
  kms_encrypt :: "bytes \<Rightarrow> bytes \<Rightarrow> bytes \<Rightarrow> bytes \<Rightarrow> bytes"
  kms_decrypt :: "bytes \<Rightarrow> bytes \<Rightarrow> bytes \<Rightarrow> bytes \<Rightarrow> bytes option"
  kms_hmac :: "bytes \<Rightarrow> bytes \<Rightarrow> pystr"
  kms_sha256 :: "bytes \<Rightarrow> pystr"
  kms_valid_key_id :: "pystr \<Rightarrow> bool"

section \<open>Context, metadata and versions\<close>

definition encryption_context_of ::
  "pystr \<Rightarrow> proposal_identity \<Rightarrow> envelope_purpose \<Rightarrow> encryption_context" where
  "encryption_context_of key_handle ident purpose =
     [(''threvo-actions:key-handle'', key_handle),
      (''threvo-actions:tenant'', pi_tenant_reference ident),
      (''threvo-actions:proposal'', pi_proposal_reference ident),
      (''threvo-actions:purpose'', purpose_value purpose)]"

definition authenticated_metadata ::
  "pystr \<Rightarrow> proposal_identity \<Rightarrow> envelope_purpose \<Rightarrow> pystr \<Rightarrow> pystr \<Rightarrow> bytes outcome" where
  "authenticated_metadata key_handle ident purpose key_id key_version =
     result_bind (length_prefixed [key_handle, pi_tenant_reference ident, pi_proposal_reference ident,
       purpose_value purpose, key_id, key_version])
       (\<lambda>parts. Inr (''threvo-actions:aws-kms-envelope:v1'' @ parts))"

definition kms_key_version :: "'s kms_host \<Rightarrow> pystr \<Rightarrow> pystr" where
  "kms_key_version h resolved_key_id = ''aws-kms:'' @ kms_sha256 h resolved_key_id"

definition kms_matches ::
  "kms_wrapped_key \<Rightarrow> proposal_identity \<Rightarrow> envelope_purpose \<Rightarrow> pystr \<Rightarrow> bool" where
  "kms_matches env ident purpose key_version \<longleftrightarrow>
     kk_tenant_reference env = pi_tenant_reference ident
     \<and> kk_proposal_reference env = pi_proposal_reference ident
     \<and> kk_purpose env = purpose
     \<and> kk_key_version env = key_version"

section \<open>Key management\<close>

definition generate_key ::
  "'s kms_host \<Rightarrow> proposal_identity \<Rightarrow> envelope_purpose \<Rightarrow>
   ('s kek_world, pystr \<times> nat \<times> generated_data_key) eff" where
  "generate_key h ident purpose =
     bind (ask (\<lambda>n. Inr (''kms-envelope:'' @ kms_token_hex h n))) (\<lambda>key_handle.
     bind (ask (\<lambda>n. kms_generate_data_key h n (kms_key_id h)
                      (encryption_context_of key_handle ident purpose) 32)) (\<lambda>generated.
     bind (alloc (gd_plaintext generated)) (\<lambda>key.
     if length (gd_plaintext generated) \<noteq> 32
     then bind (zero key) (\<lambda>_. raise ValueError)
     else if \<not> kms_valid_key_id h (gd_resolved_key_id generated)
     then bind (zero key) (\<lambda>_. raise ValidationError)
     else return (key_handle, key, generated))))"

definition kms_wrapped_key_new ::
  "'s kms_host \<Rightarrow> proposal_identity \<Rightarrow> envelope_purpose \<Rightarrow> generated_data_key \<Rightarrow> kms_wrapped_key outcome" where
  "kms_wrapped_key_new h ident purpose generated =
     (if gd_ciphertext generated = [] then fails ValidationError
      else Inr \<lparr>kk_tenant_reference = pi_tenant_reference ident,
                kk_proposal_reference = pi_proposal_reference ident, kk_purpose = purpose,
                kk_key_id = gd_resolved_key_id generated,
                kk_key_version = kms_key_version h (gd_resolved_key_id generated),
                kk_ciphertext = gd_ciphertext generated\<rparr>)"

definition kms_store_key ::
  "'s kms_host \<Rightarrow> pystr \<Rightarrow> generated_data_key \<Rightarrow> proposal_identity \<Rightarrow> envelope_purpose \<Rightarrow>
   ('s kek_world, unit) eff" where
  "kms_store_key h key_handle generated ident purpose =
     bind (lift (kms_wrapped_key_new h ident purpose generated)) (\<lambda>envelope.
     reconciled_put (kms_envelopes h) (\<lambda>_. False)
       (WrappedKeyPersistenceOutcomeUnknownError (pi_tenant_reference ident)
          (pi_proposal_reference ident) key_handle (purpose_value purpose))
       key_handle envelope)"

definition decrypt_key :: "'s kms_host \<Rightarrow> pystr \<Rightarrow> kms_wrapped_key \<Rightarrow> ('s kek_world, nat) eff" where
  "decrypt_key h key_handle envelope =
     bind (ask (\<lambda>n. kms_decrypt_data_key h n (kk_key_id envelope) (kk_ciphertext envelope)
             (encryption_context_of key_handle
                \<lparr>pi_tenant_reference = kk_tenant_reference envelope,
                 pi_proposal_reference = kk_proposal_reference envelope\<rparr>
                (kk_purpose envelope)))) (\<lambda>decrypted.
     bind (alloc decrypted) (\<lambda>key.
     if length decrypted \<noteq> 32 then bind (zero key) (\<lambda>_. raise ValueError)
     else return key))"

definition kms_destroy ::
  "'s kms_host \<Rightarrow> pystr \<Rightarrow> pystr \<Rightarrow> envelope_purpose \<Rightarrow> proposal_identity \<Rightarrow> ('s kek_world, unit) eff" where
  "kms_destroy h key_handle key_version purpose ident =
     bind (on_keys (wk_delete_if_matches (kms_envelopes h) key_handle ident purpose key_version))
       delete_checked"

section \<open>The commitment provider\<close>

definition kms_algorithm :: pystr where "kms_algorithm = ''hmac-sha256''"
definition kms_codec :: pystr where "kms_codec = ''aws-kms-envelope-aes256-gcm-v1''"

definition kms_create_for ::
  "'s kms_host \<Rightarrow> proposal_identity \<Rightarrow> bytes \<Rightarrow> ('s kek_world, keyed_commitment) eff" where
  "kms_create_for h ident canonical_payload =
     bind (generate_key h ident PurposeCommitment) (\<lambda>(key_handle, key, generated).
     let key_version = kms_key_version h (gd_resolved_key_id generated) in
     bind (finally_zero
             (bind (peek key) (\<lambda>k.
              bind (lift (authenticated_metadata key_handle ident PurposeCommitment
                      (gd_resolved_key_id generated) key_version)) (\<lambda>aad.
              return (kms_hmac h k (aad @ canonical_payload)))))
             key) (\<lambda>digest.
     bind (kms_store_key h key_handle generated ident PurposeCommitment) (\<lambda>_.
     return \<lparr>kc_algorithm = kms_algorithm, kc_key_handle = key_handle, kc_key_version = key_version,
             kc_digest = digest\<rparr>)))"

definition kms_verify_for ::
  "'s kms_host \<Rightarrow> proposal_identity \<Rightarrow> bytes \<Rightarrow> keyed_commitment \<Rightarrow> ('s kek_world, bool) eff" where
  "kms_verify_for h ident canonical_payload commitment =
     (if kc_algorithm commitment \<noteq> kms_algorithm then return False
      else
        bind (on_keys (wk_get (kms_envelopes h) (kc_key_handle commitment))) (\<lambda>found.
        case found of
          None \<Rightarrow> return False
        | Some envelope \<Rightarrow>
            if \<not> kms_matches envelope ident PurposeCommitment (kc_key_version commitment)
            then return False
            else
              bind (decrypt_key h (kc_key_handle commitment) envelope) (\<lambda>key.
              finally_zero
                (bind (peek key) (\<lambda>k.
                 bind (lift (authenticated_metadata (kc_key_handle commitment) ident PurposeCommitment
                         (kk_key_id envelope) (kk_key_version envelope))) (\<lambda>aad.
                 return (kms_hmac h k (aad @ canonical_payload) = kc_digest commitment))))
                key)))"

definition kms_destroy_commitment_for ::
  "'s kms_host \<Rightarrow> proposal_identity \<Rightarrow> keyed_commitment \<Rightarrow> ('s kek_world, unit) eff" where
  "kms_destroy_commitment_for h ident commitment =
     (if kc_algorithm commitment \<noteq> kms_algorithm then raise ValueError
      else kms_destroy h (kc_key_handle commitment) (kc_key_version commitment) PurposeCommitment ident)"

section \<open>The protection codec\<close>

definition kms_protect_for ::
  "'s kms_host \<Rightarrow> proposal_identity \<Rightarrow> bytes \<Rightarrow> ('s kek_world, protected_payload) eff" where
  "kms_protect_for h ident canonical_payload =
     bind (generate_key h ident PurposePayload) (\<lambda>(key_handle, key, generated).
     let key_version = kms_key_version h (gd_resolved_key_id generated) in
     bind (ask (\<lambda>n. Inr (kms_token_bytes h n 12))) (\<lambda>nonce.
     bind (finally_zero
             (bind (peek key) (\<lambda>k.
              bind (lift (authenticated_metadata key_handle ident PurposePayload
                      (gd_resolved_key_id generated) key_version)) (\<lambda>aad.
              return (nonce @ kms_encrypt h k nonce canonical_payload aad))))
             key) (\<lambda>ciphertext.
     bind (kms_store_key h key_handle generated ident PurposePayload) (\<lambda>_.
     return \<lparr>pp_codec = kms_codec, pp_key_handle = key_handle, pp_key_version = key_version,
             pp_ciphertext = b64encode ciphertext\<rparr>))))"

definition kms_unprotect_for ::
  "'s kms_host \<Rightarrow> proposal_identity \<Rightarrow> protected_payload \<Rightarrow> ('s kek_world, bytes) eff" where
  "kms_unprotect_for h ident payload =
     (if pp_codec payload \<noteq> kms_codec then raise ValueError
      else
        bind (on_keys (wk_get (kms_envelopes h) (pp_key_handle payload))) (\<lambda>found.
        case found of
          None \<Rightarrow> raise KeyError
        | Some envelope \<Rightarrow>
            if \<not> kms_matches envelope ident PurposePayload (pp_key_version payload)
            then raise ValueError
            else
              case b64decode (pp_ciphertext payload) of
                None \<Rightarrow> raise ValueError
              | Some encoded \<Rightarrow>
                  if length encoded < 28 then raise ValueError
                  else
                    bind (decrypt_key h (pp_key_handle payload) envelope) (\<lambda>key.
                    finally_zero
                      (bind (peek key) (\<lambda>k.
                       bind (lift (authenticated_metadata (pp_key_handle payload) ident PurposePayload
                               (kk_key_id envelope) (kk_key_version envelope))) (\<lambda>aad.
                       case kms_decrypt h k (take 12 encoded) (drop 12 encoded) aad of
                         None \<Rightarrow> raise ValueError
                       | Some opened \<Rightarrow> return opened)))
                      key)))"

definition kms_destroy_payload_for ::
  "'s kms_host \<Rightarrow> proposal_identity \<Rightarrow> protected_payload \<Rightarrow> ('s kek_world, unit) eff" where
  "kms_destroy_payload_for h ident payload =
     (if pp_codec payload \<noteq> kms_codec then raise ValueError
      else kms_destroy h (pp_key_handle payload) (pp_key_version payload) PurposePayload ident)"

section \<open>Lemmas\<close>

text \<open>The store of \<open>tests/integration/aws_kms\<close>: a dictionary.\<close>

type_synonym kms_entries = "pystr \<Rightarrow> kms_wrapped_key option"

definition memory_kms_envelopes :: "(kms_entries, kms_wrapped_key) wrapped_key_store" where
  "memory_kms_envelopes =
     \<lparr>wk_put = (\<lambda>k e s. if s k \<noteq> None then (fails ValueError, s) else (Inr (), s(k \<mapsto> e))),
      wk_get = (\<lambda>k s. (Inr (s k), s)),
      wk_delete_if_matches = (\<lambda>k ident purpose version s.
        case s k of
          None \<Rightarrow> (Inr KeyALREADY_ABSENT, s)
        | Some envelope \<Rightarrow>
            if kms_matches envelope ident purpose version
            then (Inr KeyDELETED, s(k := None)) else (Inr KeyMISMATCH, s))\<rparr>"

interpretation kms_mem: wrapped_keys memory_kms_envelopes "\<lambda>s. s"
  by unfold_locales (auto simp: memory_kms_envelopes_def fails_def split: if_splits option.splits)

definition kms_laws :: "'s kms_host \<Rightarrow> bool" where
  "kms_laws h \<longleftrightarrow>
     (\<forall>k n p a. kms_decrypt h k n (kms_encrypt h k n p a) a = Some p
        \<and> length (kms_encrypt h k n p a) = length p + 16)
     \<and> (\<forall>n m. length (kms_token_bytes h n m) = m)
     \<and> (\<forall>n kid ctx m g. kms_generate_data_key h n kid ctx m = Inr g \<longrightarrow>
          (\<forall>i. kms_decrypt_data_key h i (gd_resolved_key_id g) (gd_ciphertext g) ctx = Inr (gd_plaintext g)))"

lemma generate_key_wp:
  "wp (generate_key h ident purpose)
     (\<lambda>(k, i, g) w'. i = length (kw_heap w) \<and> kw_heap w' = kw_heap w @ [gd_plaintext g]
        \<and> kw_keys w' = kw_keys w \<and> length (gd_plaintext g) = 32
        \<and> (\<exists>n. kms_generate_data_key h n (kms_key_id h) (encryption_context_of k ident purpose) 32 = Inr g))
     (\<lambda>_ w'. list_all is_blank (drop (length (kw_heap w)) (kw_heap w'))) w"
  by (auto simp: generate_key_def split: sum.splits)

lemma decrypt_key_wp:
  "wp (decrypt_key h k env)
     (\<lambda>i w'. i = length (kw_heap w) \<and> (\<exists>d. kw_heap w' = kw_heap w @ [d]))
     (\<lambda>_ w'. swept w w') w"
  by (auto simp: decrypt_key_def swept_def split: sum.splits)

lemma wp_kms_store_key_heap:
  assumes "\<And>a w'. kw_heap w' = kw_heap w \<Longrightarrow> Q a w'" and "\<And>e w'. kw_heap w' = kw_heap w \<Longrightarrow> E e w'"
  shows "wp (kms_store_key h k g ident purpose) Q E w"
  using assms by (auto simp: kms_store_key_def split: sum.splits intro!: wp_reconciled_put_heap)

datatype kms_call =
    KmsCreate bytes
  | KmsVerify bytes keyed_commitment
  | KmsDestroyCommitment keyed_commitment
  | KmsProtect bytes
  | KmsUnprotect protected_payload
  | KmsDestroyPayload protected_payload

fun kms_run :: "'s kms_host \<Rightarrow> proposal_identity \<Rightarrow> kms_call \<Rightarrow> ('s kek_world, unit) eff" where
  "kms_run h ident (KmsCreate b) = bind (kms_create_for h ident b) (\<lambda>_. return ())"
| "kms_run h ident (KmsVerify b c) = bind (kms_verify_for h ident b c) (\<lambda>_. return ())"
| "kms_run h ident (KmsDestroyCommitment c) = kms_destroy_commitment_for h ident c"
| "kms_run h ident (KmsProtect b) = bind (kms_protect_for h ident b) (\<lambda>_. return ())"
| "kms_run h ident (KmsUnprotect p) = bind (kms_unprotect_for h ident p) (\<lambda>_. return ())"
| "kms_run h ident (KmsDestroyPayload p) = kms_destroy_payload_for h ident p"

lemma kms_run_swept: "wp (kms_run h ident x) (\<lambda>_ w'. swept w w') (\<lambda>_ w'. swept w w') w"
proof (cases x)
  case (KmsCreate b)
  show ?thesis unfolding KmsCreate kms_run.simps kms_create_for_def wp_bind Let_def
    by (rule wp_mono [OF generate_key_wp])
      (auto simp: swept_def list_update_append nth_append split: sum.splits prod.splits
        intro!: wp_kms_store_key_heap)
next
  case (KmsProtect b)
  show ?thesis unfolding KmsProtect kms_run.simps kms_protect_for_def wp_bind Let_def
    by (rule wp_mono [OF generate_key_wp])
      (auto simp: swept_def list_update_append nth_append split: sum.splits prod.splits
        intro!: wp_kms_store_key_heap)
next
  case (KmsVerify b c)
  then show ?thesis
    by (auto simp: kms_verify_for_def swept_def list_update_append nth_append split: option.splits sum.splits
        intro!: wp_on_keys_heap wp_mono [OF decrypt_key_wp])
next
  case (KmsUnprotect p)
  then show ?thesis
    by (auto simp: kms_unprotect_for_def swept_def list_update_append nth_append split: option.splits sum.splits
        intro!: wp_on_keys_heap wp_mono [OF decrypt_key_wp])
qed (auto simp: kms_destroy_commitment_for_def kms_destroy_payload_for_def kms_destroy_def delete_checked_def
      swept_same intro!: wp_on_keys_heap)

lemma decrypt_key_result:
  assumes "kms_laws h"
    and "kms_generate_data_key h n (kms_key_id h) (encryption_context_of k ident purpose) 32 = Inr g"
    and "length (gd_plaintext g) = 32"
    and env: "kms_wrapped_key_new h ident purpose g = Inr env"
  shows "wp (decrypt_key h k env) (\<lambda>i w'. i < length (kw_heap w') \<and> kw_heap w' ! i = gd_plaintext g) (\<lambda>_ _. False) w"
proof -
  have "kms_decrypt_data_key h m (gd_resolved_key_id g) (gd_ciphertext g) (encryption_context_of k ident purpose)
      = Inr (gd_plaintext g)" for m
    using assms(1,2) by (auto simp: kms_laws_def)
  with env assms(3) show ?thesis
    by (auto simp: decrypt_key_def kms_wrapped_key_new_def nth_append encryption_context_of_def split: if_splits)
qed

lemma kms_store_key_stores:
  assumes "wrapped_keys (kms_envelopes h) entries"
  shows "wp (kms_store_key h k g ident purpose)
    (\<lambda>_ w'. \<exists>env. kms_wrapped_key_new h ident purpose g = Inr env \<and> entries (kw_keys w') k = Some env)
    (\<lambda>_ _. True) w"
  unfolding kms_store_key_def wp_bind wp_lift
  by (auto split: sum.splits intro!: wp_mono [OF wrapped_keys.reconciled_put_stores [OF assms]])

section \<open>Properties\<close>

text \<open>
  Protecting and reading back with a key management service that unwraps the data keys it
  generated under the same encryption context: the adapter returns exactly the payload it protected,
  at any later time at which the wrapped key is still stored.
\<close>

lemma kms_protect_roundtrip:
  assumes laws: "kms_laws h" and contract: "wrapped_keys (kms_envelopes h) entries"
    and run: "kms_protect_for h ident payload w = (Inr p, w1)"
    and kept: "entries (kw_keys w2) (pp_key_handle p) = entries (kw_keys w1) (pp_key_handle p)"
    and answers: "wk_get (kms_envelopes h) (pp_key_handle p) (kw_keys w2) = (Inr v, s2)"
  shows "fst (kms_unprotect_for h ident p w2) = Inr payload"
proof -
  from run obtain k i g wa where gk: "generate_key h ident PurposePayload w = (Inr (k, i, g), wa)"
    by (auto simp: kms_protect_for_def bind_def split: prod.splits sum.splits)
  from generate_key_wp [of h ident PurposePayload w] gk obtain n where
    g: "kms_generate_data_key h n (kms_key_id h) (encryption_context_of k ident PurposePayload) 32 = Inr g"
      "length (gd_plaintext g) = 32" and heap: "i < length (kw_heap wa)" "kw_heap wa ! i = gd_plaintext g"
    by (auto simp: wp_def)
  let ?ver = "kms_key_version h (gd_resolved_key_id g)" and ?nonce = "kms_token_bytes h (kw_count wa) 12"
  have "wp (kms_protect_for h ident payload)
    (\<lambda>p w1. \<exists>aad env. authenticated_metadata k ident PurposePayload (gd_resolved_key_id g) ?ver = Inr aad
       \<and> p = \<lparr>pp_codec = kms_codec, pp_key_handle = k, pp_key_version = ?ver,
           pp_ciphertext = b64encode (?nonce @ kms_encrypt h (gd_plaintext g) ?nonce payload aad)\<rparr>
       \<and> kms_wrapped_key_new h ident PurposePayload g = Inr env \<and> entries (kw_keys w1) k = Some env) (\<lambda>_ _. True) w"
    unfolding kms_protect_for_def wp_bind
    using heap
    by (simp add: wp_def [of "generate_key _ _ _"] gk Let_def split: sum.splits)
      (auto intro!: wp_mono [OF kms_store_key_stores [OF contract]])
  with run obtain aad env where
    aad: "authenticated_metadata k ident PurposePayload (gd_resolved_key_id g) ?ver = Inr aad"
    and p: "p = \<lparr>pp_codec = kms_codec, pp_key_handle = k, pp_key_version = ?ver,
           pp_ciphertext = b64encode (?nonce @ kms_encrypt h (gd_plaintext g) ?nonce payload aad)\<rparr>"
    and env: "kms_wrapped_key_new h ident PurposePayload g = Inr env" and stored: "entries (kw_keys w1) k = Some env"
    by (auto simp: wp_def)
  have v: "v = Some env"
    using wrapped_keys.get_value [OF contract answers] kept stored p by simp
  have env': "kms_matches env ident PurposePayload ?ver" "kk_key_id env = gd_resolved_key_id g" "kk_key_version env = ?ver"
    using env by (auto simp: kms_wrapped_key_new_def kms_matches_def split: if_splits)
  have dec: "kms_decrypt h k' n' (kms_encrypt h k' n' b a) a = Some b" "length ?nonce = 12"
    "length (kms_encrypt h k' n' b a) = length b + 16" for k' n' b a
    using laws by (simp_all add: kms_laws_def)
  have "wp (kms_unprotect_for h ident p) (\<lambda>a _. a = payload) (\<lambda>_ _. False) w2"
    using answers v aad dec
    by (auto simp: kms_unprotect_for_def p wp_on_keys wp_def [of "wk_get _ _"] env' b64decode_encode
        intro!: wp_mono [OF decrypt_key_result [OF laws g env]])
  then show ?thesis by (auto simp: wp_def split: prod.splits sum.splits)
qed

definition demo_kms_host :: "kms_entries kms_host" where
  "demo_kms_host =
     \<lparr>kms_key_id = ''alias/app'',
      kms_generate_data_key = (\<lambda>n kid ctx m. Inr \<lparr>gd_plaintext = replicate 32 (CHR ''k''), gd_ciphertext = ''w'',
                                 gd_resolved_key_id = ''arn''\<rparr>),
      kms_decrypt_data_key = (\<lambda>n kid c ctx. Inr (replicate 32 (CHR ''k''))),
      kms_envelopes = memory_kms_envelopes,
      kms_token_hex = (\<lambda>n. ''0''), kms_token_bytes = (\<lambda>n m. replicate m (CHR ''r'')),
      kms_encrypt = (\<lambda>k n p a. p @ replicate 16 (CHR ''#'')),
      kms_decrypt = (\<lambda>k n c a. Some (take (length c - 16) c)),
      kms_hmac = (\<lambda>k b. ''d''), kms_sha256 = (\<lambda>b. b), kms_valid_key_id = (\<lambda>s. True)\<rparr>"

definition demo_kms_world :: "kms_entries kek_world" where
  "demo_kms_world = \<lparr>kw_keys = (\<lambda>_. None), kw_count = 0, kw_heap = []\<rparr>"

lemma demo_kms_contract: "wrapped_keys (kms_envelopes demo_kms_host) (\<lambda>s. s)"
  using kms_mem.wrapped_keys_axioms by (simp add: demo_kms_host_def)

lemma demo_kms_laws: "kms_laws demo_kms_host"
  by (auto simp: kms_laws_def demo_kms_host_def)

definition demo_kms_identity :: proposal_identity where
  "demo_kms_identity = \<lparr>pi_tenant_reference = ''t'', pi_proposal_reference = ''p''\<rparr>"

text \<open>
  Key hygiene. Whatever the key management service and the store do, when an operation of the
  adapter returns or raises, every buffer of key material it received has been overwritten.
\<close>

lemma kms_keys_overwritten:
  "list_all is_blank (drop (length (kw_heap w)) (kw_heap (snd (kms_run h ident x w))))"
  using kms_run_swept [of h ident x w] by (auto simp: wp_def swept_def split: prod.splits sum.splits)

end
