(* ===== verification/Sqlite_Migrations.thy ===== *)
theory Sqlite_Migrations
  imports Sqlite_Store
begin

text \<open>
  \<open>migration_compatibility.py\<close> and \<open>sqlite_migrations.py\<close>: the recorded migration history, its check
  against the packaged migrations, the demand for stopped writers, and the application of what is
  pending in one transaction.

  The database is its migration history (absent before the first migration) and the rest of its
  content \<open>'d\<close>. Executing one SQL statement, \<open>sqlite3.complete_statement\<close>, SHA-256 and the text of the
  packaged files are arguments. \<open>datetime\<close> stamps of the history are left out: nothing reads them.
\<close>

section \<open>Compatibility metadata\<close>

datatype migration_phase = PhaseEXPAND | PhaseCONTRACT

record migration_compatibility =
  mc_version :: int
  mc_filename :: pystr
  mc_phase :: migration_phase
  mc_compatible_with_previous_runtime :: bool
  mc_requires_writer_quiescence :: bool

definition migrations_requiring_writer_quiescence ::
  "migration_compatibility list \<Rightarrow> int list \<Rightarrow> int list \<Rightarrow> migration_compatibility list" where
  "migrations_requiring_writer_quiescence compatibility applied_versions pending_versions =
     (if applied_versions = [] then []
      else filter (\<lambda>m. mc_version m \<in> set pending_versions \<and> mc_requires_writer_quiescence m) compatibility)"

definition sqlite_migration_compatibility :: "migration_compatibility list" where
  "sqlite_migration_compatibility =
     [\<lparr>mc_version = 1, mc_filename = ''001_action_runtime.sql'', mc_phase = PhaseEXPAND,
       mc_compatible_with_previous_runtime = True, mc_requires_writer_quiescence = False\<rparr>,
      \<lparr>mc_version = 2, mc_filename = ''002_operator_recovery.sql'', mc_phase = PhaseCONTRACT,
       mc_compatible_with_previous_runtime = False, mc_requires_writer_quiescence = True\<rparr>]"

section \<open>Packaged migrations and history\<close>

record sqlite_migration =
  sm_version :: int
  sm_filename :: pystr
  sm_sql :: pystr
  sm_checksum :: pystr

record 'd migration_env =
  me_read_text :: "pystr \<Rightarrow> pystr"
  me_sha256 :: "pystr \<Rightarrow> pystr"
  me_complete_statement :: "pystr \<Rightarrow> bool"
  me_execute :: "pystr \<Rightarrow> 'd \<Rightarrow> 'd outcome"

definition packaged_sqlite_migrations :: "'d migration_env \<Rightarrow> sqlite_migration list" where
  "packaged_sqlite_migrations env =
     map (\<lambda>c. \<lparr>sm_version = mc_version c, sm_filename = mc_filename c,
                sm_sql = me_read_text env (mc_filename c),
                sm_checksum = me_sha256 env (me_read_text env (mc_filename c))\<rparr>)
       sqlite_migration_compatibility"

record migration_row =
  mr_version :: int
  mr_filename :: "pystr sql_value"
  mr_checksum :: "pystr sql_value"

record sqlite_migration_status =
  ss_applied_versions :: "int list"
  ss_pending_versions :: "int list"

record 'd migrated_db =
  md_history :: "migration_row list option"
  md_content :: 'd

definition find_migration :: "sqlite_migration list \<Rightarrow> int \<Rightarrow> sqlite_migration option" where
  "find_migration migrations version = find (\<lambda>m. sm_version m = version) (List.rev migrations)"

fun check_history :: "sqlite_migration list \<Rightarrow> int \<Rightarrow> migration_row list \<Rightarrow> int list outcome" where
  "check_history migrations expected_version [] = Inr []"
| "check_history migrations expected_version (row # rows) =
     (if mr_filename row = SqlOther \<or> mr_checksum row = SqlOther
      then fails (MigrationStateError HistoryCorrupt)
      else if mr_version row \<noteq> expected_version then fails (MigrationStateError HistoryGap)
      else case find_migration migrations (mr_version row) of
          None \<Rightarrow> fails (MigrationStateError SchemaNewer)
        | Some known \<Rightarrow>
            if mr_filename row \<noteq> SqlText (sm_filename known) \<or> mr_checksum row \<noteq> SqlText (sm_checksum known)
            then fails (MigrationStateError ChecksumMismatch)
            else result_bind (check_history migrations (expected_version + 1) rows)
                   (\<lambda>applied. Inr (mr_version row # applied)))"

definition migration_status ::
  "migration_row list \<Rightarrow> sqlite_migration list \<Rightarrow> sqlite_migration_status outcome" where
  "migration_status rows migrations =
     result_bind (check_history migrations 1 rows) (\<lambda>applied.
     Inr \<lparr>ss_applied_versions = applied,
          ss_pending_versions = filter (\<lambda>v. v \<notin> set applied) (map sm_version migrations)\<rparr>)"

definition select_history :: "'d migrated_db \<Rightarrow> migration_row list" where
  "select_history db = (case md_history db of None \<Rightarrow> [] | Some rows \<Rightarrow> sort_key mr_version rows)"

definition inspect_sync :: "'d migration_env \<Rightarrow> 'd migrated_db option \<Rightarrow> sqlite_migration_status outcome" where
  "inspect_sync env file =
     (let migrations = packaged_sqlite_migrations env;
          fresh = \<lparr>ss_applied_versions = [], ss_pending_versions = map sm_version migrations\<rparr> in
      case file of
        None \<Rightarrow> Inr fresh
      | Some db \<Rightarrow>
          (case md_history db of
             None \<Rightarrow> Inr fresh
           | Some _ \<Rightarrow> migration_status (select_history db) migrations))"

section \<open>Splitting a migration into statements\<close>

definition line_ends :: "string list" where
  "line_ends =
     [[CHR 0x0D, CHR 0x0A], [CHR 0x0A], [CHR 0x0D], [CHR 0x0B], [CHR 0x0C], [CHR 0x1C], [CHR 0x1D],
      [CHR 0x1E], [CHR 0xC2, CHR 0x85], [CHR 0xE2, CHR 0x80, CHR 0xA8], [CHR 0xE2, CHR 0x80, CHR 0xA9]]"

fun splitlines_from :: "string \<Rightarrow> string \<Rightarrow> string list" where
  "splitlines_from acc [] = (if acc = [] then [] else [acc])"
| "splitlines_from acc (c # cs) =
     (case find (\<lambda>e. take (length e) (c # cs) = e) line_ends of
        None \<Rightarrow> splitlines_from (acc @ [c]) cs
      | Some e \<Rightarrow> (acc @ e) # splitlines_from [] (drop (length e - 1) cs))"

definition is_ascii_space :: "char \<Rightarrow> bool" where
  "is_ascii_space c \<longleftrightarrow> c \<in> {CHR 0x20, CHR 0x09, CHR 0x0A, CHR 0x0B, CHR 0x0C, CHR 0x0D,
     CHR 0x1C, CHR 0x1D, CHR 0x1E, CHR 0x1F}"

definition strip :: "string \<Rightarrow> string" where
  "strip s = List.rev (dropWhile is_ascii_space (List.rev (dropWhile is_ascii_space s)))"

fun split_from :: "(pystr \<Rightarrow> bool) \<Rightarrow> pystr \<Rightarrow> pystr list \<Rightarrow> pystr list outcome" where
  "split_from complete buffer [] =
     (if strip buffer \<noteq> [] then fails (MigrationStateError PackagedMigrationIncomplete) else Inr [])"
| "split_from complete buffer (line # lines) =
     (let buffer' = buffer @ line in
      if complete buffer'
      then result_bind (split_from complete [] lines)
             (\<lambda>rest. Inr (if strip buffer' \<noteq> [] then strip buffer' # rest else rest))
      else split_from complete buffer' lines)"

definition split_sql_statements :: "(pystr \<Rightarrow> bool) \<Rightarrow> pystr \<Rightarrow> pystr list outcome" where
  "split_sql_statements complete sql = split_from complete [] (splitlines_from [] sql)"

section \<open>Migrating\<close>

fun execute_all :: "('q \<Rightarrow> 'd \<Rightarrow> 'd outcome) \<Rightarrow> 'q list \<Rightarrow> 'd \<Rightarrow> 'd outcome" where
  "execute_all run [] d = Inr d"
| "execute_all run (q # qs) d = result_bind (run q d) (execute_all run qs)"

definition insert_migration :: "sqlite_migration \<Rightarrow> migration_row list \<Rightarrow> migration_row list outcome" where
  "insert_migration m rows =
     (if sm_version m \<in> set (map mr_version rows) \<or> length (sm_checksum m) \<noteq> 64 \<or> sm_version m \<le> 0
      then fails IntegrityError
      else Inr (rows @ [\<lparr>mr_version = sm_version m, mr_filename = SqlText (sm_filename m),
                         mr_checksum = SqlText (sm_checksum m)\<rparr>]))"

fun apply_migrations ::
  "'d migration_env \<Rightarrow> int list \<Rightarrow> sqlite_migration list \<Rightarrow> migration_row list \<times> 'd \<Rightarrow>
   (migration_row list \<times> 'd) outcome" where
  "apply_migrations env pending [] s = Inr s"
| "apply_migrations env pending (m # ms) (rows, d) =
     (if sm_version m \<notin> set pending then apply_migrations env pending ms (rows, d)
      else
        result_bind (split_sql_statements (me_complete_statement env) (sm_sql m)) (\<lambda>statements.
        result_bind (execute_all (me_execute env) statements d) (\<lambda>d'.
        result_bind (insert_migration m rows) (\<lambda>rows'.
        apply_migrations env pending ms (rows', d')))))"

definition migrate_sync ::
  "'d migration_env \<Rightarrow> bool \<Rightarrow> ('d migrated_db, sqlite_migration_status) eff" where
  "migrate_sync env writers_quiesced =
     transaction (\<lambda>db.
       let migrations = packaged_sqlite_migrations env;
           rows = (case md_history db of None \<Rightarrow> [] | Some rows \<Rightarrow> rows) in
       result_bind (migration_status (sort_key mr_version rows) migrations) (\<lambda>status.
       let required = migrations_requiring_writer_quiescence sqlite_migration_compatibility
             (ss_applied_versions status) (ss_pending_versions status) in
       if ss_applied_versions status \<noteq> [] \<and> required \<noteq> [] \<and> \<not> writers_quiesced
       then fails (MigrationStateError (WritersNotQuiesced (map mc_version required)))
       else
         result_bind (apply_migrations env (ss_pending_versions status) migrations (rows, md_content db))
           (\<lambda>(rows', d').
              Inr (Commit \<lparr>ss_applied_versions = map sm_version migrations, ss_pending_versions = []\<rparr>
                     \<lparr>md_history = Some rows', md_content = d'\<rparr>))))"

section \<open>Lemmas\<close>

definition recorded :: "sqlite_migration \<Rightarrow> migration_row" where
  "recorded m = \<lparr>mr_version = sm_version m, mr_filename = SqlText (sm_filename m),
     mr_checksum = SqlText (sm_checksum m)\<rparr>"

definition migration_one :: "'d migration_env \<Rightarrow> sqlite_migration" where
  "migration_one env = packaged_sqlite_migrations env ! 0"

definition migration_two :: "'d migration_env \<Rightarrow> sqlite_migration" where
  "migration_two env = packaged_sqlite_migrations env ! 1"

lemma packaged_two: "packaged_sqlite_migrations env = [migration_one env, migration_two env]"
  by (simp add: migration_one_def migration_two_def packaged_sqlite_migrations_def sqlite_migration_compatibility_def)

lemma packaged_versions [simp]: "sm_version (migration_one env) = 1" "sm_version (migration_two env) = 2"
  by (simp_all add: migration_one_def migration_two_def packaged_sqlite_migrations_def sqlite_migration_compatibility_def)

lemma packaged_version_list: "map sm_version (packaged_sqlite_migrations env) = [1, 2]"
  by (simp add: packaged_two)

lemma find_packaged:
  "find_migration [migration_one env, migration_two env] 1 = Some (migration_one env)"
  "find_migration [migration_one env, migration_two env] 2 = Some (migration_two env)"
  "v \<noteq> 1 \<Longrightarrow> v \<noteq> 2 \<Longrightarrow> find_migration [migration_one env, migration_two env] v = None"
  by (simp_all add: find_migration_def)

lemma recorded_eq:
  "row = recorded m \<longleftrightarrow> mr_version row = sm_version m \<and> mr_filename row = SqlText (sm_filename m)
     \<and> mr_checksum row = SqlText (sm_checksum m)"
  by (cases row) (auto simp: recorded_def)

lemma check_history_packaged:
  assumes "check_history (packaged_sqlite_migrations env) 1 rows = Inr applied"
  shows "(rows, applied) \<in> {([], []), ([recorded (migration_one env)], [1]),
     ([recorded (migration_one env), recorded (migration_two env)], [1, 2])}"
proof (cases rows)
  case Nil
  with assms show ?thesis by simp
next
  case (Cons a rest)
  show ?thesis
  proof (cases rest)
    case Nil
    with Cons assms show ?thesis by (auto simp: packaged_two find_packaged recorded_eq split: if_splits)
  next
    case (Cons b rest')
    show ?thesis
    proof (cases rest')
      case Nil
      with \<open>rows = a # rest\<close> \<open>rest = b # rest'\<close> assms show ?thesis
        by (auto simp: packaged_two find_packaged recorded_eq split: if_splits)
    next
      case (Cons c rest'')
      with \<open>rows = a # rest\<close> \<open>rest = b # rest'\<close> assms show ?thesis
        by (auto simp: packaged_two find_packaged result_bind_eq_Inr split: if_splits)
    qed
  qed
qed

lemma sort_key_short: "sort_key f xs = [] \<Longrightarrow> xs = []" "sort_key f xs = [x] \<Longrightarrow> xs = [x]"
  by (metis length_0_conv length_sort)
    (metis length_sort length_Suc_conv length_0_conv mset_sort mset_single_iff_right mset.simps)


lemma migration_status_packaged:
  assumes "migration_status rows (packaged_sqlite_migrations env) = Inr status"
  shows "rows = [] \<and> status = \<lparr>ss_applied_versions = [], ss_pending_versions = [1, 2]\<rparr>
    \<or> rows = [recorded (migration_one env)] \<and> status = \<lparr>ss_applied_versions = [1], ss_pending_versions = [2]\<rparr>
    \<or> rows = [recorded (migration_one env), recorded (migration_two env)]
      \<and> status = \<lparr>ss_applied_versions = [1, 2], ss_pending_versions = []\<rparr>"
  using assms check_history_packaged [of env rows]
  by (auto simp: migration_status_def result_bind_eq_Inr packaged_two)

lemma migration_status_complete:
  "migration_status [recorded (migration_one env), recorded (migration_two env)] (packaged_sqlite_migrations env)
     = Inr \<lparr>ss_applied_versions = [1, 2], ss_pending_versions = []\<rparr>"
  by (simp add: migration_status_def packaged_two find_packaged recorded_def)

lemma apply_migrations_pending:
  assumes "apply_migrations env pending [migration_one env, migration_two env] (rows, d) = Inr (rows', d')"
  shows "rows' = rows @ (if 1 \<in> set pending then [recorded (migration_one env)] else [])
     @ (if 2 \<in> set pending then [recorded (migration_two env)] else [])"
    and "1 \<notin> set pending \<Longrightarrow> 2 \<notin> set pending \<Longrightarrow> d' = d"
  using assms by (auto simp: result_bind_eq_Inr insert_migration_def recorded_def split: if_splits)

lemma migrate_result:
  assumes "migrate_sync env quiesced db = (Inr status, db')"
  shows "status = \<lparr>ss_applied_versions = [1, 2], ss_pending_versions = []\<rparr>"
    and "\<exists>rows. md_history db' = Some rows
      \<and> sort_key mr_version rows = [recorded (migration_one env), recorded (migration_two env)]"
proof -
  let ?rows = "case md_history db of None \<Rightarrow> [] | Some rows \<Rightarrow> rows"
  from assms obtain st rows' d' where st: "migration_status (sort_key mr_version ?rows) (packaged_sqlite_migrations env) = Inr st"
    and ap: "apply_migrations env (ss_pending_versions st) (packaged_sqlite_migrations env) (?rows, md_content db) = Inr (rows', d')"
    and res: "status = \<lparr>ss_applied_versions = [1, 2], ss_pending_versions = []\<rparr>" "md_history db' = Some rows'"
    by (auto simp: migrate_sync_def transaction_eq result_bind_eq_Inr Let_def packaged_version_list split: if_splits)
  show "status = \<lparr>ss_applied_versions = [1, 2], ss_pending_versions = []\<rparr>" by (rule res)
  note rows' = apply_migrations_pending(1) [OF ap [unfolded packaged_two]]
  have "sort_key mr_version rows' = [recorded (migration_one env), recorded (migration_two env)]"
    using migration_status_packaged [OF st]
  proof (elim disjE conjE)
    assume "sort_key mr_version ?rows = []" "st = \<lparr>ss_applied_versions = [], ss_pending_versions = [1, 2]\<rparr>"
    with rows' sort_key_short(1) [of mr_version ?rows] show ?thesis by (simp add: recorded_def)
  next
    assume "sort_key mr_version ?rows = [recorded (migration_one env)]"
      "st = \<lparr>ss_applied_versions = [1], ss_pending_versions = [2]\<rparr>"
    with rows' sort_key_short(2) [of mr_version ?rows] show ?thesis by (simp add: recorded_def)
  qed (use rows' in simp)
  with res(2) show "\<exists>rows. md_history db' = Some rows
      \<and> sort_key mr_version rows = [recorded (migration_one env), recorded (migration_two env)]" by blast
qed

section \<open>Properties\<close>

text \<open>
  C25: a successful migration brings the database to the current schema and is then finished: inspection
  reports both packaged versions applied and none pending, and migrating again, with or without
  stopped writers, succeeds with the same status, executes no statement and changes nothing.
\<close>

theorem migrate_reaches_current:
  assumes "migrate_sync env quiesced db = (Inr status, db')"
  shows "inspect_sync env (Some db') = Inr status \<and> ss_pending_versions status = []
    \<and> migrate_sync env quiesced' db' = (Inr status, db')"
proof -
  from migrate_result [OF assms] obtain rows where
    st: "status = \<lparr>ss_applied_versions = [1, 2], ss_pending_versions = []\<rparr>" and
    rows: "md_history db' = Some rows" "sort_key mr_version rows = [recorded (migration_one env), recorded (migration_two env)]"
    by blast
  have "inspect_sync env (Some db') = Inr status"
    using rows st by (simp add: inspect_sync_def Let_def select_history_def migration_status_complete)
  moreover have "migrate_sync env quiesced' db' = (Inr status, db')"
    using rows st
    by (cases db') (simp add: migrate_sync_def transaction_eq Let_def
        migration_status_complete [unfolded packaged_two] migrations_requiring_writer_quiescence_def packaged_two)
  ultimately show ?thesis using st by simp
qed

definition demo_migration_env :: "nat migration_env" where
  "demo_migration_env =
     \<lparr>me_read_text = (\<lambda>f. f @ [CHR 0x3B, CHR 0x0A]), me_sha256 = (\<lambda>t. replicate 64 (CHR ''a'')),
      me_complete_statement = (\<lambda>s. CHR 0x3B \<in> set s), me_execute = (\<lambda>q n. Inr (n + 1))\<rparr>"

theorem migrate_reaches_current_witness:
  "\<exists>db'. migrate_sync demo_migration_env False \<lparr>md_history = None, md_content = 0\<rparr>
      = (Inr \<lparr>ss_applied_versions = [1, 2], ss_pending_versions = []\<rparr>, db')
     \<and> migrate_sync demo_migration_env False db' = (Inr \<lparr>ss_applied_versions = [1, 2], ss_pending_versions = []\<rparr>, db')"
proof -
  have "fst (migrate_sync demo_migration_env False \<lparr>md_history = None, md_content = 0\<rparr>)
      = Inr \<lparr>ss_applied_versions = [1, 2], ss_pending_versions = []\<rparr>" by code_simp
  then obtain db' where run: "migrate_sync demo_migration_env False \<lparr>md_history = None, md_content = 0\<rparr>
      = (Inr \<lparr>ss_applied_versions = [1, 2], ss_pending_versions = []\<rparr>, db')" by (metis prod.collapse)
  with migrate_reaches_current [OF run] show ?thesis by blast
qed

end
