(* ===== verification/Attribution.thy ===== *)
theory Attribution
  imports Canonical
begin

text \<open>
  \<open>attribution.py\<close>: the runtime revision that every receipt carries. It is the version of an installed
  release, or the source commit with a digest of the package tree; anything else is refused.

  Package metadata, the file system, \<open>json.loads\<close> and SHA-256 are arguments (\<open>attribution_env\<close>); a path
  is the list of its parts, and \<open>None\<close> from a read is an \<open>OSError\<close>.
\<close>

section \<open>Revision formats\<close>

definition is_lower_hex :: "char \<Rightarrow> bool" where
  "is_lower_hex c \<longleftrightarrow> CHR ''0'' \<le> c \<and> c \<le> CHR ''9'' \<or> CHR ''a'' \<le> c \<and> c \<le> CHR ''f''"

definition is_alnum :: "char \<Rightarrow> bool" where
  "is_alnum c \<longleftrightarrow> CHR ''0'' \<le> c \<and> c \<le> CHR ''9'' \<or> CHR ''A'' \<le> c \<and> c \<le> CHR ''Z''
     \<or> CHR ''a'' \<le> c \<and> c \<le> CHR ''z''"

definition is_version_char :: "char \<Rightarrow> bool" where
  "is_version_char c \<longleftrightarrow> is_alnum c \<or> c \<in> set ''.!+_-''"

definition hex_of_length :: "nat \<Rightarrow> pystr \<Rightarrow> bool" where
  "hex_of_length n s \<longleftrightarrow> length s = n \<and> list_all is_lower_hex s"

definition strip_prefix :: "string \<Rightarrow> string \<Rightarrow> string option" where
  "strip_prefix p s = (if take (length p) s = p then Some (drop (length p) s) else None)"

definition release_version :: "pystr \<Rightarrow> bool" where
  "release_version v \<longleftrightarrow> v \<noteq> ''0.0.0'' \<and> v \<noteq> [] \<and> is_alnum (hd v) \<and> list_all is_version_char (tl v)"

definition release_revision :: "pystr \<Rightarrow> bool" where
  "release_revision s =
     (case strip_prefix ''threvo-actions/'' s of None \<Rightarrow> False | Some v \<Rightarrow> release_version v)"

definition source_revision :: "pystr \<Rightarrow> bool" where
  "source_revision s =
     (case strip_prefix ''threvo-actions/commit:'' s of
        None \<Rightarrow> False
      | Some c \<Rightarrow>
          hex_of_length 40 c
          \<or> hex_of_length 40 (take 40 c)
            \<and> (case strip_prefix ''+tree:'' (drop 40 c) of None \<Rightarrow> False | Some t \<Rightarrow> hex_of_length 64 t))"

definition validate_runtime_revision :: "pystr \<Rightarrow> pystr outcome" where
  "validate_runtime_revision value =
     (if \<not> release_revision value \<and> \<not> source_revision value then fails RuntimeAttributionError
      else Inr value)"

section \<open>The installed distribution\<close>

type_synonym path = "pystr list"

record attribution_env =
  ae_version :: "pystr option"
  ae_direct_url :: "pystr option"
  ae_json_loads :: "pystr \<Rightarrow> json option"
  ae_is_dir :: "path \<Rightarrow> bool"
  ae_is_file :: "path \<Rightarrow> bool"
  ae_read_text :: "path \<Rightarrow> pystr option"
  ae_resolve :: "path \<Rightarrow> pystr \<Rightarrow> path"
  ae_lower :: "pystr \<Rightarrow> pystr"
  ae_strip :: "pystr \<Rightarrow> pystr"
  ae_splitlines :: "pystr \<Rightarrow> pystr list"
  ae_rglob :: "path \<Rightarrow> path list"
  ae_read_bytes :: "path \<Rightarrow> bytes"
  ae_sha256 :: "bytes \<Rightarrow> pystr"

definition installed_distribution_is_editable :: "attribution_env \<Rightarrow> bool outcome" where
  "installed_distribution_is_editable env =
     (if ae_version env = None then Inr False
      else case ae_direct_url env of
          None \<Rightarrow> Inr False
        | Some direct_url \<Rightarrow>
            (case ae_json_loads env direct_url of
               None \<Rightarrow> Inr False
             | Some (JObj members) \<Rightarrow>
                 (case map_of members ''dir_info'' of
                    Some (JObj directory) \<Rightarrow> Inr (map_of directory ''editable'' = Some (JBool True))
                  | _ \<Rightarrow> Inr False)
             | Some _ \<Rightarrow> fails (HostError ''AttributeError'')))"

section \<open>The source commit\<close>

fun find_git_from :: "attribution_env \<Rightarrow> path list \<Rightarrow> path option" where
  "find_git_from env [] = None"
| "find_git_from env (candidate # rest) =
     (let marker = candidate @ [''.git''] in
      if ae_is_dir env marker then Some marker
      else if \<not> ae_is_file env marker then find_git_from env rest
      else case ae_read_text env marker of
          None \<Rightarrow> None
        | Some text \<Rightarrow>
            (case strip_prefix ''gitdir: '' (ae_strip env text) of
               None \<Rightarrow> None
             | Some target \<Rightarrow> Some (ae_resolve env candidate target)))"

definition parents :: "path \<Rightarrow> path list" where
  "parents p = map (\<lambda>n. take n p) (rev [0..<length p])"

definition find_git_directory :: "attribution_env \<Rightarrow> path \<Rightarrow> path option" where
  "find_git_directory env package_root = find_git_from env (package_root # parents package_root)"

definition ends_with :: "string \<Rightarrow> string \<Rightarrow> bool" where
  "ends_with suffix s \<longleftrightarrow> length suffix \<le> length s \<and> drop (length s - length suffix) s = suffix"

fun packed_reference :: "pystr \<Rightarrow> pystr list \<Rightarrow> pystr option" where
  "packed_reference suffix [] = None"
| "packed_reference suffix (line # lines) =
     (if ends_with suffix line then Some (takeWhile (\<lambda>c. c \<noteq> CHR '' '') line)
      else packed_reference suffix lines)"

fun reference_from :: "attribution_env \<Rightarrow> pystr \<Rightarrow> path list \<Rightarrow> pystr option" where
  "reference_from env reference [] = None"
| "reference_from env reference (root # roots) =
     (case ae_read_text env (ae_resolve env root reference) of
        Some text \<Rightarrow> Some (ae_strip env text)
      | None \<Rightarrow>
          (case ae_read_text env (root @ [''packed-refs'']) of
             None \<Rightarrow> reference_from env reference roots
           | Some packed \<Rightarrow>
               (case packed_reference (CHR '' '' # reference) (ae_splitlines env packed) of
                  Some commit \<Rightarrow> Some commit
                | None \<Rightarrow> reference_from env reference roots)))"

definition read_git_reference :: "attribution_env \<Rightarrow> path \<Rightarrow> pystr \<Rightarrow> pystr option" where
  "read_git_reference env git_dir reference =
     (let common = (case ae_read_text env (git_dir @ [''commondir'']) of
                      None \<Rightarrow> [] | Some text \<Rightarrow> ae_strip env text) in
      reference_from env reference
        (git_dir # (if common = [] then [] else [ae_resolve env git_dir common])))"

definition source_commit :: "attribution_env \<Rightarrow> path \<Rightarrow> pystr option" where
  "source_commit env package_root =
     (case find_git_directory env package_root of
        None \<Rightarrow> None
      | Some git_dir \<Rightarrow>
          (case ae_read_text env (git_dir @ [''HEAD'']) of
             None \<Rightarrow> None
           | Some text \<Rightarrow>
               (let head = ae_strip env text;
                    commit = (case strip_prefix ''ref: '' head of
                                Some reference \<Rightarrow> read_git_reference env git_dir reference
                              | None \<Rightarrow> Some head);
                    normalized = (case commit of None \<Rightarrow> [] | Some c \<Rightarrow> ae_lower env c) in
                if hex_of_length 40 normalized then Some normalized else None)))"

section \<open>The package tree\<close>

definition suffix_of :: "pystr \<Rightarrow> pystr" where
  "suffix_of name =
     (let tail = takeWhile (\<lambda>c. c \<noteq> CHR ''.'') (rev name) in
      if length tail = length name \<or> tail = [] \<or> length tail + 1 = length name then []
      else CHR ''.'' # rev tail)"

definition tree_files :: "attribution_env \<Rightarrow> path \<Rightarrow> path list" where
  "tree_files env package_root =
     sort (filter (\<lambda>p. ae_is_file env p \<and> ''__pycache__'' \<notin> set p
                       \<and> suffix_of (last p) \<notin> {''.pyc'', ''.pyo''}) (ae_rglob env package_root))"

fun join_path :: "pystr list \<Rightarrow> pystr" where
  "join_path [] = ''.''"
| "join_path [p] = p"
| "join_path (p # q # ps) = p @ CHR 0x2F # join_path (q # ps)"

fun tree_bytes :: "(pystr \<times> bytes) list \<Rightarrow> bytes outcome" where
  "tree_bytes [] = Inr []"
| "tree_bytes ((relative, payload) # rest) =
     result_bind (to_bytes_big 8 (length relative)) (\<lambda>m.
     result_bind (to_bytes_big 8 (length payload)) (\<lambda>n.
     result_bind (tree_bytes rest) (\<lambda>bs.
     Inr (m @ relative @ n @ payload @ bs))))"

definition tree_entries :: "attribution_env \<Rightarrow> path \<Rightarrow> (pystr \<times> bytes) list" where
  "tree_entries env package_root =
     map (\<lambda>p. (join_path (drop (length package_root) p), ae_read_bytes env p)) (tree_files env package_root)"

definition package_tree_digest :: "attribution_env \<Rightarrow> path \<Rightarrow> pystr outcome" where
  "package_tree_digest env package_root =
     result_bind (tree_bytes (tree_entries env package_root)) (\<lambda>bs. Inr (ae_sha256 env bs))"

section \<open>Resolving the revision\<close>

definition resolve_runtime_revision :: "attribution_env \<Rightarrow> path \<Rightarrow> pystr outcome" where
  "resolve_runtime_revision env package_root =
     result_bind
       (case ae_version env of
          None \<Rightarrow> Inr None
        | Some version \<Rightarrow>
            if version \<in> {''0.0.0'', ''0+unknown''} then Inr None
            else result_bind (installed_distribution_is_editable env)
                   (\<lambda>editable. Inr (if editable then None else Some version)))
       (\<lambda>released.
     case released of
       Some version \<Rightarrow> validate_runtime_revision (''threvo-actions/'' @ version)
     | None \<Rightarrow>
         (case source_commit env package_root of
            None \<Rightarrow> fails RuntimeAttributionError
          | Some commit \<Rightarrow>
              result_bind (package_tree_digest env package_root) (\<lambda>tree_digest.
              validate_runtime_revision
                (''threvo-actions/commit:'' @ commit @ ''+tree:'' @ tree_digest))))"

section \<open>Lemmas\<close>

lemma tree_bytes_inj:
  assumes "tree_bytes xs = Inr b" and "tree_bytes ys = Inr b"
  shows "xs = ys"
  using assms
proof (induction xs arbitrary: ys b)
  case Nil
  then show ?case
    by (cases ys) (auto simp: result_bind_eq_Inr to_bytes_big_Inr simp flip: length_0_conv)
next
  case (Cons x xs)
  obtain r p where x: "x = (r, p)" by force
  from Cons.prems(1) x obtain c where c: "length r < 256 ^ 8" "length p < 256 ^ 8" "tree_bytes xs = Inr c"
    "b = be_bytes 8 (length r) @ r @ be_bytes 8 (length p) @ p @ c"
    by (auto simp: result_bind_eq_Inr to_bytes_big_Inr)
  then have "b \<noteq> []" by (auto dest: arg_cong [of _ _ length])
  then obtain r' p' ys' where ys: "ys = (r', p') # ys'" using Cons.prems(2) by (cases ys) auto
  from Cons.prems(2) ys obtain c' where c': "length r' < 256 ^ 8" "length p' < 256 ^ 8" "tree_bytes ys' = Inr c'"
    "b = be_bytes 8 (length r') @ r' @ be_bytes 8 (length p') @ p' @ c'"
    by (auto simp: result_bind_eq_Inr to_bytes_big_Inr)
  from c(4) c'(4) have 1: "be_bytes 8 (length r) = be_bytes 8 (length r')"
    "r @ be_bytes 8 (length p) @ p @ c = r' @ be_bytes 8 (length p') @ p' @ c'"
    by (simp_all add: append_eq_append_conv)
  have "length r = length r'" by (rule be_bytes_inj [OF c(1) c'(1) 1(1)])
  with 1(2) have r: "r = r'" "be_bytes 8 (length p) @ p @ c = be_bytes 8 (length p') @ p' @ c'" by simp_all
  then have 2: "be_bytes 8 (length p) = be_bytes 8 (length p')" "p @ c = p' @ c'"
    by (simp_all add: append_eq_append_conv)
  have "length p = length p'" by (rule be_bytes_inj [OF c(2) c'(2) 2(1)])
  with 2(2) have "p = p'" "c = c'" by simp_all
  with Cons.IH [OF c(3), of ys'] c'(3) r(1) x ys show ?case by simp
qed

lemma source_commit_hex: "source_commit env root = Some c \<Longrightarrow> length c = 40"
  by (auto simp: source_commit_def Let_def hex_of_length_def split: option.splits if_splits)

lemma strip_prefix_append [simp]: "strip_prefix p (p @ s) = Some s"
  by (simp add: strip_prefix_def)

lemma strip_prefix_Some: "strip_prefix p s = Some t \<longleftrightarrow> s = p @ t"
  by (auto simp: strip_prefix_def) (metis append_take_drop_id)

text \<open>A version of package metadata has no colon (PEP 440).\<close>

definition pep440_version :: "attribution_env \<Rightarrow> bool" where
  "pep440_version env \<longleftrightarrow> (case ae_version env of None \<Rightarrow> True | Some v \<Rightarrow> CHR '':'' \<notin> set v)"

lemma validate_Inr: "validate_runtime_revision v = Inr r \<Longrightarrow> r = v"
  by (auto simp: validate_runtime_revision_def split: if_splits)

lemma resolve_source:
  assumes res: "resolve_runtime_revision env root = Inr r" and src: "source_revision r" and pep: "pep440_version env"
  obtains c d where "source_commit env root = Some c" "package_tree_digest env root = Inr d"
    "r = ''threvo-actions/commit:'' @ c @ ''+tree:'' @ d"
proof -
  from res obtain released where rel:
    "(case ae_version env of
          None \<Rightarrow> Inr None
        | Some version \<Rightarrow>
            if version \<in> {''0.0.0'', ''0+unknown''} then Inr None
            else result_bind (installed_distribution_is_editable env)
                   (\<lambda>editable. Inr (if editable then None else Some version))) = Inr released" (is "?rel = _")
    and rest: "(case released of
       Some version \<Rightarrow> validate_runtime_revision (''threvo-actions/'' @ version)
     | None \<Rightarrow>
         (case source_commit env root of
            None \<Rightarrow> fails RuntimeAttributionError
          | Some commit \<Rightarrow>
              result_bind (package_tree_digest env root) (\<lambda>tree_digest.
              validate_runtime_revision
                (''threvo-actions/commit:'' @ commit @ ''+tree:'' @ tree_digest)))) = Inr r"
    unfolding resolve_runtime_revision_def result_bind_eq_Inr by blast
  show thesis
  proof (cases released)
    case None
    with rest that show thesis
      by (auto simp only: option.case result_bind_eq_Inr fails_neq_Inr split: option.splits dest!: validate_Inr)
  next
    case (Some v)
    with rel have "ae_version env = Some v"
      by (cases "ae_version env") (auto simp only: option.case result_bind_eq_Inr split: if_splits)
    then have colon: "CHR '':'' \<notin> set v" using pep by (simp add: pep440_version_def)
    have r: "r = ''threvo-actions/'' @ v" using rest Some by (auto dest: validate_Inr)
    from src obtain c where "r = ''threvo-actions/commit:'' @ c"
      by (auto simp only: source_revision_def strip_prefix_Some split: option.splits)
    with r have "v = ''commit:'' @ c" by simp
    with colon show thesis by simp
  qed
qed

section \<open>Properties\<close>

text \<open>
  A source revision identifies the code. If two checkouts resolve to the same commit revision and
  SHA-256 has no collision on their two package trees, they are at the same commit and have the
  same files with the same contents.
\<close>

lemma same_source_revision_same_tree:
  assumes res: "resolve_runtime_revision env root = Inr r" "resolve_runtime_revision env' root' = Inr r"
    and src: "source_revision r" and pep: "pep440_version env" "pep440_version env'"
    and coll: "\<And>x y. tree_bytes (tree_entries env root) = Inr x \<Longrightarrow> tree_bytes (tree_entries env' root') = Inr y \<Longrightarrow>
       ae_sha256 env x = ae_sha256 env' y \<Longrightarrow> x = y"
  shows "source_commit env root = source_commit env' root' \<and> tree_entries env root = tree_entries env' root'"
proof -
  obtain c d where 1: "source_commit env root = Some c" "package_tree_digest env root = Inr d"
    "r = ''threvo-actions/commit:'' @ c @ ''+tree:'' @ d"
    by (rule resolve_source [OF res(1) src pep(1)])
  obtain c' d' where 2: "source_commit env' root' = Some c'" "package_tree_digest env' root' = Inr d'"
    "r = ''threvo-actions/commit:'' @ c' @ ''+tree:'' @ d'"
    by (rule resolve_source [OF res(2) src pep(2)])
  have len: "length c = length c'" using source_commit_hex [OF 1(1)] source_commit_hex [OF 2(1)] by simp
  have eq: "c @ ''+tree:'' @ d = c' @ ''+tree:'' @ d'"
    using 1(3) 2(3) by (metis same_append_eq)
  then have same: "c = c'" "d = d'"
    using len by (metis append_eq_append_conv same_append_eq)+
  from 1(2) obtain x where x: "tree_bytes (tree_entries env root) = Inr x" "d = ae_sha256 env x"
    by (auto simp: package_tree_digest_def result_bind_eq_Inr)
  from 2(2) obtain y where y: "tree_bytes (tree_entries env' root') = Inr y" "d' = ae_sha256 env' y"
    by (auto simp: package_tree_digest_def result_bind_eq_Inr)
  have "x = y" using coll [OF x(1) y(1)] x(2) y(2) same(2) by simp
  then have "tree_entries env root = tree_entries env' root'" using tree_bytes_inj x(1) y(1) by blast
  with 1(1) 2(1) same(1) show ?thesis by simp
qed

definition demo_attribution :: attribution_env where
  "demo_attribution =
     \<lparr>ae_version = None, ae_direct_url = None, ae_json_loads = (\<lambda>s. None),
      ae_is_dir = (\<lambda>p. p = [''repo'', ''.git'']), ae_is_file = (\<lambda>p. p = [''repo'', ''a.py'']),
      ae_read_text = (\<lambda>p. if p = [''repo'', ''.git'', ''HEAD''] then Some (replicate 40 (CHR ''a'')) else None),
      ae_resolve = (\<lambda>p s. p @ [s]), ae_lower = (\<lambda>s. s), ae_strip = (\<lambda>s. s), ae_splitlines = (\<lambda>s. [s]),
      ae_rglob = (\<lambda>p. [[''repo'', ''a.py''], [''repo'', ''a.pyc'']]), ae_read_bytes = (\<lambda>p. ''x''),
      ae_sha256 = (\<lambda>b. replicate 64 (CHR ''b''))\<rparr>"

end
