(* ===== verification/Call_Traces.thy ===== *)
theory Call_Traces
  imports Store_Base
begin

text \<open>
  The world of the Stripe workflows (\<open>integrations/stripe\<close>): the number of interactions so far and the
  list of calls made with their answers. Gateways, repositories, authorization and clock are host
  code; every call is answered by a port that may answer differently at each interaction, and may
  raise. The answers are thus arbitrary, and what ties the answers of a repository together is
  stated separately, over the calls of all workers in the order in which the repository served them.

  \<open>does m P\<close> says that every run of \<open>m\<close> only appends calls, and that its outcome and the calls
  satisfy \<open>P\<close>. Its rules work backwards through a program, collecting the calls.
\<close>

section \<open>Calls\<close>

record 'c call_world =
  cw_count :: nat
  cw_trace :: "'c list"

definition called :: "('a outcome \<Rightarrow> 'c) \<Rightarrow> (nat \<Rightarrow> 'a outcome) \<Rightarrow> ('c call_world, 'a) eff" where
  "called entry port w =
     (let r = port (cw_count w) in
      (r, \<lparr>cw_count = Suc (cw_count w), cw_trace = cw_trace w @ [entry r]\<rparr>))"

definition calls_of :: "('c call_world, 'a) eff \<Rightarrow> nat \<Rightarrow> 'c list" where
  "calls_of m n = cw_trace (snd (m \<lparr>cw_count = n, cw_trace = []\<rparr>))"

definition outcome_of :: "('c call_world, 'a) eff \<Rightarrow> nat \<Rightarrow> 'a outcome" where
  "outcome_of m n = fst (m \<lparr>cw_count = n, cw_trace = []\<rparr>)"

definition does :: "('c call_world, 'a) eff \<Rightarrow> ('a outcome \<Rightarrow> 'c list \<Rightarrow> bool) \<Rightarrow> bool" where
  "does m P \<longleftrightarrow> (\<forall>w. \<exists>tr. cw_trace (snd (m w)) = cw_trace w @ tr \<and> P (fst (m w)) tr)"

named_theorems does_intros \<open>backward rules for does\<close>

lemma does_run: "does m P \<Longrightarrow> P (outcome_of m n) (calls_of m n)"
  unfolding does_def outcome_of_def calls_of_def
  by (metis append_Nil call_world.select_convs(2))

lemma doesD: "does m P \<Longrightarrow> m w = (r, w') \<Longrightarrow> \<exists>tr. cw_trace w' = cw_trace w @ tr \<and> P r tr"
  unfolding does_def by (metis fst_conv snd_conv)

lemma does_mono: "does m P \<Longrightarrow> (\<And>r tr. P r tr \<Longrightarrow> Q r tr) \<Longrightarrow> does m Q"
  unfolding does_def by blast

lemma does_return [does_intros]: "P (Inr a) [] \<Longrightarrow> does (return a) P"
  by (simp add: does_def return_def)

lemma does_throw [does_intros]: "P (Inl r) [] \<Longrightarrow> does (throw r) P"
  by (simp add: does_def throw_def)

lemma does_raise [does_intros]: "P (Inl (Raised e [])) [] \<Longrightarrow> does (raise e) P"
  unfolding raise_def by (rule does_throw)

lemma does_lift [does_intros]: "P q [] \<Longrightarrow> does (lift q) P"
  by (simp add: does_def lift_def)

lemma does_called [does_intros]: "(\<And>r. P r [entry r]) \<Longrightarrow> does (called entry port) P"
  by (simp add: does_def called_def Let_def)

lemma does_bind:
  assumes "does m (\<lambda>r t. case r of Inl e \<Rightarrow> P (Inl e) t | Inr a \<Rightarrow> does (f a) (\<lambda>q u. P q (t @ u)))"
  shows "does (bind m f) P"
  unfolding does_def
proof
  fix w
  obtain r w1 where m: "m w = (r, w1)" by force
  obtain t where t: "cw_trace w1 = cw_trace w @ t"
    and p: "case r of Inl e \<Rightarrow> P (Inl e) t | Inr a \<Rightarrow> does (f a) (\<lambda>q u. P q (t @ u))"
    using doesD [OF assms m] by blast
  show "\<exists>tr. cw_trace (snd (bind m f w)) = cw_trace w @ tr \<and> P (fst (bind m f w)) tr"
  proof (cases r)
    case (Inl e)
    then show ?thesis using t p m by (simp add: bind_def)
  next
    case (Inr a)
    then have "does (f a) (\<lambda>q u. P q (t @ u))" using p by simp
    then obtain u where "cw_trace (snd (f a w1)) = cw_trace w1 @ u" "P (fst (f a w1)) (t @ u)"
      unfolding does_def by blast
    then show ?thesis using t m Inr by (simp add: bind_def)
  qed
qed

lemma does_bind_called [does_intros]:
  assumes "\<And>e. P (Inl e) [entry (Inl e)]"
    and "\<And>a. does (f a) (\<lambda>q u. P q (entry (Inr a) # u))"
  shows "does (bind (called entry port) f) P"
  by (rule does_bind, rule does_called) (simp add: assms split: sum.splits)

lemma does_bind_lift [does_intros]:
  assumes "\<And>e. q = Inl e \<Longrightarrow> P (Inl e) []" and "\<And>a. q = Inr a \<Longrightarrow> does (f a) P"
  shows "does (bind (lift q) f) P"
  by (rule does_bind, rule does_lift) (simp add: assms split: sum.splits)

lemma does_attempt [does_intros]:
  assumes "does m (\<lambda>r. P (Inr r))"
  shows "does (attempt m) P"
  using assms unfolding does_def attempt_def by (simp split: prod.splits) (metis fst_conv snd_conv)

lemma does_bind_attempt [does_intros]:
  assumes "does m (\<lambda>r t. does (f r) (\<lambda>q u. P q (t @ u)))"
  shows "does (bind (attempt m) f) P"
  by (rule does_bind, rule does_attempt) (simp add: assms)

lemma does_if [does_intros]:
  "(b \<Longrightarrow> does m P) \<Longrightarrow> (\<not> b \<Longrightarrow> does n P) \<Longrightarrow> does (if b then m else n) P"
  by simp

lemma does_case_option [does_intros]:
  "(x = None \<Longrightarrow> does m P) \<Longrightarrow> (\<And>a. x = Some a \<Longrightarrow> does (f a) P) \<Longrightarrow>
   does (case x of None \<Rightarrow> m | Some a \<Rightarrow> f a) P"
  by (simp split: option.splits)

lemma does_case_sum [does_intros]:
  "(\<And>a. x = Inl a \<Longrightarrow> does (f a) P) \<Longrightarrow> (\<And>b. x = Inr b \<Longrightarrow> does (g b) P) \<Longrightarrow>
   does (case x of Inl a \<Rightarrow> f a | Inr b \<Rightarrow> g b) P"
  by (simp split: sum.splits)

section \<open>Results\<close>

text \<open>
  \<open>ExecutionResult[ResultT]\<close> and \<open>VerificationResult[ResultT]\<close> as the Stripe workflows build them: no item
  outcomes, and neither a settling boundary nor an idempotency guarantee is claimed.
\<close>

record 'r stripe_execution =
  se_status :: execution_status
  se_result :: "'r option"
  se_external_reference :: "external_reference option"
  se_reason_code :: "pystr option"

record 'r stripe_verification =
  sv_status :: verification_status
  sv_result :: "'r option"
  sv_external_reference :: "external_reference option"
  sv_reason_code :: "pystr option"

definition not_executed :: "execution_status \<Rightarrow> pystr \<Rightarrow> 'r stripe_execution" where
  "not_executed st rc =
     \<lparr>se_status = st, se_result = None, se_external_reference = None, se_reason_code = Some rc\<rparr>"

definition not_verified :: "verification_status \<Rightarrow> pystr \<Rightarrow> 'r stripe_verification" where
  "not_verified st rc =
     \<lparr>sv_status = st, sv_result = None, sv_external_reference = None, sv_reason_code = Some rc\<rparr>"

definition stripe_reference :: "pystr \<Rightarrow> external_reference" where
  "stripe_reference c = \<lparr>xr_system = ''stripe'', xr_reference = c\<rparr>"

definition execution_result_of :: "('r \<Rightarrow> host_model) \<Rightarrow> 'r stripe_execution \<Rightarrow> execution_result" where
  "execution_result_of dump x =
     \<lparr>er_status = se_status x, er_result = map_option dump (se_result x), er_item_outcomes = [],
      er_external_reference = se_external_reference x, er_reason_code = se_reason_code x\<rparr>"

definition verification_result_of :: "('r \<Rightarrow> host_model) \<Rightarrow> 'r stripe_verification \<Rightarrow> verification_result" where
  "verification_result_of dump x =
     \<lparr>vr_status = sv_status x, vr_result = map_option dump (sv_result x), vr_item_outcomes = [],
      vr_external_reference = sv_external_reference x, vr_reason_code = sv_reason_code x,
      vr_settling_boundary_passed = False, vr_target_idempotency_guaranteed = False\<rparr>"

text \<open>The reservation answers of a repository (\<open>StripeReservationStatus\<close>, \<open>RefundReservationStatus\<close>).\<close>

datatype reservation_status = ResACQUIRED | ResALREADY_SUBMITTED | ResUNAVAILABLE | ResSTALE

fun reservation_value :: "reservation_status \<Rightarrow> pystr" where
  "reservation_value ResACQUIRED = ''acquired''"
| "reservation_value ResALREADY_SUBMITTED = ''already_submitted''"
| "reservation_value ResUNAVAILABLE = ''unavailable''"
| "reservation_value ResSTALE = ''stale''"

text \<open>The status with which a workflow answers a refused reservation.\<close>

fun refused_status :: "reservation_status \<Rightarrow> execution_status" where
  "refused_status ResALREADY_SUBMITTED = ExecFAILED_UNKNOWN"
| "refused_status ResUNAVAILABLE = ExecFAILED_KNOWN"
| "refused_status ResSTALE = ExecSTALE_NO_EFFECT"
| "refused_status ResACQUIRED = ExecACCEPTED"

text \<open>The deadline of a submission: expiry of the proposal, of the lease and of every authority.\<close>

definition submission_deadline :: "stored_proposal \<Rightarrow> instant \<Rightarrow> instant" where
  "submission_deadline record verification_at =
     foldr min (map ev_expires_at (sp_authority_evidence record)) (min (sp_expires_at record) verification_at)"

section \<open>Several workers\<close>

text \<open>
  A joint record of the calls of several workers: each call with the worker who made it, in the order
  in which the calls were served. A worker's own calls keep their order.
\<close>

definition calls_by :: "nat \<Rightarrow> (nat \<times> 'c) list \<Rightarrow> 'c list" where
  "calls_by i joint = map snd (filter (\<lambda>x. fst x = i) joint)"

definition tally :: "('c \<Rightarrow> bool) \<Rightarrow> 'c list \<Rightarrow> nat" where
  "tally P cs = length (filter P cs)"

lemma tally_simps [simp]:
  "tally P [] = 0" "tally P (c # cs) = (if P c then Suc (tally P cs) else tally P cs)"
  "tally P (xs @ ys) = tally P xs + tally P ys"
  by (simp_all add: tally_def)

lemma tally_eq_0: "tally P cs = 0 \<longleftrightarrow> (\<forall>c\<in>set cs. \<not> P c)"
  by (simp add: tally_def filter_empty_conv)

lemma calls_by_simps [simp]:
  "calls_by i [] = []"
  "calls_by i ((j, c) # joint) = (if i = j then c # calls_by i joint else calls_by i joint)"
  by (simp_all add: calls_by_def)

lemma tally_sum:
  assumes "finite I" and "fst ` set joint \<subseteq> I"
  shows "tally P (map snd joint) = (\<Sum>i\<in>I. tally P (calls_by i joint))"
  using assms(2)
proof (induction joint)
  case Nil
  then show ?case by simp
next
  case (Cons x joint)
  obtain j c where x: "x = (j, c)" by force
  have j: "j \<in> I" using Cons.prems x by simp
  have ih: "tally P (map snd joint) = (\<Sum>i\<in>I. tally P (calls_by i joint))" using Cons by simp
  have "(\<Sum>i\<in>I. tally P (calls_by i (x # joint)))
      = (\<Sum>i\<in>I. tally P (calls_by i joint) + (if i = j \<and> P c then 1 else 0))"
    by (rule sum.cong) (simp_all add: x)
  also have "\<dots> = (\<Sum>i\<in>I. tally P (calls_by i joint)) + (if P c then 1 else 0)"
    using assms(1) j by (simp add: sum.distrib sum.delta' flip: if_bool_eq_conj)
  finally show ?case using ih x by simp
qed

lemma tally_joint_le:
  assumes "\<And>i. tally P (calls_by i joint) \<le> tally Q (calls_by i joint)"
  shows "tally P (map snd joint) \<le> tally Q (map snd joint)"
  unfolding tally_sum [OF finite_imageI [OF finite_set] subset_refl]
  by (rule sum_mono) (rule assms)

section \<open>The contract of a reservation\<close>

text \<open>
  What the repositories promise (\<open>StripeActionRepository.reserve\<close>, \<open>RefundRepository.reserve\<close>): an
  intent that is consumed is never reopened, and a reservation is granted only for an intent
  that is not consumed yet, and consumes it. \<open>step s c s'\<close> says that the repository in state \<open>s\<close> may
  serve call \<open>c\<close> with its answer and go to \<open>s'\<close>, \<open>good\<close> is its invariant, and \<open>grants c\<close> is the intent of a granted reservation.
\<close>

fun serves :: "('s \<Rightarrow> 'c \<Rightarrow> 's \<Rightarrow> bool) \<Rightarrow> 's \<Rightarrow> 'c list \<Rightarrow> 's \<Rightarrow> bool" where
  "serves step s [] s' = (s' = s)"
| "serves step s (c # cs) s' = (\<exists>t. step s c t \<and> serves step t cs s')"

locale reservations =
  fixes step :: "'s \<Rightarrow> 'c \<Rightarrow> 's \<Rightarrow> bool" and good :: "'s \<Rightarrow> bool"
    and consumed :: "'s \<Rightarrow> 'k set" and grants :: "'c \<Rightarrow> 'k option"
  assumes keeps_good: "good s \<Longrightarrow> step s c s' \<Longrightarrow> good s'"
    and keeps_consumed: "good s \<Longrightarrow> step s c s' \<Longrightarrow> consumed s \<subseteq> consumed s'"
    and grants_fresh: "good s \<Longrightarrow> step s c s' \<Longrightarrow> grants c = Some k \<Longrightarrow> k \<notin> consumed s \<and> k \<in> consumed s'"
begin

lemma granted_once:
  "serves step s cs s' \<Longrightarrow> good s \<Longrightarrow> tally (\<lambda>c. grants c = Some k) cs \<le> (if k \<in> consumed s then 0 else 1)"
proof (induction cs arbitrary: s)
  case Nil
  then show ?case by simp
next
  case (Cons c cs)
  then obtain t where t: "step s c t" "serves step t cs s'" by auto
  have ih: "tally (\<lambda>c. grants c = Some k) cs \<le> (if k \<in> consumed t then 0 else 1)"
    using Cons.IH [OF t(2) keeps_good [OF Cons.prems(2) t(1)]] .
  show ?case
  proof (cases "grants c = Some k")
    case True
    then show ?thesis using ih grants_fresh [OF Cons.prems(2) t(1) True] by simp
  next
    case False
    then show ?thesis using ih keeps_consumed [OF Cons.prems(2) t(1)] by (auto split: if_splits)
  qed
qed

text \<open>
  If every worker submits an effect at most as often as it was granted the reservation, the effect
  is submitted at most once by all workers together.
\<close>

lemma submitted_once:
  assumes "serves step s (map snd joint) s'" and "good s"
    and "\<And>i. tally P (calls_by i joint) \<le> tally (\<lambda>c. grants c = Some k) (calls_by i joint)"
  shows "tally P (map snd joint) \<le> 1"
proof -
  have "tally P (map snd joint) \<le> tally (\<lambda>c. grants c = Some k) (map snd joint)"
    by (rule tally_joint_le) (rule assms(3))
  also have "\<dots> \<le> 1" using granted_once [OF assms(1,2), of k] by (simp split: if_splits)
  finally show ?thesis .
qed

end

end
