(* ===== verification/Money.thy ===== *)
theory Money
  imports Canonical
begin

text \<open>
  \<open>Money\<close> of \<open>models.py\<close> and the decimal arithmetic that the Stripe workflows use on its amount.

  A finite \<open>decimal.Decimal\<close> is a sign, a coefficient and an exponent. \<open>Money.amount\<close> has at most 28
  digits, which is the precision of the default decimal context, so that \<open>scaleb\<close> is exact: it only
  changes the exponent.
\<close>

section \<open>Decimals\<close>

datatype pydecimal =
    Dec (dec_negative: bool) (dec_coefficient: nat) (dec_exponent: int)
  | DecNotFinite

record money =
  mo_amount :: pydecimal
  mo_currency :: pystr

fun is_finite :: "pydecimal \<Rightarrow> bool" where
  "is_finite (Dec _ _ _) = True"
| "is_finite DecNotFinite = False"

fun scaleb :: "pydecimal \<Rightarrow> int \<Rightarrow> pydecimal" where
  "scaleb (Dec s c e) k = Dec s c (e + k)"
| "scaleb DecNotFinite k = DecNotFinite"

definition signed :: "bool \<Rightarrow> nat \<Rightarrow> int" where
  "signed s c = (if s then - int c else int c)"

text \<open>The value in units of \<open>10 ^ m\<close>, for \<open>m\<close> not above the exponent.\<close>

fun dec_units :: "int \<Rightarrow> pydecimal \<Rightarrow> int" where
  "dec_units m (Dec s c e) = signed s c * 10 ^ nat (e - m)"
| "dec_units m DecNotFinite = 0"

definition dec_le :: "pydecimal \<Rightarrow> pydecimal \<Rightarrow> bool" where
  "dec_le a b \<longleftrightarrow>
     is_finite a \<and> is_finite b
     \<and> (let m = min (dec_exponent a) (dec_exponent b) in dec_units m a \<le> dec_units m b)"

definition dec_of_int :: "int \<Rightarrow> pydecimal" where
  "dec_of_int i = Dec (i < 0) (nat \<bar>i\<bar>) 0"

definition dec_eq :: "pydecimal \<Rightarrow> pydecimal \<Rightarrow> bool" where
  "dec_eq a b \<longleftrightarrow> dec_le a b \<and> dec_le b a"

fun is_integral :: "pydecimal \<Rightarrow> bool" where
  "is_integral (Dec s c e) = (0 \<le> e \<or> (10 ^ nat (- e)) dvd c)"
| "is_integral DecNotFinite = False"

text \<open>\<open>int(d)\<close> truncates towards zero.\<close>

fun dec_int :: "pydecimal \<Rightarrow> int" where
  "dec_int (Dec s c e) = (if 0 \<le> e then signed s c * 10 ^ nat e else signed s (c div 10 ^ nat (- e)))"
| "dec_int DecNotFinite = 0"

text \<open>
  \<open>str(d)\<close>, the text pydantic writes for a decimal: positional unless the exponent is positive or
  more than six zeros would follow the point.
\<close>

definition exponent_text :: "int \<Rightarrow> string" where
  "exponent_text e = (if e < 0 then ''E-'' else ''E+'') @ decimal (nat \<bar>e\<bar>)"

definition dec_text :: "bool \<Rightarrow> string \<Rightarrow> int \<Rightarrow> string" where
  "dec_text s ds e =
     (let leftdigits = e + int (length ds);
          dotplace = (if e \<le> 0 \<and> -6 < leftdigits then leftdigits else 1);
          intpart = (if dotplace \<le> 0 then ''0''
                     else if int (length ds) \<le> dotplace
                          then ds @ replicate (nat (dotplace - int (length ds))) (CHR ''0'')
                          else take (nat dotplace) ds);
          fracpart = (if dotplace \<le> 0 then CHR ''.'' # replicate (nat (- dotplace)) (CHR ''0'') @ ds
                      else if int (length ds) \<le> dotplace then ''''
                           else CHR ''.'' # drop (nat dotplace) ds)
      in (if s then ''-'' else '''') @ intpart @ fracpart
         @ (if leftdigits = dotplace then '''' else exponent_text (leftdigits - dotplace)))"

fun dec_str :: "pydecimal \<Rightarrow> string" where
  "dec_str (Dec s c e) = dec_text s (decimal c) e"
| "dec_str DecNotFinite = ''NaN''"

definition money_json :: "money \<Rightarrow> json" where
  "money_json m = JObj [(''amount'', JStr (dec_str (mo_amount m))), (''currency'', JStr (mo_currency m))]"

section \<open>Lemmas\<close>

lemma dec_units_shift:
  assumes "m \<le> m'" and "m' \<le> e"
  shows "dec_units m (Dec s c e) = dec_units m' (Dec s c e) * 10 ^ nat (m' - m)"
proof -
  have "nat (e - m) = nat (e - m') + nat (m' - m)" using assms by simp
  then show ?thesis by (simp add: power_add)
qed

lemma dec_le_of_int:
  "dec_le (dec_of_int i) (Dec s c e) \<longleftrightarrow>
     (if 0 \<le> e then i \<le> signed s c * 10 ^ nat e else i * 10 ^ nat (- e) \<le> signed s c)"
  by (auto simp: dec_le_def dec_of_int_def signed_def min_def)

lemma dec_of_int_le:
  "dec_le (Dec s c e) (dec_of_int i) \<longleftrightarrow>
     (if 0 \<le> e then signed s c * 10 ^ nat e \<le> i else signed s c \<le> i * 10 ^ nat (- e))"
  by (auto simp: dec_le_def dec_of_int_def signed_def min_def)

lemma dec_int_exact:
  assumes "is_integral d"
  shows "dec_eq d (dec_of_int (dec_int d))"
proof (cases d)
  case (Dec s c e)
  show ?thesis
  proof (cases "0 \<le> e")
    case True
    with Dec show ?thesis by (simp add: dec_eq_def dec_le_of_int dec_of_int_le)
  next
    case False
    with Dec assms obtain k where "c = 10 ^ nat (- e) * k" by auto
    with Dec False show ?thesis by (simp add: dec_eq_def dec_le_of_int dec_of_int_le signed_def)
  qed
qed (use assms in simp)

lemma dec_int_le:
  assumes "is_integral d"
  shows "dec_le d (dec_of_int k) \<longleftrightarrow> dec_int d \<le> k"
proof (cases d)
  case (Dec s c e)
  show ?thesis
  proof (cases "0 \<le> e")
    case True
    with Dec show ?thesis by (simp add: dec_of_int_le)
  next
    case False
    with Dec assms obtain q where q: "c = 10 ^ nat (- e) * q" by auto
    have "signed s c = signed s q * 10 ^ nat (- e)" by (simp add: q signed_def)
    with Dec False q show ?thesis by (simp add: dec_of_int_le)
  qed
qed (use assms in simp)

text \<open>Scaling back: an exact number of minor units is the amount itself.\<close>

lemma dec_le_scaleb: "dec_le (scaleb a k) (scaleb b k) \<longleftrightarrow> dec_le a b"
proof (cases a; cases b)
  fix s c e s' c' e' assume "a = Dec s c e" "b = Dec s' c' e'"
  moreover have "min (e + k) (e' + k) = min e e' + k" by simp
  ultimately show ?thesis by (simp add: dec_le_def Let_def)
qed (simp_all add: dec_le_def)

lemma scaleb_scaleb [simp]: "scaleb (scaleb a j) k = scaleb a (j + k)"
  by (cases a) (simp_all add: add.assoc)

lemma scaleb_0 [simp]: "scaleb a 0 = a"
  by (cases a) simp_all

end
