(* ===== verification/Stripe_Refunds.thy ===== *)
theory Stripe_Refunds
  imports Call_Traces Money
begin

text \<open>
  Governed Stripe refunds: the data of \<open>integrations/stripe/models.py\<close> and \<open>gateway.py\<close>, the connector
  \<open>StripeRefundConnector\<close> and the workflow \<open>_RefundWorkflow\<close> of \<open>actions.py\<close>, which are the preparation,
  resolver, executor and verifier that the runtime calls.

  The gateway, the repository, the authorization port, the action store and the clock are ports of
  the world of \<open>Call_Traces\<close>. SHA-256 and the NFC normalization are parameters.
\<close>

section \<open>Data\<close>

record stripe_account =
  sa_reference :: pystr
  sa_connected_account :: "pystr option"
  sa_livemode :: bool

record refund_intent =
  ri_tenant_reference :: pystr
  ri_intent_reference :: pystr
  ri_account :: stripe_account
  ri_charge_id :: pystr
  ri_amount :: money
  ri_currency_exponent :: int

datatype refund_status = RefPENDING | RefREQUIRES_ACTION | RefSUCCEEDED | RefFAILED | RefCANCELED

record charge_observation =
  ch_charge_id :: pystr
  ch_currency :: pystr
  ch_amount_minor :: int
  ch_refunded_minor :: int
  ch_captured :: bool
  ch_paid :: bool
  ch_disputed :: bool
  ch_livemode :: bool
  ch_indirect_charge :: bool

record refund_observation =
  ro_refund_id :: pystr
  ro_charge_id :: pystr
  ro_currency :: pystr
  ro_amount_minor :: int
  ro_status :: refund_status
  ro_correlation :: pystr

record refund_page =
  pg_refunds :: "refund_observation list"
  pg_has_more :: bool

record refund_outcome =
  rf_amount :: money
  rf_status :: refund_status

record refund_request =
  rq_intent_reference :: pystr
  rq_payment_reference :: pystr
  rq_amount :: money

record refund_payment =
  py_tenant_reference :: pystr
  py_payment_reference :: pystr
  py_version :: int
  py_account :: stripe_account
  py_charge_id :: pystr
  py_currency :: pystr
  py_currency_exponent :: int

record refund_policy =
  rl_limits :: "money list"
  rl_allow_live :: bool

record refund_snapshot =
  sn_intent :: refund_intent
  sn_payment_reference :: pystr
  sn_payment_version :: int
  sn_refunded_minor :: int
  sn_policy_fingerprint :: pystr

section \<open>Hashes of models\<close>

record digests =
  dg_nfc :: "pystr \<Rightarrow> pystr"
  dg_sha256 :: "bytes \<Rightarrow> pystr"

definition fingerprint_of :: "digests \<Rightarrow> json \<Rightarrow> pystr outcome" where
  "fingerprint_of dg document =
     result_bind (canonicalize_v1 (dg_nfc dg) document) (\<lambda>b. Inr (dg_sha256 dg b))"

text \<open>
  A list of strings always has a canonical form (\<open>canonicalize_strings\<close>), so that the last case does
  not occur.
\<close>

definition strings_digest :: "digests \<Rightarrow> pystr list \<Rightarrow> pystr" where
  "strings_digest dg xs =
     (case canonicalize_v1 (dg_nfc dg) (JList (map JStr xs)) of Inr b \<Rightarrow> dg_sha256 dg b | Inl _ \<Rightarrow> [])"

definition account_json :: "stripe_account \<Rightarrow> json" where
  "account_json a =
     JObj [(''reference'', JStr (sa_reference a)),
           (''connected_account'', (case sa_connected_account a of None \<Rightarrow> JNull | Some c \<Rightarrow> JStr c)),
           (''livemode'', JBool (sa_livemode a))]"

definition intent_json :: "refund_intent \<Rightarrow> json" where
  "intent_json i =
     JObj [(''tenant_reference'', JStr (ri_tenant_reference i)),
           (''intent_reference'', JStr (ri_intent_reference i)),
           (''account'', account_json (ri_account i)),
           (''charge_id'', JStr (ri_charge_id i)),
           (''amount'', money_json (ri_amount i)),
           (''currency_exponent'', JInt (ri_currency_exponent i))]"

definition intent_correlation :: "digests \<Rightarrow> refund_intent \<Rightarrow> pystr outcome" where
  "intent_correlation dg i = fingerprint_of dg (intent_json i)"

definition policy_fingerprint :: "digests \<Rightarrow> refund_policy \<Rightarrow> pystr outcome" where
  "policy_fingerprint dg p =
     fingerprint_of dg (JObj [(''limits'', JList (map money_json (rl_limits p))),
                              (''allow_live'', JBool (rl_allow_live p))])"

definition intent_effect :: "digests \<Rightarrow> refund_intent \<Rightarrow> pystr" where
  "intent_effect dg i = ''refund:'' @ strings_digest dg [ri_tenant_reference i, ri_intent_reference i]"

definition effect_reference :: "digests \<Rightarrow> refund_snapshot \<Rightarrow> pystr" where
  "effect_reference dg s = intent_effect dg (sn_intent s)"

section \<open>Validation\<close>

definition exact_minor_units :: "refund_intent \<Rightarrow> refund_intent outcome" where
  "exact_minor_units i =
     (let units = scaleb (mo_amount (ri_amount i)) (ri_currency_exponent i) in
      if \<not> is_finite units \<or> dec_le units (dec_of_int 0) \<or> \<not> is_integral units then fails ValueError
      else if \<not> dec_le units (dec_of_int 99999999) then fails ValueError
      else Inr i)"

definition amount_minor :: "refund_intent \<Rightarrow> int" where
  "amount_minor i = dec_int (scaleb (mo_amount (ri_amount i)) (ri_currency_exponent i))"

text \<open>\<open>str.lower\<close> on a currency code, which consists of upper-case ASCII letters.\<close>

definition lower_char :: "char \<Rightarrow> char" where
  "lower_char c = (if (65 :: nat) \<le> of_char c \<and> of_char c \<le> (90 :: nat) then char_of (of_char c + (32 :: nat)) else c)"

definition lower :: "pystr \<Rightarrow> pystr" where
  "lower s = map lower_char s"

definition charge_permits :: "charge_observation \<Rightarrow> refund_intent \<Rightarrow> bool" where
  "charge_permits ch i \<longleftrightarrow>
     ch_charge_id ch = ri_charge_id i
     \<and> ch_currency ch = lower (mo_currency (ri_amount i))
     \<and> ch_livemode ch = sa_livemode (ri_account i)
     \<and> ch_captured ch \<and> ch_paid ch \<and> \<not> ch_disputed ch \<and> \<not> ch_indirect_charge ch
     \<and> amount_minor i \<le> ch_amount_minor ch - ch_refunded_minor ch"

definition observation_matches :: "digests \<Rightarrow> refund_observation \<Rightarrow> refund_intent \<Rightarrow> bool outcome" where
  "observation_matches dg r i =
     (if ro_charge_id r = ri_charge_id i \<and> ro_currency r = lower (mo_currency (ri_amount i))
         \<and> ro_amount_minor r = amount_minor i
      then result_bind (intent_correlation dg i) (\<lambda>c. Inr (ro_correlation r = c))
      else Inr False)"

definition unique_positive_limits :: "refund_policy \<Rightarrow> refund_policy outcome" where
  "unique_positive_limits p =
     (if \<not> distinct (map mo_currency (rl_limits p)) then fails ValueError
      else if list_ex (\<lambda>l. \<not> is_finite (mo_amount l) \<or> dec_le (mo_amount l) (dec_of_int 0)) (rl_limits p)
      then fails ValueError
      else Inr p)"

definition policy_permits :: "refund_policy \<Rightarrow> money \<Rightarrow> bool \<Rightarrow> bool" where
  "policy_permits p amount livemode \<longleftrightarrow>
     (\<not> livemode \<or> rl_allow_live p) \<and> is_finite (mo_amount amount)
     \<and> list_ex (\<lambda>l. mo_currency l = mo_currency amount \<and> \<not> dec_le (mo_amount amount) (dec_of_int 0)
                      \<and> dec_le (mo_amount amount) (mo_amount l)) (rl_limits p)"

section \<open>The ports\<close>

datatype refund_call =
    RefundPaymentCall pystr pystr "refund_payment outcome"
  | RefundRemember refund_snapshot pystr "unit outcome"
  | RefundLoad pystr pystr "refund_snapshot outcome"
  | RefundReserve refund_snapshot instant "reservation_status outcome"
  | RefundNoSubmission pystr pystr "unit outcome"
  | RefundRecordOutcome pystr pystr refund_outcome "unit outcome"
  | RefundCanExecute refund_snapshot execution_context "authorization_result outcome"
  | RefundStoreGet pystr pystr "stored_proposal option outcome"
  | RefundClock "instant outcome"
  | RefundCharge refund_intent "charge_observation outcome"
  | RefundCreate refund_intent "refund_observation outcome"
  | RefundRetrieve refund_intent pystr "refund_observation outcome"
  | RefundList refund_intent "pystr option" "refund_page outcome"

record refund_host =
  rh_payment :: "nat \<Rightarrow> pystr \<Rightarrow> pystr \<Rightarrow> refund_payment outcome"
  rh_remember :: "nat \<Rightarrow> refund_snapshot \<Rightarrow> pystr \<Rightarrow> unit outcome"
  rh_load :: "nat \<Rightarrow> pystr \<Rightarrow> pystr \<Rightarrow> refund_snapshot outcome"
  rh_reserve :: "nat \<Rightarrow> refund_snapshot \<Rightarrow> instant \<Rightarrow> reservation_status outcome"
  rh_record_no_submission :: "nat \<Rightarrow> pystr \<Rightarrow> pystr \<Rightarrow> unit outcome"
  rh_record_outcome :: "nat \<Rightarrow> pystr \<Rightarrow> pystr \<Rightarrow> refund_outcome \<Rightarrow> unit outcome"
  rh_can_execute :: "nat \<Rightarrow> refund_snapshot \<Rightarrow> execution_context \<Rightarrow> authorization_result outcome"
  rh_store_get :: "nat \<Rightarrow> pystr \<Rightarrow> pystr \<Rightarrow> stored_proposal option outcome"
  rh_clock :: "nat \<Rightarrow> instant"
  rh_charge :: "nat \<Rightarrow> refund_intent \<Rightarrow> charge_observation outcome"
  rh_create :: "nat \<Rightarrow> refund_intent \<Rightarrow> refund_observation outcome"
  rh_retrieve :: "nat \<Rightarrow> refund_intent \<Rightarrow> pystr \<Rightarrow> refund_observation outcome"
  rh_refunds :: "nat \<Rightarrow> refund_intent \<Rightarrow> pystr option \<Rightarrow> refund_page outcome"
  rh_policy :: refund_policy
  rh_max_lookup_pages :: nat
  rh_digests :: digests

type_synonym 'a refund_eff = "(refund_call call_world, 'a) eff"

definition refund_clock :: "refund_host \<Rightarrow> instant refund_eff" where
  "refund_clock h = called RefundClock (\<lambda>n. Inr (rh_clock h n))"

definition refund_charge :: "refund_host \<Rightarrow> refund_intent \<Rightarrow> charge_observation refund_eff" where
  "refund_charge h i = called (RefundCharge i) (\<lambda>n. rh_charge h n i)"

definition refund_can_execute ::
  "refund_host \<Rightarrow> refund_snapshot \<Rightarrow> execution_context \<Rightarrow> authorization_result refund_eff" where
  "refund_can_execute h s c = called (RefundCanExecute s c) (\<lambda>n. rh_can_execute h n s c)"

section \<open>The connector\<close>

definition submit_create :: "refund_host \<Rightarrow> refund_intent \<Rightarrow> refund_outcome stripe_execution refund_eff" where
  "submit_create h i =
     bind (attempt (called (RefundCreate i) (\<lambda>n. rh_create h n i))) (\<lambda>created.
     case created of
       Inl e \<Rightarrow>
         if exn_of e = StripeBoundaryError
         then return (not_executed ExecFAILED_UNKNOWN ''stripe_submission_unknown'')
         else throw e
     | Inr observed \<Rightarrow>
         bind (lift (observation_matches (rh_digests h) observed i)) (\<lambda>matches.
         if \<not> matches then return (not_executed ExecFAILED_UNKNOWN ''stripe_binding_mismatch'')
         else
           bind (lift (intent_correlation (rh_digests h) i)) (\<lambda>correlation.
           return \<lparr>se_status = ExecACCEPTED,
                   se_result = Some \<lparr>rf_amount = ri_amount i, rf_status = ro_status observed\<rparr>,
                   se_external_reference = Some (stripe_reference correlation),
                   se_reason_code = None\<rparr>)))"

definition submit ::
  "refund_host \<Rightarrow> refund_intent \<Rightarrow> instant option \<Rightarrow> refund_outcome stripe_execution refund_eff" where
  "submit h i not_after =
     bind (attempt (refund_charge h i)) (\<lambda>preflight.
     case preflight of
       Inl e \<Rightarrow>
         if exn_of e = StripeBoundaryError
         then return (not_executed ExecFAILED_KNOWN ''stripe_preflight_unavailable'')
         else throw e
     | Inr charge \<Rightarrow>
         if \<not> charge_permits charge i
         then return (not_executed ExecSTALE_NO_EFFECT ''stripe_charge_changed'')
         else
           (case not_after of
              None \<Rightarrow> submit_create h i
            | Some deadline \<Rightarrow>
                bind (refund_clock h) (\<lambda>now.
                if deadline \<le> now
                then return (not_executed ExecFAILED_KNOWN ''stripe_submission_deadline_expired'')
                else submit_create h i)))"

text \<open>The inner loop of \<open>observe\<close>: \<open>found\<close> is the correlated refund met so far.\<close>

fun scan_page ::
  "digests \<Rightarrow> refund_intent \<Rightarrow> refund_observation option \<Rightarrow> refund_observation list
     \<Rightarrow> refund_observation option outcome" where
  "scan_page dg i found [] = Inr found"
| "scan_page dg i found (candidate # rest) =
     result_bind (intent_correlation dg i) (\<lambda>correlation.
     if ro_correlation candidate \<noteq> correlation then scan_page dg i found rest
     else if found \<noteq> None then fails StripeBoundaryError
     else result_bind (observation_matches dg candidate i) (\<lambda>matches.
          if \<not> matches then fails StripeBoundaryError else scan_page dg i (Some candidate) rest))"

fun observe_pages ::
  "refund_host \<Rightarrow> refund_intent \<Rightarrow> nat \<Rightarrow> pystr option \<Rightarrow> refund_observation option
     \<Rightarrow> refund_observation option refund_eff" where
  "observe_pages h i 0 after found = raise StripeBoundaryError"
| "observe_pages h i (Suc k) after found =
     bind (called (RefundList i after) (\<lambda>n. rh_refunds h n i after)) (\<lambda>page.
     bind (lift (scan_page (rh_digests h) i found (pg_refunds page))) (\<lambda>found.
     if \<not> pg_has_more page
     then
       case found of
         None \<Rightarrow> return None
       | Some known \<Rightarrow>
           bind (called (RefundRetrieve i (ro_refund_id known)) (\<lambda>n. rh_retrieve h n i (ro_refund_id known)))
             (\<lambda>observed.
           bind (lift (observation_matches (rh_digests h) observed i)) (\<lambda>matches.
           if \<not> matches \<or> ro_refund_id observed \<noteq> ro_refund_id known then raise StripeBoundaryError
           else return (Some observed)))
     else if pg_refunds page = [] \<or> Some (ro_refund_id (last (pg_refunds page))) = after
     then raise StripeBoundaryError
     else observe_pages h i k (Some (ro_refund_id (last (pg_refunds page)))) found))"

definition connector_observe :: "refund_host \<Rightarrow> refund_intent \<Rightarrow> refund_observation option refund_eff" where
  "connector_observe h i = observe_pages h i (rh_max_lookup_pages h) None None"

definition verify_lookup :: "refund_host \<Rightarrow> refund_intent \<Rightarrow> refund_observation option refund_eff" where
  "verify_lookup h i =
     bind (refund_charge h i) (\<lambda>charge.
     if ch_charge_id charge \<noteq> ri_charge_id i \<or> ch_currency charge \<noteq> lower (mo_currency (ri_amount i))
        \<or> ch_livemode charge \<noteq> sa_livemode (ri_account i)
     then raise StripeBoundaryError
     else connector_observe h i)"

definition connector_verify :: "refund_host \<Rightarrow> refund_intent \<Rightarrow> refund_outcome stripe_verification refund_eff" where
  "connector_verify h i =
     bind (attempt (verify_lookup h i)) (\<lambda>looked.
     case looked of
       Inl e \<Rightarrow>
         if exn_of e = StripeBoundaryError
         then return (not_verified TARGET_UNAVAILABLE ''stripe_lookup_unavailable'')
         else throw e
     | Inr None \<Rightarrow> return (not_verified PROVISIONAL_ABSENCE ''stripe_refund_not_observed'')
     | Inr (Some observed) \<Rightarrow>
         if ro_status observed \<in> {RefPENDING, RefREQUIRES_ACTION}
         then return (not_verified PROVISIONAL_ABSENCE ''stripe_refund_pending'')
         else
           bind (lift (intent_correlation (rh_digests h) i)) (\<lambda>correlation.
           return \<lparr>sv_status = (if ro_status observed = RefSUCCEEDED then VERIFIED_COMPLETION
                                else VERIFIED_TERMINAL_FAILURE),
                   sv_result = Some \<lparr>rf_amount = ri_amount i, rf_status = ro_status observed\<rparr>,
                   sv_external_reference = Some (stripe_reference correlation),
                   sv_reason_code = None\<rparr>))"

section \<open>The workflow\<close>

record refund_prepared =
  rp_snapshot :: refund_snapshot
  rp_payment_reference :: pystr
  rp_amount :: money
  rp_effect_reference :: pystr

definition refund_prepare ::
  "refund_host \<Rightarrow> refund_request \<Rightarrow> preparation_context \<Rightarrow> refund_prepared refund_eff" where
  "refund_prepare h command c =
     bind (called (RefundPaymentCall (pc_tenant_reference c) (rq_payment_reference command))
             (\<lambda>n. rh_payment h n (pc_tenant_reference c) (rq_payment_reference command))) (\<lambda>payment.
     if py_tenant_reference payment \<noteq> pc_tenant_reference c
        \<or> py_payment_reference payment \<noteq> rq_payment_reference command
        \<or> py_currency payment \<noteq> mo_currency (rq_amount command)
        \<or> \<not> policy_permits (rh_policy h) (rq_amount command) (sa_livemode (py_account payment))
     then raise StripePreparationError
     else
       bind (lift (exact_minor_units
              \<lparr>ri_tenant_reference = pc_tenant_reference c,
               ri_intent_reference = rq_intent_reference command,
               ri_account = py_account payment, ri_charge_id = py_charge_id payment,
               ri_amount = rq_amount command, ri_currency_exponent = py_currency_exponent payment\<rparr>)) (\<lambda>i.
       bind (refund_charge h i) (\<lambda>charge.
       if \<not> charge_permits charge i then raise StripePreparationError
       else
         bind (lift (policy_fingerprint (rh_digests h) (rh_policy h))) (\<lambda>fingerprint.
         let snapshot = \<lparr>sn_intent = i, sn_payment_reference = py_payment_reference payment,
                         sn_payment_version = py_version payment,
                         sn_refunded_minor = ch_refunded_minor charge,
                         sn_policy_fingerprint = fingerprint\<rparr>;
             requester = rp_reference (pc_requesting_principal c)
         in bind (called (RefundRemember snapshot requester) (\<lambda>n. rh_remember h n snapshot requester)) (\<lambda>_.
            return \<lparr>rp_snapshot = snapshot, rp_payment_reference = py_payment_reference payment,
                    rp_amount = rq_amount command,
                    rp_effect_reference = effect_reference (rh_digests h) snapshot\<rparr>)))))"

definition matches_payment :: "refund_snapshot \<Rightarrow> refund_payment \<Rightarrow> bool" where
  "matches_payment s p \<longleftrightarrow>
     py_tenant_reference p = ri_tenant_reference (sn_intent s)
     \<and> py_payment_reference p = sn_payment_reference s
     \<and> py_version p = sn_payment_version s
     \<and> py_charge_id p = ri_charge_id (sn_intent s)
     \<and> py_account p = ri_account (sn_intent s)
     \<and> py_currency p = mo_currency (ri_amount (sn_intent s))
     \<and> py_currency_exponent p = ri_currency_exponent (sn_intent s)"

text \<open>
  \<open>resolve\<close> returns the snapshot itself and its effect reference as precondition; what varies is
  whether the state has drifted, which is the result here.
\<close>

definition refund_resolve_local :: "refund_host \<Rightarrow> refund_snapshot \<Rightarrow> execution_context \<Rightarrow> bool outcome" where
  "refund_resolve_local h s c =
     (if ri_tenant_reference (sn_intent s) \<noteq> ec_tenant_reference c
         \<or> effect_reference (rh_digests h) s \<noteq> ec_semantic_effect_reference c
      then Inr True
      else result_bind (policy_fingerprint (rh_digests h) (rh_policy h)) (\<lambda>fingerprint.
           Inr (sn_policy_fingerprint s \<noteq> fingerprint
                \<or> \<not> policy_permits (rh_policy h) (ri_amount (sn_intent s))
                      (sa_livemode (ri_account (sn_intent s))))))"

definition refund_resolve :: "refund_host \<Rightarrow> refund_snapshot \<Rightarrow> execution_context \<Rightarrow> bool refund_eff" where
  "refund_resolve h s c =
     bind (lift (refund_resolve_local h s c)) (\<lambda>drifted.
     if drifted then return True
     else
       bind (called (RefundPaymentCall (ec_tenant_reference c) (sn_payment_reference s))
               (\<lambda>n. rh_payment h n (ec_tenant_reference c) (sn_payment_reference s))) (\<lambda>payment.
       if \<not> matches_payment s payment then return True
       else
         bind (refund_charge h (sn_intent s)) (\<lambda>charge.
         return (\<not> charge_permits charge (sn_intent s) \<or> ch_refunded_minor charge \<noteq> sn_refunded_minor s))))"

definition refund_settle ::
  "refund_host \<Rightarrow> refund_snapshot \<Rightarrow> execution_context \<Rightarrow> refund_outcome stripe_execution
     \<Rightarrow> refund_outcome stripe_execution refund_eff" where
  "refund_settle h s c result =
     (if se_status result \<in> {ExecFAILED_KNOWN, ExecSTALE_NO_EFFECT}
      then let k = effect_reference (rh_digests h) s in
        bind (called (RefundNoSubmission (ec_tenant_reference c) k)
                (\<lambda>n. rh_record_no_submission h n (ec_tenant_reference c) k)) (\<lambda>_. return result)
      else return result)"

definition refund_admitted ::
  "refund_host \<Rightarrow> refund_snapshot \<Rightarrow> execution_context \<Rightarrow> instant \<Rightarrow> refund_outcome stripe_execution refund_eff" where
  "refund_admitted h s c deadline =
     bind (called (RefundReserve s deadline) (\<lambda>n. rh_reserve h n s deadline)) (\<lambda>reservation.
     if reservation \<noteq> ResACQUIRED
     then return (not_executed (refused_status reservation)
                   (''refund_reservation_'' @ reservation_value reservation))
     else
       bind (refund_can_execute h s c) (\<lambda>permitted.
       bind (if \<not> ar_allowed permitted
             then return (not_executed ExecFAILED_KNOWN ''refund_authority_revoked'')
             else submit h (sn_intent s) (Some deadline)) (\<lambda>result.
       refund_settle h s c result)))"

definition refund_execute ::
  "refund_host \<Rightarrow> refund_snapshot \<Rightarrow> execution_context \<Rightarrow> pystr \<Rightarrow> refund_outcome stripe_execution refund_eff" where
  "refund_execute h s c execution_precondition =
     bind (refund_resolve h s c) (\<lambda>drifted.
     bind (refund_can_execute h s c) (\<lambda>permitted.
     if drifted \<or> execution_precondition \<noteq> effect_reference (rh_digests h) s \<or> \<not> ar_allowed permitted
     then return (not_executed ExecSTALE_NO_EFFECT ''refund_precondition_changed'')
     else
       bind (called (RefundStoreGet (ec_tenant_reference c) (ec_proposal_reference c))
               (\<lambda>n. rh_store_get h n (ec_tenant_reference c) (ec_proposal_reference c))) (\<lambda>record.
       case record of
         None \<Rightarrow> return (not_executed ExecFAILED_KNOWN ''refund_admission_unavailable'')
       | Some record \<Rightarrow>
           (case sp_next_verification_at record of
              None \<Rightarrow> return (not_executed ExecFAILED_KNOWN ''refund_admission_unavailable'')
            | Some verification_at \<Rightarrow>
                if sp_authority_evidence record = []
                then return (not_executed ExecFAILED_KNOWN ''refund_admission_unavailable'')
                else refund_admitted h s c (submission_deadline record verification_at)))))"

definition refund_observe ::
  "refund_host \<Rightarrow> execution_context \<Rightarrow> refund_outcome stripe_verification refund_eff" where
  "refund_observe h c =
     bind (called (RefundLoad (ec_tenant_reference c) (ec_semantic_effect_reference c))
             (\<lambda>n. rh_load h n (ec_tenant_reference c) (ec_semantic_effect_reference c))) (\<lambda>s.
     if ri_tenant_reference (sn_intent s) \<noteq> ec_tenant_reference c
        \<or> effect_reference (rh_digests h) s \<noteq> ec_semantic_effect_reference c
     then return (not_verified TARGET_UNAVAILABLE ''refund_intent_mismatch'')
     else connector_verify h (sn_intent s))"

definition refund_verify ::
  "refund_host \<Rightarrow> execution_context \<Rightarrow> refund_outcome stripe_verification refund_eff" where
  "refund_verify h c =
     bind (refund_observe h c) (\<lambda>result.
     case sv_result result of
       None \<Rightarrow> return result
     | Some outcome \<Rightarrow>
         bind (called (RefundRecordOutcome (ec_tenant_reference c) (ec_semantic_effect_reference c) outcome)
                 (\<lambda>n. rh_record_outcome h n (ec_tenant_reference c) (ec_semantic_effect_reference c) outcome))
           (\<lambda>_. return result))"

section \<open>Lemmas\<close>

lemma canonicalize_strings: "\<exists>b. canonicalize_v1 nfc (JList (map JStr xs)) = Inr b"
proof -
  have n: "normalize_list nfc (map JStr xs) = Inr (map (\<lambda>s. JStr (nfc s)) xs)" by (induction xs) simp_all
  have d: "dumpable_list (map (\<lambda>s. JStr (nfc s)) xs)" by (induction xs) simp_all
  show ?thesis by (simp add: canonicalize_v1_def n d)
qed

lemmas port_defs = refund_clock_def refund_charge_def refund_can_execute_def

fun is_create :: "refund_call \<Rightarrow> bool" where
  "is_create (RefundCreate _ _) = True"
| "is_create _ = False"

definition no_create :: "refund_call list \<Rightarrow> bool" where
  "no_create tr \<longleftrightarrow> (\<forall>call\<in>set tr. \<not> is_create call)"

lemma no_create_simps [simp]:
  "no_create []" "no_create (x # xs) \<longleftrightarrow> \<not> is_create x \<and> no_create xs"
  "no_create (xs @ ys) \<longleftrightarrow> no_create xs \<and> no_create ys"
  by (auto simp: no_create_def)

definition refuses :: "'r stripe_execution outcome \<Rightarrow> bool" where
  "refuses r \<longleftrightarrow> (\<exists>x. r = Inr x \<and> se_status x \<in> {ExecFAILED_KNOWN, ExecSTALE_NO_EFFECT})"

lemma refuses_simps [simp]:
  "\<not> refuses (Inl e)" "refuses (Inr x) \<longleftrightarrow> se_status x \<in> {ExecFAILED_KNOWN, ExecSTALE_NO_EFFECT}"
  by (simp_all add: refuses_def)

lemma not_executed_status [simp]: "se_status (not_executed st rc) = st"
  by (simp add: not_executed_def)

text \<open>The calls of a submission that creates a refund, and of an execution that does.\<close>

definition submitting :: "refund_intent \<Rightarrow> instant \<Rightarrow> refund_call list \<Rightarrow> bool" where
  "submitting i deadline tr \<longleftrightarrow>
     (\<exists>charge now answer.
        tr = [RefundCharge i (Inr charge), RefundClock (Inr now), RefundCreate i answer]
        \<and> charge_permits charge i \<and> now < deadline)"

definition admitting :: "refund_snapshot \<Rightarrow> execution_context \<Rightarrow> instant \<Rightarrow> refund_call list \<Rightarrow> bool" where
  "admitting s c deadline tr \<longleftrightarrow>
     (\<exists>permitted rest.
        tr = RefundReserve s deadline (Inr ResACQUIRED) # RefundCanExecute s c (Inr permitted) # rest
        \<and> ar_allowed permitted \<and> submitting (sn_intent s) deadline rest)"

definition executing :: "refund_snapshot \<Rightarrow> execution_context \<Rightarrow> refund_call list \<Rightarrow> bool" where
  "executing s c tr \<longleftrightarrow>
     (\<exists>pre record verification_at rest.
        tr = pre @ RefundStoreGet (ec_tenant_reference c) (ec_proposal_reference c) (Inr (Some record)) # rest
        \<and> no_create pre \<and> sp_next_verification_at record = Some verification_at
        \<and> admitting s c (submission_deadline record verification_at) rest)"

text \<open>The backward rules of the parts, from the last to the first.\<close>

lemma submit_create_rule:
  assumes "\<And>r answer. \<not> refuses r \<Longrightarrow> P r [RefundCreate i answer]"
  shows "does (submit_create h i) P"
  unfolding submit_create_def by (intro does_intros) (auto intro!: assms)

lemma submit_rule:
  assumes "\<And>r tr. submitting i deadline tr \<and> \<not> refuses r \<or> no_create tr \<Longrightarrow> P r tr"
  shows "does (submit h i (Some deadline)) P"
  unfolding submit_def port_defs option.case
  by (intro does_intros submit_create_rule) (auto intro!: assms simp: submitting_def)

lemma refund_settle_rule:
  assumes "\<And>r tr. no_create tr \<Longrightarrow> refuses (Inr x) \<Longrightarrow> P r tr"
    and "\<not> refuses (Inr x) \<Longrightarrow> P (Inr x) []"
  shows "does (refund_settle h s c x) P"
  unfolding refund_settle_def Let_def by (intro does_intros) (auto intro!: assms)

lemma refund_admitted_rule:
  assumes "\<And>r tr. admitting s c deadline tr \<and> \<not> refuses r \<or> no_create tr \<Longrightarrow> P r tr"
  shows "does (refund_admitted h s c deadline) P"
  unfolding refund_admitted_def port_defs
  by (intro does_intros does_bind submit_rule)
    (auto intro!: assms refund_settle_rule simp: admitting_def split: sum.splits)

lemma refund_resolve_does: "does (refund_resolve h s c) (\<lambda>r. no_create)"
  unfolding refund_resolve_def port_defs by (intro does_intros) auto

lemma executing_start:
  assumes "sp_next_verification_at record = Some verification_at"
    and "admitting s c (submission_deadline record verification_at) rest"
  shows "executing s c
    (RefundStoreGet (ec_tenant_reference c) (ec_proposal_reference c) (Inr (Some record)) # rest)"
  unfolding executing_def using assms by (metis append_Nil no_create_simps(1))

lemma executing_append:
  assumes "no_create pre" and "executing s c tr"
  shows "executing s c (pre @ tr)"
  using assms unfolding executing_def by (metis append_assoc no_create_simps(3))

lemma executing_Cons: "\<not> is_create x \<Longrightarrow> executing s c tr \<Longrightarrow> executing s c (x # tr)"
  using executing_append [of "[x]"] by simp

lemma refund_execute_does:
  "does (refund_execute h s c p) (\<lambda>r tr. executing s c tr \<and> \<not> refuses r \<or> no_create tr)"
  unfolding refund_execute_def port_defs
  apply (rule does_bind, rule does_mono [OF refund_resolve_does])
  apply (simp split: sum.splits)
  apply (intro allI conjI impI does_intros refund_admitted_rule)
  apply (auto intro!: executing_append executing_Cons executing_start)
  done

text \<open>Looking a refund up: the refunds listed, and those with the correlation of the intent.\<close>

fun listed :: "refund_call list \<Rightarrow> refund_observation list" where
  "listed [] = []"
| "listed (RefundList i after (Inr page) # tr) = pg_refunds page @ listed tr"
| "listed (_ # tr) = listed tr"

definition correlated :: "digests \<Rightarrow> refund_intent \<Rightarrow> refund_observation \<Rightarrow> bool" where
  "correlated dg i r \<longleftrightarrow> intent_correlation dg i = Inr (ro_correlation r)"

fun is_page :: "refund_call \<Rightarrow> bool" where
  "is_page (RefundList _ _ _) = True"
| "is_page _ = False"

definition options :: "'a option \<Rightarrow> 'a list" where
  "options x = (case x of None \<Rightarrow> [] | Some a \<Rightarrow> [a])"

lemma options_simps [simp]: "options None = []" "options (Some a) = [a]"
  by (simp_all add: options_def)

lemma scan_page_found:
  "scan_page dg i found rs = Inr f \<Longrightarrow> options found @ filter (correlated dg i) rs = options f"
proof (induction dg i found rs rule: scan_page.induct)
  case (2 dg i found candidate rest)
  then obtain k where k: "intent_correlation dg i = Inr k" by (auto simp: result_bind_eq_Inr)
  show ?case
  proof (cases "ro_correlation candidate = k")
    case True
    with 2 k show ?thesis
      by (auto simp: result_bind_eq_Inr correlated_def split: if_splits)
  next
    case False
    with 2 k show ?thesis by (auto simp: correlated_def)
  qed
qed simp

text \<open>
  A lookup that finds the refund: the pages up to one that says it is the last list exactly one refund
  with the correlation, and the refund is retrieved again.
\<close>

definition looked_up ::
  "refund_host \<Rightarrow> refund_intent \<Rightarrow> refund_observation option \<Rightarrow> refund_observation \<Rightarrow> refund_call list \<Rightarrow> bool" where
  "looked_up h i found observed tr \<longleftrightarrow>
     (\<exists>pages after page known.
        tr = pages @ [RefundList i after (Inr page), RefundRetrieve i (ro_refund_id known) (Inr observed)]
        \<and> \<not> pg_has_more page
        \<and> options found @ filter (correlated (rh_digests h) i) (listed pages @ pg_refunds page) = [known]
        \<and> ro_refund_id observed = ro_refund_id known
        \<and> observation_matches (rh_digests h) observed i = Inr True)"

lemma looked_up_start:
  assumes "scan_page (rh_digests h) i found (pg_refunds page) = Inr (Some known)" and "\<not> pg_has_more page"
    and "observation_matches (rh_digests h) observed i = Inr True" and "ro_refund_id observed = ro_refund_id known"
  shows "looked_up h i found observed
    [RefundList i after (Inr page), RefundRetrieve i (ro_refund_id known) (Inr observed)]"
  unfolding looked_up_def using assms scan_page_found [OF assms(1)]
  by (intro exI [of _ "[]"] exI [of _ after] exI [of _ page] exI [of _ known]) simp

lemma looked_up_next:
  assumes "scan_page (rh_digests h) i found (pg_refunds page) = Inr f" and "looked_up h i f observed tr"
  shows "looked_up h i found observed (RefundList i after (Inr page) # tr)"
proof -
  obtain pages a p known where p:
    "tr = pages @ [RefundList i a (Inr p), RefundRetrieve i (ro_refund_id known) (Inr observed)]"
    "\<not> pg_has_more p" "options f @ filter (correlated (rh_digests h) i) (listed pages @ pg_refunds p) = [known]"
    "ro_refund_id observed = ro_refund_id known" "observation_matches (rh_digests h) observed i = Inr True"
    using assms(2) unfolding looked_up_def by blast
  then show ?thesis
    unfolding looked_up_def using scan_page_found [OF assms(1), symmetric]
    by (intro exI [of _ "RefundList i after (Inr page) # pages"] exI [of _ a] exI [of _ p] exI [of _ known])
      simp
qed

lemma observe_pages_does:
  "does (observe_pages h i k after found) (\<lambda>r tr. tally is_page tr \<le> k \<and> no_create tr
     \<and> (\<forall>observed. r = Inr (Some observed) \<longrightarrow> looked_up h i found observed tr))"
proof (induction k arbitrary: after found)
  case 0
  show ?case by (simp add: does_raise)
next
  case (Suc k)
  show ?case
    unfolding observe_pages.simps
    by (intro does_intros does_mono [OF Suc]) (auto intro: looked_up_start looked_up_next)
qed

lemma connector_verify_does:
  "does (connector_verify h i) (\<lambda>r tr. tally is_page tr \<le> rh_max_lookup_pages h \<and> no_create tr
     \<and> (\<forall>v. r = Inr v \<longrightarrow> sv_status v \<noteq> AUTHORITATIVE_FINAL_ABSENCE
          \<and> (sv_status v = VERIFIED_COMPLETION \<longrightarrow>
               (\<exists>charge observed rest. tr = RefundCharge i (Inr charge) # rest
                  \<and> looked_up h i None observed rest \<and> ro_status observed = RefSUCCEEDED
                  \<and> sv_result v = Some \<lparr>rf_amount = ri_amount i, rf_status = RefSUCCEEDED\<rparr>))))"
  unfolding connector_verify_def verify_lookup_def connector_observe_def port_defs
  by (intro does_intros does_mono [OF observe_pages_does])
    (auto intro!: does_intros simp: not_verified_def split: sum.splits option.splits)

lemma create_position:
  assumes "pre @ RefundCreate i a # post = front @ [RefundCreate j b]" and "no_create front"
  shows "pre = front \<and> post = [] \<and> i = j"
proof (cases post rule: rev_cases)
  case Nil
  with assms(1) show ?thesis by simp
next
  case (snoc ys y)
  with assms(1) have "front = pre @ RefundCreate i a # ys"
    by (metis append.assoc append_Cons append_same_eq butlast_snoc)
  with assms(2) show ?thesis by simp
qed

section \<open>Properties\<close>

text \<open>
  The guard of the money movement. An execution asks Stripe for a refund at most once, as its last
  call, and only after, in this order: the stored proposal was read and has a lease and an authority, the
  repository granted the reservation until the earliest of the expiries, the live authorization
  allowed the execution again, the charge still permits exactly this refund, and the clock is before
  the deadline.
\<close>

lemma refund_create_guarded:
  assumes "calls_of (refund_execute h s c p) n = pre @ RefundCreate i answer # post"
  shows "i = sn_intent s \<and> post = []
    \<and> (\<exists>start record verification_at permitted charge now.
         pre = start @
           [RefundStoreGet (ec_tenant_reference c) (ec_proposal_reference c) (Inr (Some record)),
            RefundReserve s (submission_deadline record verification_at) (Inr ResACQUIRED),
            RefundCanExecute s c (Inr permitted), RefundCharge i (Inr charge), RefundClock (Inr now)]
         \<and> (\<forall>call\<in>set start. \<not> is_create call)
         \<and> sp_next_verification_at record = Some verification_at \<and> ar_allowed permitted
         \<and> charge_permits charge i \<and> now < submission_deadline record verification_at)"
proof -
  have "executing s c (calls_of (refund_execute h s c p) n) \<or> no_create (calls_of (refund_execute h s c p) n)"
    using does_run [OF refund_execute_does] by blast
  then have "executing s c (pre @ RefundCreate i answer # post)" using assms by simp
  then obtain start stored verification_at permitted charge now b where
    eq: "pre @ RefundCreate i answer # post = (start @
      [RefundStoreGet (ec_tenant_reference c) (ec_proposal_reference c) (Inr (Some stored)),
       RefundReserve s (submission_deadline stored verification_at) (Inr ResACQUIRED),
       RefundCanExecute s c (Inr permitted), RefundCharge (sn_intent s) (Inr charge), RefundClock (Inr now)])
       @ [RefundCreate (sn_intent s) b]"
    and ok: "no_create start" "sp_next_verification_at stored = Some verification_at" "ar_allowed permitted"
      "charge_permits charge (sn_intent s)" "now < submission_deadline stored verification_at"
    unfolding executing_def admitting_def submitting_def by auto
  have "pre = start @
      [RefundStoreGet (ec_tenant_reference c) (ec_proposal_reference c) (Inr (Some stored)),
       RefundReserve s (submission_deadline stored verification_at) (Inr ResACQUIRED),
       RefundCanExecute s c (Inr permitted), RefundCharge (sn_intent s) (Inr charge), RefundClock (Inr now)]
     \<and> post = [] \<and> i = sn_intent s"
    by (rule create_position [OF eq]) (simp add: ok(1))
  with ok show ?thesis unfolding no_create_def by blast
qed

text \<open>
  A refusal is definite. When an execution reports \<open>FAILED_KNOWN\<close> or \<open>STALE_NO_EFFECT\<close>, which the
  runtime records as a known failure and which releases the effect for another proposal, it has not
  asked Stripe for a refund.
\<close>

lemma refund_refusal_without_submission:
  assumes "outcome_of (refund_execute h s c p) n = Inr x"
    and "se_status x = ExecFAILED_KNOWN \<or> se_status x = ExecSTALE_NO_EFFECT"
  shows "\<forall>call\<in>set (calls_of (refund_execute h s c p) n). \<not> is_create call"
  using does_run [OF refund_execute_does [of h s c p], of n] assms by (auto simp: no_create_def)


text \<open>
  Amounts. A valid intent asks for between 1 and 99,999,999 minor units, and the number of minor
  units is exactly the amount of money, with no rounding.
\<close>

lemma refund_amount_exact:
  assumes "exact_minor_units i = Inr j"
  shows "j = i \<and> 0 < amount_minor i \<and> amount_minor i \<le> 99999999
    \<and> dec_eq (mo_amount (ri_amount i)) (scaleb (dec_of_int (amount_minor i)) (- ri_currency_exponent i))"
proof -
  let ?units = "scaleb (mo_amount (ri_amount i)) (ri_currency_exponent i)"
  have u: "\<not> dec_le ?units (dec_of_int 0)" "is_integral ?units" "dec_le ?units (dec_of_int 99999999)" "j = i"
    using assms by (auto simp: exact_minor_units_def Let_def split: if_splits)
  have e: "dec_eq ?units (dec_of_int (amount_minor i))"
    unfolding amount_minor_def by (rule dec_int_exact [OF u(2)])
  have "dec_eq (scaleb ?units (- ri_currency_exponent i))
      (scaleb (dec_of_int (amount_minor i)) (- ri_currency_exponent i))"
    using e unfolding dec_eq_def dec_le_scaleb .
  moreover have "0 < amount_minor i" "amount_minor i \<le> 99999999"
    using u(1,3) unfolding amount_minor_def dec_int_le [OF u(2)] by simp_all
  ultimately show ?thesis using u(4) by simp
qed

section \<open>Concrete runs\<close>

definition demo_account :: stripe_account where
  "demo_account = \<lparr>sa_reference = ''m'', sa_connected_account = None, sa_livemode = False\<rparr>"

definition demo_intent :: refund_intent where
  "demo_intent =
     \<lparr>ri_tenant_reference = ''t'', ri_intent_reference = ''r'', ri_account = demo_account,
      ri_charge_id = ''ch_1'', ri_amount = \<lparr>mo_amount = Dec False 50 (-1), mo_currency = ''USD''\<rparr>,
      ri_currency_exponent = 0\<rparr>"

definition demo_snapshot :: refund_snapshot where
  "demo_snapshot =
     \<lparr>sn_intent = demo_intent, sn_payment_reference = ''p'', sn_payment_version = 1, sn_refunded_minor = 0,
      sn_policy_fingerprint = ''d''\<rparr>"

definition demo_charge :: charge_observation where
  "demo_charge =
     \<lparr>ch_charge_id = ''ch_1'', ch_currency = ''usd'', ch_amount_minor = 9, ch_refunded_minor = 0,
      ch_captured = True, ch_paid = True, ch_disputed = False, ch_livemode = False,
      ch_indirect_charge = False\<rparr>"

definition demo_refund :: refund_observation where
  "demo_refund =
     \<lparr>ro_refund_id = ''re_1'', ro_charge_id = ''ch_1'', ro_currency = ''usd'', ro_amount_minor = 5,
      ro_status = RefSUCCEEDED, ro_correlation = ''d''\<rparr>"

definition demo_stored :: stored_proposal where
  "demo_stored =
     \<lparr>sp_tenant_reference = ''t'', sp_proposal_reference = ''p'',
      sp_action_type = \<lparr>at_namespace = ''stripe.refunds'', at_name = ''create'', at_version = 1\<rparr>,
      sp_semantic_effect_reference = ''refund:d'', sp_effect_kind = Single,
      sp_lifecycle_status = EXECUTING, sp_revision = 2, sp_protected_private_snapshot = None,
      sp_commitment = None, sp_display_preview = [], sp_requesting_principal = None,
      sp_proposing_agent = None, sp_created_at = 0, sp_expires_at = 100,
      sp_authority_evidence = [demo_approval ''a''], sp_receipts = [], sp_verification_attempts = 0,
      sp_max_verification_attempts = 3, sp_next_verification_at = Some 50, sp_safe_result = None,
      sp_execution_precondition = None, sp_superseded_by = None, sp_erasure_pending_at = None,
      sp_erased_at = None\<rparr>"

definition demo_payment :: refund_payment where
  "demo_payment =
     \<lparr>py_tenant_reference = ''t'', py_payment_reference = ''p'', py_version = 1, py_account = demo_account,
      py_charge_id = ''ch_1'', py_currency = ''USD'', py_currency_exponent = 0\<rparr>"

definition demo_refund_host :: refund_host where
  "demo_refund_host =
     \<lparr>rh_payment = (\<lambda>n t p. Inr demo_payment), rh_remember = (\<lambda>n s r. Inr ()),
      rh_load = (\<lambda>n t e. Inr demo_snapshot), rh_reserve = (\<lambda>n s d. Inr ResACQUIRED),
      rh_record_no_submission = (\<lambda>n t e. Inr ()), rh_record_outcome = (\<lambda>n t e r. Inr ()),
      rh_can_execute = (\<lambda>n s c. Inr \<lparr>ar_allowed = True, ar_reason_code = None\<rparr>),
      rh_store_get = (\<lambda>n t p. Inr (Some demo_stored)), rh_clock = (\<lambda>n. 5),
      rh_charge = (\<lambda>n i. Inr demo_charge), rh_create = (\<lambda>n i. Inr demo_refund),
      rh_retrieve = (\<lambda>n i k. Inr demo_refund),
      rh_refunds = (\<lambda>n i a. Inr \<lparr>pg_refunds = [demo_refund], pg_has_more = False\<rparr>),
      rh_policy = \<lparr>rl_limits = [\<lparr>mo_amount = Dec False 8 0, mo_currency = ''USD''\<rparr>], rl_allow_live = False\<rparr>,
      rh_max_lookup_pages = 100, rh_digests = \<lparr>dg_nfc = (\<lambda>s. s), dg_sha256 = (\<lambda>b. ''d'')\<rparr>\<rparr>"

definition demo_refund_context :: execution_context where
  "demo_refund_context =
     \<lparr>ec_tenant_reference = ''t'', ec_proposal_reference = ''p'', ec_semantic_effect_reference = ''refund:d'',
      ec_requesting_principal = RequestingPrincipal ''u'', ec_authorities = [ConfirmingAuthority ''a''],
      ec_observed_at = 1\<rparr>"


end
