(* ===== verification/Stripe_Ledger.thy ===== *)
theory Stripe_Ledger
  imports Call_Traces
begin

text \<open>
  The durable ledger of Stripe intents, \<open>PostgresStripeLedger\<close> of \<open>integrations/stripe/postgres.py\<close>, over
  the rows of its table with the primary key, the \<open>CHECK\<close> clauses and the update trigger of
  \<open>_migrations/stripe_postgres/001_host_ledger.sql\<close>.

  An operation runs inside one transaction that holds the row locks and the advisory lock of the
  resource until its end, so it is one step on the rows; a raise inside a transaction leaves the
  rows as they were. What PostgreSQL and the interpreter do with a JSON document is a parameter: the
  document read back from a \<open>jsonb\<close> column, the comparison of two documents with \<open>==\<close>, and the digest
  (\<open>json.dumps\<close> with sorted keys, then SHA-256).
\<close>

section \<open>Rows\<close>

datatype action_group = REFUNDS | SUBSCRIPTIONS | CREDIT_NOTES
datatype ledger_phase = PhREADY | PhRESERVED | PhCLOSED
datatype close_kind = CloseNO_SUBMISSION | CloseOUTCOME
datatype remember_status = RememberCREATED | RememberMATCHED | RememberCONFLICT
datatype close_status = CloseRECORDED | CloseMATCHED | CloseCONFLICT

record ledger_entry =
  le_tenant_reference :: pystr
  le_action_group :: action_group
  le_effect_reference :: pystr
  le_resource_reference :: pystr
  le_requester_reference :: pystr
  le_snapshot_digest :: pystr
  le_snapshot_data :: json_object
  le_phase :: ledger_phase
  le_reserved_at :: "instant option"
  le_closed_at :: "instant option"
  le_close_kind :: "close_kind option"
  le_outcome_data :: "json_object option"

type_synonym ledger = "ledger_entry list"

record ledger_config =
  lg_jsonb :: "json_object \<Rightarrow> json_object"
  lg_same :: "json_object \<Rightarrow> json_object \<Rightarrow> bool"
  lg_digest :: "json_object \<Rightarrow> pystr"

definition entry_key :: "ledger_entry \<Rightarrow> pystr \<times> action_group \<times> pystr" where
  "entry_key e = (le_tenant_reference e, le_action_group e, le_effect_reference e)"

text \<open>The \<open>CHECK\<close> clauses and the trigger \<open>enforce_intent_update\<close>.\<close>

definition entry_checks :: "ledger_entry \<Rightarrow> bool" where
  "entry_checks e \<longleftrightarrow>
     length (le_snapshot_digest e) = 64
     \<and> (le_phase e = PhREADY) = (le_reserved_at e = None \<and> le_closed_at e = None)
     \<and> (le_phase e = PhRESERVED) = (le_reserved_at e \<noteq> None \<and> le_closed_at e = None)
     \<and> (le_phase e = PhCLOSED) = (le_closed_at e \<noteq> None)
     \<and> (le_phase e = PhCLOSED) = (le_close_kind e \<noteq> None)
     \<and> (le_close_kind e = None \<or> (le_close_kind e = Some CloseOUTCOME) = (le_outcome_data e \<noteq> None))"

definition entry_binding :: "ledger_entry \<Rightarrow> pystr \<times> action_group \<times> pystr \<times> pystr \<times> pystr \<times> pystr \<times> json_object" where
  "entry_binding e =
     (le_tenant_reference e, le_action_group e, le_effect_reference e, le_resource_reference e,
      le_requester_reference e, le_snapshot_digest e, le_snapshot_data e)"

definition enforce_intent_update :: "ledger_entry \<Rightarrow> ledger_entry \<Rightarrow> bool" where
  "enforce_intent_update old new \<longleftrightarrow>
     entry_binding new = entry_binding old
     \<and> (le_phase old = PhCLOSED \<longrightarrow> new = old)
     \<and> (le_phase old \<noteq> le_phase new \<longrightarrow>
          (le_phase old = PhREADY \<and> le_phase new \<in> {PhRESERVED, PhCLOSED})
          \<or> (le_phase old = PhRESERVED \<and> le_phase new = PhCLOSED))"

section \<open>Statements\<close>

definition select_entry :: "pystr \<times> action_group \<times> pystr \<Rightarrow> ledger \<Rightarrow> ledger_entry option" where
  "select_entry k rows = find (\<lambda>e. entry_key e = k) rows"

text \<open>\<open>INSERT \<dots> ON CONFLICT DO NOTHING\<close>, with the number of rows inserted.\<close>

definition insert_entry :: "ledger_entry \<Rightarrow> (ledger, nat) eff" where
  "insert_entry e rows =
     (if select_entry (entry_key e) rows \<noteq> None then (Inr 0, rows)
      else if \<not> entry_checks e then (fails IntegrityError, rows)
      else (Inr 1, rows @ [e]))"

text \<open>\<open>UPDATE \<dots> WHERE key = \<dots> AND phase IN \<dots>\<close>, with the number of rows updated.\<close>

definition update_entry ::
  "pystr \<times> action_group \<times> pystr \<Rightarrow> ledger_phase set \<Rightarrow> (ledger_entry \<Rightarrow> ledger_entry) \<Rightarrow> (ledger, nat) eff" where
  "update_entry k phases change rows =
     (let hit = (\<lambda>e. entry_key e = k \<and> le_phase e \<in> phases) in
      if list_ex (\<lambda>e. hit e \<and> \<not> (entry_checks (change e) \<and> enforce_intent_update e (change e))) rows
      then (fails IntegrityError, rows)
      else (Inr (length (filter hit rows)), map (\<lambda>e. if hit e then change e else e) rows))"

definition reserved_elsewhere :: "pystr \<Rightarrow> pystr \<Rightarrow> action_group \<Rightarrow> pystr \<Rightarrow> ledger \<Rightarrow> bool" where
  "reserved_elsewhere tenant resource grp effect rows =
     list_ex (\<lambda>e. le_tenant_reference e = tenant \<and> le_resource_reference e = resource
        \<and> le_phase e = PhRESERVED \<and> \<not> (le_action_group e = grp \<and> le_effect_reference e = effect)) rows"

section \<open>Operations\<close>

definition remember ::
  "ledger_config \<Rightarrow> pystr \<Rightarrow> action_group \<Rightarrow> pystr \<Rightarrow> pystr \<Rightarrow> pystr \<Rightarrow> json_object \<Rightarrow> (ledger, remember_status) eff" where
  "remember cfg tenant grp effect resource requester data =
     (let digest = lg_digest cfg data in
      bind (insert_entry
             \<lparr>le_tenant_reference = tenant, le_action_group = grp, le_effect_reference = effect,
              le_resource_reference = resource, le_requester_reference = requester,
              le_snapshot_digest = digest, le_snapshot_data = lg_jsonb cfg data, le_phase = PhREADY,
              le_reserved_at = None, le_closed_at = None, le_close_kind = None, le_outcome_data = None\<rparr>)
        (\<lambda>inserted rows.
           case select_entry (tenant, grp, effect) rows of
             None \<Rightarrow> (fails StripePostgresHostError, rows)
           | Some e \<Rightarrow>
               if le_resource_reference e \<noteq> resource \<or> le_requester_reference e \<noteq> requester
                  \<or> le_snapshot_digest e \<noteq> digest \<or> \<not> lg_same cfg (le_snapshot_data e) data
               then (Inr RememberCONFLICT, rows)
               else (Inr (if inserted = 1 then RememberCREATED else RememberMATCHED), rows)))"

definition load_entry :: "pystr \<Rightarrow> action_group \<Rightarrow> pystr \<Rightarrow> (ledger, ledger_entry option) eff" where
  "load_entry tenant grp effect rows = (Inr (select_entry (tenant, grp, effect) rows), rows)"

definition require_transaction :: "bool \<Rightarrow> (ledger, unit) eff" where
  "require_transaction in_transaction = (if in_transaction then return () else raise StripePostgresHostError)"

definition load_in :: "bool \<Rightarrow> pystr \<Rightarrow> action_group \<Rightarrow> pystr \<Rightarrow> (ledger, ledger_entry option) eff" where
  "load_in in_transaction tenant grp effect =
     bind (require_transaction in_transaction) (\<lambda>_. load_entry tenant grp effect)"

definition updated_once :: "nat \<Rightarrow> 'a \<Rightarrow> (ledger, 'a) eff" where
  "updated_once n result = (if n = 1 then return result else raise StripePostgresHostError)"

text \<open>\<open>now\<close> is \<open>clock_timestamp()\<close> of the database server.\<close>

definition reserve_in ::
  "ledger_config \<Rightarrow> instant \<Rightarrow> bool \<Rightarrow> pystr \<Rightarrow> action_group \<Rightarrow> pystr \<Rightarrow> pystr \<Rightarrow> json_object \<Rightarrow> instant
     \<Rightarrow> (ledger, reservation_status) eff" where
  "reserve_in cfg now in_transaction tenant grp effect resource data not_after =
     bind (require_transaction in_transaction) (\<lambda>_.
     bind (load_entry tenant grp effect) (\<lambda>row.
     case row of
       None \<Rightarrow> return ResSTALE
     | Some e \<Rightarrow>
         if le_resource_reference e \<noteq> resource \<or> le_snapshot_digest e \<noteq> lg_digest cfg data
            \<or> \<not> lg_same cfg (le_snapshot_data e) data
         then return ResSTALE
         else if le_phase e \<noteq> PhREADY then return ResALREADY_SUBMITTED
         else if \<not> now < not_after then return ResSTALE
         else (\<lambda>rows.
           if reserved_elsewhere tenant resource grp effect rows then (Inr ResUNAVAILABLE, rows)
           else
             bind (update_entry (tenant, grp, effect) {PhREADY}
                    (\<lambda>e. e\<lparr>le_phase := PhRESERVED, le_reserved_at := Some now\<rparr>)) (\<lambda>n.
             updated_once n ResACQUIRED) rows)))"

definition close_in ::
  "ledger_config \<Rightarrow> instant \<Rightarrow> bool \<Rightarrow> pystr \<Rightarrow> action_group \<Rightarrow> pystr \<Rightarrow> json_object option
     \<Rightarrow> (ledger, close_status) eff" where
  "close_in cfg now in_transaction tenant grp effect outcome =
     bind (require_transaction in_transaction) (\<lambda>_.
     bind (load_entry tenant grp effect) (\<lambda>row.
     case row of
       None \<Rightarrow> raise StripePostgresHostError
     | Some e \<Rightarrow>
         let kind = (if outcome \<noteq> None then CloseOUTCOME else CloseNO_SUBMISSION) in
         if le_phase e = PhCLOSED
         then return (if le_close_kind e = Some kind
                         \<and> (case (le_outcome_data e, outcome) of
                              (None, None) \<Rightarrow> True
                            | (Some recorded, Some new) \<Rightarrow> lg_same cfg recorded new
                            | _ \<Rightarrow> False)
                      then CloseMATCHED else CloseCONFLICT)
         else if le_phase e = PhREADY \<and> outcome \<noteq> None then raise StripePostgresHostError
         else
           bind (update_entry (tenant, grp, effect) {PhREADY, PhRESERVED}
                  (\<lambda>e. e\<lparr>le_phase := PhCLOSED, le_closed_at := Some now, le_close_kind := Some kind,
                         le_outcome_data := map_option (lg_jsonb cfg) outcome\<rparr>)) (\<lambda>n.
           updated_once n CloseRECORDED)))"

definition record_no_submission_in ::
  "ledger_config \<Rightarrow> instant \<Rightarrow> bool \<Rightarrow> pystr \<Rightarrow> action_group \<Rightarrow> pystr \<Rightarrow> (ledger, close_status) eff" where
  "record_no_submission_in cfg now in_transaction tenant grp effect =
     close_in cfg now in_transaction tenant grp effect None"

definition record_outcome_in ::
  "ledger_config \<Rightarrow> instant \<Rightarrow> bool \<Rightarrow> pystr \<Rightarrow> action_group \<Rightarrow> pystr \<Rightarrow> json_object \<Rightarrow> (ledger, close_status) eff" where
  "record_outcome_in cfg now in_transaction tenant grp effect outcome =
     close_in cfg now in_transaction tenant grp effect (Some outcome)"

section \<open>The invariant\<close>

text \<open>
  Every operation the ledger offers, by any client and for any action group, as one step; \<open>committed\<close>
  is the end of the transaction.
\<close>

definition committed :: "('s, 'a) eff \<Rightarrow> ('s, 'a) eff" where
  "committed m s = (case m s of (Inl e, t) \<Rightarrow> (Inl e, s) | (Inr a, t) \<Rightarrow> (Inr a, t))"

inductive ledger_step :: "ledger_config \<Rightarrow> ledger \<Rightarrow> ledger \<Rightarrow> bool" for cfg where
  remembering: "snd (committed (remember cfg t g k res req data) rows) = rows' \<Longrightarrow> ledger_step cfg rows rows'"
| reserving: "snd (committed (reserve_in cfg now tx t g k res data na) rows) = rows' \<Longrightarrow> ledger_step cfg rows rows'"
| closing: "snd (committed (close_in cfg now tx t g k outcome) rows) = rows' \<Longrightarrow> ledger_step cfg rows rows'"

definition one_reservation :: "ledger \<Rightarrow> bool" where
  "one_reservation rows \<longleftrightarrow>
     (\<forall>e\<in>set rows. \<forall>d\<in>set rows.
        le_phase e = PhRESERVED \<and> le_phase d = PhRESERVED
        \<and> le_tenant_reference e = le_tenant_reference d \<and> le_resource_reference e = le_resource_reference d
        \<longrightarrow> e = d)"

definition ledger_ok :: "ledger \<Rightarrow> bool" where
  "ledger_ok rows \<longleftrightarrow>
     distinct (map entry_key rows) \<and> (\<forall>e\<in>set rows. entry_checks e) \<and> one_reservation rows"

text \<open>How a row may change: its binding never, its phase only forward, and not at all once closed.\<close>

definition entry_evolves :: "ledger_entry \<Rightarrow> ledger_entry \<Rightarrow> bool" where
  "entry_evolves old new \<longleftrightarrow>
     entry_binding new = entry_binding old \<and> (le_phase old = PhCLOSED \<longrightarrow> new = old)
     \<and> (le_phase old \<noteq> PhREADY \<longrightarrow> le_phase new \<noteq> PhREADY)"

definition rows_evolve :: "ledger \<Rightarrow> ledger \<Rightarrow> bool" where
  "rows_evolve rows rows' \<longleftrightarrow> (\<forall>e\<in>set rows. \<exists>e'\<in>set rows'. entry_evolves e e')"

lemma entry_evolves_refl [simp]: "entry_evolves e e"
  by (simp add: entry_evolves_def)

lemma entry_evolves_trans: "entry_evolves a b \<Longrightarrow> entry_evolves b c \<Longrightarrow> entry_evolves a c"
  by (auto simp: entry_evolves_def)

lemma rows_evolve_refl [simp]: "rows_evolve rows rows"
  unfolding rows_evolve_def by (meson entry_evolves_refl)

lemma rows_evolve_trans: "rows_evolve a b \<Longrightarrow> rows_evolve b c \<Longrightarrow> rows_evolve a c"
  unfolding rows_evolve_def by (meson entry_evolves_trans)

lemma entry_key_binding: "entry_binding e = entry_binding d \<Longrightarrow> entry_key e = entry_key d"
  by (simp add: entry_key_def entry_binding_def)

lemma enforce_evolves: "enforce_intent_update old new \<Longrightarrow> entry_evolves old new"
  by (auto simp: enforce_intent_update_def entry_evolves_def)

lemma select_entryD: "select_entry k rows = Some e \<Longrightarrow> e \<in> set rows \<and> entry_key e = k"
  by (auto simp: select_entry_def find_Some_iff in_set_conv_nth)

lemma select_entry_None: "select_entry k rows = None \<longleftrightarrow> k \<notin> entry_key ` set rows"
  by (auto simp: select_entry_def find_None_iff)

lemma key_unique:
  "distinct (map entry_key rows) \<Longrightarrow> e \<in> set rows \<Longrightarrow> d \<in> set rows \<Longrightarrow> entry_key e = entry_key d \<Longrightarrow> e = d"
  by (auto simp: distinct_map inj_on_def)

lemma bex_unique:
  assumes "e \<in> A" and "K e" and "\<And>d. d \<in> A \<Longrightarrow> K d \<Longrightarrow> d = e"
  shows "(\<exists>d\<in>A. K d \<and> F d) \<longleftrightarrow> F e"
  using assms by blast

lemma filter_key:
  assumes "distinct (map entry_key rows)" and "e \<in> set rows" and "entry_key e = k"
  shows "filter (\<lambda>d. entry_key d = k) rows = [e]"
  using assms
proof (induction rows)
  case (Cons x rows)
  then show ?case by (auto simp: filter_empty_conv) (metis image_eqI)
qed simp

lemma update_entry_one:
  assumes "distinct (map entry_key rows)" and "select_entry k rows = Some e" and "le_phase e \<in> phases"
    and "entry_checks (change e)" and "enforce_intent_update e (change e)"
  shows "update_entry k phases change rows = (Inr 1, map (\<lambda>d. if d = e then change d else d) rows)"
proof -
  have e: "e \<in> set rows" "entry_key e = k" using select_entryD [OF assms(2)] by auto
  have hit: "entry_key d = k \<and> le_phase d \<in> phases \<longleftrightarrow> d = e" if "d \<in> set rows" for d
    using key_unique [OF assms(1) that e(1)] e(2) assms(3) by auto
  have "filter (\<lambda>d. entry_key d = k \<and> le_phase d \<in> phases) rows = filter (\<lambda>d. entry_key d = k) rows"
    by (rule filter_cong) (use key_unique [OF assms(1) _ e(1)] e(2) assms(3) in auto)
  then have "filter (\<lambda>d. entry_key d = k \<and> le_phase d \<in> phases) rows = [e]"
    using filter_key [OF assms(1) e] by simp
  moreover have "map (\<lambda>d. if entry_key d = k \<and> le_phase d \<in> phases then change d else d) rows
      = map (\<lambda>d. if d = e then change d else d) rows"
    by (rule map_cong) (use hit in auto)
  moreover have "\<not> list_ex (\<lambda>d. (entry_key d = k \<and> le_phase d \<in> phases)
      \<and> \<not> (entry_checks (change d) \<and> enforce_intent_update d (change d))) rows"
    using hit assms(4,5) by (auto simp: list_ex_iff)
  ultimately show ?thesis by (simp add: update_entry_def Let_def)
qed

definition reserved_entry :: "instant \<Rightarrow> ledger_entry \<Rightarrow> ledger_entry" where
  "reserved_entry now e = e\<lparr>le_phase := PhRESERVED, le_reserved_at := Some now\<rparr>"

definition closed_entry :: "ledger_config \<Rightarrow> instant \<Rightarrow> json_object option \<Rightarrow> ledger_entry \<Rightarrow> ledger_entry" where
  "closed_entry cfg now outcome e =
     e\<lparr>le_phase := PhCLOSED, le_closed_at := Some now,
       le_close_kind := Some (if outcome \<noteq> None then CloseOUTCOME else CloseNO_SUBMISSION),
       le_outcome_data := map_option (lg_jsonb cfg) outcome\<rparr>"

definition replaced :: "ledger_entry \<Rightarrow> ledger_entry \<Rightarrow> ledger \<Rightarrow> ledger" where
  "replaced e e' rows = map (\<lambda>d. if d = e then e' else d) rows"

lemma reserved_entry_ok:
  assumes "entry_checks e" and "le_phase e = PhREADY"
  shows "entry_checks (reserved_entry now e)" and "enforce_intent_update e (reserved_entry now e)"
  using assms by (auto simp: reserved_entry_def entry_checks_def enforce_intent_update_def entry_binding_def)

lemma closed_entry_ok:
  assumes "entry_checks e" and "le_phase e \<noteq> PhCLOSED"
  shows "entry_checks (closed_entry cfg now outcome e)" and "enforce_intent_update e (closed_entry cfg now outcome e)"
  using assms by (auto simp: closed_entry_def entry_checks_def enforce_intent_update_def entry_binding_def)

lemma update_entry_replaced:
  assumes "ledger_ok rows" and "select_entry k rows = Some e" and "le_phase e \<in> phases"
    and "entry_checks (change e)" and "enforce_intent_update e (change e)"
  shows "update_entry k phases change rows = (Inr 1, replaced e (change e) rows)"
proof -
  have "map (\<lambda>d. if d = e then change d else d) rows = replaced e (change e) rows"
    by (simp add: replaced_def)
  with update_entry_one [of rows k e phases change] assms show ?thesis by (simp add: ledger_ok_def)
qed

text \<open>
  The decision of a reservation: on a good ledger it never raises, the row it updates is the row it
  locked, and no \<open>CHECK\<close> clause and no trigger stands in its way.
\<close>

lemma reserve_in_eq:
  assumes "ledger_ok rows"
  shows "reserve_in cfg now True t g k res data na rows =
    (case select_entry (t, g, k) rows of
       None \<Rightarrow> (Inr ResSTALE, rows)
     | Some e \<Rightarrow>
         if le_resource_reference e \<noteq> res \<or> le_snapshot_digest e \<noteq> lg_digest cfg data
            \<or> \<not> lg_same cfg (le_snapshot_data e) data then (Inr ResSTALE, rows)
         else if le_phase e \<noteq> PhREADY then (Inr ResALREADY_SUBMITTED, rows)
         else if \<not> now < na then (Inr ResSTALE, rows)
         else if reserved_elsewhere t res g k rows then (Inr ResUNAVAILABLE, rows)
         else (Inr ResACQUIRED, replaced e (reserved_entry now e) rows))"
proof (cases "select_entry (t, g, k) rows")
  case None
  then show ?thesis by (simp add: reserve_in_def require_transaction_def load_entry_def bind_def return_def)
next
  case (Some e)
  have "entry_checks e" using assms select_entryD [OF Some] by (simp add: ledger_ok_def)
  then have "le_phase e = PhREADY \<Longrightarrow>
     update_entry (t, g, k) {PhREADY} (reserved_entry now) rows = (Inr 1, replaced e (reserved_entry now e) rows)"
    by (intro update_entry_replaced [OF assms Some]) (simp_all add: reserved_entry_ok)
  with Some show ?thesis
    by (simp add: reserve_in_def require_transaction_def load_entry_def bind_def return_def updated_once_def
        reserved_entry_def [abs_def])
qed

lemma close_in_eq:
  assumes "ledger_ok rows"
  shows "close_in cfg now True t g k outcome rows =
    (case select_entry (t, g, k) rows of
       None \<Rightarrow> (fails StripePostgresHostError, rows)
     | Some e \<Rightarrow>
         if le_phase e = PhCLOSED
         then (Inr (if le_close_kind e = Some (if outcome \<noteq> None then CloseOUTCOME else CloseNO_SUBMISSION)
                       \<and> (case (le_outcome_data e, outcome) of
                            (None, None) \<Rightarrow> True
                          | (Some recorded, Some new) \<Rightarrow> lg_same cfg recorded new
                          | _ \<Rightarrow> False) then CloseMATCHED else CloseCONFLICT), rows)
         else if le_phase e = PhREADY \<and> outcome \<noteq> None then (fails StripePostgresHostError, rows)
         else (Inr CloseRECORDED, replaced e (closed_entry cfg now outcome e) rows))"
proof (cases "select_entry (t, g, k) rows")
  case None
  then show ?thesis
    by (simp add: close_in_def require_transaction_def load_entry_def bind_def return_def raise_def throw_def fails_def)
next
  case (Some e)
  have "entry_checks e" using assms select_entryD [OF Some] by (simp add: ledger_ok_def)
  then have up: "update_entry (t, g, k) {PhREADY, PhRESERVED} (closed_entry cfg now outcome) rows
      = (Inr 1, replaced e (closed_entry cfg now outcome e) rows)" if "le_phase e \<noteq> PhCLOSED"
    using that by (intro update_entry_replaced [OF assms Some]) (auto simp: closed_entry_ok intro: ledger_phase.exhaust)
  from Some up show ?thesis
    by (simp add: close_in_def require_transaction_def load_entry_def bind_def return_def raise_def throw_def
        fails_def updated_once_def Let_def closed_entry_def [abs_def] cong: if_cong)
qed

lemma replaced_set: "e \<in> set rows \<Longrightarrow> set (replaced e e' rows) = insert e' (set rows - {e})"
  by (auto simp: replaced_def)

lemma map_key_replaced: "entry_key e' = entry_key e \<Longrightarrow> map entry_key (replaced e e' rows) = map entry_key rows"
  by (auto simp: replaced_def)

lemma replaced_ok:
  assumes ok: "ledger_ok rows" and e: "e \<in> set rows" and up: "enforce_intent_update e e'" and c: "entry_checks e'"
    and one: "le_phase e' = PhRESERVED \<Longrightarrow> \<forall>d\<in>set rows. d \<noteq> e \<longrightarrow> le_phase d = PhRESERVED \<longrightarrow>
        le_tenant_reference d = le_tenant_reference e \<longrightarrow> le_resource_reference d \<noteq> le_resource_reference e"
  shows "ledger_ok (replaced e e' rows) \<and> rows_evolve rows (replaced e e' rows)"
proof
  have b: "entry_binding e' = entry_binding e" using up by (simp add: enforce_intent_update_def)
  then have same: "le_tenant_reference e' = le_tenant_reference e" "le_resource_reference e' = le_resource_reference e"
    by (simp_all add: entry_binding_def)
  have "distinct (map entry_key (replaced e e' rows))"
    using ok map_key_replaced [OF entry_key_binding [OF b]] by (simp add: ledger_ok_def)
  moreover have "one_reservation (replaced e e' rows)"
    unfolding one_reservation_def replaced_set [OF e]
  proof (intro ballI impI)
    fix a b
    assume a: "a \<in> insert e' (set rows - {e})" and b: "b \<in> insert e' (set rows - {e})"
      and h: "le_phase a = PhRESERVED \<and> le_phase b = PhRESERVED
        \<and> le_tenant_reference a = le_tenant_reference b \<and> le_resource_reference a = le_resource_reference b"
    have "one_reservation rows" using ok by (simp add: ledger_ok_def)
    then have "a \<in> set rows \<Longrightarrow> b \<in> set rows \<Longrightarrow> a = b" using h unfolding one_reservation_def by blast
    moreover have "d \<in> set rows - {e} \<Longrightarrow> le_phase d = PhRESERVED \<Longrightarrow> le_phase e' = PhRESERVED \<Longrightarrow>
        le_tenant_reference d = le_tenant_reference e' \<Longrightarrow> le_resource_reference d = le_resource_reference e' \<Longrightarrow>
        False" for d
      using one same by auto
    ultimately show "a = b" using a b h by (metis Diff_iff insertE)
  qed
  ultimately show "ledger_ok (replaced e e' rows)"
    using ok c unfolding ledger_ok_def replaced_set [OF e] by auto
  show "rows_evolve rows (replaced e e' rows)"
    using enforce_evolves [OF up] unfolding rows_evolve_def replaced_set [OF e]
    by (metis Diff_iff entry_evolves_refl insertCI singletonD)
qed

lemma insert_ok:
  assumes "ledger_ok rows" and "entry_key e \<notin> entry_key ` set rows" and "entry_checks e" and "le_phase e = PhREADY"
  shows "ledger_ok (rows @ [e]) \<and> rows_evolve rows (rows @ [e])"
  using assms by (auto simp: ledger_ok_def one_reservation_def rows_evolve_def)
    (meson entry_evolves_refl)+

lemma remember_ok:
  assumes "ledger_ok rows" and "remember cfg t g k res req data rows = (r, rows')"
  shows "ledger_ok rows' \<and> rows_evolve rows rows'"
  using assms insert_ok [OF assms(1)]
  by (auto simp: remember_def Let_def bind_def insert_entry_def select_entry_None fails_def
      split: if_splits option.splits)

lemma reserve_ok:
  assumes "ledger_ok rows" and "reserve_in cfg now tx t g k res data na rows = (r, rows')"
  shows "ledger_ok rows' \<and> rows_evolve rows rows'"
proof (cases tx)
  case False
  then show ?thesis using assms by (auto simp: reserve_in_def require_transaction_def bind_def raise_def throw_def)
next
  case True
  show ?thesis
  proof (cases "\<exists>e. select_entry (t, g, k) rows = Some e \<and> le_phase e = PhREADY
      \<and> le_resource_reference e = res \<and> \<not> reserved_elsewhere t res g k rows
      \<and> rows' = replaced e (reserved_entry now e) rows")
    case True
    then obtain e where e: "select_entry (t, g, k) rows = Some e" "le_phase e = PhREADY" "le_resource_reference e = res"
      "\<not> reserved_elsewhere t res g k rows" "rows' = replaced e (reserved_entry now e) rows" by blast
    have s: "e \<in> set rows" "entry_key e = (t, g, k)" using select_entryD [OF e(1)] by auto
    have ch: "entry_checks e" using assms(1) s(1) by (simp add: ledger_ok_def)
    show ?thesis unfolding e(5)
      by (rule replaced_ok [OF assms(1) s(1)])
        (use reserved_entry_ok [OF ch e(2)] e(3,4) s assms(1) key_unique in
          \<open>auto simp: reserved_elsewhere_def list_ex_iff entry_key_def ledger_ok_def\<close>)
  next
    case False
    then have "rows' = rows"
      using assms(2) True by (auto simp: reserve_in_eq [OF assms(1)] split: option.splits if_splits)
    then show ?thesis using assms(1) by simp
  qed
qed

lemma close_ok:
  assumes "ledger_ok rows" and "close_in cfg now tx t g k outcome rows = (r, rows')"
  shows "ledger_ok rows' \<and> rows_evolve rows rows'"
proof (cases tx)
  case False
  then show ?thesis using assms by (auto simp: close_in_def require_transaction_def bind_def raise_def throw_def)
next
  case True
  show ?thesis
  proof (cases "\<exists>e. select_entry (t, g, k) rows = Some e \<and> le_phase e \<noteq> PhCLOSED
      \<and> rows' = replaced e (closed_entry cfg now outcome e) rows")
    case True
    then obtain e where e: "select_entry (t, g, k) rows = Some e" "le_phase e \<noteq> PhCLOSED"
      "rows' = replaced e (closed_entry cfg now outcome e) rows" by blast
    have s: "e \<in> set rows" using select_entryD [OF e(1)] by auto
    have ch: "entry_checks e" using assms(1) s by (simp add: ledger_ok_def)
    show ?thesis unfolding e(3)
      by (rule replaced_ok [OF assms(1) s])
        (use closed_entry_ok [OF ch e(2)] in \<open>auto simp: closed_entry_def\<close>)
  next
    case False
    then have "rows' = rows"
      using assms(2) True by (auto simp: close_in_eq [OF assms(1)] split: option.splits if_splits)
    then show ?thesis using assms(1) by simp
  qed
qed

lemma committed_ok:
  assumes "ledger_ok rows" and "\<And>r rows'. m rows = (r, rows') \<Longrightarrow> ledger_ok rows' \<and> rows_evolve rows rows'"
  shows "ledger_ok (snd (committed m rows)) \<and> rows_evolve rows (snd (committed m rows))"
  using assms by (auto simp: committed_def split: prod.splits sum.splits)

lemma ledger_step_ok:
  assumes "ledger_step cfg rows rows'" and "ledger_ok rows"
  shows "ledger_ok rows' \<and> rows_evolve rows rows'"
  using assms(1)
proof cases
  case (remembering t g k res req data)
  then show ?thesis
    using committed_ok [OF assms(2), of "remember cfg t g k res req data"] remember_ok [OF assms(2)] by blast
next
  case (reserving now tx t g k res data na)
  then show ?thesis
    using committed_ok [OF assms(2), of "reserve_in cfg now tx t g k res data na"] reserve_ok [OF assms(2)] by blast
next
  case (closing now tx t g k outcome)
  then show ?thesis
    using committed_ok [OF assms(2), of "close_in cfg now tx t g k outcome"] close_ok [OF assms(2)] by blast
qed

lemma ledger_ok_Nil: "ledger_ok []"
  by (simp add: ledger_ok_def one_reservation_def)

lemma ledger_path_ok:
  "(ledger_step cfg)\<^sup>*\<^sup>* rows rows' \<Longrightarrow> ledger_ok rows \<Longrightarrow> ledger_ok rows' \<and> rows_evolve rows rows'"
  by (induction rule: rtranclp_induct) (auto dest: ledger_step_ok intro: rows_evolve_trans)

section \<open>Properties\<close>

text \<open>
  C33: the ledger. Starting from an empty table and after any sequence of operations by any clients, for
  all action groups: the key of a row is unique, every row satisfies the \<open>CHECK\<close> clauses, and at most one
  intent of a resource is reserved. From then on a row keeps its binding, never becomes ready again
  and never changes once it is closed.
\<close>

theorem ledger_invariant:
  assumes "(ledger_step cfg)\<^sup>*\<^sup>* [] rows" and "(ledger_step cfg)\<^sup>*\<^sup>* rows rows'"
  shows "distinct (map entry_key rows) \<and> (\<forall>e\<in>set rows. entry_checks e) \<and> one_reservation rows
    \<and> (\<forall>e\<in>set rows. \<exists>e'\<in>set rows'. entry_binding e' = entry_binding e
         \<and> (le_phase e \<noteq> PhREADY \<longrightarrow> le_phase e' \<noteq> PhREADY) \<and> (le_phase e = PhCLOSED \<longrightarrow> e' = e))"
proof -
  have ok: "ledger_ok rows" using ledger_path_ok [OF assms(1) ledger_ok_Nil] by blast
  then have "rows_evolve rows rows'" using ledger_path_ok [OF assms(2)] by blast
  with ok show ?thesis unfolding ledger_ok_def rows_evolve_def entry_evolves_def by blast
qed

definition demo_ledger_config :: ledger_config where
  "demo_ledger_config = \<lparr>lg_jsonb = (\<lambda>d. d), lg_same = (=), lg_digest = (\<lambda>d. replicate 64 (CHR ''a''))\<rparr>"

definition demo_rows :: ledger where
  "demo_rows = snd (committed (remember demo_ledger_config ''t'' REFUNDS ''k'' ''customer:c'' ''u'' []) [])"

definition demo_reserved :: ledger where
  "demo_reserved = snd (committed
     (reserve_in demo_ledger_config 5 True ''t'' REFUNDS ''k'' ''customer:c'' [] 9) demo_rows)"

lemma demo_rows_step: "ledger_step demo_ledger_config [] demo_rows"
  by (rule ledger_step.remembering) (rule demo_rows_def [symmetric])

theorem ledger_invariant_witness:
  "one_reservation demo_reserved \<and> list_ex (\<lambda>e. le_phase e = PhRESERVED) demo_reserved"
proof
  have "ledger_step demo_ledger_config demo_rows demo_reserved"
    by (rule ledger_step.reserving) (rule demo_reserved_def [symmetric])
  then have "(ledger_step demo_ledger_config)\<^sup>*\<^sup>* [] demo_reserved"
    using demo_rows_step by (meson rtranclp.simps)
  from ledger_invariant [OF this rtranclp.rtrancl_refl] show "one_reservation demo_reserved" by blast
  show "list_ex (\<lambda>e. le_phase e = PhRESERVED) demo_reserved" by code_simp
qed

text \<open>
  The answer of a reservation, on every branch. In a transaction on a good ledger it never raises,
  and the reservation is acquired exactly when the intent is remembered with the same resource and
  snapshot, is still ready, the deadline has not passed and no other intent of the resource is
  reserved; otherwise the rows stay as they are.
\<close>

lemma reserve_in_decision:
  assumes "ledger_ok rows" and "reserve_in cfg now True t g k res data na rows = (r, rows')"
  shows "(\<exists>st. r = Inr st)
    \<and> (r = Inr ResACQUIRED \<longleftrightarrow>
         (\<exists>e\<in>set rows. entry_key e = (t, g, k) \<and> le_resource_reference e = res
            \<and> le_snapshot_digest e = lg_digest cfg data \<and> lg_same cfg (le_snapshot_data e) data
            \<and> le_phase e = PhREADY \<and> now < na
            \<and> (\<forall>d\<in>set rows. le_tenant_reference d = t \<and> le_resource_reference d = res \<longrightarrow>
                 le_phase d \<noteq> PhRESERVED)))
    \<and> (r \<noteq> Inr ResACQUIRED \<longrightarrow> rows' = rows)"
proof (cases "select_entry (t, g, k) rows")
  case None
  then have "r = Inr ResSTALE" "rows' = rows" using assms(2) by (simp_all add: reserve_in_eq [OF assms(1)])
  with None show ?thesis unfolding select_entry_None by auto (metis image_eqI)
next
  case (Some e)
  have e: "e \<in> set rows" "entry_key e = (t, g, k)" using select_entryD [OF Some] by auto
  have u: "d = e" if "d \<in> set rows" "entry_key d = (t, g, k)" for d
    using key_unique [OF _ that(1) e(1)] that(2) e(2) assms(1) by (simp add: ledger_ok_def)
  have busy: "reserved_elsewhere t res g k rows \<longleftrightarrow>
      (\<exists>d\<in>set rows. le_tenant_reference d = t \<and> le_resource_reference d = res \<and> le_phase d = PhRESERVED)"
    if ready: "le_phase e = PhREADY"
  proof -
    have "\<not> (le_action_group d = g \<and> le_effect_reference d = k)"
      if "d \<in> set rows" "le_tenant_reference d = t" "le_phase d = PhRESERVED" for d
      using u [OF that(1)] that(2,3) ready by (auto simp: entry_key_def)
    then show ?thesis unfolding reserved_elsewhere_def list_ex_iff by blast
  qed
  let ?free = "\<lambda>d. le_resource_reference d = res \<and> le_snapshot_digest d = lg_digest cfg data
      \<and> lg_same cfg (le_snapshot_data d) data \<and> le_phase d = PhREADY \<and> now < na
      \<and> (\<forall>x\<in>set rows. le_tenant_reference x = t \<and> le_resource_reference x = res \<longrightarrow> le_phase x \<noteq> PhRESERVED)"
  have only: "(\<exists>d\<in>set rows. entry_key d = (t, g, k) \<and> ?free d) \<longleftrightarrow> ?free e"
    by (rule bex_unique [where K = "\<lambda>d. entry_key d = (t, g, k)" and F = ?free, OF e u])
  have "(r, rows') = (if ?free e then (Inr ResACQUIRED, replaced e (reserved_entry now e) rows)
      else (Inr (if le_resource_reference e \<noteq> res \<or> le_snapshot_digest e \<noteq> lg_digest cfg data
                    \<or> \<not> lg_same cfg (le_snapshot_data e) data then ResSTALE
                 else if le_phase e \<noteq> PhREADY then ResALREADY_SUBMITTED
                 else if \<not> now < na then ResSTALE else ResUNAVAILABLE), rows))"
    unfolding assms(2) [symmetric] reserve_in_eq [OF assms(1)] Some option.case
    using busy by (cases "le_phase e = PhREADY") simp_all
  then show ?thesis unfolding only by (simp split: if_splits)
qed

end
