(* ===== verification/Stripe_Billing.thy ===== *)
theory Stripe_Billing
  imports Stripe_Refunds Stripe_Ledger "HOL-Library.Sublist"
begin

text \<open>
  The workflow that all Stripe billing operations share (\<open>integrations/stripe/_operation.py\<close>):
  \<open>_Workflow\<close> with its abstract methods \<open>_prepare\<close>, \<open>_current\<close>, \<open>_submit\<close> and \<open>_verify\<close> as the components of a record.
  The locale \<open>billing_group\<close> states what the workflow relies on from an action group's methods; the lemmas in
  it say when an execution submits. Subscriptions and credit notes interpret it.
\<close>

section \<open>The ports\<close>

datatype ('s, 'r, 'x) billing_call =
    BillRemember 's pystr "unit outcome"
  | BillLoad pystr pystr "'s outcome"
  | BillReserve 's instant "reservation_status outcome"
  | BillNoSubmission pystr pystr "unit outcome"
  | BillRecordOutcome pystr pystr 'r "unit outcome"
  | BillCanExecute 's execution_context "authorization_result outcome"
  | BillStoreGet pystr pystr "stored_proposal option outcome"
  | BillClock "instant outcome"
  | BillGroup 'x

text \<open>
  The repository, the authorization port, the action store and the clock that every workflow is
  given; \<open>BillGroup\<close> is a call of the group's own ports, with its answer.
\<close>

record ('s, 'r) billing_ports =
  bp_remember :: "nat \<Rightarrow> 's \<Rightarrow> pystr \<Rightarrow> unit outcome"
  bp_load :: "nat \<Rightarrow> pystr \<Rightarrow> pystr \<Rightarrow> 's outcome"
  bp_reserve :: "nat \<Rightarrow> 's \<Rightarrow> instant \<Rightarrow> reservation_status outcome"
  bp_record_no_submission :: "nat \<Rightarrow> pystr \<Rightarrow> pystr \<Rightarrow> unit outcome"
  bp_record_outcome :: "nat \<Rightarrow> pystr \<Rightarrow> pystr \<Rightarrow> 'r \<Rightarrow> unit outcome"
  bp_can_execute :: "nat \<Rightarrow> 's \<Rightarrow> execution_context \<Rightarrow> authorization_result outcome"
  bp_store_get :: "nat \<Rightarrow> pystr \<Rightarrow> pystr \<Rightarrow> stored_proposal option outcome"
  bp_clock :: "nat \<Rightarrow> instant"

type_synonym ('s, 'r, 'x, 'a) billing_eff = "(('s, 'r, 'x) billing_call call_world, 'a) eff"

definition billing_clock :: "('s, 'r) billing_ports \<Rightarrow> ('s, 'r, 'x, instant) billing_eff" where
  "billing_clock p = called BillClock (\<lambda>n. Inr (bp_clock p n))"

definition billing_can_execute ::
  "('s, 'r) billing_ports \<Rightarrow> 's \<Rightarrow> execution_context \<Rightarrow> ('s, 'r, 'x, authorization_result) billing_eff" where
  "billing_can_execute p s c = called (BillCanExecute s c) (\<lambda>n. bp_can_execute p n s c)"

section \<open>The workflow\<close>

record ('s, 'p) billing_prepared =
  bq_private_snapshot :: 's
  bq_display_preview :: 'p
  bq_semantic_effect_reference :: pystr

record 's billing_resolved =
  bv_current_snapshot :: 's
  bv_execution_precondition :: pystr
  bv_materially_drifted :: bool

record ('m, 's, 'p, 'r, 'x) billing_workflow =
  bw_ports :: "('s, 'r) billing_ports"
  bw_tenant_reference :: "'s \<Rightarrow> pystr"
  bw_effect_reference :: "'s \<Rightarrow> pystr"
  bw_prepare :: "'m \<Rightarrow> preparation_context \<Rightarrow> ('s, 'r, 'x, ('s, 'p) billing_prepared) billing_eff"
  bw_current :: "'s \<Rightarrow> ('s, 'r, 'x, bool) billing_eff"
  bw_submit :: "'s \<Rightarrow> instant \<Rightarrow> ('s, 'r, 'x, 'r stripe_execution) billing_eff"
  bw_verify :: "'s \<Rightarrow> ('s, 'r, 'x, 'r stripe_verification) billing_eff"

text \<open>\<open>_Snapshot.effect_reference\<close>; \<open>namespace\<close> is the class variable \<open>effect_namespace\<close>.\<close>

definition snapshot_effect :: "digests \<Rightarrow> pystr \<Rightarrow> pystr \<Rightarrow> pystr \<Rightarrow> pystr" where
  "snapshot_effect dg namespace tenant intent = namespace @ '':'' @ strings_digest dg [tenant, intent]"

definition billing_prepare ::
  "('m, 's, 'p, 'r, 'x) billing_workflow \<Rightarrow> 'm \<Rightarrow> preparation_context
     \<Rightarrow> ('s, 'r, 'x, ('s, 'p) billing_prepared) billing_eff" where
  "billing_prepare w command c =
     bind (bw_prepare w command c) (\<lambda>prepared.
     let s = bq_private_snapshot prepared; requester = rp_reference (pc_requesting_principal c)
     in bind (called (BillRemember s requester) (\<lambda>n. bp_remember (bw_ports w) n s requester)) (\<lambda>_.
        return prepared))"

definition billing_resolve ::
  "('m, 's, 'p, 'r, 'x) billing_workflow \<Rightarrow> 's \<Rightarrow> execution_context
     \<Rightarrow> ('s, 'r, 'x, 's billing_resolved) billing_eff" where
  "billing_resolve w s c =
     bind (if bw_tenant_reference w s = ec_tenant_reference c
              \<and> bw_effect_reference w s = ec_semantic_effect_reference c
           then bw_current w s else return False) (\<lambda>current.
     return \<lparr>bv_current_snapshot = s, bv_execution_precondition = bw_effect_reference w s,
             bv_materially_drifted = (\<not> current)\<rparr>)"

text \<open>The checks after the reservation, which may have waited, and the submission.\<close>

definition billing_last_checks ::
  "('m, 's, 'p, 'r, 'x) billing_workflow \<Rightarrow> 's \<Rightarrow> execution_context \<Rightarrow> instant
     \<Rightarrow> ('s, 'r, 'x, 'r stripe_execution) billing_eff" where
  "billing_last_checks w s c deadline =
     bind (billing_can_execute (bw_ports w) s c) (\<lambda>permitted.
     if \<not> ar_allowed permitted then return (not_executed ExecFAILED_KNOWN ''stripe_authority_revoked'')
     else
       bind (billing_clock (bw_ports w)) (\<lambda>now.
       if deadline \<le> now
       then return (not_executed ExecFAILED_KNOWN ''stripe_submission_deadline_expired'')
       else bw_submit w s deadline))"

definition billing_dispatch ::
  "('m, 's, 'p, 'r, 'x) billing_workflow \<Rightarrow> 's \<Rightarrow> execution_context \<Rightarrow> instant
     \<Rightarrow> ('s, 'r, 'x, 'r stripe_execution) billing_eff" where
  "billing_dispatch w s c deadline =
     bind (billing_can_execute (bw_ports w) s c) (\<lambda>permitted.
     if \<not> ar_allowed permitted then return (not_executed ExecFAILED_KNOWN ''stripe_authority_revoked'')
     else
       bind (bw_current w s) (\<lambda>current.
       if \<not> current then return (not_executed ExecSTALE_NO_EFFECT ''stripe_state_changed'')
       else billing_last_checks w s c deadline))"

definition billing_settle ::
  "('m, 's, 'p, 'r, 'x) billing_workflow \<Rightarrow> 's \<Rightarrow> execution_context \<Rightarrow> 'r stripe_execution
     \<Rightarrow> ('s, 'r, 'x, 'r stripe_execution) billing_eff" where
  "billing_settle w s c result =
     (if se_status result \<in> {ExecFAILED_KNOWN, ExecSTALE_NO_EFFECT}
      then let k = bw_effect_reference w s in
        bind (called (BillNoSubmission (ec_tenant_reference c) k)
                (\<lambda>n. bp_record_no_submission (bw_ports w) n (ec_tenant_reference c) k)) (\<lambda>_. return result)
      else return result)"

definition billing_admitted ::
  "('m, 's, 'p, 'r, 'x) billing_workflow \<Rightarrow> 's \<Rightarrow> execution_context \<Rightarrow> instant
     \<Rightarrow> ('s, 'r, 'x, 'r stripe_execution) billing_eff" where
  "billing_admitted w s c deadline =
     bind (called (BillReserve s deadline) (\<lambda>n. bp_reserve (bw_ports w) n s deadline)) (\<lambda>reservation.
     if reservation \<noteq> ResACQUIRED
     then return (not_executed (refused_status reservation)
                   (''stripe_reservation_'' @ reservation_value reservation))
     else
       bind (billing_dispatch w s c deadline) (\<lambda>result.
       billing_settle w s c result))"

definition billing_execute ::
  "('m, 's, 'p, 'r, 'x) billing_workflow \<Rightarrow> 's \<Rightarrow> execution_context \<Rightarrow> pystr
     \<Rightarrow> ('s, 'r, 'x, 'r stripe_execution) billing_eff" where
  "billing_execute w s c execution_precondition =
     (let changed = not_executed ExecSTALE_NO_EFFECT ''stripe_precondition_changed'';
          unavailable = not_executed ExecFAILED_KNOWN ''stripe_admission_unavailable'' in
      if execution_precondition \<noteq> bw_effect_reference w s then return changed
      else
        bind (billing_resolve w s c) (\<lambda>resolved.
        if bv_materially_drifted resolved then return changed
        else
          bind (billing_can_execute (bw_ports w) s c) (\<lambda>permitted.
          if \<not> ar_allowed permitted then return changed
          else
            bind (called (BillStoreGet (ec_tenant_reference c) (ec_proposal_reference c))
                    (\<lambda>n. bp_store_get (bw_ports w) n (ec_tenant_reference c) (ec_proposal_reference c))) (\<lambda>record.
            case record of
              None \<Rightarrow> return unavailable
            | Some record \<Rightarrow>
                (case sp_next_verification_at record of
                   None \<Rightarrow> return unavailable
                 | Some verification_at \<Rightarrow>
                     if sp_authority_evidence record = [] then return unavailable
                     else billing_admitted w s c (submission_deadline record verification_at))))))"

definition billing_observe ::
  "('m, 's, 'p, 'r, 'x) billing_workflow \<Rightarrow> execution_context
     \<Rightarrow> ('s, 'r, 'x, 'r stripe_verification) billing_eff" where
  "billing_observe w c =
     bind (called (BillLoad (ec_tenant_reference c) (ec_semantic_effect_reference c))
             (\<lambda>n. bp_load (bw_ports w) n (ec_tenant_reference c) (ec_semantic_effect_reference c))) (\<lambda>s.
     if bw_tenant_reference w s \<noteq> ec_tenant_reference c
        \<or> bw_effect_reference w s \<noteq> ec_semantic_effect_reference c
     then return (not_verified TARGET_UNAVAILABLE ''stripe_intent_mismatch'')
     else bw_verify w s)"

definition billing_verify ::
  "('m, 's, 'p, 'r, 'x) billing_workflow \<Rightarrow> execution_context
     \<Rightarrow> ('s, 'r, 'x, 'r stripe_verification) billing_eff" where
  "billing_verify w c =
     bind (called (BillLoad (ec_tenant_reference c) (ec_semantic_effect_reference c))
             (\<lambda>n. bp_load (bw_ports w) n (ec_tenant_reference c) (ec_semantic_effect_reference c))) (\<lambda>s.
     if bw_tenant_reference w s \<noteq> ec_tenant_reference c
        \<or> bw_effect_reference w s \<noteq> ec_semantic_effect_reference c
     then return (not_verified TARGET_UNAVAILABLE ''stripe_intent_mismatch'')
     else
       bind (bw_verify w s) (\<lambda>result.
       case sv_result result of
         None \<Rightarrow> return result
       | Some outcome \<Rightarrow>
           let k = bw_effect_reference w s in
           bind (called (BillRecordOutcome (ec_tenant_reference c) k outcome)
                   (\<lambda>n. bp_record_outcome (bw_ports w) n (ec_tenant_reference c) k outcome)) (\<lambda>_.
           return result)))"

definition billing_authorize_erasure :: "pystr \<Rightarrow> read_context \<Rightarrow> bool" where
  "billing_authorize_erasure proposal_reference c = False"

section \<open>Observations of an effect\<close>

record stripe_effect_observation =
  sx_action_group :: action_group
  sx_proposal_reference :: pystr
  sx_semantic_effect_reference :: pystr
  sx_observed_at :: instant
  sx_verification_status :: verification_status
  sx_outcome :: "(pystr \<times> money option) option"
  sx_external_reference :: "external_reference option"
  sx_reason_code :: "pystr option"

text \<open>
  \<open>observe_effect\<close> of a group, from the observation context that the runtime gave: a read of Stripe that
  settles nothing.
\<close>

definition billing_observe_effect ::
  "('m, 's, 'p, 'r, 'x) billing_workflow \<Rightarrow> action_group \<Rightarrow> ('r \<Rightarrow> pystr \<times> money option) \<Rightarrow> pystr \<Rightarrow> execution_context
     \<Rightarrow> ('s, 'r, 'x, stripe_effect_observation) billing_eff" where
  "billing_observe_effect w grp observed proposal_reference c =
     bind (billing_observe w c) (\<lambda>result.
     return \<lparr>sx_action_group = grp, sx_proposal_reference = proposal_reference,
             sx_semantic_effect_reference = ec_semantic_effect_reference c,
             sx_observed_at = ec_observed_at c, sx_verification_status = sv_status result,
             sx_outcome = map_option observed (sv_result result),
             sx_external_reference = sv_external_reference result,
             sx_reason_code = sv_reason_code result\<rparr>)"

section \<open>Submissions\<close>

text \<open>\<open>sub x\<close> is the snapshot that the call \<open>x\<close> of the group's ports submits to Stripe, if it does.\<close>

fun submission :: "('x \<Rightarrow> 's option) \<Rightarrow> ('s, 'r, 'x) billing_call \<Rightarrow> 's option" where
  "submission sub (BillGroup x) = sub x"
| "submission sub _ = None"

definition quiet :: "('x \<Rightarrow> 's option) \<Rightarrow> ('s, 'r, 'x) billing_call list \<Rightarrow> bool" where
  "quiet sub tr \<longleftrightarrow> list_all (\<lambda>call. submission sub call = None) tr"

lemma quiet_simps [simp]:
  "quiet sub []" "quiet sub (x # xs) \<longleftrightarrow> submission sub x = None \<and> quiet sub xs"
  "quiet sub (xs @ ys) \<longleftrightarrow> quiet sub xs \<and> quiet sub ys"
  by (auto simp: quiet_def)

lemma last_position:
  assumes "pre @ a # post = front @ [b]" and "a \<notin> set front"
  shows "pre = front \<and> a = b \<and> post = []"
proof (cases post rule: rev_cases)
  case Nil
  with assms(1) show ?thesis by simp
next
  case (snoc ys y)
  with assms(1) have "front = pre @ a # ys"
    by (metis append.assoc append_Cons append_same_eq butlast_snoc)
  with assms(2) show ?thesis by simp
qed

text \<open>
  The shape of an execution that submits: after \<open>start\<close> the stored proposal with its deadline, the reservation,
  live authorization, a look at the current state that confirms the snapshot, authorization again,
  the clock twice before the deadline, and the submission as the last call.
\<close>

definition guarded_submission ::
  "('s \<Rightarrow> ('s, 'r, 'x) billing_call list \<Rightarrow> bool) \<Rightarrow> ('s \<Rightarrow> instant \<Rightarrow> bool) \<Rightarrow> ('x \<Rightarrow> 's option) \<Rightarrow> 's \<Rightarrow> execution_context
     \<Rightarrow> ('s, 'r, 'x) billing_call list \<Rightarrow> bool" where
  "guarded_submission confirms ready sub s c tr \<longleftrightarrow>
     (\<exists>start record verification_at permitted look permitted' now now' x.
        tr = start @
          [BillStoreGet (ec_tenant_reference c) (ec_proposal_reference c) (Inr (Some record)),
           BillReserve s (submission_deadline record verification_at) (Inr ResACQUIRED),
           BillCanExecute s c (Inr permitted)] @ look @
          [BillCanExecute s c (Inr permitted'), BillClock (Inr now), BillClock (Inr now'), BillGroup x]
        \<and> quiet sub start \<and> quiet sub look
        \<and> sp_next_verification_at record = Some verification_at
        \<and> ar_allowed permitted \<and> ar_allowed permitted' \<and> confirms s look
        \<and> now < submission_deadline record verification_at
        \<and> now' < submission_deadline record verification_at \<and> ready s now'
        \<and> sub x = Some s)"

text \<open>The calls of a dispatch that submits, and of one with its reservation.\<close>

definition dispatching ::
  "('s \<Rightarrow> ('s, 'r, 'x) billing_call list \<Rightarrow> bool) \<Rightarrow> ('s \<Rightarrow> instant \<Rightarrow> bool) \<Rightarrow> ('x \<Rightarrow> 's option) \<Rightarrow> 's \<Rightarrow> execution_context \<Rightarrow> instant
     \<Rightarrow> ('s, 'r, 'x) billing_call list \<Rightarrow> bool" where
  "dispatching confirms ready sub s c deadline tr \<longleftrightarrow>
     (\<exists>permitted look permitted' now now' x.
        tr = [BillCanExecute s c (Inr permitted)] @ look @
          [BillCanExecute s c (Inr permitted'), BillClock (Inr now), BillClock (Inr now'), BillGroup x]
        \<and> quiet sub look \<and> ar_allowed permitted \<and> ar_allowed permitted' \<and> confirms s look
        \<and> now < deadline \<and> now' < deadline \<and> ready s now' \<and> sub x = Some s)"

definition admitting_group ::
  "('s \<Rightarrow> ('s, 'r, 'x) billing_call list \<Rightarrow> bool) \<Rightarrow> ('s \<Rightarrow> instant \<Rightarrow> bool) \<Rightarrow> ('x \<Rightarrow> 's option) \<Rightarrow> 's \<Rightarrow> execution_context \<Rightarrow> instant
     \<Rightarrow> ('s, 'r, 'x) billing_call list \<Rightarrow> bool" where
  "admitting_group confirms ready sub s c deadline tr \<longleftrightarrow>
     (\<exists>rest. tr = BillReserve s deadline (Inr ResACQUIRED) # rest \<and> dispatching confirms ready sub s c deadline rest)"

text \<open>The calls that submit an effect of a tenant, and those that grant the reservation for one.\<close>

definition effect_key :: "('m, 's, 'p, 'r, 'x) billing_workflow \<Rightarrow> 's \<Rightarrow> pystr \<times> pystr" where
  "effect_key w s = (bw_tenant_reference w s, bw_effect_reference w s)"

definition submits_effect ::
  "('s \<Rightarrow> pystr \<times> pystr) \<Rightarrow> ('x \<Rightarrow> 's option) \<Rightarrow> pystr \<times> pystr \<Rightarrow> ('s, 'r, 'x) billing_call \<Rightarrow> bool" where
  "submits_effect key sub k call \<longleftrightarrow> map_option key (submission sub call) = Some k"

fun grants_effect :: "('s \<Rightarrow> pystr \<times> pystr) \<Rightarrow> ('s, 'r, 'x) billing_call \<Rightarrow> (pystr \<times> pystr) option" where
  "grants_effect key (BillReserve s d (Inr ResACQUIRED)) = Some (key s)"
| "grants_effect key _ = None"

text \<open>
  What the workflow relies on: looking at the current state and verifying never submit, a positive look
  \<open>confirms\<close> the snapshot, and submitting reads the clock, stops at the deadline and when the group is not \<open>ready\<close>, submits the
  given snapshot once and does not report a refusal afterwards.
\<close>

locale billing_group =
  fixes w :: "('m, 's, 'p, 'r, 'x) billing_workflow"
    and confirms :: "'s \<Rightarrow> ('s, 'r, 'x) billing_call list \<Rightarrow> bool"
    and ready :: "'s \<Rightarrow> instant \<Rightarrow> bool"
    and sub :: "'x \<Rightarrow> 's option"
  assumes prepare_reads: "does (bw_prepare w command pc) (\<lambda>r. quiet sub)"
    and current_reads: "does (bw_current w s) (\<lambda>r tr. quiet sub tr \<and> (r = Inr True \<longrightarrow> confirms s tr))"
    and submits_once: "does (bw_submit w s deadline) (\<lambda>r tr. quiet sub tr
      \<or> (\<exists>now x. tr = [BillClock (Inr now), BillGroup x] \<and> now < deadline \<and> ready s now \<and> sub x = Some s \<and> \<not> refuses r))"
    and verify_reads: "does (bw_verify w s) (\<lambda>r. quiet sub)"
begin

lemmas billing_ports_defs = billing_clock_def billing_can_execute_def

lemma dispatchingI:
  assumes "quiet sub look" and "ar_allowed permitted" and "ar_allowed permitted'" and "confirms s look"
    and "now < deadline" and "now' < deadline" and "ready s now'" and "sub x = Some s"
  shows "dispatching confirms ready sub s c deadline (BillCanExecute s c (Inr permitted) # look @
    [BillCanExecute s c (Inr permitted'), BillClock (Inr now), BillClock (Inr now'), BillGroup x])"
  unfolding dispatching_def using assms by (metis append_Cons append_Nil)

lemma last_checks_does:
  "does (billing_last_checks w s c deadline) (\<lambda>r tr.
     (\<exists>permitted now now' x. tr = [BillCanExecute s c (Inr permitted), BillClock (Inr now), BillClock (Inr now'), BillGroup x]
        \<and> ar_allowed permitted \<and> now < deadline \<and> now' < deadline \<and> ready s now' \<and> sub x = Some s \<and> \<not> refuses r)
     \<or> quiet sub tr)"
  unfolding billing_last_checks_def billing_ports_defs
  by (intro does_intros does_mono [OF submits_once]) auto

lemma dispatch_does:
  "does (billing_dispatch w s c deadline) (\<lambda>r tr. dispatching confirms ready sub s c deadline tr \<and> \<not> refuses r \<or> quiet sub tr)"
  unfolding billing_dispatch_def billing_ports_defs
  apply (intro does_intros)
     apply simp
    apply simp
  apply (rule does_bind, rule does_mono [OF current_reads])
  apply (simp split: sum.splits)
  apply (intro allI conjI impI does_intros does_mono [OF last_checks_does])
   apply (auto intro!: dispatchingI)
  done

lemma settle_does:
  "does (billing_settle w s c result) (\<lambda>r tr. quiet sub tr \<and> (\<not> refuses (Inr result) \<longrightarrow> r = Inr result \<and> tr = []))"
  unfolding billing_settle_def Let_def by (intro does_intros) auto

lemma admitted_does:
  "does (billing_admitted w s c deadline)
     (\<lambda>r tr. admitting_group confirms ready sub s c deadline tr \<and> \<not> refuses r \<or> quiet sub tr)"
  unfolding billing_admitted_def
  apply (intro does_intros)
    apply simp
   apply simp
  apply (rule does_bind, rule does_mono [OF dispatch_does])
  apply (simp split: sum.splits)
  apply (intro allI conjI impI does_intros does_mono [OF settle_does])
   apply (auto simp: admitting_group_def)
  done

lemma resolve_does: "does (billing_resolve w s c) (\<lambda>r. quiet sub)"
  unfolding billing_resolve_def
  by (rule does_bind, intro does_intros does_mono [OF current_reads]) (auto intro!: does_intros split: sum.splits)

lemma guarded_start:
  assumes "sp_next_verification_at record = Some v" and "admitting_group confirms ready sub s c (submission_deadline record v) rest"
    and "quiet sub start"
  shows "guarded_submission confirms ready sub s c
    (start @ BillStoreGet (ec_tenant_reference c) (ec_proposal_reference c) (Inr (Some record)) # rest)"
proof -
  obtain permitted look permitted' now now' x where r:
    "rest = [BillReserve s (submission_deadline record v) (Inr ResACQUIRED), BillCanExecute s c (Inr permitted)] @ look @
       [BillCanExecute s c (Inr permitted'), BillClock (Inr now), BillClock (Inr now'), BillGroup x]"
    "quiet sub look" "ar_allowed permitted" "ar_allowed permitted'" "confirms s look"
    "now < submission_deadline record v" "now' < submission_deadline record v" "ready s now'" "sub x = Some s"
    using assms(2) unfolding admitting_group_def dispatching_def by auto
  show ?thesis
    unfolding guarded_submission_def
    by (rule exI [of _ start], rule exI [of _ "record"], rule exI [of _ v], rule exI [of _ permitted],
      rule exI [of _ look], rule exI [of _ permitted'], rule exI [of _ now], rule exI [of _ now'], rule exI [of _ x])
      (use assms r in simp)
qed

lemma guarded_start_permitted:
  assumes "sp_next_verification_at record = Some v" and "admitting_group confirms ready sub s c (submission_deadline record v) rest"
    and "quiet sub start"
  shows "guarded_submission confirms ready sub s c (start @ BillCanExecute s c a
    # BillStoreGet (ec_tenant_reference c) (ec_proposal_reference c) (Inr (Some record)) # rest)"
  using guarded_start [OF assms(1,2), of "start @ [BillCanExecute s c a]"] assms(3) by simp

text \<open>An execution submits as its last call and under every guard, and then does not refuse; or it does not submit.\<close>

lemma execute_does:
  "does (billing_execute w s c p)
     (\<lambda>r tr. guarded_submission confirms ready sub s c tr \<and> \<not> refuses r \<or> quiet sub tr)"
  unfolding billing_execute_def Let_def
  apply (rule does_if)
   apply (intro does_intros, simp)
  apply (rule does_bind, rule does_mono [OF resolve_does])
  apply (simp split: sum.splits)
  unfolding billing_ports_defs
  apply (intro allI conjI impI does_intros does_mono [OF admitted_does])
         apply (auto intro!: guarded_start_permitted)
  done

lemma refusal_is_quiet:
  assumes "outcome_of (billing_execute w s c p) n = Inr x"
    and "se_status x \<in> {ExecFAILED_KNOWN, ExecSTALE_NO_EFFECT}"
  shows "quiet sub (calls_of (billing_execute w s c p) n)"
  using does_run [OF execute_does [of s c p], of n] assms by auto

lemma submission_is_guarded:
  assumes "call \<in> set (calls_of (billing_execute w s c p) n)" and "submission sub call \<noteq> None"
  shows "guarded_submission confirms ready sub s c (calls_of (billing_execute w s c p) n)"
  using does_run [OF execute_does [of s c p], of n] assms by (auto simp: quiet_def list_all_iff)

lemma submission_position:
  assumes "calls_of (billing_execute w s c p) n = pre @ BillGroup x # post" and "sub x \<noteq> None"
  shows "sub x = Some s \<and> post = []
    \<and> (\<exists>start record verification_at permitted look permitted' now now'.
         pre = start @
           [BillStoreGet (ec_tenant_reference c) (ec_proposal_reference c) (Inr (Some record)),
            BillReserve s (submission_deadline record verification_at) (Inr ResACQUIRED),
            BillCanExecute s c (Inr permitted)] @ look @
           [BillCanExecute s c (Inr permitted'), BillClock (Inr now), BillClock (Inr now')]
         \<and> quiet sub start \<and> sp_next_verification_at record = Some verification_at
         \<and> ar_allowed permitted \<and> ar_allowed permitted' \<and> confirms s look
         \<and> now < submission_deadline record verification_at
         \<and> now' < submission_deadline record verification_at \<and> ready s now')"
proof -
  let ?all = "calls_of (billing_execute w s c p) n"
  have "guarded_submission confirms ready sub s c ?all"
    using submission_is_guarded [of "BillGroup x" s c p n] assms by simp
  then obtain start stored v permitted look permitted' now now' y where shape: "?all = (start @
      [BillStoreGet (ec_tenant_reference c) (ec_proposal_reference c) (Inr (Some stored)),
       BillReserve s (submission_deadline stored v) (Inr ResACQUIRED), BillCanExecute s c (Inr permitted)] @ look @
      [BillCanExecute s c (Inr permitted'), BillClock (Inr now), BillClock (Inr now')]) @ [BillGroup y]"
      (is "_ = ?front @ _")
    and q: "quiet sub start" "quiet sub look" and y: "sub y = Some s"
    and guards: "sp_next_verification_at stored = Some v" "ar_allowed permitted" "ar_allowed permitted'"
      "confirms s look" "now < submission_deadline stored v" "now' < submission_deadline stored v" "ready s now'"
    unfolding guarded_submission_def by auto
  have eq: "pre @ BillGroup x # post = ?front @ [BillGroup y]" using assms(1) shape by simp
  have front: "quiet sub ?front" using q by simp
  have "BillGroup x \<notin> set ?front"
    using front assms(2) unfolding quiet_def list_all_iff by (metis submission.simps(1))
  from last_position [OF eq this] have pre: "pre = ?front" and "x = y" and "post = []" by auto
  show ?thesis
    by (intro conjI exI, simp add: \<open>x = y\<close> y, rule \<open>post = []\<close>, rule pre)
      (use guards q(1) in simp_all)
qed

lemma observe_does: "does (billing_observe w c) (\<lambda>r. quiet sub)"
  unfolding billing_observe_def
  by (intro does_intros does_mono [OF verify_reads]) auto

lemma verify_does: "does (billing_verify w c) (\<lambda>r. quiet sub)"
  unfolding billing_verify_def Let_def
  apply (intro does_intros)
    apply simp
   apply simp
  apply (rule does_bind, rule does_mono [OF verify_reads])
  apply (auto intro!: does_intros split: sum.splits)
  done

lemma prepare_does: "does (billing_prepare w command pc) (\<lambda>r. quiet sub)"
  unfolding billing_prepare_def Let_def
  by (rule does_bind, rule does_mono [OF prepare_reads]) (auto intro!: does_intros split: sum.splits)

text \<open>
  A worker that runs one execution, or crashes in the middle of it, submits an effect no more often than
  the repository granted it the reservation.
\<close>

lemma quiet_tally: "quiet sub tr \<Longrightarrow> tally (submits_effect (effect_key w) sub k) tr = 0"
  by (auto simp: tally_eq_0 submits_effect_def quiet_def list_all_iff)

lemma submissions_within_grants:
  assumes "prefix calls (calls_of (billing_execute w s c p) n)"
  shows "tally (submits_effect (effect_key w) sub k) calls \<le> tally (\<lambda>x. grants_effect (effect_key w) x = Some k) calls"
proof (cases "quiet sub calls")
  case True
  then show ?thesis by (simp add: quiet_tally)
next
  case False
  let ?all = "calls_of (billing_execute w s c p) n"
  have "\<not> quiet sub ?all" using False assms by (auto simp: prefix_def)
  then have "guarded_submission confirms ready sub s c ?all" using does_run [OF execute_does [of s c p], of n] by blast
  then obtain start stored v permitted look permitted' now now' x where shape: "?all = (start @
      [BillStoreGet (ec_tenant_reference c) (ec_proposal_reference c) (Inr (Some stored)),
       BillReserve s (submission_deadline stored v) (Inr ResACQUIRED), BillCanExecute s c (Inr permitted)] @ look @
      [BillCanExecute s c (Inr permitted'), BillClock (Inr now), BillClock (Inr now')]) @ [BillGroup x]"
    and q: "quiet sub start" "quiet sub look" and x: "sub x = Some s"
    unfolding guarded_submission_def by auto
  obtain front where all: "?all = front @ [BillGroup x]" and front: "quiet sub front"
    and reserved: "BillReserve s (submission_deadline stored v) (Inr ResACQUIRED) \<in> set front"
    by (rule that [OF shape]) (use q in simp_all)
  have calls: "calls = front @ [BillGroup x]"
    using assms False front unfolding all prefix_snoc by (auto simp: prefix_def)
  have "tally (\<lambda>x. grants_effect (effect_key w) x = Some (effect_key w s)) front \<noteq> 0"
    unfolding tally_eq_0 using reserved by force
  then show ?thesis by (auto simp: calls quiet_tally [OF front] submits_effect_def x)
qed

end

section \<open>Ports for concrete runs\<close>

definition demo_billing_ports :: "'s \<Rightarrow> ('s, 'r) billing_ports" where
  "demo_billing_ports s =
     \<lparr>bp_remember = (\<lambda>n s r. Inr ()), bp_load = (\<lambda>n t e. Inr s), bp_reserve = (\<lambda>n s d. Inr ResACQUIRED),
      bp_record_no_submission = (\<lambda>n t e. Inr ()), bp_record_outcome = (\<lambda>n t e r. Inr ()),
      bp_can_execute = (\<lambda>n s c. Inr \<lparr>ar_allowed = True, ar_reason_code = None\<rparr>),
      bp_store_get = (\<lambda>n t p. Inr (Some demo_stored)), bp_clock = (\<lambda>n. 5)\<rparr>"

end
