(* ===== verification/Stripe_Subscriptions.thy ===== *)
theory Stripe_Subscriptions
  imports Stripe_Billing
begin

text \<open>
  Period-end cancellation of Stripe subscriptions (\<open>integrations/stripe/subscriptions.py\<close>): the data, and
  \<open>_SubscriptionWorkflow\<close> as an instance of the shared workflow. The repository's lookup and the gateway are calls of
  the group; how pydantic prints an instant in a JSON dump is the parameter \<open>sh_iso\<close>.

  Shown: Stripe is asked to change a subscription only while the freshly retrieved subscription is the
  one that was approved, before the deadline and the end of the period; and a completion is
  reported only for a subscription that differs from the approved one in nothing but the requested change.
\<close>

section \<open>Data\<close>

datatype subscription_operation = Schedule | Withdraw

record subscription_request =
  sq_intent_reference :: pystr
  sq_subscription_reference :: pystr
  sq_operation :: subscription_operation

record subscription_binding =
  sb_tenant_reference :: pystr
  sb_subscription_reference :: pystr
  sb_version :: int
  sb_account :: stripe_account
  sb_subscription_id :: pystr
  sb_customer_id :: pystr

datatype subscription_status =
    SubActive | SubCanceled | SubIncomplete | SubIncompleteExpired | SubPastDue | SubPaused | SubTrialing | SubUnpaid

record subscription_observation =
  so_subscription_id :: pystr
  so_customer_id :: pystr
  so_status :: subscription_status
  so_livemode :: bool
  so_item_id :: pystr
  so_price_id :: pystr
  so_quantity :: int
  so_period_start :: instant
  so_period_end :: instant
  so_cancel_at_period_end :: bool
  so_cancel_at :: "instant option"
  so_supported :: bool
  so_correlation :: pystr

definition subscription_bound_to :: "subscription_observation \<Rightarrow> subscription_binding \<Rightarrow> bool" where
  "subscription_bound_to ob b \<longleftrightarrow>
     so_subscription_id ob = sb_subscription_id b
     \<and> so_customer_id ob = sb_customer_id b
     \<and> so_livemode ob = sa_livemode (sb_account b)"

definition subscription_permits :: "subscription_observation \<Rightarrow> subscription_operation \<Rightarrow> instant \<Rightarrow> bool" where
  "subscription_permits ob op now \<longleftrightarrow>
     so_supported ob
     \<and> so_status ob \<in> {SubActive, SubTrialing}
     \<and> so_period_start ob \<le> now \<and> now < so_period_end ob
     \<and> so_cancel_at_period_end ob = (op = Withdraw)
     \<and> (case so_cancel_at ob of
          None \<Rightarrow> True
        | Some at \<Rightarrow> so_cancel_at_period_end ob \<and> at = so_period_end ob)"

record subscription_policy =
  sc_allow_live :: bool
  sc_allow_withdrawal :: bool

definition subscription_policy_fingerprint :: "digests \<Rightarrow> subscription_policy \<Rightarrow> pystr outcome" where
  "subscription_policy_fingerprint dg p =
     fingerprint_of dg (JObj [(''allow_live'', JBool (sc_allow_live p)),
                              (''allow_withdrawal'', JBool (sc_allow_withdrawal p))])"

definition subscription_policy_permits :: "subscription_policy \<Rightarrow> subscription_operation \<Rightarrow> bool \<Rightarrow> bool" where
  "subscription_policy_permits p op livemode \<longleftrightarrow>
     (\<not> livemode \<or> sc_allow_live p) \<and> (op = Schedule \<or> sc_allow_withdrawal p)"

record subscription_snapshot =
  ss_tenant_reference :: pystr
  ss_intent_reference :: pystr
  ss_policy_fingerprint :: pystr
  ss_binding :: subscription_binding
  ss_operation :: subscription_operation
  ss_observed :: subscription_observation

definition consistent_subscription :: "subscription_snapshot \<Rightarrow> subscription_snapshot outcome" where
  "consistent_subscription s =
     (if sb_tenant_reference (ss_binding s) \<noteq> ss_tenant_reference s
         \<or> \<not> subscription_bound_to (ss_observed s) (ss_binding s)
      then fails ValidationError
      else Inr s)"

record subscription_preview =
  sv_subscription_reference :: pystr
  sv_operation :: subscription_operation
  sv_current_period_end :: instant
  sv_scheduled_end :: "instant option"

datatype subscription_change = Scheduled | Withdrawn

record subscription_outcome =
  su_subscription_reference :: pystr
  su_status :: subscription_change
  su_scheduled_end :: "instant option"

section \<open>The correlation of an intent\<close>

fun subscription_status_value :: "subscription_status \<Rightarrow> pystr" where
  "subscription_status_value SubActive = ''active''"
| "subscription_status_value SubCanceled = ''canceled''"
| "subscription_status_value SubIncomplete = ''incomplete''"
| "subscription_status_value SubIncompleteExpired = ''incomplete_expired''"
| "subscription_status_value SubPastDue = ''past_due''"
| "subscription_status_value SubPaused = ''paused''"
| "subscription_status_value SubTrialing = ''trialing''"
| "subscription_status_value SubUnpaid = ''unpaid''"

fun subscription_operation_value :: "subscription_operation \<Rightarrow> pystr" where
  "subscription_operation_value Schedule = ''schedule''"
| "subscription_operation_value Withdraw = ''withdraw''"

fun subscription_change_value :: "subscription_change \<Rightarrow> pystr" where
  "subscription_change_value Scheduled = ''scheduled''"
| "subscription_change_value Withdrawn = ''withdrawn''"

definition subscription_binding_json :: "subscription_binding \<Rightarrow> json" where
  "subscription_binding_json b =
     JObj [(''tenant_reference'', JStr (sb_tenant_reference b)),
           (''subscription_reference'', JStr (sb_subscription_reference b)),
           (''version'', JInt (sb_version b)),
           (''account'', account_json (sb_account b)),
           (''subscription_id'', JStr (sb_subscription_id b)),
           (''customer_id'', JStr (sb_customer_id b))]"

definition subscription_observation_json :: "(instant \<Rightarrow> pystr) \<Rightarrow> subscription_observation \<Rightarrow> json" where
  "subscription_observation_json stamp ob =
     JObj [(''subscription_id'', JStr (so_subscription_id ob)),
           (''customer_id'', JStr (so_customer_id ob)),
           (''status'', JStr (subscription_status_value (so_status ob))),
           (''livemode'', JBool (so_livemode ob)),
           (''item_id'', JStr (so_item_id ob)),
           (''price_id'', JStr (so_price_id ob)),
           (''quantity'', JInt (so_quantity ob)),
           (''period_start'', JStr (stamp (so_period_start ob))),
           (''period_end'', JStr (stamp (so_period_end ob))),
           (''cancel_at_period_end'', JBool (so_cancel_at_period_end ob)),
           (''cancel_at'', (case so_cancel_at ob of None \<Rightarrow> JNull | Some at \<Rightarrow> JStr (stamp at))),
           (''supported'', JBool (so_supported ob)),
           (''correlation'', JStr (so_correlation ob))]"

definition subscription_snapshot_json :: "(instant \<Rightarrow> pystr) \<Rightarrow> subscription_snapshot \<Rightarrow> json_object" where
  "subscription_snapshot_json stamp s =
     [(''tenant_reference'', JStr (ss_tenant_reference s)),
      (''intent_reference'', JStr (ss_intent_reference s)),
      (''policy_fingerprint'', JStr (ss_policy_fingerprint s)),
      (''binding'', subscription_binding_json (ss_binding s)),
      (''operation'', JStr (subscription_operation_value (ss_operation s))),
      (''observed'', subscription_observation_json stamp (ss_observed s))]"

definition subscription_effect :: "digests \<Rightarrow> subscription_snapshot \<Rightarrow> pystr" where
  "subscription_effect dg s =
     snapshot_effect dg ''subscription-cancellation'' (ss_tenant_reference s) (ss_intent_reference s)"

definition subscription_correlation :: "digests \<Rightarrow> (instant \<Rightarrow> pystr) \<Rightarrow> subscription_snapshot \<Rightarrow> pystr outcome" where
  "subscription_correlation dg stamp s = fingerprint_of dg (JObj (subscription_snapshot_json stamp s))"

text \<open>The subscription that Stripe has to show once the change is made.\<close>

definition expected_subscription :: "subscription_snapshot \<Rightarrow> pystr \<Rightarrow> subscription_observation" where
  "expected_subscription s correlation =
     (ss_observed s)
       \<lparr>so_cancel_at_period_end := (ss_operation s = Schedule),
        so_cancel_at := (if ss_operation s = Schedule then Some (so_period_end (ss_observed s)) else None),
        so_correlation := correlation\<rparr>"

definition matches_result ::
  "digests \<Rightarrow> (instant \<Rightarrow> pystr) \<Rightarrow> subscription_snapshot \<Rightarrow> subscription_observation \<Rightarrow> bool outcome" where
  "matches_result dg stamp s ob =
     result_bind (subscription_correlation dg stamp s) (\<lambda>correlation.
     Inr (ob = expected_subscription s correlation \<and> subscription_bound_to ob (ss_binding s)))"

section \<open>The workflow\<close>

datatype subscription_call =
    SubBinding pystr pystr "subscription_binding outcome"
  | SubRetrieve subscription_binding "subscription_observation outcome"
  | SubUpdate subscription_snapshot "subscription_observation outcome"

record subscription_host =
  sh_ports :: "(subscription_snapshot, subscription_outcome) billing_ports"
  sh_subscription :: "nat \<Rightarrow> pystr \<Rightarrow> pystr \<Rightarrow> subscription_binding outcome"
  sh_retrieve :: "nat \<Rightarrow> subscription_binding \<Rightarrow> subscription_observation outcome"
  sh_update :: "nat \<Rightarrow> subscription_snapshot \<Rightarrow> subscription_observation outcome"
  sh_policy :: subscription_policy
  sh_digests :: digests
  sh_iso :: "instant \<Rightarrow> pystr"

type_synonym 'a subscription_eff =
  "(subscription_snapshot, subscription_outcome, subscription_call, 'a) billing_eff"

definition look_up_subscription :: "subscription_host \<Rightarrow> pystr \<Rightarrow> pystr \<Rightarrow> subscription_binding subscription_eff" where
  "look_up_subscription h t r = called (\<lambda>a. BillGroup (SubBinding t r a)) (\<lambda>n. sh_subscription h n t r)"

definition retrieve_subscription :: "subscription_host \<Rightarrow> subscription_binding \<Rightarrow> subscription_observation subscription_eff" where
  "retrieve_subscription h b = called (\<lambda>a. BillGroup (SubRetrieve b a)) (\<lambda>n. sh_retrieve h n b)"

definition update_subscription :: "subscription_host \<Rightarrow> subscription_snapshot \<Rightarrow> subscription_observation subscription_eff" where
  "update_subscription h s = called (\<lambda>a. BillGroup (SubUpdate s a)) (\<lambda>n. sh_update h n s)"

definition subscription_prepare ::
  "subscription_host \<Rightarrow> subscription_request \<Rightarrow> preparation_context
     \<Rightarrow> (subscription_snapshot, subscription_preview) billing_prepared subscription_eff" where
  "subscription_prepare h command c =
     bind (look_up_subscription h (pc_tenant_reference c) (sq_subscription_reference command)) (\<lambda>b.
     if sb_tenant_reference b \<noteq> pc_tenant_reference c
        \<or> sb_subscription_reference b \<noteq> sq_subscription_reference command
        \<or> \<not> subscription_policy_permits (sh_policy h) (sq_operation command) (sa_livemode (sb_account b))
     then raise StripePreparationError
     else
       bind (retrieve_subscription h b) (\<lambda>observed.
       if \<not> subscription_bound_to observed b
          \<or> \<not> subscription_permits observed (sq_operation command) (pc_prepared_at c)
       then raise StripePreparationError
       else
         bind (lift (subscription_policy_fingerprint (sh_digests h) (sh_policy h))) (\<lambda>fingerprint.
         bind (lift (consistent_subscription
                \<lparr>ss_tenant_reference = pc_tenant_reference c,
                 ss_intent_reference = sq_intent_reference command,
                 ss_policy_fingerprint = fingerprint, ss_binding = b,
                 ss_operation = sq_operation command, ss_observed = observed\<rparr>)) (\<lambda>s.
         return
           \<lparr>bq_private_snapshot = s,
            bq_display_preview =
              \<lparr>sv_subscription_reference = sq_subscription_reference command,
               sv_operation = sq_operation command,
               sv_current_period_end = so_period_end observed,
               sv_scheduled_end =
                 (if sq_operation command = Schedule then Some (so_period_end observed) else None)\<rparr>,
            bq_semantic_effect_reference = subscription_effect (sh_digests h) s\<rparr>))))"

definition subscription_admissible :: "subscription_host \<Rightarrow> subscription_snapshot \<Rightarrow> bool outcome" where
  "subscription_admissible h s =
     (if sb_tenant_reference (ss_binding s) \<noteq> ss_tenant_reference s then Inr False
      else result_bind (subscription_policy_fingerprint (sh_digests h) (sh_policy h)) (\<lambda>fingerprint.
           Inr (ss_policy_fingerprint s = fingerprint
                \<and> subscription_policy_permits (sh_policy h) (ss_operation s)
                    (sa_livemode (sb_account (ss_binding s))))))"

definition subscription_current :: "subscription_host \<Rightarrow> subscription_snapshot \<Rightarrow> bool subscription_eff" where
  "subscription_current h s =
     bind (lift (subscription_admissible h s)) (\<lambda>admissible.
     if \<not> admissible then return False
     else
       bind (look_up_subscription h (ss_tenant_reference s) (sb_subscription_reference (ss_binding s))) (\<lambda>b.
       if b \<noteq> ss_binding s then return False
       else
         bind (retrieve_subscription h b) (\<lambda>observed.
         if observed \<noteq> ss_observed s \<or> \<not> subscription_bound_to observed b then return False
         else
           bind (billing_clock (sh_ports h)) (\<lambda>now.
           return (subscription_permits observed (ss_operation s) now)))))"

definition subscription_submit ::
  "subscription_host \<Rightarrow> subscription_snapshot \<Rightarrow> instant \<Rightarrow> subscription_outcome stripe_execution subscription_eff" where
  "subscription_submit h s not_after =
     bind (billing_clock (sh_ports h)) (\<lambda>now.
     if min not_after (so_period_end (ss_observed s)) \<le> now
     then return (not_executed ExecSTALE_NO_EFFECT ''stripe_cancellation_deadline_expired'')
     else
       bind (attempt (update_subscription h s)) (\<lambda>updated.
       case updated of
         Inl e \<Rightarrow>
           if exn_of e = StripeBoundaryError
           then return (not_executed ExecFAILED_UNKNOWN ''stripe_subscription_submission_unknown'')
           else throw e
       | Inr observed \<Rightarrow>
           bind (lift (matches_result (sh_digests h) (sh_iso h) s observed)) (\<lambda>matches.
           if \<not> matches
           then return (not_executed ExecFAILED_UNKNOWN ''stripe_subscription_binding_mismatch'')
           else
             bind (lift (subscription_correlation (sh_digests h) (sh_iso h) s)) (\<lambda>correlation.
             return \<lparr>se_status = ExecACCEPTED, se_result = None,
                     se_external_reference = Some (stripe_reference correlation),
                     se_reason_code = None\<rparr>))))"

definition subscription_outcome_of :: "subscription_snapshot \<Rightarrow> subscription_outcome" where
  "subscription_outcome_of s =
     \<lparr>su_subscription_reference = sb_subscription_reference (ss_binding s),
      su_status = (if ss_operation s = Schedule then Scheduled else Withdrawn),
      su_scheduled_end = (if ss_operation s = Schedule then Some (so_period_end (ss_observed s)) else None)\<rparr>"

definition subscription_verify ::
  "subscription_host \<Rightarrow> subscription_snapshot \<Rightarrow> subscription_outcome stripe_verification subscription_eff" where
  "subscription_verify h s =
     bind (attempt (retrieve_subscription h (ss_binding s))) (\<lambda>retrieved.
     case retrieved of
       Inl e \<Rightarrow>
         if exn_of e = StripeBoundaryError
         then return (not_verified TARGET_UNAVAILABLE ''stripe_subscription_lookup_unavailable'')
         else throw e
     | Inr observed \<Rightarrow>
         bind (lift (matches_result (sh_digests h) (sh_iso h) s observed)) (\<lambda>matches.
         if \<not> matches then return (not_verified PROVISIONAL_ABSENCE ''stripe_cancellation_not_proven'')
         else
           bind (lift (subscription_correlation (sh_digests h) (sh_iso h) s)) (\<lambda>correlation.
           return \<lparr>sv_status = VERIFIED_COMPLETION, sv_result = Some (subscription_outcome_of s),
                   sv_external_reference = Some (stripe_reference correlation),
                   sv_reason_code = None\<rparr>)))"

definition subscription_workflow ::
  "subscription_host \<Rightarrow> (subscription_request, subscription_snapshot, subscription_preview,
     subscription_outcome, subscription_call) billing_workflow" where
  "subscription_workflow h =
     \<lparr>bw_ports = sh_ports h,
      bw_tenant_reference = ss_tenant_reference,
      bw_effect_reference = subscription_effect (sh_digests h),
      bw_prepare = subscription_prepare h,
      bw_current = subscription_current h,
      bw_submit = subscription_submit h,
      bw_verify = subscription_verify h\<rparr>"

definition subscription_observe_effect ::
  "subscription_host \<Rightarrow> pystr \<Rightarrow> execution_context \<Rightarrow> stripe_effect_observation subscription_eff" where
  "subscription_observe_effect h =
     billing_observe_effect (subscription_workflow h) SUBSCRIPTIONS
       (\<lambda>out. (subscription_change_value (su_status out), None))"

section \<open>The contract of the group\<close>

fun submitted_subscription :: "subscription_call \<Rightarrow> subscription_snapshot option" where
  "submitted_subscription (SubUpdate s _) = Some s"
| "submitted_subscription _ = None"

text \<open>A look at the current state that confirms the snapshot.\<close>

definition subscription_confirmed ::
  "subscription_host \<Rightarrow> subscription_snapshot
     \<Rightarrow> (subscription_snapshot, subscription_outcome, subscription_call) billing_call list \<Rightarrow> bool" where
  "subscription_confirmed h s tr \<longleftrightarrow>
     (\<exists>now. tr = [BillGroup (SubBinding (ss_tenant_reference s) (sb_subscription_reference (ss_binding s)) (Inr (ss_binding s))),
              BillGroup (SubRetrieve (ss_binding s) (Inr (ss_observed s))), BillClock (Inr now)]
        \<and> subscription_admissible h s = Inr True
        \<and> subscription_bound_to (ss_observed s) (ss_binding s)
        \<and> subscription_permits (ss_observed s) (ss_operation s) now)"

definition before_period_end :: "subscription_snapshot \<Rightarrow> instant \<Rightarrow> bool" where
  "before_period_end s now \<longleftrightarrow> now < so_period_end (ss_observed s)"

lemmas subscription_port_defs =
  look_up_subscription_def retrieve_subscription_def update_subscription_def billing_clock_def

lemma subscription_workflow_simps [simp]:
  "bw_ports (subscription_workflow h) = sh_ports h"
  "bw_tenant_reference (subscription_workflow h) = ss_tenant_reference"
  "bw_effect_reference (subscription_workflow h) = subscription_effect (sh_digests h)"
  "bw_prepare (subscription_workflow h) = subscription_prepare h"
  "bw_current (subscription_workflow h) = subscription_current h"
  "bw_submit (subscription_workflow h) = subscription_submit h"
  "bw_verify (subscription_workflow h) = subscription_verify h"
  by (simp_all add: subscription_workflow_def)

interpretation subscriptions: billing_group "subscription_workflow h" "subscription_confirmed h"
  before_period_end submitted_subscription for h
proof
  fix command c s deadline
  show "does (bw_prepare (subscription_workflow h) command c) (\<lambda>r. quiet submitted_subscription)"
    unfolding subscription_workflow_simps subscription_prepare_def subscription_port_defs
    by (intro does_intros) auto
  show "does (bw_current (subscription_workflow h) s)
      (\<lambda>r tr. quiet submitted_subscription tr \<and> (r = Inr True \<longrightarrow> subscription_confirmed h s tr))"
    unfolding subscription_workflow_simps subscription_current_def subscription_port_defs
    by (intro does_intros) (auto simp: subscription_confirmed_def)
  show "does (bw_submit (subscription_workflow h) s deadline) (\<lambda>r tr. quiet submitted_subscription tr
      \<or> (\<exists>now x. tr = [BillClock (Inr now), BillGroup x] \<and> now < deadline \<and> before_period_end s now
           \<and> submitted_subscription x = Some s \<and> \<not> refuses r))"
    unfolding subscription_workflow_simps subscription_submit_def subscription_port_defs
    by (intro does_intros) (auto simp: before_period_end_def)
  show "does (bw_verify (subscription_workflow h) s) (\<lambda>r. quiet submitted_subscription)"
    unfolding subscription_workflow_simps subscription_verify_def subscription_port_defs
    by (intro does_intros) auto
qed

section \<open>Properties\<close>

text \<open>
  C29: the guard of a cancellation change. An execution asks Stripe to change a subscription at most
  once, for the approved snapshot, as its last call, and only after, in this order: the stored proposal was
  read and has a lease, the repository granted the reservation until the earliest of the expiries, live
  authorization, the subscription that the host has now and that Stripe shows now are exactly the
  approved ones and permit the operation at that instant, live authorization again, and the clock twice before
  the deadline, the second time also before the end of the period.
\<close>

theorem subscription_change_guarded:
  assumes "calls_of (billing_execute (subscription_workflow h) s c p) n = pre @ BillGroup (SubUpdate s' answer) # post"
  shows "s' = s \<and> post = []
    \<and> (\<exists>start record verification_at permitted seen permitted' now now'.
         pre = start @
           [BillStoreGet (ec_tenant_reference c) (ec_proposal_reference c) (Inr (Some record)),
            BillReserve s (submission_deadline record verification_at) (Inr ResACQUIRED),
            BillCanExecute s c (Inr permitted),
            BillGroup (SubBinding (ss_tenant_reference s) (sb_subscription_reference (ss_binding s)) (Inr (ss_binding s))),
            BillGroup (SubRetrieve (ss_binding s) (Inr (ss_observed s))), BillClock (Inr seen),
            BillCanExecute s c (Inr permitted'), BillClock (Inr now), BillClock (Inr now')]
         \<and> quiet submitted_subscription start
         \<and> sp_next_verification_at record = Some verification_at
         \<and> ar_allowed permitted \<and> ar_allowed permitted'
         \<and> subscription_permits (ss_observed s) (ss_operation s) seen
         \<and> max now now' < submission_deadline record verification_at
         \<and> now' < so_period_end (ss_observed s))"
  using subscriptions.submission_position [OF assms]
  unfolding subscription_confirmed_def before_period_end_def by auto

text \<open>
  C30: verification of a cancellation change. A completion is reported exactly when the subscription, read
  from Stripe, equals the approved one except for the requested cancellation flag and date and the
  correlation of this intent, and is the bound subscription; then the outcome names the requested change. Nothing is ever reported
  as a final absence or as a terminal failure.
\<close>

theorem subscription_verification_sound:
  assumes "outcome_of (subscription_verify h s) n = Inr v"
  shows "sv_status v \<in> {VERIFIED_COMPLETION, PROVISIONAL_ABSENCE, TARGET_UNAVAILABLE}
    \<and> (sv_status v = VERIFIED_COMPLETION \<longleftrightarrow>
        (\<exists>observed correlation.
           calls_of (subscription_verify h s) n = [BillGroup (SubRetrieve (ss_binding s) (Inr observed))]
           \<and> subscription_correlation (sh_digests h) (sh_iso h) s = Inr correlation
           \<and> observed = expected_subscription s correlation
           \<and> subscription_bound_to observed (ss_binding s)))
    \<and> (sv_status v = VERIFIED_COMPLETION \<longrightarrow> sv_result v = Some (subscription_outcome_of s))
    \<and> (sv_status v \<noteq> VERIFIED_COMPLETION \<longrightarrow> sv_result v = None)"
proof -
  have "does (subscription_verify h s) (\<lambda>r tr. \<forall>v. r = Inr v \<longrightarrow>
      sv_status v \<in> {VERIFIED_COMPLETION, PROVISIONAL_ABSENCE, TARGET_UNAVAILABLE}
      \<and> (sv_status v = VERIFIED_COMPLETION \<longleftrightarrow>
          (\<exists>observed correlation. tr = [BillGroup (SubRetrieve (ss_binding s) (Inr observed))]
             \<and> subscription_correlation (sh_digests h) (sh_iso h) s = Inr correlation
             \<and> observed = expected_subscription s correlation
             \<and> subscription_bound_to observed (ss_binding s)))
      \<and> (sv_status v = VERIFIED_COMPLETION \<longrightarrow> sv_result v = Some (subscription_outcome_of s))
      \<and> (sv_status v \<noteq> VERIFIED_COMPLETION \<longrightarrow> sv_result v = None))"
    unfolding subscription_verify_def subscription_port_defs matches_result_def
    by (intro does_intros) (auto simp: not_verified_def result_bind_eq_Inr)
  from does_run [OF this, of n] assms show ?thesis by blast
qed

section \<open>Concrete runs\<close>

definition demo_binding :: subscription_binding where
  "demo_binding =
     \<lparr>sb_tenant_reference = ''t'', sb_subscription_reference = ''b'', sb_version = 1, sb_account = demo_account,
      sb_subscription_id = ''sub_1'', sb_customer_id = ''cus_1''\<rparr>"

definition demo_observed :: subscription_observation where
  "demo_observed =
     \<lparr>so_subscription_id = ''sub_1'', so_customer_id = ''cus_1'', so_status = SubActive, so_livemode = False,
      so_item_id = ''i'', so_price_id = ''p'', so_quantity = 1, so_period_start = 0, so_period_end = 30,
      so_cancel_at_period_end = False, so_cancel_at = None, so_supported = True, so_correlation = []\<rparr>"

definition demo_change :: subscription_snapshot where
  "demo_change =
     \<lparr>ss_tenant_reference = ''t'', ss_intent_reference = ''r'', ss_policy_fingerprint = ''d'',
      ss_binding = demo_binding, ss_operation = Schedule, ss_observed = demo_observed\<rparr>"

definition demo_changed :: subscription_observation where
  "demo_changed = expected_subscription demo_change ''d''"

definition demo_subscription_host :: "subscription_observation \<Rightarrow> subscription_host" where
  "demo_subscription_host shown =
     \<lparr>sh_ports = demo_billing_ports demo_change, sh_subscription = (\<lambda>n t r. Inr demo_binding),
      sh_retrieve = (\<lambda>n b. Inr shown), sh_update = (\<lambda>n s. Inr demo_changed),
      sh_policy = \<lparr>sc_allow_live = False, sc_allow_withdrawal = True\<rparr>,
      sh_digests = \<lparr>dg_nfc = (\<lambda>s. s), dg_sha256 = (\<lambda>b. ''d'')\<rparr>, sh_iso = (\<lambda>t. ''2026'')\<rparr>"

definition demo_change_context :: execution_context where
  "demo_change_context =
     demo_refund_context\<lparr>ec_semantic_effect_reference := ''subscription-cancellation:d''\<rparr>"

definition demo_change_calls ::
  "(subscription_snapshot, subscription_outcome, subscription_call) billing_call list" where
  "demo_change_calls =
     calls_of (billing_execute (subscription_workflow (demo_subscription_host demo_observed)) demo_change
       demo_change_context ''subscription-cancellation:d'') 0"

lemma demo_change_calls_eq:
  "demo_change_calls =
     [BillGroup (SubBinding ''t'' ''b'' (Inr demo_binding)), BillGroup (SubRetrieve demo_binding (Inr demo_observed)),
      BillClock (Inr 5),
      BillCanExecute demo_change demo_change_context (Inr \<lparr>ar_allowed = True, ar_reason_code = None\<rparr>),
      BillStoreGet ''t'' ''p'' (Inr (Some demo_stored)), BillReserve demo_change 10 (Inr ResACQUIRED),
      BillCanExecute demo_change demo_change_context (Inr \<lparr>ar_allowed = True, ar_reason_code = None\<rparr>),
      BillGroup (SubBinding ''t'' ''b'' (Inr demo_binding)), BillGroup (SubRetrieve demo_binding (Inr demo_observed)),
      BillClock (Inr 5),
      BillCanExecute demo_change demo_change_context (Inr \<lparr>ar_allowed = True, ar_reason_code = None\<rparr>),
      BillClock (Inr 5), BillClock (Inr 5)] @
      BillGroup (SubUpdate demo_change (Inr demo_changed)) # []"
  by code_simp

theorem subscription_change_guarded_witness:
  "\<exists>now. BillClock (Inr now) \<in> set demo_change_calls \<and> now < so_period_end (ss_observed demo_change)"
  using subscription_change_guarded [OF demo_change_calls_eq [unfolded demo_change_calls_def]]
  unfolding demo_change_calls_eq by (elim conjE exE) (rule exI, rule conjI, simp, simp)

theorem subscription_verification_sound_witness:
  "\<exists>observed. calls_of (subscription_verify (demo_subscription_host demo_changed) demo_change) 0
     = [BillGroup (SubRetrieve demo_binding (Inr observed))] \<and> so_cancel_at observed = Some 30"
proof -
  let ?v = "\<lparr>sv_status = VERIFIED_COMPLETION, sv_result = Some (subscription_outcome_of demo_change),
      sv_external_reference = Some (stripe_reference ''d''), sv_reason_code = None\<rparr>"
  have "outcome_of (subscription_verify (demo_subscription_host demo_changed) demo_change) 0 = Inr ?v"
    by code_simp
  from subscription_verification_sound [OF this] show ?thesis
    by (auto simp: expected_subscription_def demo_change_def demo_observed_def)
qed

end
