(* ===== verification/Stripe_Credit_Notes.thy ===== *)
theory Stripe_Credit_Notes
  imports Stripe_Billing
begin

text \<open>
  Invoice-bound credit notes (\<open>integrations/stripe/credit_notes.py\<close>): requests, drafts, Stripe's own
  calculation, and \<open>_CreditNoteWorkflow\<close> as an instance of the shared workflow.

  Shown: Stripe is asked to issue a credit only while invoice, policy and Stripe's calculation are exactly the
  approved ones; and a completion is reported only for one note that is found by correlation in a
  complete listing, matches the snapshot in every amount and, when it credits the customer, is backed by
  the matching balance transaction.
\<close>

section \<open>Data\<close>

datatype credit_disposition = InvoiceReduction | CustomerBalance

datatype credit_reason = CreditDuplicate | CreditFraudulent | CreditOrderChange | CreditUnsatisfactory

record credit_line_request =
  cl_line_reference :: pystr
  cl_amount :: money

record credit_request =
  cr_intent_reference :: pystr
  cr_invoice_reference :: pystr
  cr_lines :: "credit_line_request list"
  cr_expected_total :: money
  cr_disposition :: credit_disposition
  cr_reason :: credit_reason

definition positive_amount :: "money \<Rightarrow> bool" where
  "positive_amount m \<longleftrightarrow> is_finite (mo_amount m) \<and> \<not> dec_le (mo_amount m) (dec_of_int 0)"

definition consistent_lines :: "credit_request \<Rightarrow> credit_request outcome" where
  "consistent_lines r =
     (if \<not> distinct (map cl_line_reference (cr_lines r)) then fails ValidationError
      else if list_ex (\<lambda>l. mo_currency (cl_amount l) \<noteq> mo_currency (cr_expected_total r)) (cr_lines r)
      then fails ValidationError
      else if list_ex (\<lambda>m. \<not> positive_amount m) (cr_expected_total r # map cl_amount (cr_lines r))
      then fails ValidationError
      else Inr r)"

record invoice_line_binding =
  ib_line_reference :: pystr
  ib_invoice_line_id :: pystr

record credit_invoice =
  ci_tenant_reference :: pystr
  ci_invoice_reference :: pystr
  ci_version :: int
  ci_account :: stripe_account
  ci_invoice_id :: pystr
  ci_customer_id :: pystr
  ci_currency :: pystr
  ci_currency_exponent :: int
  ci_lines :: "invoice_line_binding list"

definition unique_lines :: "credit_invoice \<Rightarrow> credit_invoice outcome" where
  "unique_lines b =
     (if \<not> distinct (map ib_line_reference (ci_lines b)) \<or> \<not> distinct (map ib_invoice_line_id (ci_lines b))
      then fails ValidationError
      else Inr b)"

datatype invoice_status = InvDraft | InvOpen | InvPaid | InvUncollectible | InvVoid

record invoice_observation =
  io_invoice_id :: pystr
  io_customer_id :: pystr
  io_currency :: pystr
  io_livemode :: bool
  io_status :: invoice_status
  io_total_minor :: int
  io_amount_due_minor :: int
  io_amount_paid_minor :: int
  io_remaining_minor :: int
  io_pre_payment_credits_minor :: int
  io_post_payment_credits_minor :: int
  io_supported :: bool

definition invoice_bound_to :: "invoice_observation \<Rightarrow> credit_invoice \<Rightarrow> bool" where
  "invoice_bound_to ob b \<longleftrightarrow>
     io_invoice_id ob = ci_invoice_id b
     \<and> io_customer_id ob = ci_customer_id b
     \<and> io_currency ob = lower (ci_currency b)
     \<and> io_livemode ob = sa_livemode (ci_account b)"

definition invoice_permits :: "invoice_observation \<Rightarrow> credit_disposition \<Rightarrow> int \<Rightarrow> bool" where
  "invoice_permits ob disposition total_minor =
     (if \<not> io_supported ob then False
      else if disposition = InvoiceReduction
      then io_status ob = InvOpen \<and> total_minor \<le> io_remaining_minor ob
      else io_status ob = InvPaid \<and> io_remaining_minor ob = 0)"

record credit_policy =
  cp_limits :: "money list"
  cp_allow_live :: bool
  cp_allow_customer_balance :: bool

definition unique_positive_credit_limits :: "credit_policy \<Rightarrow> credit_policy outcome" where
  "unique_positive_credit_limits p =
     (if \<not> distinct (map mo_currency (cp_limits p)) \<or> list_ex (\<lambda>l. \<not> positive_amount l) (cp_limits p)
      then fails ValidationError
      else Inr p)"

definition credit_policy_permits :: "credit_policy \<Rightarrow> credit_request \<Rightarrow> bool \<Rightarrow> bool" where
  "credit_policy_permits p r livemode \<longleftrightarrow>
     (\<not> livemode \<or> cp_allow_live p)
     \<and> (cr_disposition r = InvoiceReduction \<or> cp_allow_customer_balance p)
     \<and> list_ex (\<lambda>l. mo_currency l = mo_currency (cr_expected_total r)
                      \<and> \<not> dec_le (mo_amount (cr_expected_total r)) (dec_of_int 0)
                      \<and> dec_le (mo_amount (cr_expected_total r)) (mo_amount l)) (cp_limits p)"

definition credit_policy_fingerprint :: "digests \<Rightarrow> credit_policy \<Rightarrow> pystr outcome" where
  "credit_policy_fingerprint dg p =
     fingerprint_of dg (JObj [(''limits'', JList (map money_json (cp_limits p))),
                              (''allow_live'', JBool (cp_allow_live p)),
                              (''allow_customer_balance'', JBool (cp_allow_customer_balance p))])"

definition minor_units :: "money \<Rightarrow> int \<Rightarrow> int outcome" where
  "minor_units amount currency_exponent =
     (let units = scaleb (mo_amount amount) currency_exponent in
      if \<not> is_finite units \<or> dec_le units (dec_of_int 0) \<or> \<not> dec_le units (dec_of_int 99999999)
         \<or> \<not> is_integral units
      then fails StripePreparationError
      else Inr (dec_int units))"

record credit_line =
  nl_invoice_line_id :: pystr
  nl_amount_minor :: int

datatype tax_behavior = TaxExclusive | TaxInclusive

record credit_tax =
  nt_amount_minor :: int
  nt_taxable_minor :: "int option"
  nt_behavior :: tax_behavior
  nt_rate_reference :: "pystr option"
  nt_reason :: pystr

record credit_calculated_line =
  kl_invoice_line_id :: pystr
  kl_amount_minor :: int
  kl_discount_minor :: int
  kl_taxes :: "credit_tax list"

record credit_calculation =
  kc_currency :: pystr
  kc_total_minor :: int
  kc_pre_payment_minor :: int
  kc_post_payment_minor :: int
  kc_lines :: "credit_calculated_line list"

record credit_draft =
  nd_invoice :: credit_invoice
  nd_request :: credit_request
  nd_lines :: "credit_line list"
  nd_total_minor :: int

definition credit_minor :: "credit_draft \<Rightarrow> int" where
  "credit_minor d = (if cr_disposition (nd_request d) = CustomerBalance then nd_total_minor d else 0)"

text \<open>A dict comprehension, in which the last entry of a key wins, and the comparison of two such dicts.\<close>

definition dict_of :: "('k \<times> 'v) list \<Rightarrow> 'k \<rightharpoonup> 'v" where
  "dict_of entries = map_of (rev entries)"

definition same_dict :: "('k \<times> 'v) list \<Rightarrow> ('k \<times> 'v) list \<Rightarrow> bool" where
  "same_dict xs ys \<longleftrightarrow> list_all (\<lambda>k. dict_of xs k = dict_of ys k) (map fst (xs @ ys))"

definition matches_calculation :: "credit_draft \<Rightarrow> credit_calculation \<Rightarrow> bool" where
  "matches_calculation d k \<longleftrightarrow>
     kc_currency k = lower (ci_currency (nd_invoice d))
     \<and> kc_total_minor k = nd_total_minor d
     \<and> kc_pre_payment_minor k = nd_total_minor d - credit_minor d
     \<and> kc_post_payment_minor k = credit_minor d
     \<and> length (kc_lines k) = length (nd_lines d)
     \<and> same_dict (map (\<lambda>l. (kl_invoice_line_id l, kl_amount_minor l)) (kc_lines k))
                 (map (\<lambda>l. (nl_invoice_line_id l, nl_amount_minor l)) (nd_lines d))"

record credit_snapshot =
  ns_tenant_reference :: pystr
  ns_intent_reference :: pystr
  ns_policy_fingerprint :: pystr
  ns_draft :: credit_draft
  ns_observed_invoice :: invoice_observation
  ns_calculation :: credit_calculation

definition consistent_credit :: "credit_snapshot \<Rightarrow> credit_snapshot outcome" where
  "consistent_credit s =
     (if ci_tenant_reference (nd_invoice (ns_draft s)) \<noteq> ns_tenant_reference s
         \<or> cr_intent_reference (nd_request (ns_draft s)) \<noteq> ns_intent_reference s
         \<or> cr_invoice_reference (nd_request (ns_draft s)) \<noteq> ci_invoice_reference (nd_invoice (ns_draft s))
         \<or> \<not> invoice_bound_to (ns_observed_invoice s) (nd_invoice (ns_draft s))
         \<or> \<not> matches_calculation (ns_draft s) (ns_calculation s)
      then fails ValidationError
      else Inr s)"

datatype note_status = NoteIssued | NoteVoid

record credit_observation =
  nb_note_id :: pystr
  nb_invoice_id :: pystr
  nb_customer_id :: pystr
  nb_livemode :: bool
  nb_status :: note_status
  nb_reason :: "credit_reason option"
  nb_calculation :: credit_calculation
  nb_correlation :: pystr
  nb_balance_transaction_id :: "pystr option"
  nb_has_refunds :: bool
  nb_out_of_band_minor :: int

record credit_lookup =
  nk_note_id :: pystr
  nk_correlation :: pystr

record credit_page =
  np_notes :: "credit_lookup list"
  np_has_more :: bool

record customer_credit =
  cc_transaction_id :: pystr
  cc_customer_id :: pystr
  cc_note_id :: pystr
  cc_currency :: pystr
  cc_amount_minor :: int
  cc_kind :: pystr

record credit_preview =
  nw_invoice_reference :: pystr
  nw_lines :: "credit_line_request list"
  nw_total :: money
  nw_disposition :: credit_disposition
  nw_reason :: credit_reason

record credit_outcome =
  nu_invoice_reference :: pystr
  nu_total :: money
  nu_disposition :: credit_disposition
  nu_status :: note_status

section \<open>The correlation of an intent\<close>

fun disposition_value :: "credit_disposition \<Rightarrow> pystr" where
  "disposition_value InvoiceReduction = ''invoice_reduction''"
| "disposition_value CustomerBalance = ''customer_balance''"

fun credit_reason_value :: "credit_reason \<Rightarrow> pystr" where
  "credit_reason_value CreditDuplicate = ''duplicate''"
| "credit_reason_value CreditFraudulent = ''fraudulent''"
| "credit_reason_value CreditOrderChange = ''order_change''"
| "credit_reason_value CreditUnsatisfactory = ''product_unsatisfactory''"

fun invoice_status_value :: "invoice_status \<Rightarrow> pystr" where
  "invoice_status_value InvDraft = ''draft''"
| "invoice_status_value InvOpen = ''open''"
| "invoice_status_value InvPaid = ''paid''"
| "invoice_status_value InvUncollectible = ''uncollectible''"
| "invoice_status_value InvVoid = ''void''"

fun tax_behavior_value :: "tax_behavior \<Rightarrow> pystr" where
  "tax_behavior_value TaxExclusive = ''exclusive''"
| "tax_behavior_value TaxInclusive = ''inclusive''"

fun note_status_value :: "note_status \<Rightarrow> pystr" where
  "note_status_value NoteIssued = ''issued''"
| "note_status_value NoteVoid = ''void''"

definition optional_json :: "('a \<Rightarrow> json) \<Rightarrow> 'a option \<Rightarrow> json" where
  "optional_json f x = (case x of None \<Rightarrow> JNull | Some a \<Rightarrow> f a)"

definition credit_request_json :: "credit_request \<Rightarrow> json" where
  "credit_request_json r =
     JObj [(''intent_reference'', JStr (cr_intent_reference r)),
           (''invoice_reference'', JStr (cr_invoice_reference r)),
           (''lines'', JList (map (\<lambda>l. JObj [(''line_reference'', JStr (cl_line_reference l)),
                                            (''amount'', money_json (cl_amount l))]) (cr_lines r))),
           (''expected_total'', money_json (cr_expected_total r)),
           (''disposition'', JStr (disposition_value (cr_disposition r))),
           (''reason'', JStr (credit_reason_value (cr_reason r)))]"

definition credit_invoice_json :: "credit_invoice \<Rightarrow> json" where
  "credit_invoice_json b =
     JObj [(''tenant_reference'', JStr (ci_tenant_reference b)),
           (''invoice_reference'', JStr (ci_invoice_reference b)),
           (''version'', JInt (ci_version b)),
           (''account'', account_json (ci_account b)),
           (''invoice_id'', JStr (ci_invoice_id b)),
           (''customer_id'', JStr (ci_customer_id b)),
           (''currency'', JStr (ci_currency b)),
           (''currency_exponent'', JInt (ci_currency_exponent b)),
           (''lines'', JList (map (\<lambda>l. JObj [(''line_reference'', JStr (ib_line_reference l)),
                                            (''invoice_line_id'', JStr (ib_invoice_line_id l))]) (ci_lines b)))]"

definition invoice_observation_json :: "invoice_observation \<Rightarrow> json" where
  "invoice_observation_json ob =
     JObj [(''invoice_id'', JStr (io_invoice_id ob)),
           (''customer_id'', JStr (io_customer_id ob)),
           (''currency'', JStr (io_currency ob)),
           (''livemode'', JBool (io_livemode ob)),
           (''status'', JStr (invoice_status_value (io_status ob))),
           (''total_minor'', JInt (io_total_minor ob)),
           (''amount_due_minor'', JInt (io_amount_due_minor ob)),
           (''amount_paid_minor'', JInt (io_amount_paid_minor ob)),
           (''remaining_minor'', JInt (io_remaining_minor ob)),
           (''pre_payment_credits_minor'', JInt (io_pre_payment_credits_minor ob)),
           (''post_payment_credits_minor'', JInt (io_post_payment_credits_minor ob)),
           (''supported'', JBool (io_supported ob))]"

definition credit_draft_json :: "credit_draft \<Rightarrow> json" where
  "credit_draft_json d =
     JObj [(''invoice'', credit_invoice_json (nd_invoice d)),
           (''request'', credit_request_json (nd_request d)),
           (''lines'', JList (map (\<lambda>l. JObj [(''invoice_line_id'', JStr (nl_invoice_line_id l)),
                                            (''amount_minor'', JInt (nl_amount_minor l))]) (nd_lines d))),
           (''total_minor'', JInt (nd_total_minor d))]"

definition credit_tax_json :: "credit_tax \<Rightarrow> json" where
  "credit_tax_json t =
     JObj [(''amount_minor'', JInt (nt_amount_minor t)),
           (''taxable_minor'', optional_json JInt (nt_taxable_minor t)),
           (''behavior'', JStr (tax_behavior_value (nt_behavior t))),
           (''rate_reference'', optional_json JStr (nt_rate_reference t)),
           (''reason'', JStr (nt_reason t))]"

definition credit_calculation_json :: "credit_calculation \<Rightarrow> json" where
  "credit_calculation_json k =
     JObj [(''currency'', JStr (kc_currency k)),
           (''total_minor'', JInt (kc_total_minor k)),
           (''pre_payment_minor'', JInt (kc_pre_payment_minor k)),
           (''post_payment_minor'', JInt (kc_post_payment_minor k)),
           (''lines'', JList (map (\<lambda>l.
              JObj [(''invoice_line_id'', JStr (kl_invoice_line_id l)),
                    (''amount_minor'', JInt (kl_amount_minor l)),
                    (''discount_minor'', JInt (kl_discount_minor l)),
                    (''taxes'', JList (map credit_tax_json (kl_taxes l)))]) (kc_lines k)))]"

definition credit_snapshot_json :: "credit_snapshot \<Rightarrow> json_object" where
  "credit_snapshot_json s =
     [(''tenant_reference'', JStr (ns_tenant_reference s)),
      (''intent_reference'', JStr (ns_intent_reference s)),
      (''policy_fingerprint'', JStr (ns_policy_fingerprint s)),
      (''draft'', credit_draft_json (ns_draft s)),
      (''observed_invoice'', invoice_observation_json (ns_observed_invoice s)),
      (''calculation'', credit_calculation_json (ns_calculation s))]"

definition credit_effect :: "digests \<Rightarrow> credit_snapshot \<Rightarrow> pystr" where
  "credit_effect dg s = snapshot_effect dg ''credit-note'' (ns_tenant_reference s) (ns_intent_reference s)"

definition credit_correlation :: "digests \<Rightarrow> credit_snapshot \<Rightarrow> pystr outcome" where
  "credit_correlation dg s = fingerprint_of dg (JObj (credit_snapshot_json s))"

definition note_matches :: "digests \<Rightarrow> credit_observation \<Rightarrow> credit_snapshot \<Rightarrow> bool outcome" where
  "note_matches dg ob s =
     (let b = nd_invoice (ns_draft s) in
      if nb_invoice_id ob = ci_invoice_id b
         \<and> nb_customer_id ob = ci_customer_id b
         \<and> nb_livemode ob = sa_livemode (ci_account b)
         \<and> nb_reason ob = Some (cr_reason (nd_request (ns_draft s)))
      then result_bind (credit_correlation dg s) (\<lambda>correlation.
           Inr (nb_correlation ob = correlation
                \<and> nb_calculation ob = ns_calculation s
                \<and> \<not> nb_has_refunds ob
                \<and> nb_out_of_band_minor ob = 0
                \<and> (nb_balance_transaction_id ob \<noteq> None) = (0 < credit_minor (ns_draft s))))
      else Inr False)"

section \<open>The workflow\<close>

datatype credit_call =
    NoteBinding pystr pystr "credit_invoice outcome"
  | NoteInvoice credit_invoice "invoice_observation outcome"
  | NotePreview credit_draft "credit_calculation outcome"
  | NoteCreate credit_snapshot "credit_observation outcome"
  | NoteList credit_invoice "pystr option" "credit_page outcome"
  | NoteRetrieve credit_invoice pystr "credit_observation outcome"
  | NoteCustomerCredit credit_invoice pystr "customer_credit outcome"

record credit_host =
  nh_ports :: "(credit_snapshot, credit_outcome) billing_ports"
  nh_binding :: "nat \<Rightarrow> pystr \<Rightarrow> pystr \<Rightarrow> credit_invoice outcome"
  nh_invoice :: "nat \<Rightarrow> credit_invoice \<Rightarrow> invoice_observation outcome"
  nh_preview :: "nat \<Rightarrow> credit_draft \<Rightarrow> credit_calculation outcome"
  nh_create :: "nat \<Rightarrow> credit_snapshot \<Rightarrow> credit_observation outcome"
  nh_notes :: "nat \<Rightarrow> credit_invoice \<Rightarrow> pystr option \<Rightarrow> credit_page outcome"
  nh_retrieve :: "nat \<Rightarrow> credit_invoice \<Rightarrow> pystr \<Rightarrow> credit_observation outcome"
  nh_customer_credit :: "nat \<Rightarrow> credit_invoice \<Rightarrow> pystr \<Rightarrow> customer_credit outcome"
  nh_policy :: credit_policy
  nh_digests :: digests

type_synonym 'a credit_eff = "(credit_snapshot, credit_outcome, credit_call, 'a) billing_eff"

definition look_up_invoice :: "credit_host \<Rightarrow> pystr \<Rightarrow> pystr \<Rightarrow> credit_invoice credit_eff" where
  "look_up_invoice h t r = called (\<lambda>a. BillGroup (NoteBinding t r a)) (\<lambda>n. nh_binding h n t r)"

definition observe_invoice :: "credit_host \<Rightarrow> credit_invoice \<Rightarrow> invoice_observation credit_eff" where
  "observe_invoice h b = called (\<lambda>a. BillGroup (NoteInvoice b a)) (\<lambda>n. nh_invoice h n b)"

definition preview_credit :: "credit_host \<Rightarrow> credit_draft \<Rightarrow> credit_calculation credit_eff" where
  "preview_credit h d = called (\<lambda>a. BillGroup (NotePreview d a)) (\<lambda>n. nh_preview h n d)"

definition create_note :: "credit_host \<Rightarrow> credit_snapshot \<Rightarrow> credit_observation credit_eff" where
  "create_note h s = called (\<lambda>a. BillGroup (NoteCreate s a)) (\<lambda>n. nh_create h n s)"

definition list_notes :: "credit_host \<Rightarrow> credit_invoice \<Rightarrow> pystr option \<Rightarrow> credit_page credit_eff" where
  "list_notes h b after = called (\<lambda>a. BillGroup (NoteList b after a)) (\<lambda>n. nh_notes h n b after)"

definition retrieve_note :: "credit_host \<Rightarrow> credit_invoice \<Rightarrow> pystr \<Rightarrow> credit_observation credit_eff" where
  "retrieve_note h b i = called (\<lambda>a. BillGroup (NoteRetrieve b i a)) (\<lambda>n. nh_retrieve h n b i)"

definition observe_credit :: "credit_host \<Rightarrow> credit_invoice \<Rightarrow> pystr \<Rightarrow> customer_credit credit_eff" where
  "observe_credit h b i = called (\<lambda>a. BillGroup (NoteCustomerCredit b i a)) (\<lambda>n. nh_customer_credit h n b i)"

definition line_mapping :: "credit_invoice \<Rightarrow> pystr \<rightharpoonup> pystr" where
  "line_mapping b = dict_of (map (\<lambda>l. (ib_line_reference l, ib_invoice_line_id l)) (ci_lines b))"

fun draft_lines :: "credit_invoice \<Rightarrow> credit_line_request list \<Rightarrow> credit_line list outcome" where
  "draft_lines b [] = Inr []"
| "draft_lines b (l # ls) =
     (case line_mapping b (cl_line_reference l) of
        None \<Rightarrow> fails KeyError
      | Some line_id \<Rightarrow>
          result_bind (minor_units (cl_amount l) (ci_currency_exponent b)) (\<lambda>amount.
          result_bind (draft_lines b ls) (\<lambda>lines.
          Inr (\<lparr>nl_invoice_line_id = line_id, nl_amount_minor = amount\<rparr> # lines))))"

definition draft_of :: "credit_invoice \<Rightarrow> credit_request \<Rightarrow> credit_draft outcome" where
  "draft_of b command =
     result_bind (draft_lines b (cr_lines command)) (\<lambda>lines.
     result_bind (minor_units (cr_expected_total command) (ci_currency_exponent b)) (\<lambda>total.
     Inr \<lparr>nd_invoice = b, nd_request = command, nd_lines = sort_key nl_invoice_line_id lines,
          nd_total_minor = total\<rparr>))"

definition credit_preview_of :: "credit_request \<Rightarrow> credit_preview" where
  "credit_preview_of command =
     \<lparr>nw_invoice_reference = cr_invoice_reference command, nw_lines = cr_lines command,
      nw_total = cr_expected_total command, nw_disposition = cr_disposition command,
      nw_reason = cr_reason command\<rparr>"

definition credit_prepare ::
  "credit_host \<Rightarrow> credit_request \<Rightarrow> preparation_context
     \<Rightarrow> (credit_snapshot, credit_preview) billing_prepared credit_eff" where
  "credit_prepare h command c =
     bind (look_up_invoice h (pc_tenant_reference c) (cr_invoice_reference command)) (\<lambda>b.
     if ci_tenant_reference b \<noteq> pc_tenant_reference c
        \<or> ci_invoice_reference b \<noteq> cr_invoice_reference command
        \<or> ci_currency b \<noteq> mo_currency (cr_expected_total command)
        \<or> \<not> credit_policy_permits (nh_policy h) command (sa_livemode (ci_account b))
     then raise StripePreparationError
     else if list_ex (\<lambda>l. line_mapping b (cl_line_reference l) = None) (cr_lines command)
     then raise StripePreparationError
     else
       bind (lift (draft_of b command)) (\<lambda>d.
       bind (observe_invoice h b) (\<lambda>observed.
       if \<not> invoice_bound_to observed b
          \<or> \<not> invoice_permits observed (cr_disposition command) (nd_total_minor d)
       then raise StripePreparationError
       else
         bind (preview_credit h d) (\<lambda>calculation.
         if \<not> matches_calculation d calculation then raise StripePreparationError
         else
           bind (lift (credit_policy_fingerprint (nh_digests h) (nh_policy h))) (\<lambda>fingerprint.
           bind (lift (consistent_credit
                  \<lparr>ns_tenant_reference = pc_tenant_reference c,
                   ns_intent_reference = cr_intent_reference command,
                   ns_policy_fingerprint = fingerprint, ns_draft = d,
                   ns_observed_invoice = observed, ns_calculation = calculation\<rparr>)) (\<lambda>s.
           return \<lparr>bq_private_snapshot = s, bq_display_preview = credit_preview_of command,
                   bq_semantic_effect_reference = credit_effect (nh_digests h) s\<rparr>))))))"

definition credit_admissible :: "credit_host \<Rightarrow> credit_snapshot \<Rightarrow> bool outcome" where
  "credit_admissible h s =
     (let d = ns_draft s in
      if ci_tenant_reference (nd_invoice d) \<noteq> ns_tenant_reference s
         \<or> cr_intent_reference (nd_request d) \<noteq> ns_intent_reference s
      then Inr False
      else result_bind (credit_policy_fingerprint (nh_digests h) (nh_policy h)) (\<lambda>fingerprint.
           Inr (ns_policy_fingerprint s = fingerprint
                \<and> credit_policy_permits (nh_policy h) (nd_request d) (sa_livemode (ci_account (nd_invoice d))))))"

definition credit_current :: "credit_host \<Rightarrow> credit_snapshot \<Rightarrow> bool credit_eff" where
  "credit_current h s =
     bind (lift (credit_admissible h s)) (\<lambda>admissible.
     if \<not> admissible then return False
     else
       let d = ns_draft s in
       bind (look_up_invoice h (ns_tenant_reference s) (ci_invoice_reference (nd_invoice d))) (\<lambda>b.
       if b \<noteq> nd_invoice d then return False
       else
         bind (observe_invoice h b) (\<lambda>observed.
         if observed \<noteq> ns_observed_invoice s \<or> \<not> invoice_bound_to observed b
            \<or> \<not> invoice_permits observed (cr_disposition (nd_request d)) (nd_total_minor d)
         then return False
         else
           bind (preview_credit h d) (\<lambda>calculation.
           return (calculation = ns_calculation s)))))"

definition credit_submit ::
  "credit_host \<Rightarrow> credit_snapshot \<Rightarrow> instant \<Rightarrow> credit_outcome stripe_execution credit_eff" where
  "credit_submit h s not_after =
     bind (billing_clock (nh_ports h)) (\<lambda>now.
     if not_after \<le> now
     then return (not_executed ExecFAILED_KNOWN ''stripe_submission_deadline_expired'')
     else
       bind (attempt (create_note h s)) (\<lambda>created.
       case created of
         Inl e \<Rightarrow>
           if exn_of e = StripeBoundaryError
           then return (not_executed ExecFAILED_UNKNOWN ''stripe_credit_submission_unknown'')
           else throw e
       | Inr observed \<Rightarrow>
           bind (lift (note_matches (nh_digests h) observed s)) (\<lambda>matches.
           if \<not> matches \<or> nb_status observed \<noteq> NoteIssued
           then return (not_executed ExecFAILED_UNKNOWN ''stripe_credit_binding_mismatch'')
           else
             bind (lift (credit_correlation (nh_digests h) s)) (\<lambda>correlation.
             return \<lparr>se_status = ExecACCEPTED, se_result = None,
                     se_external_reference = Some (stripe_reference correlation),
                     se_reason_code = None\<rparr>))))"

text \<open>The inner loop of \<open>_observe\<close>: \<open>found\<close> is the correlated note met so far.\<close>

fun scan_notes ::
  "digests \<Rightarrow> credit_snapshot \<Rightarrow> credit_lookup option \<Rightarrow> credit_lookup list \<Rightarrow> credit_lookup option outcome" where
  "scan_notes dg s found [] = Inr found"
| "scan_notes dg s found (item # rest) =
     result_bind (credit_correlation dg s) (\<lambda>correlation.
     if nk_correlation item \<noteq> correlation then scan_notes dg s found rest
     else if found \<noteq> None then fails StripeBoundaryError
     else scan_notes dg s (Some item) rest)"

fun observe_notes ::
  "credit_host \<Rightarrow> credit_snapshot \<Rightarrow> nat \<Rightarrow> pystr option \<Rightarrow> credit_lookup option
     \<Rightarrow> credit_observation option credit_eff" where
  "observe_notes h s 0 after found = raise StripeBoundaryError"
| "observe_notes h s (Suc k) after found =
     (let b = nd_invoice (ns_draft s) in
      bind (list_notes h b after) (\<lambda>page.
      bind (lift (scan_notes (nh_digests h) s found (np_notes page))) (\<lambda>found.
      if \<not> np_has_more page
      then
        case found of
          None \<Rightarrow> return None
        | Some known \<Rightarrow>
            bind (retrieve_note h b (nk_note_id known)) (\<lambda>note.
            if nb_note_id note \<noteq> nk_note_id known then raise StripeBoundaryError
            else
              bind (lift (note_matches (nh_digests h) note s)) (\<lambda>matches.
              if \<not> matches then raise StripeBoundaryError else return (Some note)))
      else if np_notes page = [] \<or> Some (nk_note_id (last (np_notes page))) = after
      then raise StripeBoundaryError
      else observe_notes h s k (Some (nk_note_id (last (np_notes page)))) found)))"

definition credit_note_pages :: nat where
  "credit_note_pages = 10"

definition credit_observe :: "credit_host \<Rightarrow> credit_snapshot \<Rightarrow> credit_observation option credit_eff" where
  "credit_observe h s = observe_notes h s credit_note_pages None None"

definition credit_backed :: "credit_snapshot \<Rightarrow> credit_observation \<Rightarrow> pystr \<Rightarrow> customer_credit \<Rightarrow> bool" where
  "credit_backed s note transaction credit \<longleftrightarrow>
     cc_transaction_id credit = transaction
     \<and> cc_customer_id credit = ci_customer_id (nd_invoice (ns_draft s))
     \<and> cc_note_id credit = nb_note_id note
     \<and> cc_kind credit = ''credit_note''
     \<and> cc_currency credit = lower (ci_currency (nd_invoice (ns_draft s)))
     \<and> cc_amount_minor credit = - credit_minor (ns_draft s)"

text \<open>The body of the \<open>try\<close> block of \<open>_verify\<close>.\<close>

definition credit_note_lookup :: "credit_host \<Rightarrow> credit_snapshot \<Rightarrow> credit_observation option credit_eff" where
  "credit_note_lookup h s =
     (let b = nd_invoice (ns_draft s) in
      bind (observe_invoice h b) (\<lambda>invoice.
      if \<not> invoice_bound_to invoice b then raise StripeBoundaryError
      else
        bind (credit_observe h s) (\<lambda>observed.
        case observed of
          None \<Rightarrow> return None
        | Some note \<Rightarrow>
            (case nb_balance_transaction_id note of
               None \<Rightarrow> return (Some note)
             | Some transaction \<Rightarrow>
                 if nb_status note \<noteq> NoteIssued then return (Some note)
                 else
                   bind (observe_credit h b transaction) (\<lambda>credit.
                   if \<not> credit_backed s note transaction credit then raise StripeBoundaryError
                   else return (Some note))))))"

definition credit_verify ::
  "credit_host \<Rightarrow> credit_snapshot \<Rightarrow> credit_outcome stripe_verification credit_eff" where
  "credit_verify h s =
     bind (attempt (credit_note_lookup h s)) (\<lambda>looked.
     case looked of
       Inl e \<Rightarrow>
         if exn_of e = StripeBoundaryError
         then return (not_verified TARGET_UNAVAILABLE ''stripe_credit_lookup_unavailable'')
         else throw e
     | Inr None \<Rightarrow> return (not_verified PROVISIONAL_ABSENCE ''stripe_credit_not_observed'')
     | Inr (Some note) \<Rightarrow>
         bind (lift (credit_correlation (nh_digests h) s)) (\<lambda>correlation.
         return \<lparr>sv_status = (if nb_status note = NoteIssued then VERIFIED_COMPLETION
                              else VERIFIED_TERMINAL_FAILURE),
                 sv_result = Some \<lparr>nu_invoice_reference = ci_invoice_reference (nd_invoice (ns_draft s)),
                                   nu_total = cr_expected_total (nd_request (ns_draft s)),
                                   nu_disposition = cr_disposition (nd_request (ns_draft s)),
                                   nu_status = nb_status note\<rparr>,
                 sv_external_reference = Some (stripe_reference correlation),
                 sv_reason_code = None\<rparr>))"

definition credit_workflow ::
  "credit_host \<Rightarrow> (credit_request, credit_snapshot, credit_preview, credit_outcome, credit_call) billing_workflow" where
  "credit_workflow h =
     \<lparr>bw_ports = nh_ports h,
      bw_tenant_reference = ns_tenant_reference,
      bw_effect_reference = credit_effect (nh_digests h),
      bw_prepare = credit_prepare h,
      bw_current = credit_current h,
      bw_submit = credit_submit h,
      bw_verify = credit_verify h\<rparr>"

definition credit_observe_effect ::
  "credit_host \<Rightarrow> pystr \<Rightarrow> execution_context \<Rightarrow> stripe_effect_observation credit_eff" where
  "credit_observe_effect h =
     billing_observe_effect (credit_workflow h) CREDIT_NOTES
       (\<lambda>out. (note_status_value (nu_status out), Some (nu_total out)))"

section \<open>The contract of the group\<close>

fun submitted_credit :: "credit_call \<Rightarrow> credit_snapshot option" where
  "submitted_credit (NoteCreate s _) = Some s"
| "submitted_credit _ = None"

text \<open>A look at the current state that confirms the snapshot.\<close>

definition credit_confirmed ::
  "credit_host \<Rightarrow> credit_snapshot \<Rightarrow> (credit_snapshot, credit_outcome, credit_call) billing_call list \<Rightarrow> bool" where
  "credit_confirmed h s tr \<longleftrightarrow>
     (let d = ns_draft s; b = nd_invoice d in
      tr = [BillGroup (NoteBinding (ns_tenant_reference s) (ci_invoice_reference b) (Inr b)),
            BillGroup (NoteInvoice b (Inr (ns_observed_invoice s))),
            BillGroup (NotePreview d (Inr (ns_calculation s)))]
      \<and> credit_admissible h s = Inr True
      \<and> invoice_bound_to (ns_observed_invoice s) b
      \<and> invoice_permits (ns_observed_invoice s) (cr_disposition (nd_request d)) (nd_total_minor d))"

definition always_ready :: "credit_snapshot \<Rightarrow> instant \<Rightarrow> bool" where
  "always_ready s now \<longleftrightarrow> True"

lemmas credit_port_defs =
  look_up_invoice_def observe_invoice_def preview_credit_def create_note_def list_notes_def retrieve_note_def
  observe_credit_def billing_clock_def

lemma credit_workflow_simps [simp]:
  "bw_ports (credit_workflow h) = nh_ports h"
  "bw_tenant_reference (credit_workflow h) = ns_tenant_reference"
  "bw_effect_reference (credit_workflow h) = credit_effect (nh_digests h)"
  "bw_prepare (credit_workflow h) = credit_prepare h"
  "bw_current (credit_workflow h) = credit_current h"
  "bw_submit (credit_workflow h) = credit_submit h"
  "bw_verify (credit_workflow h) = credit_verify h"
  by (simp_all add: credit_workflow_def)

text \<open>Looking a note up: the notes listed, and those with the correlation of the intent.\<close>

fun listed_notes :: "(credit_snapshot, credit_outcome, credit_call) billing_call list \<Rightarrow> credit_lookup list" where
  "listed_notes [] = []"
| "listed_notes (BillGroup (NoteList b after (Inr page)) # tr) = np_notes page @ listed_notes tr"
| "listed_notes (_ # tr) = listed_notes tr"

definition correlated_note :: "digests \<Rightarrow> credit_snapshot \<Rightarrow> credit_lookup \<Rightarrow> bool" where
  "correlated_note dg s item \<longleftrightarrow> credit_correlation dg s = Inr (nk_correlation item)"

fun is_note_page :: "(credit_snapshot, credit_outcome, credit_call) billing_call \<Rightarrow> bool" where
  "is_note_page (BillGroup (NoteList _ _ _)) = True"
| "is_note_page _ = False"

lemma scan_notes_found:
  "scan_notes dg s found items = Inr f \<Longrightarrow> options found @ filter (correlated_note dg s) items = options f"
proof (induction dg s found items rule: scan_notes.induct)
  case (2 dg s found item rest)
  then obtain k where k: "credit_correlation dg s = Inr k" by (auto simp: result_bind_eq_Inr)
  with 2 show ?case
    by (cases "nk_correlation item = k") (auto simp: correlated_note_def split: if_splits)
qed simp

text \<open>
  A lookup that finds the note: the pages up to one that says it is the last list exactly one note with the
  correlation, and the note is retrieved again.
\<close>

definition note_found ::
  "credit_host \<Rightarrow> credit_snapshot \<Rightarrow> credit_lookup option \<Rightarrow> credit_observation
     \<Rightarrow> (credit_snapshot, credit_outcome, credit_call) billing_call list \<Rightarrow> bool" where
  "note_found h s found note tr \<longleftrightarrow>
     (\<exists>pages after page known.
        tr = pages @ [BillGroup (NoteList (nd_invoice (ns_draft s)) after (Inr page)),
                      BillGroup (NoteRetrieve (nd_invoice (ns_draft s)) (nk_note_id known) (Inr note))]
        \<and> \<not> np_has_more page
        \<and> options found @ filter (correlated_note (nh_digests h) s) (listed_notes pages @ np_notes page) = [known]
        \<and> nb_note_id note = nk_note_id known
        \<and> note_matches (nh_digests h) note s = Inr True)"

lemma note_found_start:
  assumes "scan_notes (nh_digests h) s found (np_notes page) = Inr (Some known)" and "\<not> np_has_more page"
    and "note_matches (nh_digests h) note s = Inr True" and "nb_note_id note = nk_note_id known"
  shows "note_found h s found note
    [BillGroup (NoteList (nd_invoice (ns_draft s)) after (Inr page)),
     BillGroup (NoteRetrieve (nd_invoice (ns_draft s)) (nk_note_id known) (Inr note))]"
  unfolding note_found_def using assms scan_notes_found [OF assms(1)]
  by (intro exI [of _ "[]"] exI [of _ after] exI [of _ page] exI [of _ known]) simp

lemma note_found_next:
  assumes "scan_notes (nh_digests h) s found (np_notes page) = Inr f" and "note_found h s f note tr"
  shows "note_found h s found note (BillGroup (NoteList b after (Inr page)) # tr)"
proof -
  obtain pages a p known where p:
    "tr = pages @ [BillGroup (NoteList (nd_invoice (ns_draft s)) a (Inr p)),
                   BillGroup (NoteRetrieve (nd_invoice (ns_draft s)) (nk_note_id known) (Inr note))]"
    "\<not> np_has_more p" "options f @ filter (correlated_note (nh_digests h) s) (listed_notes pages @ np_notes p) = [known]"
    "nb_note_id note = nk_note_id known" "note_matches (nh_digests h) note s = Inr True"
    using assms(2) unfolding note_found_def by blast
  then show ?thesis
    unfolding note_found_def using scan_notes_found [OF assms(1), symmetric]
    by (intro exI [of _ "BillGroup (NoteList b after (Inr page)) # pages"] exI [of _ a] exI [of _ p] exI [of _ known])
      simp
qed

lemma observe_notes_does:
  "does (observe_notes h s k after found) (\<lambda>r tr. tally is_note_page tr \<le> k \<and> quiet submitted_credit tr
     \<and> (\<forall>note. r = Inr (Some note) \<longrightarrow> note_found h s found note tr))"
proof (induction k arbitrary: after found)
  case 0
  show ?case by (simp add: does_raise)
next
  case (Suc k)
  show ?case
    unfolding observe_notes.simps Let_def credit_port_defs
    by (intro does_intros does_mono [OF Suc]) (auto intro: note_found_start note_found_next)
qed

text \<open>The evidence for a credit of the customer: none is needed, or Stripe showed the balance transaction.\<close>

definition backing :: "credit_snapshot \<Rightarrow> credit_observation \<Rightarrow> (credit_snapshot, credit_outcome, credit_call) billing_call list \<Rightarrow> bool" where
  "backing s note tr \<longleftrightarrow>
     (if credit_minor (ns_draft s) \<le> 0 then tr = []
      else \<exists>transaction credit.
        tr = [BillGroup (NoteCustomerCredit (nd_invoice (ns_draft s)) transaction (Inr credit))]
        \<and> nb_balance_transaction_id note = Some transaction
        \<and> credit_backed s note transaction credit)"

lemma note_found_transaction:
  "note_found h s found note tr \<Longrightarrow> nb_balance_transaction_id note = None \<longleftrightarrow> credit_minor (ns_draft s) \<le> 0"
  by (auto simp: note_found_def note_matches_def Let_def result_bind_eq_Inr split: if_splits)

text \<open>The calls of a lookup that ends with \<open>note\<close>.\<close>

definition credit_evidence ::
  "credit_host \<Rightarrow> credit_snapshot \<Rightarrow> credit_observation
     \<Rightarrow> (credit_snapshot, credit_outcome, credit_call) billing_call list \<Rightarrow> bool" where
  "credit_evidence h s note tr \<longleftrightarrow>
     (\<exists>invoice found back.
        tr = BillGroup (NoteInvoice (nd_invoice (ns_draft s)) (Inr invoice)) # found @ back
        \<and> invoice_bound_to invoice (nd_invoice (ns_draft s)) \<and> note_found h s None note found
        \<and> (nb_status note = NoteIssued \<longrightarrow> backing s note back))"

lemma credit_evidence_unbacked:
  assumes "note_found h s None note tr" and "invoice_bound_to invoice (nd_invoice (ns_draft s))"
    and "nb_status note = NoteIssued \<Longrightarrow> nb_balance_transaction_id note = None"
  shows "credit_evidence h s note (BillGroup (NoteInvoice (nd_invoice (ns_draft s)) (Inr invoice)) # tr)"
  unfolding credit_evidence_def
  by (intro exI [of _ invoice] exI [of _ tr] exI [of _ "[]"])
    (use assms note_found_transaction [OF assms(1)] in \<open>auto simp: backing_def\<close>)

lemma credit_evidence_backed:
  assumes "note_found h s None note tr" and "invoice_bound_to invoice (nd_invoice (ns_draft s))"
    and "nb_balance_transaction_id note = Some transaction" and "credit_backed s note transaction credit"
  shows "credit_evidence h s note (BillGroup (NoteInvoice (nd_invoice (ns_draft s)) (Inr invoice)) # tr
    @ [BillGroup (NoteCustomerCredit (nd_invoice (ns_draft s)) transaction (Inr credit))])"
  unfolding credit_evidence_def
  by (intro exI [of _ invoice] exI [of _ tr]
      exI [of _ "[BillGroup (NoteCustomerCredit (nd_invoice (ns_draft s)) transaction (Inr credit))]"])
    (use assms note_found_transaction [OF assms(1)] in \<open>auto simp: backing_def\<close>)

lemma credit_note_lookup_does:
  "does (credit_note_lookup h s) (\<lambda>r tr. tally is_note_page tr \<le> credit_note_pages \<and> quiet submitted_credit tr
     \<and> (\<forall>note. r = Inr (Some note) \<longrightarrow> credit_evidence h s note tr))"
  unfolding credit_note_lookup_def Let_def credit_observe_def observe_invoice_def observe_credit_def
  apply (intro does_intros)
    apply simp
   apply simp
  apply (rule does_bind, rule does_mono [OF observe_notes_does])
  apply (simp split: sum.splits)
  apply (intro allI conjI impI does_intros)
      apply (auto intro: credit_evidence_unbacked credit_evidence_backed)
  done

lemma credit_verify_does:
  "does (credit_verify h s) (\<lambda>r tr. tally is_note_page tr \<le> credit_note_pages \<and> quiet submitted_credit tr
     \<and> (\<forall>v. r = Inr v \<longrightarrow>
          sv_status v \<in> {VERIFIED_COMPLETION, VERIFIED_TERMINAL_FAILURE, PROVISIONAL_ABSENCE, TARGET_UNAVAILABLE}
          \<and> (sv_result v = None \<longleftrightarrow> sv_status v \<in> {PROVISIONAL_ABSENCE, TARGET_UNAVAILABLE})
          \<and> (sv_result v \<noteq> None \<longrightarrow>
               (\<exists>note. credit_evidence h s note tr
                  \<and> (sv_status v = VERIFIED_COMPLETION \<longleftrightarrow> nb_status note = NoteIssued)))))"
  unfolding credit_verify_def
  by (intro does_intros does_mono [OF credit_note_lookup_does])
    (auto intro!: does_intros simp: not_verified_def split: sum.splits option.splits)

interpretation credit_notes: billing_group "credit_workflow h" "credit_confirmed h"
  always_ready submitted_credit for h
proof
  fix command c s deadline
  show "does (bw_prepare (credit_workflow h) command c) (\<lambda>r. quiet submitted_credit)"
    unfolding credit_workflow_simps credit_prepare_def credit_port_defs
    by (intro does_intros) auto
  show "does (bw_current (credit_workflow h) s)
      (\<lambda>r tr. quiet submitted_credit tr \<and> (r = Inr True \<longrightarrow> credit_confirmed h s tr))"
    unfolding credit_workflow_simps credit_current_def credit_port_defs Let_def
    by (intro does_intros) (auto simp: credit_confirmed_def)
  show "does (bw_submit (credit_workflow h) s deadline) (\<lambda>r tr. quiet submitted_credit tr
      \<or> (\<exists>now x. tr = [BillClock (Inr now), BillGroup x] \<and> now < deadline \<and> always_ready s now
           \<and> submitted_credit x = Some s \<and> \<not> refuses r))"
    unfolding credit_workflow_simps credit_submit_def credit_port_defs
    by (intro does_intros) (auto simp: always_ready_def)
  show "does (bw_verify (credit_workflow h) s) (\<lambda>r. quiet submitted_credit)"
    unfolding credit_workflow_simps by (rule does_mono [OF credit_verify_does]) simp
qed

section \<open>Properties\<close>

text \<open>
  C31: the guard of a credit note. An execution asks Stripe to issue a credit at most once, for the
  approved snapshot, as its last call, and only after, in this order: the stored proposal was read and has a
  lease, the repository granted the reservation until the earliest of the expiries, live
  authorization, the invoice that the host has, the invoice that Stripe shows and the amounts that Stripe
  calculates for the draft are exactly the approved ones and the invoice permits the allocation, live authorization again, and
  the clock twice before the deadline.
\<close>

theorem credit_note_guarded:
  assumes "calls_of (billing_execute (credit_workflow h) s c p) n = pre @ BillGroup (NoteCreate s' answer) # post"
  shows "s' = s \<and> post = []
    \<and> (\<exists>start record verification_at permitted permitted' now now'.
         pre = start @
           [BillStoreGet (ec_tenant_reference c) (ec_proposal_reference c) (Inr (Some record)),
            BillReserve s (submission_deadline record verification_at) (Inr ResACQUIRED),
            BillCanExecute s c (Inr permitted),
            BillGroup (NoteBinding (ns_tenant_reference s) (ci_invoice_reference (nd_invoice (ns_draft s)))
              (Inr (nd_invoice (ns_draft s)))),
            BillGroup (NoteInvoice (nd_invoice (ns_draft s)) (Inr (ns_observed_invoice s))),
            BillGroup (NotePreview (ns_draft s) (Inr (ns_calculation s))),
            BillCanExecute s c (Inr permitted'), BillClock (Inr now), BillClock (Inr now')]
         \<and> quiet submitted_credit start
         \<and> sp_next_verification_at record = Some verification_at
         \<and> ar_allowed permitted \<and> ar_allowed permitted'
         \<and> invoice_permits (ns_observed_invoice s) (cr_disposition (nd_request (ns_draft s))) (nd_total_minor (ns_draft s))
         \<and> max now now' < submission_deadline record verification_at)"
  using credit_notes.submission_position [OF assms]
  unfolding credit_confirmed_def Let_def by auto


section \<open>Concrete runs\<close>

definition demo_credit_invoice :: credit_invoice where
  "demo_credit_invoice =
     \<lparr>ci_tenant_reference = ''t'', ci_invoice_reference = ''v'', ci_version = 1, ci_account = demo_account,
      ci_invoice_id = ''in_1'', ci_customer_id = ''cus_1'', ci_currency = ''USD'', ci_currency_exponent = 0,
      ci_lines = [\<lparr>ib_line_reference = ''l'', ib_invoice_line_id = ''il_1''\<rparr>]\<rparr>"

definition demo_credit_request :: credit_request where
  "demo_credit_request =
     \<lparr>cr_intent_reference = ''r'', cr_invoice_reference = ''v'',
      cr_lines = [\<lparr>cl_line_reference = ''l'', cl_amount = \<lparr>mo_amount = Dec False 50 (-1), mo_currency = ''USD''\<rparr>\<rparr>],
      cr_expected_total = \<lparr>mo_amount = Dec False 50 (-1), mo_currency = ''USD''\<rparr>,
      cr_disposition = CustomerBalance, cr_reason = CreditDuplicate\<rparr>"

definition demo_invoice_observation :: invoice_observation where
  "demo_invoice_observation =
     \<lparr>io_invoice_id = ''in_1'', io_customer_id = ''cus_1'', io_currency = ''usd'', io_livemode = False,
      io_status = InvPaid, io_total_minor = 9, io_amount_due_minor = 9, io_amount_paid_minor = 9,
      io_remaining_minor = 0, io_pre_payment_credits_minor = 0, io_post_payment_credits_minor = 0,
      io_supported = True\<rparr>"

definition demo_calculation :: credit_calculation where
  "demo_calculation =
     \<lparr>kc_currency = ''usd'', kc_total_minor = 5, kc_pre_payment_minor = 0, kc_post_payment_minor = 5,
      kc_lines = [\<lparr>kl_invoice_line_id = ''il_1'', kl_amount_minor = 5, kl_discount_minor = 0, kl_taxes = []\<rparr>]\<rparr>"

definition demo_draft :: credit_draft where
  "demo_draft =
     \<lparr>nd_invoice = demo_credit_invoice, nd_request = demo_credit_request,
      nd_lines = [\<lparr>nl_invoice_line_id = ''il_1'', nl_amount_minor = 5\<rparr>], nd_total_minor = 5\<rparr>"

definition demo_credit :: credit_snapshot where
  "demo_credit =
     \<lparr>ns_tenant_reference = ''t'', ns_intent_reference = ''r'', ns_policy_fingerprint = ''d'',
      ns_draft = demo_draft,
      ns_observed_invoice = demo_invoice_observation, ns_calculation = demo_calculation\<rparr>"

definition demo_note :: credit_observation where
  "demo_note =
     \<lparr>nb_note_id = ''cn_1'', nb_invoice_id = ''in_1'', nb_customer_id = ''cus_1'', nb_livemode = False,
      nb_status = NoteIssued, nb_reason = Some CreditDuplicate, nb_calculation = demo_calculation,
      nb_correlation = ''d'', nb_balance_transaction_id = Some ''cbtxn_1'', nb_has_refunds = False,
      nb_out_of_band_minor = 0\<rparr>"

definition demo_lookup :: credit_lookup where
  "demo_lookup = \<lparr>nk_note_id = ''cn_1'', nk_correlation = ''d''\<rparr>"

definition demo_customer_credit :: customer_credit where
  "demo_customer_credit =
     \<lparr>cc_transaction_id = ''cbtxn_1'', cc_customer_id = ''cus_1'', cc_note_id = ''cn_1'', cc_currency = ''usd'',
      cc_amount_minor = - 5, cc_kind = ''credit_note''\<rparr>"

definition demo_credit_host :: credit_host where
  "demo_credit_host =
     \<lparr>nh_ports = demo_billing_ports demo_credit, nh_binding = (\<lambda>n t r. Inr demo_credit_invoice),
      nh_invoice = (\<lambda>n b. Inr demo_invoice_observation), nh_preview = (\<lambda>n d. Inr demo_calculation),
      nh_create = (\<lambda>n s. Inr demo_note),
      nh_notes = (\<lambda>n b a. Inr \<lparr>np_notes = [demo_lookup], np_has_more = False\<rparr>),
      nh_retrieve = (\<lambda>n b i. Inr demo_note), nh_customer_credit = (\<lambda>n b i. Inr demo_customer_credit),
      nh_policy = \<lparr>cp_limits = [\<lparr>mo_amount = Dec False 8 0, mo_currency = ''USD''\<rparr>], cp_allow_live = False,
                   cp_allow_customer_balance = True\<rparr>,
      nh_digests = \<lparr>dg_nfc = (\<lambda>s. s), dg_sha256 = (\<lambda>b. ''d'')\<rparr>\<rparr>"

definition demo_credit_context :: execution_context where
  "demo_credit_context = demo_refund_context\<lparr>ec_semantic_effect_reference := ''credit-note:d''\<rparr>"

lemma demo_credit_simps [simp]:
  "ns_tenant_reference demo_credit = ''t''" "ns_intent_reference demo_credit = ''r''"
  "ns_policy_fingerprint demo_credit = ''d''" "ns_draft demo_credit = demo_draft"
  "ns_observed_invoice demo_credit = demo_invoice_observation" "ns_calculation demo_credit = demo_calculation"
  "nd_invoice demo_draft = demo_credit_invoice" "nd_request demo_draft = demo_credit_request"
  "nd_total_minor demo_draft = 5" "credit_minor demo_draft = 5"
  by (simp_all add: demo_credit_def demo_draft_def credit_minor_def demo_credit_request_def)

lemma printable_digit [simp]: "int_printable 0" "int_printable 1" "int_printable 5" "int_printable 9"
  by code_simp+

lemmas demo_credit_defs =
  demo_credit_invoice_def demo_credit_request_def demo_invoice_observation_def demo_calculation_def
  demo_account_def

lemma demo_credit_correlation:
  "credit_correlation (nh_digests demo_credit_host) demo_credit = Inr ''d''"
  by (simp add: credit_correlation_def fingerprint_of_def canonicalize_v1_def credit_snapshot_json_def
      credit_draft_json_def credit_invoice_json_def credit_request_json_def invoice_observation_json_def
      credit_calculation_json_def account_json_def money_json_def demo_draft_def demo_credit_defs
      demo_credit_host_def del: dumps.simps dumps_list.simps dumps_entries.simps)

lemma demo_credit_fingerprint:
  "credit_policy_fingerprint (nh_digests demo_credit_host) (nh_policy demo_credit_host) = Inr ''d''"
  by (simp add: credit_policy_fingerprint_def fingerprint_of_def canonicalize_v1_def money_json_def
      demo_credit_host_def del: dumps.simps dumps_list.simps dumps_entries.simps)

lemma demo_credit_effect: "credit_effect (nh_digests demo_credit_host) demo_credit = ''credit-note:d''"
  by code_simp

lemma demo_note_matches: "note_matches (nh_digests demo_credit_host) demo_note demo_credit = Inr True"
  by (simp add: note_matches_def Let_def demo_credit_correlation)
    (simp add: demo_note_def demo_credit_defs)

lemma demo_admissible: "credit_admissible demo_credit_host demo_credit = Inr True"
proof -
  have "credit_policy_permits (nh_policy demo_credit_host) demo_credit_request
      (sa_livemode (ci_account demo_credit_invoice))" by code_simp
  then show ?thesis
    by (simp add: credit_admissible_def Let_def demo_credit_fingerprint)
      (simp add: demo_credit_invoice_def demo_credit_request_def)
qed

lemma demo_invoice_ok:
  "invoice_bound_to demo_invoice_observation demo_credit_invoice"
  "invoice_permits demo_invoice_observation (cr_disposition demo_credit_request) 5"
  "credit_backed demo_credit demo_note ''cbtxn_1'' demo_customer_credit"
  by code_simp+

lemma demo_credit_host_simps [simp]:
  "nh_ports demo_credit_host = demo_billing_ports demo_credit"
  "nh_binding demo_credit_host n t r = Inr demo_credit_invoice"
  "nh_invoice demo_credit_host n b = Inr demo_invoice_observation"
  "nh_preview demo_credit_host n d = Inr demo_calculation"
  "nh_create demo_credit_host n s = Inr demo_note"
  "nh_notes demo_credit_host n b a = Inr \<lparr>np_notes = [demo_lookup], np_has_more = False\<rparr>"
  "nh_retrieve demo_credit_host n b i = Inr demo_note"
  "nh_customer_credit demo_credit_host n b i = Inr demo_customer_credit"
  by (simp_all add: demo_credit_host_def)

definition demo_credit_calls :: "(credit_snapshot, credit_outcome, credit_call) billing_call list" where
  "demo_credit_calls =
     calls_of (billing_execute (credit_workflow demo_credit_host) demo_credit demo_credit_context ''credit-note:d'') 0"

lemma demo_deadline:
  "sp_next_verification_at demo_stored = Some 50" "sp_authority_evidence demo_stored \<noteq> []"
  "submission_deadline demo_stored 50 = 10"
  by code_simp+

lemma demo_current_run:
  "credit_current demo_credit_host demo_credit w =
     (Inr True, \<lparr>cw_count = Suc (Suc (Suc (cw_count w))), cw_trace = cw_trace w @
        [BillGroup (NoteBinding ''t'' ''v'' (Inr demo_credit_invoice)),
         BillGroup (NoteInvoice demo_credit_invoice (Inr demo_invoice_observation)),
         BillGroup (NotePreview demo_draft (Inr demo_calculation))]\<rparr>)"
proof -
  have v: "ci_invoice_reference demo_credit_invoice = ''v''" by (simp add: demo_credit_invoice_def)
  show ?thesis
    by (simp add: credit_current_def demo_admissible credit_port_defs Let_def bind_def lift_def called_def
        demo_invoice_ok return_def v)
qed

lemma demo_credit_calls_eq:
  "demo_credit_calls =
     [BillGroup (NoteBinding ''t'' ''v'' (Inr demo_credit_invoice)),
      BillGroup (NoteInvoice demo_credit_invoice (Inr demo_invoice_observation)),
      BillGroup (NotePreview demo_draft (Inr demo_calculation)),
      BillCanExecute demo_credit demo_credit_context (Inr \<lparr>ar_allowed = True, ar_reason_code = None\<rparr>),
      BillStoreGet ''t'' ''p'' (Inr (Some demo_stored)), BillReserve demo_credit 10 (Inr ResACQUIRED),
      BillCanExecute demo_credit demo_credit_context (Inr \<lparr>ar_allowed = True, ar_reason_code = None\<rparr>),
      BillGroup (NoteBinding ''t'' ''v'' (Inr demo_credit_invoice)),
      BillGroup (NoteInvoice demo_credit_invoice (Inr demo_invoice_observation)),
      BillGroup (NotePreview demo_draft (Inr demo_calculation)),
      BillCanExecute demo_credit demo_credit_context (Inr \<lparr>ar_allowed = True, ar_reason_code = None\<rparr>),
      BillClock (Inr 5), BillClock (Inr 5)] @
      BillGroup (NoteCreate demo_credit (Inr demo_note)) # []"
proof -
  have c: "ec_tenant_reference demo_credit_context = ''t''" "ec_proposal_reference demo_credit_context = ''p''"
    "ec_semantic_effect_reference demo_credit_context = ''credit-note:d''"
    by (simp_all add: demo_credit_context_def demo_refund_context_def)
  have n: "nb_status demo_note = NoteIssued" by (simp add: demo_note_def)
  show ?thesis
    by (simp add: demo_credit_calls_def calls_of_def billing_execute_def billing_resolve_def billing_admitted_def
        billing_dispatch_def billing_last_checks_def billing_settle_def billing_clock_def billing_can_execute_def
        credit_submit_def create_note_def demo_current_run demo_credit_effect demo_note_matches
        demo_credit_correlation demo_deadline demo_billing_ports_def Let_def bind_def attempt_def lift_def called_def
        return_def c n)
qed

theorem credit_note_guarded_witness:
  "\<exists>record verification_at. BillStoreGet ''t'' ''p'' (Inr (Some record)) \<in> set demo_credit_calls
     \<and> sp_next_verification_at record = Some verification_at"
  using credit_note_guarded [OF demo_credit_calls_eq [unfolded demo_credit_calls_def]]
  unfolding demo_credit_calls_eq by (elim conjE exE) (rule exI, rule exI, rule conjI, simp, simp)


end
