(* ===== verification/Stripe_Host.thy ===== *)
theory Stripe_Host
  imports Stripe_Subscriptions Stripe_Credit_Notes
begin

text \<open>
  The database of the reference host (\<open>examples/stripe_host\<close>) and its refund repository
  \<open>PostgresRefundRepository\<close> (\<open>repositories.py\<close>): the tables of the application (payments, subscriptions,
  invoices, customers) and the ledger of \<open>Stripe_Ledger\<close> in one database. The repository fulfils the
  contract of a reservation, so that refunds are submitted at most once, however many workers
  execute them at the same time.
\<close>

section \<open>The database\<close>

record reference_payment =
  rp_payment :: refund_payment
  rp_customer_reference :: pystr

record reference_subscription =
  rb_subscription :: subscription_binding
  rb_customer_reference :: pystr

record reference_invoice =
  rv_invoice :: credit_invoice
  rv_customer_reference :: pystr

record host_db =
  hd_payments :: "pystr \<times> pystr \<Rightarrow> reference_payment option"
  hd_subscriptions :: "pystr \<times> pystr \<Rightarrow> reference_subscription option"
  hd_invoices :: "pystr \<times> pystr \<Rightarrow> reference_invoice option"
  hd_customer_resources :: "pystr \<times> pystr \<Rightarrow> bool"
  hd_ledger :: ledger

text \<open>\<open>hc_parse\<close> is pydantic's \<open>RefundSnapshot.model_validate_json\<close> on a stored document.\<close>

record host_config =
  hc_ledger :: ledger_config
  hc_digests :: digests
  hc_parse :: "json_object \<Rightarrow> refund_snapshot outcome"

definition on_ledger :: "(ledger, 'a) eff \<Rightarrow> (host_db, 'a) eff" where
  "on_ledger m db = (case m (hd_ledger db) of (r, rows) \<Rightarrow> (r, db\<lparr>hd_ledger := rows\<rparr>))"

fun refund_status_value :: "refund_status \<Rightarrow> pystr" where
  "refund_status_value RefPENDING = ''pending''"
| "refund_status_value RefREQUIRES_ACTION = ''requires_action''"
| "refund_status_value RefSUCCEEDED = ''succeeded''"
| "refund_status_value RefFAILED = ''failed''"
| "refund_status_value RefCANCELED = ''canceled''"

definition snapshot_json :: "refund_snapshot \<Rightarrow> json_object" where
  "snapshot_json s =
     [(''intent'', intent_json (sn_intent s)),
      (''payment_reference'', JStr (sn_payment_reference s)),
      (''payment_version'', JInt (sn_payment_version s)),
      (''refunded_minor'', JInt (sn_refunded_minor s)),
      (''policy_fingerprint'', JStr (sn_policy_fingerprint s))]"

definition outcome_json :: "refund_outcome \<Rightarrow> json_object" where
  "outcome_json out =
     [(''amount'', money_json (rf_amount out)), (''status'', JStr (refund_status_value (rf_status out)))]"

definition customer_resource :: "pystr \<Rightarrow> pystr" where
  "customer_resource customer = ''customer:'' @ customer"

section \<open>The repository\<close>

definition reference_payment_of :: "pystr \<Rightarrow> pystr \<Rightarrow> (host_db, reference_payment) eff" where
  "reference_payment_of tenant payment db =
     (case hd_payments db (tenant, payment) of
        None \<Rightarrow> (fails StripePostgresHostError, db)
      | Some p \<Rightarrow> (Inr p, db))"

definition host_payment :: "pystr \<Rightarrow> pystr \<Rightarrow> (host_db, refund_payment) eff" where
  "host_payment tenant payment =
     bind (reference_payment_of tenant payment) (\<lambda>p. return (rp_payment p))"

definition require_remembered :: "remember_status \<Rightarrow> (host_db, unit) eff" where
  "require_remembered st = (if st = RememberCONFLICT then raise StripePostgresHostError else return ())"

definition require_closed :: "close_status \<Rightarrow> (host_db, unit) eff" where
  "require_closed st = (if st = CloseCONFLICT then raise StripePostgresHostError else return ())"

definition host_remember :: "host_config \<Rightarrow> refund_snapshot \<Rightarrow> pystr \<Rightarrow> (host_db, unit) eff" where
  "host_remember cfg s requester =
     bind (reference_payment_of (ri_tenant_reference (sn_intent s)) (sn_payment_reference s)) (\<lambda>p.
     bind (committed (on_ledger (remember (hc_ledger cfg) (ri_tenant_reference (sn_intent s)) REFUNDS
             (effect_reference (hc_digests cfg) s) (customer_resource (rp_customer_reference p)) requester
             (snapshot_json s)))) (\<lambda>st.
     require_remembered st))"

definition host_load :: "host_config \<Rightarrow> pystr \<Rightarrow> pystr \<Rightarrow> (host_db, refund_snapshot) eff" where
  "host_load cfg tenant effect =
     bind (on_ledger (load_entry tenant REFUNDS effect)) (\<lambda>row.
     case row of
       None \<Rightarrow> raise StripePostgresHostError
     | Some e \<Rightarrow> lift (hc_parse cfg (le_snapshot_data e)))"

definition lock_customer_resource :: "pystr \<Rightarrow> pystr \<Rightarrow> (host_db, unit) eff" where
  "lock_customer_resource tenant customer db =
     (if hd_customer_resources db (tenant, customer) then (Inr (), db) else (fails StripePostgresHostError, db))"

definition host_reserve ::
  "host_config \<Rightarrow> instant \<Rightarrow> refund_snapshot \<Rightarrow> instant \<Rightarrow> (host_db, reservation_status) eff" where
  "host_reserve cfg now s not_after =
     (let tenant = ri_tenant_reference (sn_intent s) in
      committed (\<lambda>db.
        case hd_payments db (tenant, sn_payment_reference s) of
          None \<Rightarrow> (Inr ResSTALE, db)
        | Some p \<Rightarrow>
            if \<not> matches_payment s (rp_payment p) then (Inr ResSTALE, db)
            else
              bind (lock_customer_resource tenant (rp_customer_reference p)) (\<lambda>_.
              on_ledger (reserve_in (hc_ledger cfg) now True tenant REFUNDS
                (effect_reference (hc_digests cfg) s) (customer_resource (rp_customer_reference p))
                (snapshot_json s) not_after)) db))"

definition lock_payment_for_close :: "host_config \<Rightarrow> pystr \<Rightarrow> pystr \<Rightarrow> (host_db, unit) eff" where
  "lock_payment_for_close cfg tenant effect =
     bind (on_ledger (load_in True tenant REFUNDS effect)) (\<lambda>row.
     case row of
       None \<Rightarrow> raise StripePostgresHostError
     | Some e \<Rightarrow>
         bind (lift (hc_parse cfg (le_snapshot_data e))) (\<lambda>s.
         bind (reference_payment_of tenant (sn_payment_reference s)) (\<lambda>p.
         lock_customer_resource tenant (rp_customer_reference p))))"

definition host_record_no_submission :: "host_config \<Rightarrow> instant \<Rightarrow> pystr \<Rightarrow> pystr \<Rightarrow> (host_db, unit) eff" where
  "host_record_no_submission cfg now tenant effect =
     committed (bind (lock_payment_for_close cfg tenant effect) (\<lambda>_.
       bind (on_ledger (record_no_submission_in (hc_ledger cfg) now True tenant REFUNDS effect)) require_closed))"

definition host_record_outcome ::
  "host_config \<Rightarrow> instant \<Rightarrow> pystr \<Rightarrow> pystr \<Rightarrow> refund_outcome \<Rightarrow> (host_db, unit) eff" where
  "host_record_outcome cfg now tenant effect outcome =
     committed (bind (lock_payment_for_close cfg tenant effect) (\<lambda>_.
       bind (on_ledger (record_outcome_in (hc_ledger cfg) now True tenant REFUNDS effect (outcome_json outcome)))
         require_closed))"

section \<open>Serving calls\<close>

text \<open>
  How the database serves the calls of the refund workers. Before every call anything may happen to
  the tables of the application, and other clients may use the ledger. A call that raises was lost
  before or after it took effect.
\<close>

definition others_change :: "host_config \<Rightarrow> host_db \<Rightarrow> host_db \<Rightarrow> bool" where
  "others_change cfg db db' \<longleftrightarrow> (ledger_step (hc_ledger cfg))\<^sup>*\<^sup>* (hd_ledger db) (hd_ledger db')"

definition answered :: "(host_db, 'a) eff \<Rightarrow> 'a outcome \<Rightarrow> host_db \<Rightarrow> host_db \<Rightarrow> bool" where
  "answered m r db db' \<longleftrightarrow>
     (case r of Inr a \<Rightarrow> m db = (Inr a, db') | Inl e \<Rightarrow> db' = db \<or> db' = snd (m db))"

fun host_answers :: "host_config \<Rightarrow> host_db \<Rightarrow> refund_call \<Rightarrow> host_db \<Rightarrow> bool" where
  "host_answers cfg db (RefundPaymentCall t p r) db' = answered (host_payment t p) r db db'"
| "host_answers cfg db (RefundRemember s q r) db' = answered (host_remember cfg s q) r db db'"
| "host_answers cfg db (RefundLoad t k r) db' = answered (host_load cfg t k) r db db'"
| "host_answers cfg db (RefundReserve s d r) db' = (\<exists>now. answered (host_reserve cfg now s d) r db db')"
| "host_answers cfg db (RefundNoSubmission t k r) db' =
     (\<exists>now. answered (host_record_no_submission cfg now t k) r db db')"
| "host_answers cfg db (RefundRecordOutcome t k out r) db' =
     (\<exists>now. answered (host_record_outcome cfg now t k out) r db db')"
| "host_answers cfg db _ db' = (db' = db)"

definition host_serves :: "host_config \<Rightarrow> host_db \<Rightarrow> refund_call \<Rightarrow> host_db \<Rightarrow> bool" where
  "host_serves cfg db call db' \<longleftrightarrow> (\<exists>mid. others_change cfg db mid \<and> host_answers cfg mid call db')"

definition consumed :: "host_db \<Rightarrow> (pystr \<times> pystr) set" where
  "consumed db =
     {(t, k). \<exists>e\<in>set (hd_ledger db). entry_key e = (t, REFUNDS, k) \<and> le_phase e \<noteq> PhREADY}"

fun grants :: "digests \<Rightarrow> refund_call \<Rightarrow> (pystr \<times> pystr) option" where
  "grants dg (RefundReserve s d (Inr ResACQUIRED)) =
     Some (ri_tenant_reference (sn_intent s), effect_reference dg s)"
| "grants dg _ = None"

fun creates :: "digests \<Rightarrow> pystr \<times> pystr \<Rightarrow> refund_call \<Rightarrow> bool" where
  "creates dg k (RefundCreate i answer) = ((ri_tenant_reference i, intent_effect dg i) = k)"
| "creates dg k _ = False"

definition host_good :: "host_db \<Rightarrow> bool" where
  "host_good db \<longleftrightarrow> ledger_ok (hd_ledger db)"

text \<open>The tables of the application are the same, and the ledger moves on.\<close>

definition moved :: "host_db \<Rightarrow> host_db \<Rightarrow> bool" where
  "moved db db' \<longleftrightarrow>
     host_good db' \<and> rows_evolve (hd_ledger db) (hd_ledger db') \<and> db' = db\<lparr>hd_ledger := hd_ledger db'\<rparr>"

definition moves :: "(host_db, 'a) eff \<Rightarrow> bool" where
  "moves m \<longleftrightarrow> (\<forall>db. host_good db \<longrightarrow> moved db (snd (m db)))"

lemma moved_refl: "host_good db \<Longrightarrow> moved db db"
  by (simp add: moved_def)

lemma moved_trans: "moved a b \<Longrightarrow> moved b c \<Longrightarrow> moved a c"
  unfolding moved_def by (cases a; cases b; cases c) (auto intro: rows_evolve_trans)

section \<open>The contract holds\<close>

lemma moves_pure [intro]: "moves (return a)" "moves (raise e)" "moves (lift q)"
  by (simp_all add: moves_def moved_refl return_def raise_def throw_def lift_def)

lemma moves_bind [intro]:
  assumes "moves m" and "\<And>a. moves (f a)"
  shows "moves (bind m f)"
  unfolding moves_def
proof (intro allI impI)
  fix db assume g: "host_good db"
  obtain r mid where m: "m db = (r, mid)" by force
  with assms(1) g have 1: "moved db mid" unfolding moves_def by (metis snd_conv)
  show "moved db (snd (bind m f db))"
  proof (cases r)
    case (Inl e)
    then show ?thesis using 1 m by (simp add: bind_def)
  next
    case (Inr a)
    have "moved mid (snd (f a mid))" using assms(2) 1 unfolding moves_def moved_def by blast
    then show ?thesis using moved_trans [OF 1] m Inr by (simp add: bind_def)
  qed
qed

lemma moves_committed [intro]: "moves m \<Longrightarrow> moves (committed m)"
  unfolding moves_def committed_def using moved_refl by (auto split: prod.splits sum.splits)

lemma moves_on_ledger:
  assumes "\<And>rows r rows'. ledger_ok rows \<Longrightarrow> m rows = (r, rows') \<Longrightarrow> ledger_ok rows' \<and> rows_evolve rows rows'"
  shows "moves (on_ledger m)"
  unfolding moves_def moved_def host_good_def on_ledger_def using assms by (auto split: prod.splits)

lemma moves_reads [intro]:
  "moves (reference_payment_of t p)" "moves (lock_customer_resource t c)"
  by (simp_all add: moves_def moved_refl reference_payment_of_def lock_customer_resource_def split: option.splits)

lemma moves_remember [intro]: "moves (on_ledger (remember lc t g k res req data))"
  by (rule moves_on_ledger) (rule remember_ok)

lemma moves_reserve [intro]: "moves (on_ledger (reserve_in lc now tx t g k res data na))"
  by (rule moves_on_ledger) (rule reserve_ok)

lemma moves_close [intro]: "moves (on_ledger (close_in lc now tx t g k outcome))"
  by (rule moves_on_ledger) (rule close_ok)

lemma moves_load_entry [intro]: "moves (on_ledger (load_entry t g k))"
  by (rule moves_on_ledger) (auto simp: load_entry_def)

lemma moves_load_in [intro]: "moves (on_ledger (load_in tx t g k))"
  by (rule moves_on_ledger)
    (auto simp: load_entry_def load_in_def bind_def require_transaction_def return_def raise_def throw_def
      split: if_splits)

lemmas moves_load = moves_load_entry moves_load_in

lemma moves_option [intro]:
  "moves m \<Longrightarrow> (\<And>a. moves (f a)) \<Longrightarrow> moves (case x of None \<Rightarrow> m | Some a \<Rightarrow> f a)"
  by (simp split: option.splits)

lemma moves_if [intro]: "moves m \<Longrightarrow> moves n \<Longrightarrow> moves (if b then m else n)"
  by simp

lemma moves_required [intro]: "moves (require_remembered x)" "moves (require_closed y)"
  unfolding require_remembered_def require_closed_def by (intro moves_if moves_pure)+

lemma moves_lock_payment [intro]: "moves (lock_payment_for_close cfg t k)"
  unfolding lock_payment_for_close_def by (intro moves_bind moves_load moves_option moves_pure moves_reads)

lemma moves_reserving: "moves (host_reserve cfg now s d)"
proof -
  let ?t = "ri_tenant_reference (sn_intent s)"
  let ?go = "\<lambda>p. bind (lock_customer_resource ?t (rp_customer_reference p)) (\<lambda>_.
    on_ledger (reserve_in (hc_ledger cfg) now True ?t REFUNDS (effect_reference (hc_digests cfg) s)
      (customer_resource (rp_customer_reference p)) (snapshot_json s) d))"
  have "moves (?go p)" for p by (intro moves_bind moves_reads moves_reserve)
  then show ?thesis
    unfolding host_reserve_def Let_def
    by (intro moves_committed) (auto simp: moves_def moved_refl split: option.splits)
qed

lemma moves_host:
  "moves (host_payment t p)" "moves (host_remember cfg s q)" "moves (host_load cfg t k)"
  "moves (host_record_no_submission cfg now t k)" "moves (host_record_outcome cfg now t k out)"
  unfolding host_payment_def host_remember_def host_load_def host_record_no_submission_def
    host_record_outcome_def record_no_submission_in_def record_outcome_in_def
  by (intro moves_bind moves_reads moves_pure moves_committed moves_remember moves_required moves_load
      moves_option moves_lock_payment moves_close)+

lemma answered_moves:
  assumes "moves m" and "answered m r db db'" and "host_good db"
  shows "moved db db'"
proof -
  have "db' = db \<or> db' = snd (m db)"
    using assms(2) unfolding answered_def by (cases r) auto
  then show ?thesis using assms(1,3) moved_refl unfolding moves_def by blast
qed

lemma host_answers_moves:
  assumes "host_answers cfg db call db'" and "host_good db"
  shows "moved db db'"
proof (cases call)
  case (RefundPaymentCall t p r)
  then show ?thesis using assms by (intro answered_moves [OF moves_host(1), of t p r]) simp_all
next
  case (RefundRemember s q r)
  then show ?thesis using assms by (intro answered_moves [OF moves_host(2), of cfg s q r]) simp_all
next
  case (RefundLoad t k r)
  then show ?thesis using assms by (intro answered_moves [OF moves_host(3), of cfg t k r]) simp_all
next
  case (RefundReserve s d r)
  with assms obtain now where "answered (host_reserve cfg now s d) r db db'" by auto
  then show ?thesis using answered_moves [OF moves_reserving] assms(2) by blast
next
  case (RefundNoSubmission t k r)
  with assms obtain now where "answered (host_record_no_submission cfg now t k) r db db'" by auto
  then show ?thesis using answered_moves [OF moves_host(4)] assms(2) by blast
next
  case (RefundRecordOutcome t k out r)
  with assms obtain now where "answered (host_record_outcome cfg now t k out) r db db'" by auto
  then show ?thesis using answered_moves [OF moves_host(5)] assms(2) by blast
qed (use assms moved_refl in simp_all)

lemma others_move:
  "others_change cfg db db' \<Longrightarrow> host_good db \<Longrightarrow> host_good db' \<and> rows_evolve (hd_ledger db) (hd_ledger db')"
  unfolding others_change_def host_good_def by (rule ledger_path_ok)

lemma consumed_mono:
  assumes "rows_evolve (hd_ledger db) (hd_ledger db')"
  shows "consumed db \<subseteq> consumed db'"
proof clarify
  fix t k assume "(t, k) \<in> consumed db"
  then obtain e where e: "e \<in> set (hd_ledger db)" "entry_key e = (t, REFUNDS, k)" "le_phase e \<noteq> PhREADY"
    by (auto simp: consumed_def)
  then obtain e' where "e' \<in> set (hd_ledger db')" "entry_evolves e e'"
    using assms by (auto simp: rows_evolve_def)
  with e show "(t, k) \<in> consumed db'"
    using entry_key_binding [of e' e] by (auto simp: consumed_def entry_evolves_def)
qed

text \<open>A granted reservation finds the intent ready and leaves it reserved.\<close>

lemma reserve_in_consumes:
  assumes "ledger_ok rows" and "reserve_in cfg now True t g k res data d rows = (Inr ResACQUIRED, rows')"
  shows "(\<forall>e\<in>set rows. entry_key e = (t, g, k) \<longrightarrow> le_phase e = PhREADY)
    \<and> (\<exists>e\<in>set rows'. entry_key e = (t, g, k) \<and> le_phase e \<noteq> PhREADY)"
proof -
  obtain e where e: "select_entry (t, g, k) rows = Some e" "le_phase e = PhREADY"
    "rows' = replaced e (reserved_entry now e) rows"
    using assms(2) by (auto simp: reserve_in_eq [OF assms(1)] split: option.splits if_splits)
  have in_rows: "e \<in> set rows" "entry_key e = (t, g, k)" using select_entryD [OF e(1)] by auto
  have "reserved_entry now e \<in> set rows'"
    unfolding e(3) replaced_set [OF in_rows(1)] by simp
  moreover have "entry_key (reserved_entry now e) = (t, g, k)" "le_phase (reserved_entry now e) \<noteq> PhREADY"
    using in_rows(2) by (simp_all add: reserved_entry_def entry_key_def)
  moreover have "x = e" if "x \<in> set rows" "entry_key x = (t, g, k)" for x
    using key_unique [OF _ that(1) in_rows(1)] that(2) in_rows(2) assms(1) by (simp add: ledger_ok_def)
  ultimately show ?thesis using e(2) by blast
qed

lemma host_reserve_grants:
  assumes "host_good db" and "host_reserve cfg now s d db = (Inr ResACQUIRED, db')"
  shows "(ri_tenant_reference (sn_intent s), effect_reference (hc_digests cfg) s) \<notin> consumed db
    \<and> (ri_tenant_reference (sn_intent s), effect_reference (hc_digests cfg) s) \<in> consumed db'"
proof -
  have "\<exists>resource. reserve_in (hc_ledger cfg) now True (ri_tenant_reference (sn_intent s)) REFUNDS
      (effect_reference (hc_digests cfg) s) resource (snapshot_json s) d (hd_ledger db) = (Inr ResACQUIRED, hd_ledger db')"
    using assms(2)
    by (auto simp: host_reserve_def Let_def committed_def bind_def lock_customer_resource_def on_ledger_def fails_def
        split: option.splits if_splits prod.splits sum.splits)
  then obtain resource where "reserve_in (hc_ledger cfg) now True (ri_tenant_reference (sn_intent s)) REFUNDS
      (effect_reference (hc_digests cfg) s) resource (snapshot_json s) d (hd_ledger db) = (Inr ResACQUIRED, hd_ledger db')"
    by blast
  from reserve_in_consumes [OF _ this] assms(1) show ?thesis
    by (fastforce simp: consumed_def host_good_def)
qed

interpretation refund_reservations: reservations "host_serves cfg" host_good consumed "grants (hc_digests cfg)"
proof
  fix db call db'
  assume g: "host_good db" and step: "host_serves cfg db call db'"
  then obtain mid where mid: "others_change cfg db mid" "host_answers cfg mid call db'"
    by (auto simp: host_serves_def)
  have 1: "host_good mid" "rows_evolve (hd_ledger db) (hd_ledger mid)" using others_move [OF mid(1) g] by auto
  have 2: "host_good db'" "rows_evolve (hd_ledger mid) (hd_ledger db')" using host_answers_moves [OF mid(2) 1(1)] by (auto simp: moved_def)
  show "host_good db'" by (rule 2)
  show "consumed db \<subseteq> consumed db'" using consumed_mono [OF 1(2)] consumed_mono [OF 2(2)] by simp
  fix k assume "grants (hc_digests cfg) call = Some k"
  then obtain s d where s: "call = RefundReserve s d (Inr ResACQUIRED)"
    "k = (ri_tenant_reference (sn_intent s), effect_reference (hc_digests cfg) s)"
    by (cases "(hc_digests cfg, call)" rule: grants.cases) auto
  then obtain now where "host_reserve cfg now s d mid = (Inr ResACQUIRED, db')"
    using mid(2) by (auto simp: answered_def)
  from host_reserve_grants [OF 1(1) this] show "k \<notin> consumed db \<and> k \<in> consumed db'"
    using consumed_mono [OF 1(2)] s(2) by auto
qed

text \<open>A worker that runs one execution, or crashes in the middle of it, creates no more than it was granted.\<close>

lemma no_create_tally: "no_create tr \<Longrightarrow> tally (creates dg k) tr = 0"
  unfolding no_create_def tally_eq_0 by (metis creates.elims(2) is_create.simps(1))

lemma executing_split:
  assumes "executing s c tr"
  obtains front answer where "tr = front @ [RefundCreate (sn_intent s) answer]" "no_create front"
    "\<exists>d. RefundReserve s d (Inr ResACQUIRED) \<in> set front"
proof -
  from assms obtain pre stored v permitted charge now answer where tr:
    "tr = (pre @ [RefundStoreGet (ec_tenant_reference c) (ec_proposal_reference c) (Inr (Some stored)),
       RefundReserve s (submission_deadline stored v) (Inr ResACQUIRED), RefundCanExecute s c (Inr permitted),
       RefundCharge (sn_intent s) (Inr charge), RefundClock (Inr now)]) @ [RefundCreate (sn_intent s) answer]"
    "no_create pre"
    unfolding executing_def admitting_def submitting_def by auto
  show thesis by (rule that [OF tr(1)]) (use tr(2) in auto)
qed

lemma execution_within_grants:
  assumes "prefix calls (calls_of (refund_execute h s c p) n)"
  shows "tally (creates (rh_digests h) k) calls \<le> tally (\<lambda>x. grants (rh_digests h) x = Some k) calls"
proof (cases "no_create calls")
  case True
  then show ?thesis by (simp add: no_create_tally)
next
  case False
  let ?all = "calls_of (refund_execute h s c p) n"
  have "\<not> no_create ?all" using False assms by (auto simp: prefix_def)
  then have "executing s c ?all" using does_run [OF refund_execute_does [of h s c p], of n] by blast
  then obtain front answer where all: "?all = front @ [RefundCreate (sn_intent s) answer]" "no_create front"
    and granted: "\<exists>d. RefundReserve s d (Inr ResACQUIRED) \<in> set front" by (rule executing_split)
  have calls: "calls = front @ [RefundCreate (sn_intent s) answer]"
    using assms False all(2) unfolding all(1) prefix_snoc by (auto simp: prefix_def)
  show ?thesis
  proof (cases "(ri_tenant_reference (sn_intent s), effect_reference (rh_digests h) s) = k")
    case True
    obtain d where d: "RefundReserve s d (Inr ResACQUIRED) \<in> set front" using granted by blast
    have "grants (rh_digests h) (RefundReserve s d (Inr ResACQUIRED)) = Some k" using True by simp
    with d have "tally (\<lambda>x. grants (rh_digests h) x = Some k) front \<noteq> 0" unfolding tally_eq_0 by blast
    then show ?thesis by (simp add: calls no_create_tally [OF all(2)])
  next
    case False
    then show ?thesis by (simp add: calls no_create_tally [OF all(2)] effect_reference_def)
  qed
qed

section \<open>Properties\<close>

text \<open>
  Money moves at most once. Any number of workers execute refunds at the same time against the
  reference repository, each possibly crashing at any point, while the application changes its
  tables and other clients use the ledger. Whatever the interleaving, Stripe is asked at most once for a
  refund of one business intent of a tenant.
\<close>

lemma refund_submitted_once:
  assumes "ledger_ok (hd_ledger db)" and "serves (host_serves cfg) db (map snd joint) db'"
    and workers: "\<And>i. \<exists>h s c p n. rh_digests h = hc_digests cfg
        \<and> prefix (calls_by i joint) (calls_of (refund_execute h s c p) n)"
  shows "tally (creates (hc_digests cfg) (tenant, effect)) (map snd joint) \<le> 1"
proof (rule refund_reservations.submitted_once [OF assms(2)])
  show "host_good db" using assms(1) by (simp add: host_good_def)
  show "tally (creates (hc_digests cfg) (tenant, effect)) (calls_by i joint)
      \<le> tally (\<lambda>c. grants (hc_digests cfg) c = Some (tenant, effect)) (calls_by i joint)" for i
    using workers [of i] execution_within_grants by metis
qed

definition demo_host_config :: host_config where
  "demo_host_config =
     \<lparr>hc_ledger = demo_ledger_config, hc_digests = rh_digests demo_refund_host,
      hc_parse = (\<lambda>d. Inr demo_snapshot)\<rparr>"

definition demo_host_db :: host_db where
  "demo_host_db =
     \<lparr>hd_payments = (\<lambda>k. Some \<lparr>rp_payment = demo_payment, rp_customer_reference = ''c''\<rparr>),
      hd_subscriptions = (\<lambda>k. None), hd_invoices = (\<lambda>k. None),
      hd_customer_resources = (\<lambda>k. True),
      hd_ledger = snd (committed (remember demo_ledger_config ''t'' REFUNDS ''refund:d'' ''customer:c'' ''u''
        (snapshot_json demo_snapshot)) [])\<rparr>"

definition demo_host_db' :: host_db where
  "demo_host_db' = snd (host_reserve demo_host_config 5 demo_snapshot 10 demo_host_db)"

definition demo_refund_calls :: "refund_call list" where
  "demo_refund_calls = calls_of (refund_execute demo_refund_host demo_snapshot demo_refund_context ''refund:d'') 0"

lemma demo_refund_calls_eq:
  "demo_refund_calls =
     [RefundPaymentCall ''t'' ''p'' (Inr demo_payment), RefundCharge demo_intent (Inr demo_charge),
      RefundCanExecute demo_snapshot demo_refund_context (Inr \<lparr>ar_allowed = True, ar_reason_code = None\<rparr>),
      RefundStoreGet ''t'' ''p'' (Inr (Some demo_stored)), RefundReserve demo_snapshot 10 (Inr ResACQUIRED),
      RefundCanExecute demo_snapshot demo_refund_context (Inr \<lparr>ar_allowed = True, ar_reason_code = None\<rparr>),
      RefundCharge demo_intent (Inr demo_charge), RefundClock (Inr 5), RefundCreate demo_intent (Inr demo_refund)]"
  by code_simp

lemma host_serves_at_once: "host_answers cfg db call db' \<Longrightarrow> host_serves cfg db call db'"
  unfolding host_serves_def others_change_def by blast

lemma demo_reserve: "host_answers demo_host_config demo_host_db (RefundReserve demo_snapshot 10 (Inr ResACQUIRED)) demo_host_db'"
proof -
  have "fst (host_reserve demo_host_config 5 demo_snapshot 10 demo_host_db) = Inr ResACQUIRED" by code_simp
  then have "host_reserve demo_host_config 5 demo_snapshot 10 demo_host_db = (Inr ResACQUIRED, demo_host_db')"
    unfolding demo_host_db'_def by (metis prod.collapse)
  then show ?thesis by (auto simp: answered_def)
qed

lemma demo_refund_served: "serves (host_serves demo_host_config) demo_host_db demo_refund_calls demo_host_db'"
proof -
  have pay: "host_answers demo_host_config demo_host_db (RefundPaymentCall ''t'' ''p'' (Inr demo_payment)) demo_host_db"
    by (simp add: answered_def host_payment_def reference_payment_of_def bind_def return_def demo_host_db_def)
  show ?thesis
    unfolding demo_refund_calls_eq serves.simps
    by (rule exI conjI host_serves_at_once pay demo_reserve host_answers.simps(7-13) [THEN iffD2] refl)+
qed

end
