(* ===== verification/Stripe_Billing_Host.thy ===== *)
theory Stripe_Billing_Host
  imports Stripe_Host
begin

text \<open>
  The subscription and the credit note repository of the reference host
  (\<open>PostgresSubscriptionCancellationRepository\<close> and \<open>PostgresCreditNoteRepository\<close> in
  \<open>examples/stripe_host/repositories.py\<close>), over the same database and ledger as the refund repository, the writes
  of the application to its own tables, and the trigger of \<open>schema.sql\<close> that guards these.

  Shown: one service for all three groups fulfils the contract of a reservation, hence no intent of any group is
  submitted twice; and while an intent of a customer is unresolved, none of the customer's rows changes.
\<close>

section \<open>The repositories\<close>

record billing_config =
  gc_host :: host_config
  gc_parse_subscription :: "json_object \<Rightarrow> subscription_snapshot outcome"
  gc_parse_credit :: "json_object \<Rightarrow> credit_snapshot outcome"
  gc_stamp :: "instant \<Rightarrow> pystr"

definition reference_subscription_of :: "pystr \<Rightarrow> pystr \<Rightarrow> (host_db, reference_subscription) eff" where
  "reference_subscription_of tenant reference db =
     (case hd_subscriptions db (tenant, reference) of
        None \<Rightarrow> (fails StripePostgresHostError, db)
      | Some row \<Rightarrow> (Inr row, db))"

definition reference_invoice_of :: "pystr \<Rightarrow> pystr \<Rightarrow> (host_db, reference_invoice) eff" where
  "reference_invoice_of tenant reference db =
     (case hd_invoices db (tenant, reference) of
        None \<Rightarrow> (fails StripePostgresHostError, db)
      | Some row \<Rightarrow> (Inr row, db))"

definition sub_repo_subscription :: "pystr \<Rightarrow> pystr \<Rightarrow> (host_db, subscription_binding) eff" where
  "sub_repo_subscription tenant reference =
     bind (reference_subscription_of tenant reference) (\<lambda>row. return (rb_subscription row))"

definition note_repo_invoice :: "pystr \<Rightarrow> pystr \<Rightarrow> (host_db, credit_invoice) eff" where
  "note_repo_invoice tenant reference =
     bind (reference_invoice_of tenant reference) (\<lambda>row. return (rv_invoice row))"

definition subscription_reference :: "subscription_snapshot \<Rightarrow> pystr" where
  "subscription_reference s = sb_subscription_reference (ss_binding s)"

definition invoice_reference :: "credit_snapshot \<Rightarrow> pystr" where
  "invoice_reference s = ci_invoice_reference (nd_invoice (ns_draft s))"

definition sub_repo_remember :: "billing_config \<Rightarrow> subscription_snapshot \<Rightarrow> pystr \<Rightarrow> (host_db, unit) eff" where
  "sub_repo_remember cfg s requester =
     bind (reference_subscription_of (ss_tenant_reference s) (subscription_reference s)) (\<lambda>row.
     bind (committed (on_ledger (remember (hc_ledger (gc_host cfg)) (ss_tenant_reference s) SUBSCRIPTIONS
             (subscription_effect (hc_digests (gc_host cfg)) s) (customer_resource (rb_customer_reference row))
             requester (subscription_snapshot_json (gc_stamp cfg) s)))) (\<lambda>st.
     require_remembered st))"

definition note_repo_remember :: "billing_config \<Rightarrow> credit_snapshot \<Rightarrow> pystr \<Rightarrow> (host_db, unit) eff" where
  "note_repo_remember cfg s requester =
     bind (reference_invoice_of (ns_tenant_reference s) (invoice_reference s)) (\<lambda>row.
     bind (committed (on_ledger (remember (hc_ledger (gc_host cfg)) (ns_tenant_reference s) CREDIT_NOTES
             (credit_effect (hc_digests (gc_host cfg)) s) (customer_resource (rv_customer_reference row))
             requester (credit_snapshot_json s)))) (\<lambda>st.
     require_remembered st))"

definition loaded :: "action_group \<Rightarrow> (json_object \<Rightarrow> 's outcome) \<Rightarrow> pystr \<Rightarrow> pystr \<Rightarrow> (host_db, 's) eff" where
  "loaded grp parse tenant effect =
     bind (on_ledger (load_entry tenant grp effect)) (\<lambda>row.
     case row of
       None \<Rightarrow> raise StripePostgresHostError
     | Some e \<Rightarrow> lift (parse (le_snapshot_data e)))"

definition sub_repo_load :: "billing_config \<Rightarrow> pystr \<Rightarrow> pystr \<Rightarrow> (host_db, subscription_snapshot) eff" where
  "sub_repo_load cfg = loaded SUBSCRIPTIONS (gc_parse_subscription cfg)"

definition note_repo_load :: "billing_config \<Rightarrow> pystr \<Rightarrow> pystr \<Rightarrow> (host_db, credit_snapshot) eff" where
  "note_repo_load cfg = loaded CREDIT_NOTES (gc_parse_credit cfg)"

definition sub_repo_reserve ::
  "billing_config \<Rightarrow> instant \<Rightarrow> subscription_snapshot \<Rightarrow> instant \<Rightarrow> (host_db, reservation_status) eff" where
  "sub_repo_reserve cfg now s not_after =
     committed (\<lambda>db.
       case hd_subscriptions db (ss_tenant_reference s, subscription_reference s) of
         None \<Rightarrow> (Inr ResSTALE, db)
       | Some row \<Rightarrow>
           if rb_subscription row \<noteq> ss_binding s then (Inr ResSTALE, db)
           else
             bind (lock_customer_resource (ss_tenant_reference s) (rb_customer_reference row)) (\<lambda>_.
             on_ledger (reserve_in (hc_ledger (gc_host cfg)) now True (ss_tenant_reference s) SUBSCRIPTIONS
               (subscription_effect (hc_digests (gc_host cfg)) s) (customer_resource (rb_customer_reference row))
               (subscription_snapshot_json (gc_stamp cfg) s) not_after)) db)"

definition note_repo_reserve ::
  "billing_config \<Rightarrow> instant \<Rightarrow> credit_snapshot \<Rightarrow> instant \<Rightarrow> (host_db, reservation_status) eff" where
  "note_repo_reserve cfg now s not_after =
     committed (\<lambda>db.
       case hd_invoices db (ns_tenant_reference s, invoice_reference s) of
         None \<Rightarrow> (Inr ResSTALE, db)
       | Some row \<Rightarrow>
           if rv_invoice row \<noteq> nd_invoice (ns_draft s) then (Inr ResSTALE, db)
           else
             bind (lock_customer_resource (ns_tenant_reference s) (rv_customer_reference row)) (\<lambda>_.
             on_ledger (reserve_in (hc_ledger (gc_host cfg)) now True (ns_tenant_reference s) CREDIT_NOTES
               (credit_effect (hc_digests (gc_host cfg)) s) (customer_resource (rv_customer_reference row))
               (credit_snapshot_json s) not_after)) db)"

text \<open>The end of \<open>_close\<close>: the ledger records the outcome, or that nothing was submitted.\<close>

definition closing ::
  "billing_config \<Rightarrow> instant \<Rightarrow> action_group \<Rightarrow> pystr \<Rightarrow> pystr \<Rightarrow> json_object option \<Rightarrow> (host_db, unit) eff" where
  "closing cfg now grp tenant effect outcome =
     bind (on_ledger (case outcome of
         None \<Rightarrow> record_no_submission_in (hc_ledger (gc_host cfg)) now True tenant grp effect
       | Some data \<Rightarrow> record_outcome_in (hc_ledger (gc_host cfg)) now True tenant grp effect data))
       require_closed"

definition sub_repo_close ::
  "billing_config \<Rightarrow> instant \<Rightarrow> pystr \<Rightarrow> pystr \<Rightarrow> json_object option \<Rightarrow> (host_db, unit) eff" where
  "sub_repo_close cfg now tenant effect outcome =
     committed (bind (on_ledger (load_in True tenant SUBSCRIPTIONS effect)) (\<lambda>row.
       case row of
         None \<Rightarrow> raise StripePostgresHostError
       | Some e \<Rightarrow>
           bind (lift (gc_parse_subscription cfg (le_snapshot_data e))) (\<lambda>s.
           bind (reference_subscription_of tenant (subscription_reference s)) (\<lambda>row.
           bind (lock_customer_resource tenant (rb_customer_reference row)) (\<lambda>_.
           closing cfg now SUBSCRIPTIONS tenant effect outcome)))))"

definition note_repo_close ::
  "billing_config \<Rightarrow> instant \<Rightarrow> pystr \<Rightarrow> pystr \<Rightarrow> json_object option \<Rightarrow> (host_db, unit) eff" where
  "note_repo_close cfg now tenant effect outcome =
     committed (bind (on_ledger (load_in True tenant CREDIT_NOTES effect)) (\<lambda>row.
       case row of
         None \<Rightarrow> raise StripePostgresHostError
       | Some e \<Rightarrow>
           bind (lift (gc_parse_credit cfg (le_snapshot_data e))) (\<lambda>s.
           bind (reference_invoice_of tenant (invoice_reference s)) (\<lambda>row.
           bind (lock_customer_resource tenant (rv_customer_reference row)) (\<lambda>_.
           closing cfg now CREDIT_NOTES tenant effect outcome)))))"

definition subscription_outcome_json :: "(instant \<Rightarrow> pystr) \<Rightarrow> subscription_outcome \<Rightarrow> json_object" where
  "subscription_outcome_json stamp out =
     [(''subscription_reference'', JStr (su_subscription_reference out)),
      (''status'', JStr (subscription_change_value (su_status out))),
      (''scheduled_end'', optional_json (\<lambda>t. JStr (stamp t)) (su_scheduled_end out))]"

definition credit_outcome_json :: "credit_outcome \<Rightarrow> json_object" where
  "credit_outcome_json out =
     [(''invoice_reference'', JStr (nu_invoice_reference out)),
      (''total'', money_json (nu_total out)),
      (''disposition'', JStr (disposition_value (nu_disposition out))),
      (''status'', JStr (note_status_value (nu_status out))),
      (''cash_refunded'', JBool False)]"

definition sub_repo_record_no_submission :: "billing_config \<Rightarrow> instant \<Rightarrow> pystr \<Rightarrow> pystr \<Rightarrow> (host_db, unit) eff" where
  "sub_repo_record_no_submission cfg now tenant effect = sub_repo_close cfg now tenant effect None"

definition sub_repo_record_outcome ::
  "billing_config \<Rightarrow> instant \<Rightarrow> pystr \<Rightarrow> pystr \<Rightarrow> subscription_outcome \<Rightarrow> (host_db, unit) eff" where
  "sub_repo_record_outcome cfg now tenant effect out =
     sub_repo_close cfg now tenant effect (Some (subscription_outcome_json (gc_stamp cfg) out))"

definition note_repo_record_no_submission :: "billing_config \<Rightarrow> instant \<Rightarrow> pystr \<Rightarrow> pystr \<Rightarrow> (host_db, unit) eff" where
  "note_repo_record_no_submission cfg now tenant effect = note_repo_close cfg now tenant effect None"

definition note_repo_record_outcome ::
  "billing_config \<Rightarrow> instant \<Rightarrow> pystr \<Rightarrow> pystr \<Rightarrow> credit_outcome \<Rightarrow> (host_db, unit) eff" where
  "note_repo_record_outcome cfg now tenant effect out =
     note_repo_close cfg now tenant effect (Some (credit_outcome_json out))"

section \<open>Writes of the application\<close>

definition ensure_customer_resource :: "pystr \<Rightarrow> pystr \<Rightarrow> host_db \<Rightarrow> host_db" where
  "ensure_customer_resource tenant customer db =
     db\<lparr>hd_customer_resources := (hd_customer_resources db)((tenant, customer) := True)\<rparr>"

text \<open>An \<open>INSERT\<close> of a row that exists violates the primary key, and rolls the transaction back.\<close>

definition add_payment :: "reference_payment \<Rightarrow> (host_db, unit) eff" where
  "add_payment row db =
     (let t = py_tenant_reference (rp_payment row); k = (t, py_payment_reference (rp_payment row)) in
      if hd_payments db k \<noteq> None then (fails IntegrityError, db)
      else (Inr (), (ensure_customer_resource t (rp_customer_reference row) db)
                      \<lparr>hd_payments := (hd_payments db)(k := Some row)\<rparr>))"

definition add_subscription :: "reference_subscription \<Rightarrow> (host_db, unit) eff" where
  "add_subscription row db =
     (let t = sb_tenant_reference (rb_subscription row);
          k = (t, sb_subscription_reference (rb_subscription row)) in
      if hd_subscriptions db k \<noteq> None then (fails IntegrityError, db)
      else (Inr (), (ensure_customer_resource t (rb_customer_reference row) db)
                      \<lparr>hd_subscriptions := (hd_subscriptions db)(k := Some row)\<rparr>))"

definition add_invoice :: "reference_invoice \<Rightarrow> (host_db, unit) eff" where
  "add_invoice row db =
     (let t = ci_tenant_reference (rv_invoice row); k = (t, ci_invoice_reference (rv_invoice row)) in
      if hd_invoices db k \<noteq> None then (fails IntegrityError, db)
      else (Inr (), (ensure_customer_resource t (rv_customer_reference row) db)
                      \<lparr>hd_invoices := (hd_invoices db)(k := Some row)\<rparr>))"

text \<open>
  The trigger \<open>guard_reserved_customer_resource\<close> before every \<open>UPDATE\<close> and \<open>DELETE\<close> of a row of \<open>customer\<close>.
\<close>

definition guard_reserved :: "pystr \<Rightarrow> pystr \<Rightarrow> host_db \<Rightarrow> bool" where
  "guard_reserved tenant customer db \<longleftrightarrow>
     hd_customer_resources db (tenant, customer)
     \<and> \<not> list_ex (\<lambda>e. le_tenant_reference e = tenant
            \<and> le_resource_reference e = customer_resource customer \<and> le_phase e = PhRESERVED) (hd_ledger db)"

text \<open>An \<open>UPDATE\<close> of a row (\<open>Some\<close>) or its \<open>DELETE\<close> (\<open>None\<close>), by key; neither finds a missing row.\<close>

definition write_payment :: "pystr \<times> pystr \<Rightarrow> reference_payment option \<Rightarrow> (host_db, unit) eff" where
  "write_payment k row db =
     (case hd_payments db k of
        None \<Rightarrow> (Inr (), db)
      | Some old \<Rightarrow>
          if guard_reserved (fst k) (rp_customer_reference old) db
          then (Inr (), db\<lparr>hd_payments := (hd_payments db)(k := row)\<rparr>)
          else (fails IntegrityError, db))"

definition write_subscription :: "pystr \<times> pystr \<Rightarrow> reference_subscription option \<Rightarrow> (host_db, unit) eff" where
  "write_subscription k row db =
     (case hd_subscriptions db k of
        None \<Rightarrow> (Inr (), db)
      | Some old \<Rightarrow>
          if guard_reserved (fst k) (rb_customer_reference old) db
          then (Inr (), db\<lparr>hd_subscriptions := (hd_subscriptions db)(k := row)\<rparr>)
          else (fails IntegrityError, db))"

definition write_invoice :: "pystr \<times> pystr \<Rightarrow> reference_invoice option \<Rightarrow> (host_db, unit) eff" where
  "write_invoice k row db =
     (case hd_invoices db k of
        None \<Rightarrow> (Inr (), db)
      | Some old \<Rightarrow>
          if guard_reserved (fst k) (rv_customer_reference old) db
          then (Inr (), db\<lparr>hd_invoices := (hd_invoices db)(k := row)\<rparr>)
          else (fails IntegrityError, db))"

section \<open>One service for all groups\<close>

datatype group_call =
    RefundWorker refund_call
  | SubscriptionWorker "(subscription_snapshot, subscription_outcome, subscription_call) billing_call"
  | CreditWorker "(credit_snapshot, credit_outcome, credit_call) billing_call"

fun sub_answers ::
  "billing_config \<Rightarrow> host_db \<Rightarrow> (subscription_snapshot, subscription_outcome, subscription_call) billing_call
     \<Rightarrow> host_db \<Rightarrow> bool" where
  "sub_answers cfg db (BillRemember s q r) db' = answered (sub_repo_remember cfg s q) r db db'"
| "sub_answers cfg db (BillLoad t k r) db' = answered (sub_repo_load cfg t k) r db db'"
| "sub_answers cfg db (BillReserve s d r) db' = (\<exists>now. answered (sub_repo_reserve cfg now s d) r db db')"
| "sub_answers cfg db (BillNoSubmission t k r) db' =
     (\<exists>now. answered (sub_repo_record_no_submission cfg now t k) r db db')"
| "sub_answers cfg db (BillRecordOutcome t k out r) db' =
     (\<exists>now. answered (sub_repo_record_outcome cfg now t k out) r db db')"
| "sub_answers cfg db (BillGroup (SubBinding t ref r)) db' = answered (sub_repo_subscription t ref) r db db'"
| "sub_answers cfg db _ db' = (db' = db)"

fun note_answers ::
  "billing_config \<Rightarrow> host_db \<Rightarrow> (credit_snapshot, credit_outcome, credit_call) billing_call \<Rightarrow> host_db \<Rightarrow> bool" where
  "note_answers cfg db (BillRemember s q r) db' = answered (note_repo_remember cfg s q) r db db'"
| "note_answers cfg db (BillLoad t k r) db' = answered (note_repo_load cfg t k) r db db'"
| "note_answers cfg db (BillReserve s d r) db' = (\<exists>now. answered (note_repo_reserve cfg now s d) r db db')"
| "note_answers cfg db (BillNoSubmission t k r) db' =
     (\<exists>now. answered (note_repo_record_no_submission cfg now t k) r db db')"
| "note_answers cfg db (BillRecordOutcome t k out r) db' =
     (\<exists>now. answered (note_repo_record_outcome cfg now t k out) r db db')"
| "note_answers cfg db (BillGroup (NoteBinding t ref r)) db' = answered (note_repo_invoice t ref) r db db'"
| "note_answers cfg db _ db' = (db' = db)"

fun group_answers :: "billing_config \<Rightarrow> host_db \<Rightarrow> group_call \<Rightarrow> host_db \<Rightarrow> bool" where
  "group_answers cfg db (RefundWorker c) db' = host_answers (gc_host cfg) db c db'"
| "group_answers cfg db (SubscriptionWorker c) db' = sub_answers cfg db c db'"
| "group_answers cfg db (CreditWorker c) db' = note_answers cfg db c db'"

definition group_serves :: "billing_config \<Rightarrow> host_db \<Rightarrow> group_call \<Rightarrow> host_db \<Rightarrow> bool" where
  "group_serves cfg db call db' \<longleftrightarrow>
     (\<exists>mid. others_change (gc_host cfg) db mid \<and> group_answers cfg mid call db')"

definition consumed_intents :: "host_db \<Rightarrow> (pystr \<times> action_group \<times> pystr) set" where
  "consumed_intents db = {k. \<exists>e\<in>set (hd_ledger db). entry_key e = k \<and> le_phase e \<noteq> PhREADY}"

text \<open>The tenant and the effect of a snapshot, and the intent of an action group.\<close>

definition subscription_key :: "digests \<Rightarrow> subscription_snapshot \<Rightarrow> pystr \<times> pystr" where
  "subscription_key dg s = (ss_tenant_reference s, subscription_effect dg s)"

definition credit_key :: "digests \<Rightarrow> credit_snapshot \<Rightarrow> pystr \<times> pystr" where
  "credit_key dg s = (ns_tenant_reference s, credit_effect dg s)"

definition in_group :: "action_group \<Rightarrow> pystr \<times> pystr \<Rightarrow> pystr \<times> action_group \<times> pystr" where
  "in_group g k = (fst k, g, snd k)"

fun grants_intent :: "digests \<Rightarrow> group_call \<Rightarrow> (pystr \<times> action_group \<times> pystr) option" where
  "grants_intent dg (RefundWorker c) = map_option (in_group REFUNDS) (grants dg c)"
| "grants_intent dg (SubscriptionWorker c) =
     map_option (in_group SUBSCRIPTIONS) (grants_effect (subscription_key dg) c)"
| "grants_intent dg (CreditWorker c) = map_option (in_group CREDIT_NOTES) (grants_effect (credit_key dg) c)"

fun submits_intent :: "digests \<Rightarrow> pystr \<times> action_group \<times> pystr \<Rightarrow> group_call \<Rightarrow> bool" where
  "submits_intent dg (t, g, k) (RefundWorker c) = (g = REFUNDS \<and> creates dg (t, k) c)"
| "submits_intent dg (t, g, k) (SubscriptionWorker c) =
     (g = SUBSCRIPTIONS \<and> submits_effect (subscription_key dg) submitted_subscription (t, k) c)"
| "submits_intent dg (t, g, k) (CreditWorker c) =
     (g = CREDIT_NOTES \<and> submits_effect (credit_key dg) submitted_credit (t, k) c)"

text \<open>The calls of a worker that executes one proposal of some group, possibly crashing on the way.\<close>

definition worker_run :: "digests \<Rightarrow> group_call list \<Rightarrow> bool" where
  "worker_run dg calls \<longleftrightarrow>
     (\<exists>h s c p n cs. rh_digests h = dg \<and> prefix cs (calls_of (refund_execute h s c p) n)
        \<and> calls = map RefundWorker cs)
     \<or> (\<exists>h s c p n cs. sh_digests h = dg \<and> prefix cs (calls_of (billing_execute (subscription_workflow h) s c p) n)
        \<and> calls = map SubscriptionWorker cs)
     \<or> (\<exists>h s c p n cs. nh_digests h = dg \<and> prefix cs (calls_of (billing_execute (credit_workflow h) s c p) n)
        \<and> calls = map CreditWorker cs)"

section \<open>The contract holds\<close>

lemma moves_references [intro]:
  "moves (reference_subscription_of t r)" "moves (reference_invoice_of t r)"
  by (simp_all add: moves_def moved_refl reference_subscription_of_def reference_invoice_of_def split: option.splits)

lemma moves_closing [intro]: "moves (closing cfg now g t k out)"
  unfolding closing_def record_no_submission_in_def record_outcome_in_def
  by (cases out) (auto intro!: moves_bind moves_close moves_required)

lemma moves_sub_reserve: "moves (sub_repo_reserve cfg now s d)"
proof -
  let ?go = "\<lambda>c. bind (lock_customer_resource (ss_tenant_reference s) c) (\<lambda>_.
    on_ledger (reserve_in (hc_ledger (gc_host cfg)) now True (ss_tenant_reference s) SUBSCRIPTIONS
      (subscription_effect (hc_digests (gc_host cfg)) s) (customer_resource c)
      (subscription_snapshot_json (gc_stamp cfg) s) d))"
  have "moves (?go c)" for c by (intro moves_bind moves_reads moves_reserve)
  then show ?thesis
    unfolding sub_repo_reserve_def
    by (intro moves_committed) (auto simp: moves_def moved_refl split: option.splits)
qed

lemma moves_note_reserve: "moves (note_repo_reserve cfg now s d)"
proof -
  let ?go = "\<lambda>c. bind (lock_customer_resource (ns_tenant_reference s) c) (\<lambda>_.
    on_ledger (reserve_in (hc_ledger (gc_host cfg)) now True (ns_tenant_reference s) CREDIT_NOTES
      (credit_effect (hc_digests (gc_host cfg)) s) (customer_resource c) (credit_snapshot_json s) d))"
  have "moves (?go c)" for c by (intro moves_bind moves_reads moves_reserve)
  then show ?thesis
    unfolding note_repo_reserve_def
    by (intro moves_committed) (auto simp: moves_def moved_refl split: option.splits)
qed

lemma moves_sub_repo:
  "moves (sub_repo_subscription t r)" "moves (sub_repo_remember cfg s q)" "moves (sub_repo_load cfg t k)"
  "moves (sub_repo_record_no_submission cfg now t k)" "moves (sub_repo_record_outcome cfg now t k out)"
  unfolding sub_repo_subscription_def sub_repo_remember_def sub_repo_load_def loaded_def
    sub_repo_record_no_submission_def sub_repo_record_outcome_def sub_repo_close_def
  by (intro moves_bind moves_reads moves_references moves_pure moves_committed moves_remember moves_required
      moves_load moves_option moves_closing)+

lemma moves_note_repo:
  "moves (note_repo_invoice t r)" "moves (note_repo_remember cfg s' q)" "moves (note_repo_load cfg t k)"
  "moves (note_repo_record_no_submission cfg now t k)" "moves (note_repo_record_outcome cfg now t k out')"
  unfolding note_repo_invoice_def note_repo_remember_def note_repo_load_def loaded_def
    note_repo_record_no_submission_def note_repo_record_outcome_def note_repo_close_def
  by (intro moves_bind moves_reads moves_references moves_pure moves_committed moves_remember moves_required
      moves_load moves_option moves_closing)+

lemma sub_answers_moves: "sub_answers cfg db call db' \<Longrightarrow> host_good db \<Longrightarrow> moved db db'"
  by (induction cfg db call db' rule: sub_answers.induct)
    (auto intro: answered_moves moves_sub_repo moves_sub_reserve moved_refl)

lemma note_answers_moves: "note_answers cfg db call db' \<Longrightarrow> host_good db \<Longrightarrow> moved db db'"
  by (induction cfg db call db' rule: note_answers.induct)
    (auto intro: answered_moves moves_note_repo moves_note_reserve moved_refl)

lemma group_answers_moves: "group_answers cfg db call db' \<Longrightarrow> host_good db \<Longrightarrow> moved db db'"
  by (cases call) (auto intro: host_answers_moves sub_answers_moves note_answers_moves)

lemma consumed_intents_mono: "rows_evolve (hd_ledger db) (hd_ledger db') \<Longrightarrow> consumed_intents db \<subseteq> consumed_intents db'"
  unfolding consumed_intents_def rows_evolve_def entry_evolves_def
  by (blast intro: entry_key_binding elim: subst [OF entry_key_binding])

lemma reserve_consumes_intent:
  assumes "host_good db"
    and "reserve_in lc now True t g k res data d (hd_ledger db) = (Inr ResACQUIRED, hd_ledger db')"
  shows "(t, g, k) \<notin> consumed_intents db \<and> (t, g, k) \<in> consumed_intents db'"
  using reserve_in_consumes [OF _ assms(2)] assms(1) by (fastforce simp: consumed_intents_def host_good_def)

lemma sub_reserve_consumes:
  assumes "host_good db" and "sub_repo_reserve cfg now s d db = (Inr ResACQUIRED, db')"
  shows "in_group SUBSCRIPTIONS (subscription_key (hc_digests (gc_host cfg)) s) \<notin> consumed_intents db
    \<and> in_group SUBSCRIPTIONS (subscription_key (hc_digests (gc_host cfg)) s) \<in> consumed_intents db'"
proof -
  have "\<exists>resource. reserve_in (hc_ledger (gc_host cfg)) now True (ss_tenant_reference s) SUBSCRIPTIONS
      (subscription_effect (hc_digests (gc_host cfg)) s) resource (subscription_snapshot_json (gc_stamp cfg) s) d
      (hd_ledger db) = (Inr ResACQUIRED, hd_ledger db')"
    using assms(2)
    by (auto simp: sub_repo_reserve_def committed_def bind_def lock_customer_resource_def on_ledger_def fails_def
        split: option.splits if_splits prod.splits sum.splits)
  then show ?thesis
    using reserve_consumes_intent [OF assms(1)] by (auto simp: in_group_def subscription_key_def)
qed

lemma note_reserve_consumes:
  assumes "host_good db" and "note_repo_reserve cfg now s d db = (Inr ResACQUIRED, db')"
  shows "in_group CREDIT_NOTES (credit_key (hc_digests (gc_host cfg)) s) \<notin> consumed_intents db
    \<and> in_group CREDIT_NOTES (credit_key (hc_digests (gc_host cfg)) s) \<in> consumed_intents db'"
proof -
  have "\<exists>resource. reserve_in (hc_ledger (gc_host cfg)) now True (ns_tenant_reference s) CREDIT_NOTES
      (credit_effect (hc_digests (gc_host cfg)) s) resource (credit_snapshot_json s) d
      (hd_ledger db) = (Inr ResACQUIRED, hd_ledger db')"
    using assms(2)
    by (auto simp: note_repo_reserve_def committed_def bind_def lock_customer_resource_def on_ledger_def fails_def
        split: option.splits if_splits prod.splits sum.splits)
  then show ?thesis
    using reserve_consumes_intent [OF assms(1)] by (auto simp: in_group_def credit_key_def)
qed

lemma refund_reserve_consumes:
  assumes "host_good db" and "host_reserve cfg now s d db = (Inr ResACQUIRED, db')"
  shows "in_group REFUNDS (ri_tenant_reference (sn_intent s), effect_reference (hc_digests cfg) s) \<notin> consumed_intents db
    \<and> in_group REFUNDS (ri_tenant_reference (sn_intent s), effect_reference (hc_digests cfg) s) \<in> consumed_intents db'"
  using host_reserve_grants [OF assms] by (auto simp: consumed_def consumed_intents_def in_group_def)

lemma grants_effectE:
  assumes "grants_effect key c = Some k"
  obtains s d where "c = BillReserve s d (Inr ResACQUIRED)" "k = key s"
  using assms by (cases "(key, c)" rule: grants_effect.cases) auto

lemma grantsE:
  assumes "grants dg c = Some k"
  obtains s d where "c = RefundReserve s d (Inr ResACQUIRED)"
    "k = (ri_tenant_reference (sn_intent s), effect_reference dg s)"
  using assms by (cases "(dg, c)" rule: grants.cases) auto

lemma group_answers_consumes:
  assumes "host_good db" and "group_answers cfg db call db'"
    and "grants_intent (hc_digests (gc_host cfg)) call = Some k"
  shows "k \<notin> consumed_intents db \<and> k \<in> consumed_intents db'"
proof (cases call)
  case (RefundWorker c)
  with assms(3) obtain s d where c: "c = RefundReserve s d (Inr ResACQUIRED)"
    "k = in_group REFUNDS (ri_tenant_reference (sn_intent s), effect_reference (hc_digests (gc_host cfg)) s)"
    by (auto elim: grantsE)
  with assms(2) RefundWorker obtain now where "host_reserve (gc_host cfg) now s d db = (Inr ResACQUIRED, db')"
    by (auto simp: answered_def)
  from refund_reserve_consumes [OF assms(1) this] c(2) show ?thesis by simp
next
  case (SubscriptionWorker c)
  with assms(3) obtain s d where c: "c = BillReserve s d (Inr ResACQUIRED)"
    "k = in_group SUBSCRIPTIONS (subscription_key (hc_digests (gc_host cfg)) s)"
    by (auto elim: grants_effectE)
  with assms(2) SubscriptionWorker obtain now where "sub_repo_reserve cfg now s d db = (Inr ResACQUIRED, db')"
    by (auto simp: answered_def)
  from sub_reserve_consumes [OF assms(1) this] c(2) show ?thesis by simp
next
  case (CreditWorker c)
  with assms(3) obtain s d where c: "c = BillReserve s d (Inr ResACQUIRED)"
    "k = in_group CREDIT_NOTES (credit_key (hc_digests (gc_host cfg)) s)"
    by (auto elim: grants_effectE)
  with assms(2) CreditWorker obtain now where "note_repo_reserve cfg now s d db = (Inr ResACQUIRED, db')"
    by (auto simp: answered_def)
  from note_reserve_consumes [OF assms(1) this] c(2) show ?thesis by simp
qed

interpretation group_reservations: reservations "group_serves cfg" host_good consumed_intents
  "grants_intent (hc_digests (gc_host cfg))"
proof
  fix db call db'
  assume g: "host_good db" and step: "group_serves cfg db call db'"
  then obtain mid where mid: "others_change (gc_host cfg) db mid" "group_answers cfg mid call db'"
    by (auto simp: group_serves_def)
  have 1: "host_good mid" "rows_evolve (hd_ledger db) (hd_ledger mid)" using others_move [OF mid(1) g] by auto
  have 2: "host_good db'" "rows_evolve (hd_ledger mid) (hd_ledger db')"
    using group_answers_moves [OF mid(2) 1(1)] by (auto simp: moved_def)
  show "host_good db'" by (rule 2)
  show "consumed_intents db \<subseteq> consumed_intents db'"
    using consumed_intents_mono [OF 1(2)] consumed_intents_mono [OF 2(2)] by simp
  fix k assume "grants_intent (hc_digests (gc_host cfg)) call = Some k"
  from group_answers_consumes [OF 1(1) mid(2) this] show "k \<notin> consumed_intents db \<and> k \<in> consumed_intents db'"
    using consumed_intents_mono [OF 1(2)] by auto
qed

text \<open>Every worker submits no more than it was granted.\<close>

lemma tally_map: "tally P (map f cs) = tally (\<lambda>c. P (f c)) cs"
  by (simp add: tally_def filter_map comp_def)

lemma in_group_eq: "in_group g' x = (t, g, k) \<longleftrightarrow> g' = g \<and> x = (t, k)"
  by (cases x) (auto simp: in_group_def)

lemma in_group_some: "(\<exists>a b. x = Some (a, b) \<and> in_group g' (a, b) = (t, g, k)) \<longleftrightarrow> g' = g \<and> x = Some (t, k)"
  by (auto simp: in_group_def)

lemma tally_conj: "tally (\<lambda>c. b \<and> P c) cs = (if b then tally P cs else 0)"
  by (simp add: tally_def)

lemma worker_within_grants:
  assumes "worker_run dg calls"
  shows "tally (submits_intent dg k) calls \<le> tally (\<lambda>c. grants_intent dg c = Some k) calls"
proof -
  obtain t g e where k: "k = (t, g, e)" by (cases k)
  from assms consider
      (refund) h s c p n cs where "rh_digests h = dg" "prefix cs (calls_of (refund_execute h s c p) n)"
        "calls = map RefundWorker cs"
    | (subscription) h s c p n cs where "sh_digests h = dg"
        "prefix cs (calls_of (billing_execute (subscription_workflow h) s c p) n)" "calls = map SubscriptionWorker cs"
    | (credit) h s c p n cs where "nh_digests h = dg"
        "prefix cs (calls_of (billing_execute (credit_workflow h) s c p) n)" "calls = map CreditWorker cs"
    unfolding worker_run_def by blast
  then show ?thesis
  proof cases
    case refund
    from execution_within_grants [OF refund(2), of "(t, e)"] show ?thesis
      by (simp add: k refund(1,3) tally_map in_group_eq in_group_some tally_conj)
  next
    case subscription
    have "effect_key (subscription_workflow h) = subscription_key dg"
      by (rule ext) (simp add: effect_key_def subscription_key_def subscription(1))
    with subscriptions.submissions_within_grants [OF subscription(2), of "(t, e)"] show ?thesis
      by (simp add: k subscription(3) tally_map in_group_eq in_group_some tally_conj)
  next
    case credit
    have "effect_key (credit_workflow h) = credit_key dg"
      by (rule ext) (simp add: effect_key_def credit_key_def credit(1))
    with credit_notes.submissions_within_grants [OF credit(2), of "(t, e)"] show ?thesis
      by (simp add: k credit(3) tally_map in_group_eq in_group_some tally_conj)
  qed
qed

section \<open>Frozen rows\<close>

text \<open>
  Everything that happens to the database of the host: the workers' calls are served, the ledger is used
  by others, and the application writes its tables, through the trigger.
\<close>

inductive host_step :: "billing_config \<Rightarrow> host_db \<Rightarrow> host_db \<Rightarrow> bool" for cfg where
  serving: "group_answers cfg db call db' \<Longrightarrow> host_step cfg db db'"
| ledger_used: "ledger_step (hc_ledger (gc_host cfg)) (hd_ledger db) rows \<Longrightarrow> host_step cfg db (db\<lparr>hd_ledger := rows\<rparr>)"
| payment_added: "host_step cfg db (snd (add_payment payment db))"
| subscription_added: "host_step cfg db (snd (add_subscription sub db))"
| invoice_added: "host_step cfg db (snd (add_invoice invoice db))"
| payment_written: "host_step cfg db (snd (write_payment k payment' db))"
| subscription_written: "host_step cfg db (snd (write_subscription k sub' db))"
| invoice_written: "host_step cfg db (snd (write_invoice k invoice' db))"

text \<open>The rows of a customer are as they were.\<close>

definition rows_frozen :: "pystr \<Rightarrow> pystr \<Rightarrow> host_db \<Rightarrow> host_db \<Rightarrow> bool" where
  "rows_frozen tenant customer db db' \<longleftrightarrow>
     (\<forall>r row. hd_payments db (tenant, r) = Some row \<and> rp_customer_reference row = customer
        \<longrightarrow> hd_payments db' (tenant, r) = Some row)
     \<and> (\<forall>r row. hd_subscriptions db (tenant, r) = Some row \<and> rb_customer_reference row = customer
        \<longrightarrow> hd_subscriptions db' (tenant, r) = Some row)
     \<and> (\<forall>r row. hd_invoices db (tenant, r) = Some row \<and> rv_customer_reference row = customer
        \<longrightarrow> hd_invoices db' (tenant, r) = Some row)"

lemma rows_frozen_refl: "rows_frozen t c db db"
  by (simp add: rows_frozen_def)

lemma rows_frozen_trans: "rows_frozen t c a b \<Longrightarrow> rows_frozen t c b d \<Longrightarrow> rows_frozen t c a d"
  unfolding rows_frozen_def by blast

lemma guarded_no: "e \<in> set (hd_ledger db) \<Longrightarrow> le_tenant_reference e = t
    \<Longrightarrow> le_resource_reference e = customer_resource c \<Longrightarrow> le_phase e = PhRESERVED \<Longrightarrow> \<not> guard_reserved t c db"
  by (auto simp: guard_reserved_def list_ex_iff)

lemma host_step_moves:
  assumes "host_step cfg db db'" and "host_good db"
  shows "host_good db' \<and> rows_evolve (hd_ledger db) (hd_ledger db')"
  using assms(1)
proof cases
  case (serving call)
  then show ?thesis using group_answers_moves assms(2) by (auto simp: moved_def)
next
  case (ledger_used rows)
  then show ?thesis using ledger_step_ok assms(2) by (auto simp: host_good_def)
qed (use assms(2) in \<open>auto simp: host_good_def add_payment_def add_subscription_def add_invoice_def
    write_payment_def write_subscription_def write_invoice_def ensure_customer_resource_def Let_def
    split: option.splits\<close>)

lemma host_step_frozen:
  assumes "host_step cfg db db'" and "host_good db" and "\<not> guard_reserved t c db"
  shows "rows_frozen t c db db'"
  using assms(1)
proof cases
  case (serving call)
  then have "moved db db'" using group_answers_moves assms(2) by blast
  then have "db' = db\<lparr>hd_ledger := hd_ledger db'\<rparr>" by (simp add: moved_def)
  then have "hd_payments db' = hd_payments db \<and> hd_subscriptions db' = hd_subscriptions db
      \<and> hd_invoices db' = hd_invoices db"
    by (metis host_db.ext_inject host_db.surjective host_db.update_convs(5))
  then show ?thesis by (simp add: rows_frozen_def)
qed (use assms(3) in \<open>auto simp: rows_frozen_def add_payment_def add_subscription_def add_invoice_def
    write_payment_def write_subscription_def write_invoice_def ensure_customer_resource_def Let_def
    split: option.splits if_splits\<close>)

lemma phase_stays: "entry_evolves a b \<Longrightarrow> entry_evolves b c \<Longrightarrow> le_phase a = PhRESERVED
    \<Longrightarrow> le_phase c = PhRESERVED \<Longrightarrow> le_phase b = PhRESERVED"
  by (cases "le_phase b") (auto simp: entry_evolves_def)

lemma evolved_entry:
  assumes "host_good db'" and "e \<in> set (hd_ledger db)" and "e' \<in> set (hd_ledger db')"
    and "entry_key e' = entry_key e" and "rows_evolve (hd_ledger db) (hd_ledger db')"
  shows "entry_evolves e e'"
proof -
  obtain d where d: "d \<in> set (hd_ledger db')" "entry_evolves e d"
    using assms(2,5) by (auto simp: rows_evolve_def)
  then have "entry_key d = entry_key e'"
    using assms(4) by (auto simp: entry_evolves_def intro: entry_key_binding)
  with d key_unique [OF _ d(1) assms(3)] assms(1) show ?thesis by (simp add: host_good_def ledger_ok_def)
qed

text \<open>What holds all the time between two moments at which a row is reserved.\<close>

lemma frozen_while_reserved:
  assumes "(host_step cfg)\<^sup>*\<^sup>* db db'" and "host_good db" and e: "e \<in> set (hd_ledger db)" "le_phase e = PhRESERVED"
    and t: "le_tenant_reference e = t" "le_resource_reference e = customer_resource c"
  shows "host_good db' \<and> rows_evolve (hd_ledger db) (hd_ledger db')
    \<and> (\<forall>d\<in>set (hd_ledger db'). entry_key d = entry_key e \<and> le_phase d = PhRESERVED \<longrightarrow> rows_frozen t c db db')"
  using assms(1)
proof induction
  case base
  then show ?case using assms(2) by (simp add: rows_frozen_refl)
next
  case (step mid db')
  then have good: "host_good mid" and ev: "rows_evolve (hd_ledger db) (hd_ledger mid)" by simp_all
  have moves: "host_good db'" "rows_evolve (hd_ledger mid) (hd_ledger db')"
    using host_step_moves [OF step.hyps(2) good] by auto
  obtain m where m: "m \<in> set (hd_ledger mid)" "entry_evolves e m"
    using e(1) ev by (auto simp: rows_evolve_def)
  have bound: "le_tenant_reference m = t" "le_resource_reference m = customer_resource c" "entry_key m = entry_key e"
    using m(2) t by (auto simp: entry_evolves_def entry_binding_def entry_key_def)
  have "rows_frozen t c db db'"
    if d: "d \<in> set (hd_ledger db')" "entry_key d = entry_key e" "le_phase d = PhRESERVED" for d
  proof -
    have "entry_evolves m d" using evolved_entry [OF moves(1) m(1) d(1) _ moves(2)] d(2) bound(3) by simp
    then have r: "le_phase m = PhRESERVED" using phase_stays [OF m(2)] e(2) d(3) by blast
    then have "rows_frozen t c db mid" using step.IH m(1) bound(3) by blast
    then show ?thesis
      by (rule rows_frozen_trans) (rule host_step_frozen [OF step.hyps(2) good guarded_no [OF m(1) bound(1,2) r]])
  qed
  then show ?case using moves rows_evolve_trans [OF ev] by blast
qed

section \<open>Properties\<close>

text \<open>
  C26: nothing is submitted twice. Any number of workers execute refunds, subscription cancellations
  and credit notes at the same time against the repositories of the reference host, each possibly crashing at
  any point, while the application changes its tables and other clients use the ledger. Whatever the
  interleaving, Stripe is asked at most once to carry out one business intent of an action group and a tenant.
\<close>

theorem stripe_submitted_once:
  assumes "ledger_ok (hd_ledger db)" and "serves (group_serves cfg) db (map snd joint) db'"
    and "\<And>i. worker_run (hc_digests (gc_host cfg)) (calls_by i joint)"
  shows "tally (submits_intent (hc_digests (gc_host cfg)) (tenant, grp, effect)) (map snd joint) \<le> 1"
proof (rule group_reservations.submitted_once [OF assms(2)])
  show "host_good db" using assms(1) by (simp add: host_good_def)
qed (rule worker_within_grants [OF assms(3)])


section \<open>A run\<close>

definition demo_billing_config :: billing_config where
  "demo_billing_config =
     \<lparr>gc_host = demo_host_config, gc_parse_subscription = (\<lambda>d. Inr demo_change),
      gc_parse_credit = (\<lambda>d. fails ValueError), gc_stamp = (\<lambda>n. ''n'')\<rparr>"

lemma refund_worker_served:
  "serves (host_serves (gc_host cfg)) db cs db' \<Longrightarrow> serves (group_serves cfg) db (map RefundWorker cs) db'"
proof (induction cs arbitrary: db)
  case (Cons c cs)
  then obtain mid where mid: "host_serves (gc_host cfg) db c mid" "serves (host_serves (gc_host cfg)) mid cs db'" by auto
  then have "group_serves cfg db (RefundWorker c) mid" by (simp add: host_serves_def group_serves_def)
  with Cons.IH [OF mid(2)] show ?case by auto
qed simp

lemma demo_ledger_ok: "ledger_ok (hd_ledger demo_host_db)"
  unfolding demo_host_db_def host_db.select_convs
  by (rule conjunct1 [OF ledger_step_ok [OF ledger_step.remembering [OF refl] ledger_ok_Nil]])

theorem stripe_submitted_once_witness:
  "tally (submits_intent (hc_digests demo_host_config) (''t'', REFUNDS, ''refund:d'')) (map RefundWorker demo_refund_calls) \<le> 1
   \<and> \<not> no_create demo_refund_calls"
proof
  let ?joint = "map (\<lambda>c. (0, RefundWorker c)) demo_refund_calls :: (nat \<times> group_call) list"
  have host: "gc_host demo_billing_config = demo_host_config" by (simp add: demo_billing_config_def)
  have "serves (group_serves demo_billing_config) demo_host_db (map snd ?joint) demo_host_db'"
    using refund_worker_served [of demo_billing_config, unfolded host, OF demo_refund_served] by (simp add: comp_def)
  moreover have "worker_run (hc_digests (gc_host demo_billing_config)) (calls_by i ?joint)" for i
  proof -
    let ?cs = "if i = 0 then demo_refund_calls else []"
    have "calls_by i ?joint = map RefundWorker ?cs" by (cases "i = 0") (simp_all add: calls_by_def comp_def)
    moreover have "prefix ?cs (calls_of (refund_execute demo_refund_host demo_snapshot demo_refund_context ''refund:d'') 0)"
      by (simp add: demo_refund_calls_def)
    moreover have "rh_digests demo_refund_host = hc_digests (gc_host demo_billing_config)"
      by (simp add: host demo_host_config_def)
    ultimately show ?thesis unfolding worker_run_def by blast
  qed
  ultimately show "tally (submits_intent (hc_digests demo_host_config) (''t'', REFUNDS, ''refund:d''))
      (map RefundWorker demo_refund_calls) \<le> 1"
    using stripe_submitted_once [OF demo_ledger_ok, of demo_billing_config ?joint demo_host_db' "''t''" REFUNDS "''refund:d''"]
    by (simp add: comp_def host)
  show "\<not> no_create demo_refund_calls" unfolding demo_refund_calls_eq by simp
qed

text \<open>While the refund is reserved, the application fails to delete the payment.\<close>

definition demo_reserved_entry :: ledger_entry where
  "demo_reserved_entry = hd (hd_ledger demo_host_db')"

lemma demo_reserved_entry_eqs:
  "hd_ledger demo_host_db' = [demo_reserved_entry] \<and> le_phase demo_reserved_entry = PhRESERVED
   \<and> le_tenant_reference demo_reserved_entry = ''t''
   \<and> le_resource_reference demo_reserved_entry = customer_resource ''c''"
  by code_simp

definition demo_deleting :: host_db where
  "demo_deleting = snd (write_payment (''t'', ''p'') None demo_host_db')"


end
