(* ===== verification/Work_Discovery.thy ===== *)
theory Work_Discovery
  imports Recovery "HOL-Library.Product_Lexorder"
begin

text \<open>
  The discovery of due work for the recovery worker: \<open>PostgresActionWorkSource\<close> of
  \<open>stores/postgres.py\<close> over the columns of the \<open>proposals\<close> table that its query reads, and the contract of a
  work source that the page loop of \<open>RecoveryWorker.scan\<close> (\<open>Recovery\<close>) relies on.

  The table may be different at every page, because the worker itself and other processes change
  it; a fetch may raise. Text is ordered by the collation of the database, given by its sort key.
  Shown: the page loop ends, in strictly increasing positions, and visits all work that stays due;
  and the suggested operation agrees with the recovery condition the runtime reports.
\<close>

section \<open>The query\<close>

record work_row =
  wo_tenant_reference :: pystr
  wo_proposal_reference :: pystr
  wo_action_namespace :: pystr
  wo_action_name :: pystr
  wo_action_version :: int
  wo_lifecycle_status :: lifecycle_status
  wo_expires_at :: instant
  wo_status_changed_at :: instant
  wo_next_verification_at :: "instant option"
  wo_erasure_pending_at :: "pystr option"
  wo_erased_at :: "pystr option"

definition unsettled :: "lifecycle_status \<Rightarrow> bool" where
  "unsettled status \<longleftrightarrow> status \<in> {EXECUTING, FAILED_UNKNOWN, VERIFICATION_PENDING}"

definition expiry_due :: "instant \<Rightarrow> work_row \<Rightarrow> bool" where
  "expiry_due cutoff row \<longleftrightarrow>
     wo_lifecycle_status row \<in> {AWAITING_AUTHORITY, AUTHORIZED} \<and> wo_expires_at row \<le> cutoff"

definition schedule_missing :: "work_row \<Rightarrow> bool" where
  "schedule_missing row \<longleftrightarrow>
     unsettled (wo_lifecycle_status row) \<and> wo_next_verification_at row = None"

definition coalesce :: "'a option \<Rightarrow> 'a \<Rightarrow> 'a" where
  "coalesce x y = (case x of None \<Rightarrow> y | Some v \<Rightarrow> v)"

definition work_due :: "pystr \<Rightarrow> instant \<Rightarrow> work_row \<Rightarrow> bool" where
  "work_due tenant cutoff row \<longleftrightarrow>
     wo_tenant_reference row = tenant
     \<and> coalesce (wo_erasure_pending_at row) '''' = ''''
     \<and> coalesce (wo_erased_at row) '''' = ''''
     \<and> (wo_lifecycle_status row = AWAITING_AUTHORITY \<and> wo_expires_at row \<le> cutoff
        \<or> wo_lifecycle_status row = AUTHORIZED \<and> wo_status_changed_at row \<le> cutoff
        \<or> unsettled (wo_lifecycle_status row)
          \<and> \<not> later_than (wo_next_verification_at row) cutoff)"

definition work_due_at :: "instant \<Rightarrow> work_row \<Rightarrow> instant" where
  "work_due_at cutoff row =
     (if expiry_due cutoff row then wo_expires_at row
      else if wo_lifecycle_status row = AUTHORIZED then wo_status_changed_at row
      else coalesce (wo_next_verification_at row) (wo_status_changed_at row))"

definition work_operation :: "instant \<Rightarrow> work_row \<Rightarrow> action_work_operation" where
  "work_operation cutoff row =
     (if expiry_due cutoff row then WorkEXPIRE
      else if wo_lifecycle_status row = AUTHORIZED then WorkEXECUTE
      else if schedule_missing row then WorkATTENTION
      else WorkRECONCILE)"

definition work_reason :: "work_row \<Rightarrow> pystr option" where
  "work_reason row = (if schedule_missing row then Some ''recovery_schedule_missing'' else None)"

definition work_item_of :: "instant \<Rightarrow> work_row \<Rightarrow> action_work_item" where
  "work_item_of cutoff row =
     \<lparr>wi_action_type = \<lparr>at_namespace = wo_action_namespace row, at_name = wo_action_name row,
                       at_version = wo_action_version row\<rparr>,
      wi_proposal_reference = wo_proposal_reference row,
      wi_operation = work_operation cutoff row,
      wi_due_at = work_due_at cutoff row,
      wi_reason_code = work_reason row\<rparr>"

definition item_position :: "(pystr \<Rightarrow> 'k::linorder) \<Rightarrow> action_work_item \<Rightarrow> instant \<times> 'k" where
  "item_position collate item = (wi_due_at item, collate (wi_proposal_reference item))"

definition cursor_position :: "(pystr \<Rightarrow> 'k::linorder) \<Rightarrow> action_work_cursor \<Rightarrow> instant \<times> 'k" where
  "cursor_position collate cursor = (wc_due_at cursor, collate (wc_proposal_reference cursor))"

definition after_cursor ::
  "(pystr \<Rightarrow> 'k::linorder) \<Rightarrow> action_work_cursor option \<Rightarrow> action_work_item \<Rightarrow> bool" where
  "after_cursor collate cursor item =
     (case cursor of None \<Rightarrow> True
      | Some c \<Rightarrow> cursor_position collate c < item_position collate item)"

text \<open>The rows the query selects, in the order of its \<open>ORDER BY\<close> clause, before its \<open>LIMIT\<close>.\<close>

definition query_rows ::
  "(pystr \<Rightarrow> 'k::linorder) \<Rightarrow> pystr \<Rightarrow> instant \<Rightarrow> action_work_cursor option \<Rightarrow> work_row list
     \<Rightarrow> action_work_item list" where
  "query_rows collate tenant cutoff cursor rows =
     sort_key (item_position collate)
       (filter (after_cursor collate cursor)
          (map (work_item_of cutoff) (filter (work_due tenant cutoff) rows)))"

section \<open>The source\<close>

definition work_item :: "(pystr \<Rightarrow> bool) \<Rightarrow> action_work_item \<Rightarrow> action_work_item outcome" where
  "work_item safe item =
     (if valid_action_type (wi_action_type item) \<and> safe (wi_proposal_reference item) then Inr item
      else fails ValidationError)"

fun work_items :: "(pystr \<Rightarrow> bool) \<Rightarrow> action_work_item list \<Rightarrow> action_work_item list outcome" where
  "work_items safe [] = Inr []"
| "work_items safe (row # rows) =
     result_bind (work_item safe row) (\<lambda>item.
     result_bind (work_items safe rows) (\<lambda>items. Inr (item # items)))"

definition discover_due ::
  "(pystr \<Rightarrow> 'k::linorder) \<Rightarrow> (pystr \<Rightarrow> bool) \<Rightarrow> (nat \<Rightarrow> work_row list outcome) \<Rightarrow> nat \<Rightarrow> pystr \<Rightarrow> instant
     \<Rightarrow> int \<Rightarrow> action_work_cursor option \<Rightarrow> action_work_page outcome" where
  "discover_due collate safe tables n tenant cutoff limit cursor =
     (if \<not> (1 \<le> limit \<and> limit \<le> 500) then fails ValueError
      else
      result_bind (tables n) (\<lambda>table.
      let rows = take (nat (limit + 1)) (query_rows collate tenant cutoff cursor table) in
      result_bind (work_items safe (take (nat limit) rows)) (\<lambda>items.
      if \<not> safe tenant then fails ValidationError
      else Inr
        \<lparr>wp_tenant_reference = tenant, wp_cutoff = cutoff, wp_items = items,
         wp_next_cursor =
           (if int (length rows) > limit \<and> items \<noteq> []
            then Some \<lparr>wc_due_at = wi_due_at (last items),
                       wc_proposal_reference = wi_proposal_reference (last items)\<rparr>
            else None)\<rparr>)))"

section \<open>Calls of the worker\<close>

lemma wp_worker_ask [simp]:
  "wp (Recovery.ask f) Q E k =
     (case f (wk_calls k) of
        Inl r \<Rightarrow> E r (k\<lparr>wk_calls := Suc (wk_calls k)\<rparr>)
      | Inr a \<Rightarrow> Q a (k\<lparr>wk_calls := Suc (wk_calls k)\<rparr>))"
  by (simp add: wp_def Recovery.ask_def split: sum.splits)

lemma wp_any: "(\<And>a t. Q a t) \<Longrightarrow> (\<And>r t. E r t) \<Longrightarrow> wp m Q E s"
  by (rule wpI_cases)

definition reports :: "action_work_item \<Rightarrow> recovery_worker_result \<Rightarrow> bool" where
  "reports item r \<longleftrightarrow>
     wr_proposal_reference r = wi_proposal_reference item \<and> wr_operation r = wi_operation item"

lemma reports_result [simp]: "reports item (worker_result item ending reason)"
  by (simp add: reports_def worker_result_def)

lemma wp_acknowledge [simp]:
  "(\<And>r k'. reports item r \<Longrightarrow> Q r k') \<Longrightarrow> (\<And>e k'. E e k')
     \<Longrightarrow> wp (acknowledge worker item token next reason ending) Q E k"
  unfolding acknowledge_def by (simp, rule wp_any) (auto simp: lease_lost_def)

lemma wp_in_world: "(\<And>a t. Q a t) \<Longrightarrow> (\<And>r t. E r t) \<Longrightarrow> wp (in_world m) Q E k"
  by (rule wp_any)

lemma wp_run_operation_reports:
  "wp (run_operation_of_item worker rt d item token now)
     (\<lambda>r _. \<forall>early. r = Some early \<longrightarrow> reports item early) (\<lambda>_ _. True) k"
  unfolding run_operation_of_item_def Let_def
  by (auto intro!: wp_in_world)

lemma case_authorization_denied:
  "(case e of AuthorizationDeniedError _ \<Rightarrow> a | _ \<Rightarrow> b)
     = (if \<exists>x. e = AuthorizationDeniedError x then a else b)"
  by (cases e) simp_all

lemma wp_run_item_reports:
  "wp (run_item worker item now) (\<lambda>r _. reports item r) (\<lambda>_ _. True) k"
  unfolding run_item_def case_authorization_denied
  by (auto split: sum.splits option.splits prod.splits bool.splits
      intro!: wp_mono [OF wp_run_operation_reports])

lemma wp_run_items_reports:
  "wp (run_items worker now items) (\<lambda>rs _. list_all2 reports items rs) (\<lambda>_ _. True) k"
proof (induction items arbitrary: k)
  case (Cons item items)
  show ?case
    by (simp, rule wp_mono [OF wp_run_item_reports])
      (auto intro: wp_mono [OF Cons.IH])
qed simp

section \<open>The contract of a work source\<close>

text \<open>
  What the page loop relies on: the items of a page are due, in the order of their positions and
  behind the cursor; the next cursor stands on the last item; and nothing due between the two
  cursors is left out, when positions identify the items.
\<close>

locale due_source =
  fixes discover ::
      "nat \<Rightarrow> pystr \<Rightarrow> instant \<Rightarrow> int \<Rightarrow> action_work_cursor option \<Rightarrow> action_work_page outcome"
    and due :: "nat \<Rightarrow> pystr \<Rightarrow> instant \<Rightarrow> action_work_item set"
    and position :: "action_work_item \<Rightarrow> 'p::linorder"
    and place :: "action_work_cursor \<Rightarrow> 'p"
  assumes page_due:
      "discover n tenant cutoff limit cursor = Inr page \<Longrightarrow> set (wp_items page) \<subseteq> due n tenant cutoff"
    and page_after:
      "discover n tenant cutoff limit (Some c) = Inr page \<Longrightarrow> item \<in> set (wp_items page)
         \<Longrightarrow> place c < position item"
    and page_next:
      "discover n tenant cutoff limit cursor = Inr page \<Longrightarrow> wp_next_cursor page = Some c
         \<Longrightarrow> wp_items page \<noteq> [] \<and> place c = position (last (wp_items page))"
    and page_complete:
      "discover n tenant cutoff limit cursor = Inr page \<Longrightarrow> inj_on position (due n tenant cutoff)
         \<Longrightarrow> item \<in> due n tenant cutoff \<Longrightarrow> (case cursor of None \<Rightarrow> True | Some c \<Rightarrow> place c < position item)
         \<Longrightarrow> (case wp_next_cursor page of None \<Rightarrow> True | Some c \<Rightarrow> position item \<le> place c)
         \<Longrightarrow> item \<in> set (wp_items page)"
begin

definition behind :: "'p set \<Rightarrow> action_work_cursor option \<Rightarrow> 'p set" where
  "behind P cursor = {p \<in> P. case cursor of None \<Rightarrow> True | Some c \<Rightarrow> place c < p}"

lemma behind_shrinks:
  assumes "discover n tenant cutoff limit cursor = Inr page" and "wp_next_cursor page = Some c"
    and "finite P" and "position ` due n tenant cutoff \<subseteq> P"
  shows "card (behind P (Some c)) < card (behind P cursor)"
proof (rule psubset_card_mono)
  show "finite (behind P cursor)" using assms(3) by (simp add: behind_def)
  let ?l = "last (wp_items page)"
  have "wp_items page \<noteq> []" and c: "place c = position ?l" using page_next [OF assms(1,2)] by auto
  then have l: "?l \<in> set (wp_items page)" by simp
  then have "position ?l \<in> P" using page_due [OF assms(1)] assms(4) by auto
  moreover have "case cursor of None \<Rightarrow> True | Some c0 \<Rightarrow> place c0 < position ?l"
    using page_after [OF _ l] assms(1) by (cases cursor) auto
  ultimately have "position ?l \<in> behind P cursor" and "position ?l \<notin> behind P (Some c)"
    by (auto simp: behind_def c)
  moreover have "behind P (Some c) \<subseteq> behind P cursor"
    using \<open>position ?l \<in> behind P cursor\<close> by (auto simp: behind_def c split: option.splits)
  ultimately show "behind P (Some c) \<subset> behind P cursor" by blast
qed

text \<open>The loop ends when the due positions that occur at any time are finitely many.\<close>

lemma scan_from_ends:
  assumes "rw_discover_due worker = discover" and "finite P"
    and "\<And>n. position ` due n (rd_tenant_reference (rw_read_context worker)) cutoff \<subseteq> P"
  shows "card (behind P cursor) < fuel
    \<Longrightarrow> wp (scan_from worker cutoff page_size fuel cursor results) (\<lambda>r _. r \<noteq> None) (\<lambda>_ _. True) k"
proof (induction fuel arbitrary: cursor results k)
  case (Suc fuel)
  have "wp (case wp_next_cursor page of None \<Rightarrow> return (Some (results @ rs))
            | Some cursor' \<Rightarrow> scan_from worker cutoff page_size fuel (Some cursor') (results @ rs))
          (\<lambda>r _. r \<noteq> None) (\<lambda>_ _. True) k'"
    if "discover n (rd_tenant_reference (rw_read_context worker)) cutoff page_size cursor = Inr page"
    for n page rs k'
  proof (cases "wp_next_cursor page")
    case (Some c)
    have "card (behind P (Some c)) < fuel"
      using behind_shrinks [OF that Some assms(2,3)] Suc.prems by simp
    then show ?thesis using Suc.IH Some by simp
  qed simp
  then show ?case
    by (auto simp: assms(1) split: sum.splits intro!: wp_mono [OF wp_run_items_reports])
qed simp

text \<open>An item that stays due behind the cursor is processed before the loop returns.\<close>

lemma scan_from_visits:
  assumes "rw_discover_due worker = discover"
    and "\<And>n. item \<in> due n (rd_tenant_reference (rw_read_context worker)) cutoff"
    and "\<And>n. inj_on position (due n (rd_tenant_reference (rw_read_context worker)) cutoff)"
  shows "(case cursor of None \<Rightarrow> True | Some c \<Rightarrow> place c < position item)
            \<or> (\<exists>r \<in> set results. reports item r)
    \<Longrightarrow> wp (scan_from worker cutoff page_size fuel cursor results)
          (\<lambda>r _. \<forall>rs. r = Some rs \<longrightarrow> (\<exists>r \<in> set rs. reports item r)) (\<lambda>_ _. True) k"
proof (induction fuel arbitrary: cursor results k)
  case (Suc fuel)
  have "wp (case wp_next_cursor page of None \<Rightarrow> return (Some (results @ rs))
            | Some cursor' \<Rightarrow> scan_from worker cutoff page_size fuel (Some cursor') (results @ rs))
          (\<lambda>r _. \<forall>rs. r = Some rs \<longrightarrow> (\<exists>r \<in> set rs. reports item r)) (\<lambda>_ _. True) k'"
    if page: "discover n (rd_tenant_reference (rw_read_context worker)) cutoff page_size cursor = Inr page"
      and rs: "list_all2 reports (wp_items page) rs"
    for n page rs k'
  proof -
    have "(\<exists>c. wp_next_cursor page = Some c \<and> place c < position item)
            \<or> (\<exists>r \<in> set (results @ rs). reports item r)"
    proof (rule ccontr)
      assume none: "\<not> ?thesis"
      then have "case cursor of None \<Rightarrow> True | Some c \<Rightarrow> place c < position item"
        using Suc.prems by auto
      moreover have "case wp_next_cursor page of None \<Rightarrow> True | Some c \<Rightarrow> position item \<le> place c"
        using none by (auto simp: not_less split: option.splits)
      ultimately have "item \<in> set (wp_items page)"
        using page_complete [OF page assms(3,2)] by blast
      then obtain i where "i < length (wp_items page)" "wp_items page ! i = item"
        by (auto simp: in_set_conv_nth)
      then have "reports item (rs ! i)" "rs ! i \<in> set rs"
        using list_all2_nthD [OF rs] list_all2_lengthD [OF rs] by auto
      then show False using none by auto
    qed
    then show ?thesis using Suc.IH [of "wp_next_cursor page" "results @ rs"]
      by (cases "wp_next_cursor page") auto
  qed
  then show ?case
    by (auto simp: assms(1) split: sum.splits intro!: wp_mono [OF wp_run_items_reports])
qed simp

end

section \<open>The PostgreSQL source keeps the contract\<close>

definition due_items ::
  "(nat \<Rightarrow> work_row list outcome) \<Rightarrow> nat \<Rightarrow> pystr \<Rightarrow> instant \<Rightarrow> action_work_item set" where
  "due_items tables n tenant cutoff =
     (case tables n of
        Inl _ \<Rightarrow> {}
      | Inr rows \<Rightarrow> set (map (work_item_of cutoff) (filter (work_due tenant cutoff) rows)))"

lemma work_items_Inr: "work_items safe rows = Inr items \<Longrightarrow> items = rows"
  by (induction rows arbitrary: items)
    (auto simp: work_item_def result_bind_eq_Inr split: if_splits)

lemma last_take: "0 < m \<Longrightarrow> m < length xs \<Longrightarrow> last (take m xs) = xs ! (m - 1)"
  by (subst last_conv_nth) auto

lemma set_query_rows:
  "set (query_rows collate tenant cutoff cursor rows) =
     {item \<in> set (map (work_item_of cutoff) (filter (work_due tenant cutoff) rows)).
        after_cursor collate cursor item}"
  by (auto simp: query_rows_def)

lemma sorted_query_rows:
  "sorted (map (item_position collate) (query_rows collate tenant cutoff cursor rows))"
  by (simp add: query_rows_def)

lemma discover_due_Inr:
  assumes "discover_due collate safe tables n tenant cutoff limit cursor = Inr page"
  obtains rows where "tables n = Inr rows" and "1 \<le> limit"
    and "wp_items page = take (nat limit) (query_rows collate tenant cutoff cursor rows)"
    and "wp_next_cursor page =
      (if nat limit < length (query_rows collate tenant cutoff cursor rows)
       then Some \<lparr>wc_due_at = wi_due_at (last (wp_items page)),
                  wc_proposal_reference = wi_proposal_reference (last (wp_items page))\<rparr>
       else None)"
proof -
  obtain rows where rows: "tables n = Inr rows" and limit: "1 \<le> limit"
    using assms by (auto simp: discover_due_def result_bind_eq_Inr split: if_splits)
  let ?q = "query_rows collate tenant cutoff cursor rows"
  have cut: "take (nat limit) (take (nat (limit + 1)) ?q) = take (nat limit) ?q"
    using limit by (simp add: min_def nat_le_eq_zle)
  have long: "int (min (length ?q) (nat (limit + 1))) > limit \<longleftrightarrow> nat limit < length ?q"
    using limit by linarith
  show thesis
    by (rule that [OF rows limit])
      (use assms rows limit cut long in
        \<open>auto simp: discover_due_def Let_def result_bind_eq_Inr dest!: work_items_Inr
          split: if_splits\<close>)
qed

interpretation postgres: due_source "discover_due collate safe tables" "due_items tables"
  "item_position collate" "cursor_position collate"
proof
  fix n tenant cutoff limit cursor c item page
  let ?q = "query_rows collate tenant cutoff"
  show "set (wp_items page) \<subseteq> due_items tables n tenant cutoff"
    if "discover_due collate safe tables n tenant cutoff limit cursor = Inr page"
    using that by (rule discover_due_Inr)
      (auto simp: due_items_def set_query_rows dest: in_set_takeD)
  show "cursor_position collate c < item_position collate item"
    if "discover_due collate safe tables n tenant cutoff limit (Some c) = Inr page"
      and "item \<in> set (wp_items page)"
    using that(1) by (rule discover_due_Inr)
      (use that(2) in \<open>auto dest!: in_set_takeD simp: set_query_rows after_cursor_def\<close>)
  show "wp_items page \<noteq> []
      \<and> cursor_position collate c = item_position collate (last (wp_items page))"
    if "discover_due collate safe tables n tenant cutoff limit cursor = Inr page"
      and "wp_next_cursor page = Some c"
    using that(1) by (rule discover_due_Inr)
      (use that(2) in \<open>auto simp: cursor_position_def item_position_def split: if_splits\<close>)
  show "item \<in> set (wp_items page)"
    if page: "discover_due collate safe tables n tenant cutoff limit cursor = Inr page"
      and inj: "inj_on (item_position collate) (due_items tables n tenant cutoff)"
      and due: "item \<in> due_items tables n tenant cutoff"
      and behind: "case cursor of None \<Rightarrow> True
        | Some c \<Rightarrow> cursor_position collate c < item_position collate item"
      and before: "case wp_next_cursor page of None \<Rightarrow> True
        | Some c \<Rightarrow> item_position collate item \<le> cursor_position collate c"
    using page
  proof (rule discover_due_Inr)
    fix rows
    assume rows: "tables n = Inr rows" and limit: "1 \<le> limit"
      and items: "wp_items page = take (nat limit) (?q cursor rows)"
      and "next": "wp_next_cursor page =
        (if nat limit < length (?q cursor rows)
         then Some \<lparr>wc_due_at = wi_due_at (last (wp_items page)),
                    wc_proposal_reference = wi_proposal_reference (last (wp_items page))\<rparr>
         else None)"
    have found: "item \<in> set (?q cursor rows)"
      using due behind rows by (auto simp: due_items_def set_query_rows after_cursor_def split: option.splits)
    then obtain j where j: "j < length (?q cursor rows)" "?q cursor rows ! j = item"
      by (auto simp: in_set_conv_nth)
    show ?thesis
    proof (cases "j < nat limit")
      case True
      then show ?thesis using j items by (auto simp: in_set_conv_nth intro!: exI [of _ j])
    next
      case False
      let ?l = "last (wp_items page)"
      have l: "?l = ?q cursor rows ! (nat limit - 1)" and "nat limit < length (?q cursor rows)"
        using False j(1) limit items by (simp_all add: last_take)
      have "item_position collate ?l \<le> item_position collate item"
        using sorted_nth_mono [OF sorted_query_rows [of collate tenant cutoff cursor rows],
            of "nat limit - 1" j] False j limit l
        by simp
      moreover have "item_position collate item \<le> item_position collate ?l"
        using before "next" \<open>nat limit < length (?q cursor rows)\<close>
        by (simp add: cursor_position_def item_position_def)
      ultimately have same: "item_position collate ?l = item_position collate item" by simp
      have "?l \<in> set (wp_items page)" using False j(1) limit items by (intro last_in_set) auto
      moreover then have "?l \<in> due_items tables n tenant cutoff"
        using items rows by (auto simp: due_items_def set_query_rows dest!: in_set_takeD)
      ultimately show ?thesis using inj_onD [OF inj same _ due] by simp
    qed
  qed
qed

section \<open>Properties of a scan\<close>

lemma due_position:
  assumes "item \<in> due_items tables n tenant cutoff"
    and "\<And>rows row. tables n = Inr rows \<Longrightarrow> row \<in> set rows \<Longrightarrow> work_due tenant cutoff row
      \<Longrightarrow> (work_due_at cutoff row, wo_proposal_reference row) \<in> P"
  shows "(wi_due_at item, wi_proposal_reference item) \<in> P"
  using assms by (auto simp: due_items_def work_item_of_def split: sum.splits)

text \<open>
  C34: The page loop of the recovery worker over the PostgreSQL source ends. When the positions
  (due time and reference) of the due rows that occur at any fetch are finitely many, the loop needs
  at most one page for each of them and one more, whatever the collation, the page size, the host's
  schedule and the operations do, and although the table may be different at every fetch.
\<close>

theorem scan_ends:
  assumes "rw_discover_due worker = discover_due collate safe tables"
    and "finite P"
    and "\<And>n rows row. tables n = Inr rows \<Longrightarrow> row \<in> set rows
      \<Longrightarrow> work_due (rd_tenant_reference (rw_read_context worker)) cutoff row
      \<Longrightarrow> (work_due_at cutoff row, wo_proposal_reference row) \<in> P"
    and "card P < fuel"
  shows "fst (scan worker fuel cutoff page_size k) \<noteq> Inr None"
proof -
  let ?P = "(\<lambda>(at, r). (at, collate r)) ` P"
  have due: "item_position collate ` due_items tables n
      (rd_tenant_reference (rw_read_context worker)) cutoff \<subseteq> ?P" for n
    by (auto simp: item_position_def intro!: rev_image_eqI [OF due_position] assms(3))
  have "card (postgres.behind collate ?P None) < fuel"
    using card_image_le [OF assms(2), of "\<lambda>(at, r). (at, collate r)"] assms(4)
    by (simp add: postgres.behind_def)
  from postgres.scan_from_ends [OF assms(1) _ due this] assms(2)
  have "wp (scan worker fuel cutoff page_size) (\<lambda>r _. r \<noteq> None) (\<lambda>_ _. True) k"
    by (simp add: scan_def)
  then show ?thesis by (auto simp: wp_def split: prod.splits sum.splits)
qed

text \<open>
  C35: The scan visits all work that stays due. A row that is due, with one due time and operation, at
  every fetch of a scan that returns is among the reported results with that operation, although other rows
  come and go between the fetches, when no two due rows of one fetch have the same reference (the
  primary key) and the collation distinguishes references.
\<close>

theorem scan_visits_due_work:
  assumes "rw_discover_due worker = discover_due collate safe tables"
    and "inj collate"
    and "\<And>n. \<exists>rows. tables n = Inr rows \<and> row \<in> set rows
           \<and> distinct (map wo_proposal_reference
               (filter (work_due (rd_tenant_reference (rw_read_context worker)) cutoff) rows))"
    and "work_due (rd_tenant_reference (rw_read_context worker)) cutoff row"
    and "fst (scan worker fuel cutoff page_size k) = Inr (Some results)"
  shows "\<exists>r \<in> set results. wr_proposal_reference r = wo_proposal_reference row
           \<and> wr_operation r = work_operation cutoff row"
proof -
  let ?item = "work_item_of cutoff row"
  let ?due = "\<lambda>n. due_items tables n (rd_tenant_reference (rw_read_context worker)) cutoff"
  have due: "?item \<in> ?due n" for n using assms(3) [of n] assms(4) by (auto simp: due_items_def)
  have "inj_on (item_position collate) (?due n)" for n
  proof (rule inj_onI)
    fix x y assume "x \<in> ?due n" "y \<in> ?due n" and same: "item_position collate x = item_position collate y"
    then obtain rows a b where "tables n = Inr rows"
      and a: "a \<in> set (filter (work_due (rd_tenant_reference (rw_read_context worker)) cutoff) rows)"
        "x = work_item_of cutoff a"
      and b: "b \<in> set (filter (work_due (rd_tenant_reference (rw_read_context worker)) cutoff) rows)"
        "y = work_item_of cutoff b"
      using assms(3) [of n] by (auto simp: due_items_def)
    then have "inj_on wo_proposal_reference
        (set (filter (work_due (rd_tenant_reference (rw_read_context worker)) cutoff) rows))"
      using assms(3) [of n] by (simp add: distinct_map)
    moreover have "wo_proposal_reference a = wo_proposal_reference b"
      using same a(2) b(2) injD [OF assms(2)] by (simp add: item_position_def work_item_of_def)
    ultimately have "a = b" using a(1) b(1) by (metis inj_onD)
    then show "x = y" using a(2) b(2) by simp
  qed
  from postgres.scan_from_visits [OF assms(1) due this, of None "[]" page_size fuel k]
  have "wp (scan worker fuel cutoff page_size)
      (\<lambda>r _. \<forall>rs. r = Some rs \<longrightarrow> (\<exists>r \<in> set rs. reports ?item r)) (\<lambda>_ _. True) k"
    by (simp add: scan_def)
  then have "\<exists>r \<in> set results. reports ?item r"
    using assms(5) by (auto simp: wp_def split: prod.splits sum.splits)
  then show ?thesis by (auto simp: reports_def work_item_of_def)
qed

text \<open>
  The query and the runtime agree on what is to be done. For a row that the query selects, the
  suggested operation is expiry, execution, or reconciliation (attention when no check is
  scheduled) exactly when the recovery condition that the runtime reports for the row's columns at the cutoff is
  that expiry is due, that it is ready for execution, or that its outcome is open.
\<close>

lemma work_operation_agrees:
  assumes "work_due tenant cutoff row"
  shows "work_operation cutoff row =
     (case recovery_condition (wo_lifecycle_status row) cutoff (wo_expires_at row)
             (wo_next_verification_at row) last_status of
        EXPIRY_DUE \<Rightarrow> WorkEXPIRE
      | READY_FOR_EXECUTION \<Rightarrow> WorkEXECUTE
      | _ \<Rightarrow> if wo_next_verification_at row = None then WorkATTENTION else WorkRECONCILE)
     \<and> (work_operation cutoff row \<in> {WorkRECONCILE, WorkATTENTION} \<longleftrightarrow>
          recovery_condition (wo_lifecycle_status row) cutoff (wo_expires_at row)
             (wo_next_verification_at row) last_status
          \<in> {OUTCOME_UNPROVEN, OBSERVATION_UNAVAILABLE, WAITING_FOR_PROVIDER})"
  using assms
  by (auto simp: work_due_def work_operation_def recovery_condition_def expiry_due_def
      schedule_missing_def unsettled_def later_than_def split: option.splits)

section \<open>A concrete scan\<close>

definition demo_row :: "pystr \<Rightarrow> lifecycle_status \<Rightarrow> instant \<Rightarrow> work_row" where
  "demo_row reference status at =
     \<lparr>wo_tenant_reference = ''t'', wo_proposal_reference = reference,
      wo_action_namespace = ''shop.orders'', wo_action_name = ''refund'', wo_action_version = 1,
      wo_lifecycle_status = status, wo_expires_at = at, wo_status_changed_at = at,
      wo_next_verification_at = None, wo_erasure_pending_at = None, wo_erased_at = None\<rparr>"

definition demo_tables :: "nat \<Rightarrow> work_row list outcome" where
  "demo_tables n =
     Inr (demo_row ''b'' EXECUTING 3
          # (if n = 0 then [demo_row ''a'' AWAITING_AUTHORITY 3] else []))"

definition demo_worker :: "unit recovery_worker" where
  "demo_worker =
     \<lparr>rw_discover_due = discover_due id (\<lambda>_. True) demo_tables,
      rw_claim = (\<lambda>_ _ _ _. Inr (Some ''lease'')),
      rw_complete = (\<lambda>_ _ _ _ _. Inr True),
      rw_actions = Map.empty,
      rw_read_context = \<lparr>rd_tenant_reference = ''t'', rd_consumer = EvidenceConsumer ''worker''\<rparr>,
      rw_lease_duration = 60, rw_retry_delay = 30\<rparr>"

definition demo_worker_state :: "unit worker_state" where
  "demo_worker_state = \<lparr>wk_world = start () 0, wk_calls = 0, wk_acks = []\<rparr>"

lemma demo_scan:
  "fst (scan demo_worker 4 5 1 demo_worker_state) = Inr (Some
     [\<lparr>wr_proposal_reference = ''a'', wr_disposition = WorkerATTENTION, wr_operation = WorkEXPIRE,
       wr_reason_code = Some ''recovery_action_unconfigured''\<rparr>,
      \<lparr>wr_proposal_reference = ''b'', wr_disposition = WorkerATTENTION, wr_operation = WorkATTENTION,
       wr_reason_code = Some ''recovery_schedule_missing''\<rparr>])"
  by code_simp

lemma scan_ends_witness: "fst (scan demo_worker 4 5 1 demo_worker_state) \<noteq> Inr None"
proof (rule scan_ends [of demo_worker id "\<lambda>_. True" demo_tables "{(3, ''a''), (3, ''b'')}"])
  show "(work_due_at 5 row, wo_proposal_reference row) \<in> {(3, ''a''), (3, ''b'')}"
    if "demo_tables n = Inr rows" and "row \<in> set rows" for n rows row
    using that by (auto simp: demo_tables_def demo_row_def work_due_at_def expiry_due_def coalesce_def
        split: if_splits)
qed (simp_all add: demo_worker_def)

lemma scan_visits_due_work_witness:
  "\<exists>r \<in> set [\<lparr>wr_proposal_reference = ''a'', wr_disposition = WorkerATTENTION, wr_operation = WorkEXPIRE,
       wr_reason_code = Some ''recovery_action_unconfigured''\<rparr>,
      \<lparr>wr_proposal_reference = ''b'', wr_disposition = WorkerATTENTION, wr_operation = WorkATTENTION,
       wr_reason_code = Some ''recovery_schedule_missing''\<rparr>].
     wr_proposal_reference r = wo_proposal_reference (demo_row ''b'' EXECUTING 3)
     \<and> wr_operation r = work_operation 5 (demo_row ''b'' EXECUTING 3)"
proof (rule scan_visits_due_work [OF _ _ _ _ demo_scan, of id "\<lambda>_. True" demo_tables])
  show "\<exists>rows. demo_tables n = Inr rows \<and> demo_row ''b'' EXECUTING 3 \<in> set rows
      \<and> distinct (map wo_proposal_reference
          (filter (work_due (rd_tenant_reference (rw_read_context demo_worker)) 5) rows))" for n
    by (auto simp: demo_tables_def demo_row_def)
  show "work_due (rd_tenant_reference (rw_read_context demo_worker)) 5 (demo_row ''b'' EXECUTING 3)"
    by code_simp
qed (simp_all add: demo_worker_def)

lemma work_operation_agrees_witness:
  "work_operation 5 (demo_row ''a'' AWAITING_AUTHORITY 3) = WorkEXPIRE"
  using work_operation_agrees [of "''t''" 5 "demo_row ''a'' AWAITING_AUTHORITY 3" None]
  by (simp add: work_due_def demo_row_def coalesce_def recovery_condition_def)

end
