(* ===== verification/Approval_Channels.thy ===== *)
theory Approval_Channels
  imports Authority
begin

text \<open>
  Server-bound approval requests, \<open>integrations/approval_channels/models.py\<close> and \<open>postgres.py\<close>, over the rows
  of the table of \<open>_migrations/approval_postgres\<close> with its keys and its trigger.

  Every SQL statement is one step on the rows; \<open>create\<close> makes two outside a transaction, so other
  clients may act between them, while \<open>record_decision\<close> runs in one transaction. A stored JSON value of a model
  is what a codec (pydantic's dump and parse) makes of it, of which only the round trip is assumed.
  Shown: keys, bindings and decisions of every reachable table, that the first decision wins and is
  final, and that its evidence is what the runtime's validation accepts.
\<close>

section \<open>Models\<close>

record approval_request_binding =
  aq_request_reference :: pystr
  aq_tenant_reference :: pystr
  aq_proposal_reference :: pystr
  aq_semantic_effect_reference :: pystr
  aq_action_type :: action_type
  aq_proposal_commitment :: pystr
  aq_intended_authority :: pystr
  aq_audience :: pystr
  aq_channel_assurance :: pystr
  aq_created_at :: instant
  aq_expires_at :: instant

definition valid_window :: "approval_request_binding \<Rightarrow> approval_request_binding outcome" where
  "valid_window b = (if aq_created_at b \<ge> aq_expires_at b then fails ValueError else Inr b)"

record approval_decision_record =
  ad_decision :: authority_decision
  ad_evidence :: authority_evidence
  ad_recorded_at :: instant

definition decision_matches_evidence :: "approval_decision_record \<Rightarrow> approval_decision_record outcome" where
  "decision_matches_evidence d =
     (if ad_decision d \<noteq> ev_decision (ad_evidence d) then fails ValueError else Inr d)"

record approval_request_record =
  ar_binding :: approval_request_binding
  ar_decision :: "approval_decision_record option"

definition evidence_differs :: "authority_evidence \<Rightarrow> approval_request_binding \<Rightarrow> bool" where
  "evidence_differs evidence binding \<longleftrightarrow>
     ev_tenant_reference evidence \<noteq> aq_tenant_reference binding
     \<or> ev_action_type evidence \<noteq> aq_action_type binding
     \<or> ev_proposal_instance_reference evidence \<noteq> aq_proposal_reference binding
     \<or> ev_semantic_effect_reference evidence \<noteq> aq_semantic_effect_reference binding
     \<or> ev_proposal_commitment evidence \<noteq> aq_proposal_commitment binding
     \<or> ca_reference (ev_authority evidence) \<noteq> aq_intended_authority binding
     \<or> ev_audience evidence \<noteq> [aq_audience binding]
     \<or> ev_channel_assurance evidence \<noteq> aq_channel_assurance binding
     \<or> ev_issued_at evidence < aq_created_at binding
     \<or> ev_expires_at evidence > aq_expires_at binding"

definition decision_matches_binding :: "approval_request_record \<Rightarrow> approval_request_record outcome" where
  "decision_matches_binding r =
     (case ar_decision r of
        None \<Rightarrow> Inr r
      | Some d \<Rightarrow> if evidence_differs (ad_evidence d) (ar_binding r) then fails ValueError else Inr r)"

record approval_request_view =
  ax_request_reference :: pystr
  ax_proposal_reference :: pystr
  ax_semantic_effect_reference :: pystr
  ax_intended_authority :: pystr
  ax_audience :: pystr
  ax_channel_assurance :: pystr
  ax_expires_at :: instant
  ax_decision :: "authority_decision option"

definition approval_view :: "approval_request_record \<Rightarrow> approval_request_view" where
  "approval_view r =
     \<lparr>ax_request_reference = aq_request_reference (ar_binding r),
      ax_proposal_reference = aq_proposal_reference (ar_binding r),
      ax_semantic_effect_reference = aq_semantic_effect_reference (ar_binding r),
      ax_intended_authority = aq_intended_authority (ar_binding r),
      ax_audience = aq_audience (ar_binding r),
      ax_channel_assurance = aq_channel_assurance (ar_binding r),
      ax_expires_at = aq_expires_at (ar_binding r),
      ax_decision = map_option ad_decision (ar_decision r)\<rparr>"

section \<open>The table\<close>

record ('x, 'y) approval_row =
  ap_request_reference :: pystr
  ap_tenant_reference :: pystr
  ap_proposal_reference :: pystr
  ap_binding_data :: 'x
  ap_decision_data :: "'y option"
  ap_created_at :: instant

type_synonym ('x, 'y) approval_db = "('x, 'y) approval_row list"

record ('x, 'y) approval_json =
  dump_binding :: "approval_request_binding \<Rightarrow> 'x"
  parse_binding :: "'x \<Rightarrow> approval_request_binding option"
  dump_decision :: "approval_decision_record \<Rightarrow> 'y"
  parse_decision :: "'y \<Rightarrow> approval_decision_record option"

definition parsed :: "'a option \<Rightarrow> 'a outcome" where
  "parsed x = (case x of None \<Rightarrow> fails ValidationError | Some a \<Rightarrow> Inr a)"

text \<open>\<open>_record\<close>: whatever the parse or a validator raises becomes the refusal of corrupt data.\<close>

definition approval_record :: "('x, 'y) approval_json \<Rightarrow> ('x, 'y) approval_row \<Rightarrow> approval_request_record outcome" where
  "approval_record j row =
     (case result_bind (result_bind (parsed (parse_binding j (ap_binding_data row))) valid_window) (\<lambda>b.
           result_bind
             (case ap_decision_data row of
                None \<Rightarrow> Inr None
              | Some text \<Rightarrow>
                  result_bind (result_bind (parsed (parse_decision j text)) decision_matches_evidence)
                    (\<lambda>d. Inr (Some d))) (\<lambda>decision.
           decision_matches_binding \<lparr>ar_binding = b, ar_decision = decision\<rparr>)) of
        Inl _ \<Rightarrow> fails ApprovalRequestError
      | Inr r \<Rightarrow> Inr r)"

definition identity_changed :: "('x, 'y) approval_row \<Rightarrow> ('x, 'y) approval_row \<Rightarrow> bool" where
  "identity_changed old new \<longleftrightarrow>
     (ap_request_reference new, ap_tenant_reference new, ap_proposal_reference new,
      ap_binding_data new, ap_created_at new)
     \<noteq> (ap_request_reference old, ap_tenant_reference old, ap_proposal_reference old,
        ap_binding_data old, ap_created_at old)"

definition enforce_approval_update :: "('x, 'y) approval_row \<Rightarrow> ('x, 'y) approval_row \<Rightarrow> ('x, 'y) approval_row outcome" where
  "enforce_approval_update old new =
     (if identity_changed old new then fails IntegrityError
      else if ap_decision_data old \<noteq> None \<and> ap_decision_data new \<noteq> ap_decision_data old
      then fails IntegrityError
      else Inr new)"

section \<open>Statements\<close>

definition insert_request ::
  "('x, 'y) approval_json \<Rightarrow> instant \<Rightarrow> approval_request_binding \<Rightarrow> (('x, 'y) approval_db, unit) eff" where
  "insert_request j now b rows =
     (if \<exists>row \<in> set rows. ap_tenant_reference row = aq_tenant_reference b
                        \<and> ap_proposal_reference row = aq_proposal_reference b
      then (Inr (), rows)
      else if \<exists>row \<in> set rows. ap_request_reference row = aq_request_reference b
      then (fails IntegrityError, rows)
      else (Inr (), rows @ [\<lparr>ap_request_reference = aq_request_reference b,
                            ap_tenant_reference = aq_tenant_reference b,
                            ap_proposal_reference = aq_proposal_reference b,
                            ap_binding_data = dump_binding j b,
                            ap_decision_data = None,
                            ap_created_at = now\<rparr>]))"

definition fetch_request :: "(('x, 'y) approval_row \<Rightarrow> bool) \<Rightarrow> (('x, 'y) approval_db, ('x, 'y) approval_row) eff" where
  "fetch_request chosen rows =
     (case find chosen rows of
        None \<Rightarrow> (fails ApprovalRequestError, rows)
      | Some row \<Rightarrow> (Inr row, rows))"

fun update_rows ::
  "(('x, 'y) approval_row \<Rightarrow> bool) \<Rightarrow> (('x, 'y) approval_row \<Rightarrow> ('x, 'y) approval_row) \<Rightarrow> ('x, 'y) approval_db \<Rightarrow> (nat \<times> ('x, 'y) approval_db) outcome" where
  "update_rows chosen change [] = Inr (0, [])"
| "update_rows chosen change (row # rows) =
     (if chosen row
      then result_bind (enforce_approval_update row (change row)) (\<lambda>new.
           result_bind (update_rows chosen change rows) (\<lambda>(hits, rest). Inr (Suc hits, new # rest)))
      else result_bind (update_rows chosen change rows) (\<lambda>(hits, rest). Inr (hits, row # rest)))"

definition update_decision :: "pystr \<Rightarrow> 'y \<Rightarrow> (('x, 'y) approval_db, nat) eff" where
  "update_decision reference text rows =
     (case update_rows (\<lambda>row. ap_request_reference row = reference \<and> ap_decision_data row = None)
             (\<lambda>row. row\<lparr>ap_decision_data := Some text\<rparr>) rows of
        Inl e \<Rightarrow> (Inl e, rows)
      | Inr (hits, updated) \<Rightarrow> (Inr hits, updated))"

section \<open>Operations\<close>

definition between_statements :: "(('x, 'y) approval_db \<Rightarrow> ('x, 'y) approval_db) \<Rightarrow> (('x, 'y) approval_db, unit) eff" where
  "between_statements others rows = (Inr (), others rows)"

definition bound_alike :: "approval_request_binding \<Rightarrow> approval_request_binding \<Rightarrow> bool" where
  "bound_alike a b \<longleftrightarrow>
     a\<lparr>aq_request_reference := '''', aq_created_at := 0\<rparr> = b\<lparr>aq_request_reference := '''', aq_created_at := 0\<rparr>"

definition create_request ::
  "('x, 'y) approval_json \<Rightarrow> (('x, 'y) approval_db \<Rightarrow> ('x, 'y) approval_db) \<Rightarrow> instant \<Rightarrow> approval_request_binding
     \<Rightarrow> (('x, 'y) approval_db, approval_request_record) eff" where
  "create_request j others now b =
     bind (insert_request j now b) (\<lambda>_.
     bind (between_statements others) (\<lambda>_.
     bind (fetch_request (\<lambda>row. ap_tenant_reference row = aq_tenant_reference b
                              \<and> ap_proposal_reference row = aq_proposal_reference b)) (\<lambda>row.
     bind (lift (approval_record j row)) (\<lambda>existing.
     if \<not> bound_alike (ar_binding existing) b then raise ApprovalRequestError
     else return existing))))"

definition get_request :: "('x, 'y) approval_json \<Rightarrow> pystr \<Rightarrow> (('x, 'y) approval_db, approval_request_record) eff" where
  "get_request j reference =
     bind (fetch_request (\<lambda>row. ap_request_reference row = reference)) (\<lambda>row.
     lift (approval_record j row))"

definition request_for_proposal ::
  "('x, 'y) approval_json \<Rightarrow> pystr \<Rightarrow> pystr \<Rightarrow> (('x, 'y) approval_db, approval_request_record) eff" where
  "request_for_proposal j tenant proposal =
     bind (fetch_request (\<lambda>row. ap_tenant_reference row = tenant \<and> ap_proposal_reference row = proposal))
       (\<lambda>row. lift (approval_record j row))"

definition rolled_back :: "(('x, 'y) approval_db, 'a) eff \<Rightarrow> (('x, 'y) approval_db, 'a) eff" where
  "rolled_back m rows = (case m rows of (Inl e, _) \<Rightarrow> (Inl e, rows) | (Inr a, after) \<Rightarrow> (Inr a, after))"

definition record_decision ::
  "('x, 'y) approval_json \<Rightarrow> pystr \<Rightarrow> approval_decision_record \<Rightarrow> (('x, 'y) approval_db, approval_request_record) eff" where
  "record_decision j reference d =
     rolled_back
       (bind (fetch_request (\<lambda>row. ap_request_reference row = reference)) (\<lambda>row.
        bind (lift (approval_record j row)) (\<lambda>current.
        case decision_matches_binding \<lparr>ar_binding = ar_binding current, ar_decision = Some d\<rparr> of
          Inl _ \<Rightarrow> raise ApprovalRequestError
        | Inr decided \<Rightarrow>
        case ar_decision current of
          Some recorded \<Rightarrow>
            if ad_decision recorded \<noteq> ad_decision d then raise ApprovalRequestError
            else return current
        | None \<Rightarrow>
        bind (update_decision reference (dump_decision j d)) (\<lambda>hits.
        if hits \<noteq> 1 then raise ApprovalRequestError
        else return decided))))"

definition new_reference :: "pystr \<Rightarrow> pystr" where
  "new_reference hex = ''approval-request:'' @ hex"

section \<open>Reachable tables\<close>

text \<open>
  What any number of clients do to the table: insertions by \<open>create\<close> of a constructed binding and calls
  of \<open>record_decision\<close> with a constructed decision record (both models validate when they are constructed).
\<close>

definition json_codec :: "('x, 'y) approval_json \<Rightarrow> bool" where
  "json_codec j \<longleftrightarrow>
     (\<forall>b. parse_binding j (dump_binding j b) = Some b)
     \<and> (\<forall>d. parse_decision j (dump_decision j d) = Some d)"

inductive approval_step :: "('x, 'y) approval_json \<Rightarrow> ('x, 'y) approval_db \<Rightarrow> ('x, 'y) approval_db \<Rightarrow> bool" for j where
  Inserted: "valid_window b = Inr b \<Longrightarrow> approval_step j rows (snd (insert_request j now b rows))"
| Decided: "decision_matches_evidence d = Inr d
    \<Longrightarrow> approval_step j rows (snd (record_decision j reference d rows))"

abbreviation approval_path :: "('x, 'y) approval_json \<Rightarrow> ('x, 'y) approval_db \<Rightarrow> ('x, 'y) approval_db \<Rightarrow> bool" where
  "approval_path j \<equiv> (approval_step j)\<^sup>*\<^sup>*"

definition row_ok :: "('x, 'y) approval_json \<Rightarrow> ('x, 'y) approval_row \<Rightarrow> bool" where
  "row_ok j row \<longleftrightarrow>
     (case approval_record j row of
        Inl _ \<Rightarrow> False
      | Inr r \<Rightarrow>
          aq_request_reference (ar_binding r) = ap_request_reference row
          \<and> aq_tenant_reference (ar_binding r) = ap_tenant_reference row
          \<and> aq_proposal_reference (ar_binding r) = ap_proposal_reference row)"

definition approvals_ok :: "('x, 'y) approval_json \<Rightarrow> ('x, 'y) approval_db \<Rightarrow> bool" where
  "approvals_ok j rows \<longleftrightarrow>
     distinct (map ap_request_reference rows)
     \<and> distinct (map (\<lambda>row. (ap_tenant_reference row, ap_proposal_reference row)) rows)
     \<and> list_all (row_ok j) rows"

text \<open>A later row keeps the identity, the binding and a recorded decision.\<close>

definition row_kept :: "('x, 'y) approval_row \<Rightarrow> ('x, 'y) approval_row \<Rightarrow> bool" where
  "row_kept old new \<longleftrightarrow>
     new = old\<lparr>ap_decision_data := ap_decision_data new\<rparr>
     \<and> (ap_decision_data old \<noteq> None \<longrightarrow> new = old)"

definition rows_kept :: "('x, 'y) approval_db \<Rightarrow> ('x, 'y) approval_db \<Rightarrow> bool" where
  "rows_kept rows rows' \<longleftrightarrow> (\<forall>row \<in> set rows. \<exists>row' \<in> set rows'. row_kept row row')"

lemma row_kept_refl [simp]: "row_kept row row"
  by (simp add: row_kept_def)

lemma row_kept_trans: "row_kept a b \<Longrightarrow> row_kept b c \<Longrightarrow> row_kept a c"
  unfolding row_kept_def by (metis (no_types, lifting) approval_row.surjective approval_row.update_convs(5))

lemma rows_kept_refl [simp]: "rows_kept rows rows"
  unfolding rows_kept_def by (meson row_kept_refl)

lemma rows_kept_trans: "rows_kept a b \<Longrightarrow> rows_kept b c \<Longrightarrow> rows_kept a c"
  unfolding rows_kept_def by (meson row_kept_trans)

lemma unchanged_row: "(\<And>row. row \<in> set rows \<Longrightarrow> \<not> chosen row) \<Longrightarrow> update_rows chosen change rows = Inr (0, rows)"
  by (induction rows) auto

text \<open>On a key, the guarded update changes the one row that is still undecided.\<close>

lemma update_rows_key:
  "distinct (map ap_request_reference rows) \<Longrightarrow> row \<in> set rows
   \<Longrightarrow> ap_request_reference row = reference \<Longrightarrow> ap_decision_data row = None
   \<Longrightarrow> update_rows (\<lambda>row. ap_request_reference row = reference \<and> ap_decision_data row = None)
         (\<lambda>row. row\<lparr>ap_decision_data := Some text\<rparr>) rows
       = Inr (1, map (\<lambda>r. if ap_request_reference r = reference
                         then r\<lparr>ap_decision_data := Some text\<rparr> else r) rows)"
proof (induction rows)
  case (Cons r rows)
  show ?case
  proof (cases "r = row")
    case True
    then have rest: "\<And>r'. r' \<in> set rows \<Longrightarrow> ap_request_reference r' \<noteq> reference"
      using Cons.prems(1,3) by (auto simp: rev_image_eqI)
    then have "map (\<lambda>r. if ap_request_reference r = reference
        then r\<lparr>ap_decision_data := Some text\<rparr> else r) rows = rows"
      by (auto intro: map_idI)
    then show ?thesis
      using True rest Cons.prems(3,4)
      by (simp add: unchanged_row enforce_approval_update_def identity_changed_def)
  next
    case False
    moreover from False have "ap_request_reference r \<noteq> reference"
      using Cons.prems(1-3) by auto
    ultimately show ?thesis using Cons by auto
  qed
qed simp

lemma find_unique:
  "distinct (map key rows) \<Longrightarrow> row \<in> set rows \<Longrightarrow> key row = k \<Longrightarrow> find (\<lambda>r. key r = k) rows = Some row"
  by (induction rows) (auto simp: rev_image_eqI)

lemma find_SomeD: "find P xs = Some x \<Longrightarrow> x \<in> set xs \<and> P x"
  by (induction xs) (auto split: if_splits)

lemma fetch_missing: "k \<notin> key ` set rows \<Longrightarrow> fetch_request (\<lambda>r. key r = k) rows = (fails ApprovalRequestError, rows)"
proof -
  assume "k \<notin> key ` set rows"
  then have "find (\<lambda>r. key r = k) rows = None" by (auto simp: find_None_iff)
  then show ?thesis by (simp add: fetch_request_def)
qed

section \<open>Reading back\<close>

definition stored_decision :: "('x, 'y) approval_json \<Rightarrow> 'y option \<Rightarrow> approval_decision_record option outcome" where
  "stored_decision j text =
     (case text of
        None \<Rightarrow> Inr None
      | Some text \<Rightarrow>
          result_bind (result_bind (parsed (parse_decision j text)) decision_matches_evidence)
            (\<lambda>d. Inr (Some d)))"

lemma approval_record_iff:
  "approval_record j row = Inr r \<longleftrightarrow>
     parse_binding j (ap_binding_data row) = Some (ar_binding r)
     \<and> valid_window (ar_binding r) = Inr (ar_binding r)
     \<and> stored_decision j (ap_decision_data row) = Inr (ar_decision r)
     \<and> decision_matches_binding r = Inr r"
proof -
  have "approval_record j row = Inr r \<longleftrightarrow>
      (\<exists>b decision. parse_binding j (ap_binding_data row) = Some b \<and> valid_window b = Inr b
        \<and> stored_decision j (ap_decision_data row) = Inr decision
        \<and> decision_matches_binding \<lparr>ar_binding = b, ar_decision = decision\<rparr> = Inr r)"
    by (auto simp: approval_record_def stored_decision_def [symmetric] result_bind_eq_Inr parsed_def
        valid_window_def split: sum.splits option.splits if_splits)
  also have "\<dots> \<longleftrightarrow> parse_binding j (ap_binding_data row) = Some (ar_binding r)
     \<and> valid_window (ar_binding r) = Inr (ar_binding r)
     \<and> stored_decision j (ap_decision_data row) = Inr (ar_decision r)
     \<and> decision_matches_binding r = Inr r"
    by (cases r) (auto simp: decision_matches_binding_def split: option.splits if_splits)
  finally show ?thesis .
qed

lemma stored_decision_Inr:
  "stored_decision j text = Inr decision \<Longrightarrow> decision = None \<longleftrightarrow> text = None"
  "stored_decision j text = Inr (Some d) \<Longrightarrow> ad_decision d = ev_decision (ad_evidence d)"
  by (auto simp: stored_decision_def result_bind_eq_Inr decision_matches_evidence_def
      split: option.splits if_splits)

lemma approval_record_Inr:
  assumes "approval_record j row = Inr r"
  shows "valid_window (ar_binding r) = Inr (ar_binding r)"
    and "ar_decision r = None \<longleftrightarrow> ap_decision_data row = None"
    and "ar_decision r = Some d \<Longrightarrow>
      ad_decision d = ev_decision (ad_evidence d) \<and> \<not> evidence_differs (ad_evidence d) (ar_binding r)"
  using assms stored_decision_Inr [of j "ap_decision_data row"]
  by (auto simp: approval_record_iff decision_matches_binding_def split: if_splits)

lemma approval_record_new:
  assumes "json_codec j" and "valid_window b = Inr b"
  shows "approval_record j
      \<lparr>ap_request_reference = x, ap_tenant_reference = y, ap_proposal_reference = z,
       ap_binding_data = dump_binding j b, ap_decision_data = None, ap_created_at = now\<rparr>
    = Inr \<lparr>ar_binding = b, ar_decision = None\<rparr>"
  using assms
  by (simp add: approval_record_iff json_codec_def stored_decision_def decision_matches_binding_def)

lemma approval_record_decided:
  assumes "json_codec j" and "approval_record j row = Inr r"
    and "decision_matches_evidence d = Inr d" and "\<not> evidence_differs (ad_evidence d) (ar_binding r)"
  shows "approval_record j (row\<lparr>ap_decision_data := Some (dump_decision j d)\<rparr>)
    = Inr \<lparr>ar_binding = ar_binding r, ar_decision = Some d\<rparr>"
  using assms
  by (simp add: approval_record_iff json_codec_def stored_decision_def parsed_def
      decision_matches_binding_def)

lemma row_ok_record: "row_ok j row \<Longrightarrow> \<exists>r. approval_record j row = Inr r"
  by (auto simp: row_ok_def split: sum.splits)

definition decided_row :: "('x, 'y) approval_json \<Rightarrow> pystr \<Rightarrow> approval_decision_record \<Rightarrow> ('x, 'y) approval_row \<Rightarrow> ('x, 'y) approval_row" where
  "decided_row j reference d r =
     (if ap_request_reference r = reference then r\<lparr>ap_decision_data := Some (dump_decision j d)\<rparr> else r)"

text \<open>\<open>record_decision\<close> on every branch, for a row whose data is not corrupt.\<close>

lemma record_decision_eq:
  assumes "distinct (map ap_request_reference rows)" and "row \<in> set rows"
    and "ap_request_reference row = reference" and "approval_record j row = Inr current"
  shows "record_decision j reference d rows =
     (if evidence_differs (ad_evidence d) (ar_binding current) then (fails ApprovalRequestError, rows)
      else case ar_decision current of
        Some recorded \<Rightarrow>
          if ad_decision recorded \<noteq> ad_decision d then (fails ApprovalRequestError, rows)
          else (Inr current, rows)
      | None \<Rightarrow>
          (Inr \<lparr>ar_binding = ar_binding current, ar_decision = Some d\<rparr>,
           map (decided_row j reference d) rows))"
  using assms find_unique [OF assms(1-3)] approval_record_Inr(2) [OF assms(4)]
  by (auto simp: record_decision_def rolled_back_def fetch_request_def bind_def lift_def return_def
      raise_def throw_def fails_def decision_matches_binding_def update_decision_def
      decided_row_def update_rows_key
      split: option.splits if_splits)

lemma record_decision_missing:
  "reference \<notin> ap_request_reference ` set rows
    \<Longrightarrow> record_decision j reference d rows = (fails ApprovalRequestError, rows)"
  using fetch_missing [of reference ap_request_reference rows]
  by (auto simp: record_decision_def rolled_back_def bind_def fails_def)

lemma decided_row_kept:
  "ap_decision_data r = None \<or> ap_request_reference r \<noteq> reference \<Longrightarrow> row_kept r (decided_row j reference d r)"
  by (auto simp: decided_row_def row_kept_def)

lemma decided_row_simps [simp]:
  "ap_request_reference (decided_row j reference d r) = ap_request_reference r"
  "ap_tenant_reference (decided_row j reference d r) = ap_tenant_reference r"
  "ap_proposal_reference (decided_row j reference d r) = ap_proposal_reference r"
  by (simp_all add: decided_row_def)

lemma approvals_okD:
  assumes "approvals_ok j rows"
  shows "distinct (map ap_request_reference rows)"
    and "row \<in> set rows \<Longrightarrow> row_ok j row"
  using assms by (auto simp: approvals_ok_def list_all_iff)

lemma approval_step_ok:
  assumes "json_codec j" and "approval_step j rows rows'" and "approvals_ok j rows"
  shows "approvals_ok j rows' \<and> rows_kept rows rows'"
  using assms(2)
proof cases
  case (Inserted b now)
  then show ?thesis
    using assms(1,3)
    by (auto simp: insert_request_def approvals_ok_def row_ok_def approval_record_new rows_kept_def
        rev_image_eqI intro: row_kept_refl)
next
  case (Decided d reference)
  show ?thesis
  proof (cases "reference \<in> ap_request_reference ` set rows")
    case False
    then show ?thesis using Decided assms(3) by (simp add: record_decision_missing)
  next
    case True
    then obtain row where row: "row \<in> set rows" "ap_request_reference row = reference" by auto
    then obtain r where r: "approval_record j row = Inr r"
      using approvals_okD(2) [OF assms(3)] row_ok_record by blast
    note eq = record_decision_eq [OF approvals_okD(1) [OF assms(3)] row r]
    show ?thesis
    proof (cases "\<not> evidence_differs (ad_evidence d) (ar_binding r) \<and> ar_decision r = None")
      case False
      then show ?thesis using Decided eq assms(3) by (auto split: option.splits)
    next
      case fresh: True
      then have rows': "rows' = map (decided_row j reference d) rows"
        using Decided eq by simp
      have only: "r' = row" if "r' \<in> set rows" "ap_request_reference r' = reference" for r'
        using that row approvals_okD(1) [OF assms(3)] by (auto simp: distinct_map inj_on_def)
      have none: "ap_decision_data row = None" using approval_record_Inr(2) [OF r] fresh by simp
      have "rows_kept rows rows'"
        unfolding rows_kept_def rows'
      proof
        fix r' assume r': "r' \<in> set rows"
        have "row_kept r' (decided_row j reference d r')"
          using only [OF r'] none by (cases "ap_request_reference r' = reference") (auto intro: decided_row_kept)
        then show "\<exists>row' \<in> set (map (decided_row j reference d) rows). row_kept r' row'"
          using r' by auto
      qed
      moreover have "row_ok j (decided_row j reference d r')" if "r' \<in> set rows" for r'
      proof (cases "ap_request_reference r' = reference")
        case True
        then have "r' = row" using only that by simp
        then show ?thesis
          using True approval_record_decided [OF assms(1) r Decided(2)] fresh r
            approvals_okD(2) [OF assms(3) row(1)]
          by (simp add: row_ok_def decided_row_def)
      next
        case False
        then show ?thesis using approvals_okD(2) [OF assms(3) that] by (simp add: decided_row_def)
      qed
      ultimately show ?thesis
        using assms(3) by (simp add: approvals_ok_def rows' list_all_iff comp_def)
    qed
  qed
qed

lemma approval_path_ok:
  assumes "json_codec j" and "approval_path j rows rows'" and "approvals_ok j rows"
  shows "approvals_ok j rows' \<and> rows_kept rows rows'"
  using assms(2)
proof (induction rule: rtranclp_induct)
  case (step y z)
  then show ?case using approval_step_ok [OF assms(1)] rows_kept_trans by blast
qed (simp add: assms(3))

section \<open>Properties\<close>

lemma approvals_ok_Nil [simp]: "approvals_ok j []"
  by (simp add: approvals_ok_def)

lemma get_request_row:
  assumes "distinct (map ap_request_reference rows)" and "row \<in> set rows"
  shows "get_request j (ap_request_reference row) rows = (approval_record j row, rows)"
  using find_unique [OF assms refl]
  by (simp add: get_request_def fetch_request_def bind_def lift_def)

text \<open>
  C36: In every table that any number of clients reach with \<open>create\<close> and \<open>record_decision\<close>, request references
  and (tenant, proposal) pairs are unique and every row reads back as a record that belongs to its
  columns, so that its decision, if there is one, is evidence for exactly its binding; and from then on a row is never
  removed, its binding never changes and neither does a recorded decision.
\<close>

theorem approval_requests_invariant:
  assumes "json_codec j" and "approval_path j [] rows" and "approval_path j rows rows'"
  shows "approvals_ok j rows \<and> rows_kept rows rows'"
  using approval_path_ok [OF assms(1,2)] approval_path_ok [OF assms(1,3)] by simp

text \<open>
  C37: The first decision wins and is final. When \<open>record_decision\<close> returns, the returned record carries the verdict
  that was asked for with the evidence that was recorded first, every later read of the request
  returns that record, whatever other clients do, and every later attempt to record the other verdict
  is refused without a change.
\<close>

theorem approval_decision_final:
  assumes "json_codec j" and "approval_path j [] rows" and "decision_matches_evidence d = Inr d"
    and "record_decision j reference d rows = (Inr r, rows')" and "approval_path j rows' later"
    and "ad_decision other \<noteq> ad_decision d"
  shows "(\<exists>kept. ar_decision r = Some kept \<and> ad_decision kept = ad_decision d)
    \<and> get_request j reference later = (Inr r, later)
    \<and> record_decision j reference other later = (fails ApprovalRequestError, later)"
proof -
  have ok: "approvals_ok j rows" using approval_path_ok [OF assms(1,2)] by simp
  have "approval_step j rows rows'" using approval_step.Decided [OF assms(3), of j rows reference] assms(4) by simp
  then have ok': "approvals_ok j rows'" using approval_step_ok [OF assms(1) _ ok] by simp
  have final: "approvals_ok j later \<and> rows_kept rows' later"
    by (rule approval_path_ok [OF assms(1,5) ok'])
  obtain row where row: "row \<in> set rows" "ap_request_reference row = reference"
    using assms(4) record_decision_missing [of reference rows j d] by (auto simp: fails_def)
  then obtain current where current: "approval_record j row = Inr current"
    using approvals_okD(2) [OF ok] row_ok_record by blast
  note eq = record_decision_eq [OF approvals_okD(1) [OF ok] row current, of d]
  have "\<exists>row' kept. row' \<in> set rows' \<and> ap_request_reference row' = reference
      \<and> approval_record j row' = Inr r \<and> ar_decision r = Some kept \<and> ad_decision kept = ad_decision d"
  proof (cases "ar_decision current")
    case None
    then have "rows' = map (decided_row j reference d) rows"
      and "r = \<lparr>ar_binding = ar_binding current, ar_decision = Some d\<rparr>"
      and "\<not> evidence_differs (ad_evidence d) (ar_binding current)"
      using eq assms(4) by (auto split: if_splits)
    then show ?thesis
      using row approval_record_decided [OF assms(1) current assms(3)]
      by (auto simp: decided_row_def intro!: exI [of _ "decided_row j reference d row"])
  next
    case (Some kept)
    then show ?thesis using eq assms(4) row current by (auto split: if_splits)
  qed
  then obtain row' kept where row': "row' \<in> set rows'" "ap_request_reference row' = reference"
      "approval_record j row' = Inr r" and kept: "ar_decision r = Some kept" "ad_decision kept = ad_decision d"
    by blast
  then have "ap_decision_data row' \<noteq> None" using approval_record_Inr(2) by fastforce
  then have at: "row' \<in> set later" using final row'(1) by (auto simp: rows_kept_def row_kept_def)
  have "get_request j reference later = (Inr r, later)"
    using get_request_row [OF approvals_okD(1) at, of j] final row'(2,3) by simp
  moreover have "record_decision j reference other later = (fails ApprovalRequestError, later)"
    using record_decision_eq [OF approvals_okD(1) at row'(2,3), of j other] final kept assms(6) by simp
  ultimately show ?thesis using kept by blast
qed

text \<open>
  C38: What the channel recorded is what the runtime accepts. The evidence of a decision that is read from the
  table matches the authority binding of the proposal when the request was bound to that proposal's
  tenant, action type, reference, effect and commitment and to the definition's audience and
  assurance; it counts only inside the request's window, and it names the intended authority.
\<close>

theorem channel_evidence_accepted:
  assumes "get_request j reference rows = (Inr r, rows')" and "ar_decision r = Some d"
    and "b = \<lparr>ab_tenant_reference = aq_tenant_reference (ar_binding r),
              ab_action_type = aq_action_type (ar_binding r),
              ab_proposal_instance_reference = aq_proposal_reference (ar_binding r),
              ab_semantic_effect_reference = aq_semantic_effect_reference (ar_binding r),
              ab_proposal_commitment = aq_proposal_commitment (ar_binding r),
              ab_required_audience = aq_audience (ar_binding r),
              ab_required_channel_assurance = aq_channel_assurance (ar_binding r)\<rparr>"
  shows "authority_evidence_matches_binding (ad_evidence d) b
    \<and> ca_reference (ev_authority (ad_evidence d)) = aq_intended_authority (ar_binding r)
    \<and> ev_decision (ad_evidence d) = ad_decision d
    \<and> (av_valid (validate_authority_evidence (ad_evidence d) b now)
        \<longrightarrow> aq_created_at (ar_binding r) \<le> now \<and> now < aq_expires_at (ar_binding r))"
proof -
  obtain row where "approval_record j row = Inr r"
    using assms(1) by (auto simp: get_request_def bind_def lift_def split: prod.splits sum.splits)
  from approval_record_Inr(3) [OF this assms(2)] show ?thesis
    unfolding assms(3)
    by (auto simp: evidence_differs_def authority_evidence_matches_binding_def authority_valid_iff)
qed

section \<open>A concrete request\<close>

definition demo_json :: "(approval_request_binding, approval_decision_record) approval_json" where
  "demo_json = \<lparr>dump_binding = id, parse_binding = Some, dump_decision = id, parse_decision = Some\<rparr>"

definition demo_request :: approval_request_binding where
  "demo_request =
     \<lparr>aq_request_reference = ''req'', aq_tenant_reference = ''t'', aq_proposal_reference = ''p'',
      aq_semantic_effect_reference = ''e'',
      aq_action_type = \<lparr>at_namespace = ''shop.orders'', at_name = ''refund'', at_version = 1\<rparr>,
      aq_proposal_commitment = ''c'', aq_intended_authority = ''alice'', aq_audience = ''finance'',
      aq_channel_assurance = ''session'', aq_created_at = 1, aq_expires_at = 9\<rparr>"

definition demo_decision :: "authority_decision \<Rightarrow> approval_decision_record" where
  "demo_decision verdict =
     \<lparr>ad_decision = verdict,
      ad_evidence =
        \<lparr>ev_tenant_reference = ''t'',
         ev_action_type = \<lparr>at_namespace = ''shop.orders'', at_name = ''refund'', at_version = 1\<rparr>,
         ev_proposal_instance_reference = ''p'', ev_semantic_effect_reference = ''e'',
         ev_authority = ConfirmingAuthority ''alice'', ev_audience = [''finance''],
         ev_decision = verdict, ev_proposal_commitment = ''c'', ev_channel_assurance = ''session'',
         ev_issued_at = 2, ev_expires_at = 8, ev_external_attestation = None\<rparr>,
      ad_recorded_at = 2\<rparr>"

definition demo_requests :: "(approval_request_binding, approval_decision_record) approval_db" where
  "demo_requests = snd (insert_request demo_json 1 demo_request [])"

lemma demo_codec: "json_codec demo_json"
  by (simp add: json_codec_def demo_json_def)

lemma demo_requests_path: "approval_path demo_json [] demo_requests"
  unfolding demo_requests_def
  by (rule r_into_rtranclp, rule approval_step.Inserted) code_simp

lemma demo_recorded:
  "record_decision demo_json ''req'' (demo_decision APPROVE) demo_requests =
     (Inr \<lparr>ar_binding = demo_request, ar_decision = Some (demo_decision APPROVE)\<rparr>,
      map (decided_row demo_json ''req'' (demo_decision APPROVE)) demo_requests)"
  by code_simp

lemma approval_requests_invariant_witness:
  "approvals_ok demo_json demo_requests \<and> rows_kept [] demo_requests"
  using approval_requests_invariant [OF demo_codec demo_requests_path rtranclp.rtrancl_refl]
    approval_requests_invariant [OF demo_codec rtranclp.rtrancl_refl demo_requests_path] by simp

lemma approval_decision_final_witness:
  "record_decision demo_json ''req'' (demo_decision REJECT)
       (map (decided_row demo_json ''req'' (demo_decision APPROVE)) demo_requests)
     = (fails ApprovalRequestError,
        map (decided_row demo_json ''req'' (demo_decision APPROVE)) demo_requests)"
  using approval_decision_final [OF demo_codec demo_requests_path _ demo_recorded
      rtranclp.rtrancl_refl, of "demo_decision REJECT"]
  by (simp add: demo_decision_def decision_matches_evidence_def)

lemma channel_evidence_accepted_witness:
  "authority_evidence_matches_binding (ad_evidence (demo_decision APPROVE))
     \<lparr>ab_tenant_reference = ''t'',
      ab_action_type = \<lparr>at_namespace = ''shop.orders'', at_name = ''refund'', at_version = 1\<rparr>,
      ab_proposal_instance_reference = ''p'', ab_semantic_effect_reference = ''e'',
      ab_proposal_commitment = ''c'', ab_required_audience = ''finance'',
      ab_required_channel_assurance = ''session''\<rparr>"
proof -
  let ?rows = "map (decided_row demo_json ''req'' (demo_decision APPROVE)) demo_requests"
  let ?r = "\<lparr>ar_binding = demo_request, ar_decision = Some (demo_decision APPROVE)\<rparr>"
  have "get_request demo_json ''req'' ?rows = (Inr ?r, ?rows)" by code_simp
  from channel_evidence_accepted [OF this, of "demo_decision APPROVE"]
  show ?thesis by (simp add: demo_request_def)
qed

end
