(* ===== verification/Conformance.thy ===== *)
theory Conformance
  imports Registry
begin

text \<open>
  The conformance check of boundary models in \<open>registry.py\<close>: the required configuration of the four
  models of a definition, and the walk over the annotations of the private snapshot model that
  finds floating-point fields. Model classes refer to each other by number and may be recursive, so the
  walk keeps the set of classes it has visited.

  Shown: the walk ends, and it finds a path exactly when some float is reachable through fields and
  type arguments, however the classes refer to each other.
\<close>

section \<open>The walk\<close>

type_synonym model_classes = "(nat \<times> model_class) list"

definition child_path :: "pystr \<Rightarrow> pystr \<Rightarrow> pystr" where
  "child_path path field_name = (if path \<noteq> '''' then path @ ''.'' @ field_name else field_name)"

lemma size_arguments: "sum_list (map (size \<circ> fst) (map (\<lambda>a. (a, p)) as)) \<le> size_list size (as :: annotation list)"
  by (induction as) simp_all

text \<open>
  The recursion of \<open>inspect\<close> as a loop over the annotations that are still to be inspected, in the order in
  which the recursive calls would take place.
\<close>

function inspect :: "model_classes \<Rightarrow> nat list \<Rightarrow> (annotation \<times> pystr) list \<Rightarrow> pystr list" where
  "inspect classes visited [] = []"
| "inspect classes visited ((AnnFloat, path) # todo) = path # inspect classes visited todo"
| "inspect classes visited ((AnnFloatLiteral, path) # todo) = path # inspect classes visited todo"
| "inspect classes visited ((AnnModel c, path) # todo) =
     (if c \<in> set visited then inspect classes visited todo
      else case map_of classes c of
        None \<Rightarrow> inspect classes visited todo
      | Some m \<Rightarrow>
          inspect classes (c # visited)
            (map (\<lambda>(field_name, a). (a, child_path path field_name)) (mc_fields m) @ todo))"
| "inspect classes visited ((AnnGeneric arguments, path) # todo) =
     inspect classes visited (map (\<lambda>a. (a, path)) arguments @ todo)"
| "inspect classes visited ((AnnOther, path) # todo) = inspect classes visited todo"
  by pat_completeness auto

termination
proof (relation "measures
    [\<lambda>(classes, visited, todo). card (fst ` set classes - set visited),
     \<lambda>(classes, visited, todo). sum_list (map (size \<circ> fst) todo),
     \<lambda>(classes, visited, todo). length todo]")
  fix classes :: model_classes and visited c path todo m
  assume "c \<notin> set visited" and "map_of classes c = Some m"
  then have "c \<in> fst ` set classes - set visited" by (force dest: map_of_SomeD)
  then have "card (fst ` set classes - set (c # visited)) < card (fst ` set classes - set visited)"
    by (intro psubset_card_mono) auto
  then show "((classes, c # visited,
        map (\<lambda>(field_name, a). (a, child_path path field_name)) (mc_fields m) @ todo),
      (classes, visited, (AnnModel c, path) # todo))
      \<in> measures [\<lambda>(classes, visited, todo). card (fst ` set classes - set visited),
           \<lambda>(classes, visited, todo). sum_list (map (size \<circ> fst) todo),
           \<lambda>(classes, visited, todo). length todo]"
    by simp
next
  fix classes :: model_classes and visited arguments path todo
  show "((classes, visited, map (\<lambda>a. (a, path)) arguments @ todo),
      (classes, visited, (AnnGeneric arguments, path) # todo))
      \<in> measures [\<lambda>(classes, visited, todo). card (fst ` set classes - set visited),
           \<lambda>(classes, visited, todo). sum_list (map (size \<circ> fst) todo),
           \<lambda>(classes, visited, todo). length todo]"
    using size_arguments [of path arguments] by simp
qed simp_all

definition floating_point_field_paths :: "model_classes \<Rightarrow> nat \<Rightarrow> pystr list" where
  "floating_point_field_paths classes model = sort (remdups (inspect classes [] [(AnnModel model, '''')]))"

section \<open>The check\<close>

definition check_model_config :: "model_classes \<Rightarrow> nat \<Rightarrow> unit outcome" where
  "check_model_config classes model =
     (case map_of classes model of
        None \<Rightarrow> fails DefinitionConformanceError
      | Some m \<Rightarrow> assert_boundary_model_config m)"

definition assert_boundary_models_conform ::
  "model_classes \<Rightarrow> nat \<Rightarrow> nat \<Rightarrow> nat \<Rightarrow> nat \<Rightarrow> unit outcome" where
  "assert_boundary_models_conform classes command_model private_snapshot_model display_preview_model
       result_model =
     result_bind (check_model_config classes command_model) (\<lambda>_.
     result_bind (check_model_config classes private_snapshot_model) (\<lambda>_.
     result_bind (check_model_config classes display_preview_model) (\<lambda>_.
     result_bind (check_model_config classes result_model) (\<lambda>_.
     if floating_point_field_paths classes private_snapshot_model \<noteq> []
     then fails DefinitionConformanceError
     else Inr ()))))"

section \<open>Reachable annotations\<close>

inductive refers_to :: "model_classes \<Rightarrow> nat set \<Rightarrow> annotation \<Rightarrow> annotation \<Rightarrow> bool" for classes avoided where
  Field: "map_of classes c = Some m \<Longrightarrow> c \<notin> avoided \<Longrightarrow> (field_name, a) \<in> set (mc_fields m)
    \<Longrightarrow> refers_to classes avoided (AnnModel c) a"
| Argument: "a \<in> set arguments \<Longrightarrow> refers_to classes avoided (AnnGeneric arguments) a"

inductive_simps refers_to_simps [simp]:
  "refers_to classes avoided AnnFloat a"
  "refers_to classes avoided AnnFloatLiteral a"
  "refers_to classes avoided AnnOther a"
  "refers_to classes avoided (AnnModel c) a"
  "refers_to classes avoided (AnnGeneric arguments) a"

abbreviation reaches :: "model_classes \<Rightarrow> nat set \<Rightarrow> annotation \<Rightarrow> annotation \<Rightarrow> bool" where
  "reaches classes avoided \<equiv> (refers_to classes avoided)\<^sup>*\<^sup>*"

definition is_float :: "annotation \<Rightarrow> bool" where
  "is_float a \<longleftrightarrow> a \<in> {AnnFloat, AnnFloatLiteral}"

definition float_within :: "model_classes \<Rightarrow> nat set \<Rightarrow> annotation \<Rightarrow> bool" where
  "float_within classes avoided a \<longleftrightarrow> (\<exists>x. reaches classes avoided a x \<and> is_float x)"

lemma float_within_step:
  "float_within classes avoided a \<longleftrightarrow>
     is_float a \<or> (\<exists>b. refers_to classes avoided a b \<and> float_within classes avoided b)"
proof
  assume "float_within classes avoided a"
  then obtain x where "reaches classes avoided a x" "is_float x" by (auto simp: float_within_def)
  then show "is_float a \<or> (\<exists>b. refers_to classes avoided a b \<and> float_within classes avoided b)"
    by (cases rule: converse_rtranclpE) (auto simp: float_within_def)
next
  assume "is_float a \<or> (\<exists>b. refers_to classes avoided a b \<and> float_within classes avoided b)"
  then show "float_within classes avoided a"
    unfolding float_within_def by (auto intro: converse_rtranclp_into_rtranclp)
qed

lemma float_within_simps [simp]:
  "float_within classes avoided AnnFloat"
  "float_within classes avoided AnnFloatLiteral"
  "\<not> float_within classes avoided AnnOther"
  "float_within classes avoided (AnnGeneric arguments)
     \<longleftrightarrow> (\<exists>a \<in> set arguments. float_within classes avoided a)"
  "float_within classes avoided (AnnModel c) \<longleftrightarrow>
     (c \<notin> avoided \<and> (\<exists>m. map_of classes c = Some m
        \<and> (\<exists>(field_name, a) \<in> set (mc_fields m). float_within classes avoided a)))"
  by (subst float_within_step; auto simp: is_float_def)+

lemma refers_to_mono: "refers_to classes A a b \<Longrightarrow> B \<subseteq> A \<Longrightarrow> refers_to classes B a b"
  by (induction rule: refers_to.induct) auto

lemma float_within_mono:
  assumes "float_within classes A a" and "B \<subseteq> A"
  shows "float_within classes B a"
proof -
  have "refers_to classes A \<le> refers_to classes B" using assms(2) by (auto intro: refers_to_mono)
  then show ?thesis using assms(1) rtranclp_mono unfolding float_within_def by blast
qed

text \<open>A way to a float either avoids a class or can be started at its last visit to that class.\<close>

lemma float_within_avoid:
  assumes "float_within classes A a"
  shows "float_within classes (insert c A) a
    \<or> c \<notin> A \<and> (\<exists>m field_name b. map_of classes c = Some m \<and> (field_name, b) \<in> set (mc_fields m)
         \<and> float_within classes (insert c A) b)"
proof -
  obtain x where "reaches classes A a x" and x: "is_float x"
    using assms unfolding float_within_def by blast
  then show ?thesis
  proof (induction rule: converse_rtranclp_induct)
    case base
    then show ?case by (auto simp: float_within_def)
  next
    case (step y z)
    from step.IH [OF x] show ?case
    proof
      assume z: "float_within classes (insert c A) z"
      from step.hyps(1) show ?thesis
      proof cases
        case (Field d m field_name)
        then show ?thesis using z by (cases "d = c") auto
      next
        case (Argument arguments)
        then show ?thesis using z by auto
      qed
    qed blast
  qed
qed

lemma float_in_fields:
  "(\<exists>(a, path) \<in> set (map (\<lambda>(field_name, a). (a, extend field_name)) fs). P a)
     \<longleftrightarrow> (\<exists>(field_name, a) \<in> set fs. P a)"
  by force

lemma inspect_finds:
  "inspect classes visited todo \<noteq> [] \<longleftrightarrow>
     (\<exists>(a, path) \<in> set todo. float_within classes (set visited) a)"
proof (induction classes visited todo rule: inspect.induct)
  case (4 classes visited c path todo)
  show ?case
  proof (cases "c \<in> set visited \<or> map_of classes c = None")
    case True
    then show ?thesis using 4(1,2) by (auto split: option.splits)
  next
    case False
    then obtain m where c: "c \<notin> set visited" and m: "map_of classes c = Some m" by auto
    let ?now = "float_within classes (set visited)" and ?then = "float_within classes (insert c (set visited))"
    have "inspect classes visited ((AnnModel c, path) # todo) \<noteq> [] \<longleftrightarrow>
        (\<exists>(field_name, a) \<in> set (mc_fields m). ?then a) \<or> (\<exists>(a, path) \<in> set todo. ?then a)"
      using c m 4(3) [OF c m] by (simp add: bex_Un case_prod_unfold)
    also have "\<dots> \<longleftrightarrow> (\<exists>(field_name, a) \<in> set (mc_fields m). ?now a) \<or> (\<exists>(a, path) \<in> set todo. ?now a)"
    proof -
      have "?now a" if "?then a" for a using float_within_mono [OF that] by blast
      moreover have "?then a \<or> (\<exists>(field_name, b) \<in> set (mc_fields m). ?then b)" if "?now a" for a
        using float_within_avoid [OF that, of c] m by auto
      ultimately show ?thesis by fast
    qed
    also have "\<dots> \<longleftrightarrow> (\<exists>(a, path) \<in> set ((AnnModel c, path) # todo). ?now a)"
      using c m by auto
    finally show ?thesis .
  qed
qed auto

section \<open>Properties\<close>

text \<open>
  The conformance walk finds exactly the models with floating-point values. For any classes, however
  they refer to each other, the reported paths are empty exactly when no \<open>float\<close> annotation and no float literal is
  reachable from the model through its fields and through type arguments; and the reported paths
  are sorted without repetition.
\<close>

lemma float_paths_complete:
  "(floating_point_field_paths classes model = [] \<longleftrightarrow>
      (\<nexists>x. reaches classes {} (AnnModel model) x \<and> is_float x))
   \<and> sorted (floating_point_field_paths classes model)
   \<and> distinct (floating_point_field_paths classes model)"
proof -
  have "floating_point_field_paths classes model = [] \<longleftrightarrow> inspect classes [] [(AnnModel model, '''')] = []"
    by (metis floating_point_field_paths_def length_0_conv length_sort remdups_eq_nil_iff)
  moreover have "inspect classes [] [(AnnModel model, '''')] \<noteq> [] \<longleftrightarrow>
      float_within classes {} (AnnModel model)"
    using inspect_finds [of classes "[]" "[(AnnModel model, '''')]"]
    by (simp del: inspect.simps float_within_simps)
  ultimately show ?thesis
    by (simp add: float_within_def floating_point_field_paths_def del: inspect.simps) blast
qed

lemma float_paths_example:
  "floating_point_field_paths
     [(1, \<lparr>mc_extra_forbid = True, mc_strict = True, mc_frozen = True,
           mc_fields = [(''lines'', AnnGeneric [AnnModel 2]), (''parent'', AnnGeneric [AnnModel 1, AnnOther])]\<rparr>),
      (2, \<lparr>mc_extra_forbid = True, mc_strict = True, mc_frozen = True,
           mc_fields = [(''order'', AnnModel 1), (''rate'', AnnGeneric [AnnFloat, AnnOther])]\<rparr>)] 1
   = [''lines.rate'']"
  by code_simp

section \<open>Constructing a definition\<close>

text \<open>\<open>ActionDefinition.__post_init__\<close>; \<open>safe\<close> is the validation of a \<open>SafeReference\<close>.\<close>

definition definition_post_init ::
  "model_classes \<Rightarrow> (pystr \<Rightarrow> bool) \<Rightarrow> action_definition \<Rightarrow> action_definition outcome" where
  "definition_post_init classes safe d =
     (if ad_proposal_ttl d \<le> 0 then fails ValueError
      else if ad_verification_delay d < 0 then fails ValueError
      else if ad_max_verification_attempts d \<le> 0 then fails ValueError
      else if ad_verification_lease_duration d \<le> 0 then fails ValueError
      else if \<not> safe (ad_authority_audience d) then fails ValidationError
      else if \<not> safe (ad_authority_channel_assurance d) then fails ValidationError
      else
      result_bind
        (assert_boundary_models_conform classes (ad_command_model d) (ad_private_snapshot_model d)
           (ad_display_preview_model d) (ad_result_model d)) (\<lambda>_. Inr d))"

lemma definition_post_init_Inr:
  "definition_post_init classes safe d = Inr d' \<Longrightarrow> d' = d"
  by (auto simp: definition_post_init_def result_bind_eq_Inr split: if_splits)

end
