(* ===== verification/Application.thy ===== *)
theory Application
  imports Conformance Recovery Attribution Scenario
begin

text \<open>
  The authoring layer \<open>experimental/application.py\<close>: the catalogue of registered actions, and the bindings that exist
  only inside the \<open>with\<close> block of \<open>ActionApplication.bind\<close>.

  A recipe is host code: it answers the components for the dependencies it is given, \<open>None\<close> where it
  returns something that is no \<open>ActionComponents\<close>. The object identity of an application is its token. A
  \<open>BoundAction\<close> is a reference to a \<open>_BindingState\<close>; these states live in the world, so that a released one stays
  released for every reference to it.

  Shown: a handle always resolves to what was registered with it, and a bound action that is used
  after its block has ended does nothing.
\<close>

section \<open>Specifications and components\<close>

record action_spec =
  asp_action_type :: action_type
  asp_command_model :: nat
  asp_private_snapshot_model :: nat
  asp_display_preview_model :: nat
  asp_result_model :: nat
  asp_proposal_ttl :: duration
  asp_executor_identity :: governed_executor
  asp_target_identity :: authoritative_target
  asp_authority_audience :: pystr
  asp_authority_channel_assurance :: pystr
  asp_verification_delay :: duration
  asp_max_verification_attempts :: int
  asp_effect_kind :: effect_kind
  asp_allow_resend_after_final_absence :: bool
  asp_verification_lease_duration :: duration

text \<open>The field constraints of \<open>ActionSpec\<close> and its translation of every failure.\<close>

definition validated_spec :: "model_classes \<Rightarrow> (pystr \<Rightarrow> bool) \<Rightarrow> action_spec \<Rightarrow> action_spec outcome" where
  "validated_spec classes safe s =
     (if asp_proposal_ttl s > 0 \<and> asp_verification_delay s \<ge> 0 \<and> asp_max_verification_attempts s > 0
         \<and> asp_verification_lease_duration s > 0
         \<and> safe (asp_authority_audience s) \<and> safe (asp_authority_channel_assurance s)
         \<and> valid_action_type (asp_action_type s)
         \<and> assert_boundary_models_conform classes (asp_command_model s) (asp_private_snapshot_model s)
             (asp_display_preview_model s) (asp_result_model s) = Inr ()
      then Inr s
      else fails (ActionApplicationError InvalidSpecification))"

record authorization_port =
  az_can_prepare :: "nat \<Rightarrow> host_model \<Rightarrow> preparation_context \<Rightarrow> authorization_result outcome"
  az_can_decide :: "nat \<Rightarrow> authority_evidence \<Rightarrow> decision_context \<Rightarrow> authorization_result outcome"
  az_can_execute :: "nat \<Rightarrow> host_model \<Rightarrow> execution_context \<Rightarrow> authorization_result outcome"
  az_can_read :: "nat \<Rightarrow> pystr \<Rightarrow> read_context \<Rightarrow> bool outcome"

record 's action_components =
  co_preparation ::
    "(nat \<Rightarrow> host_model \<Rightarrow> preparation_context \<Rightarrow> prepared_action outcome) option"
  co_authorization :: "authorization_port option"
  co_authority_evaluator ::
    "(nat \<Rightarrow> authority_binding \<Rightarrow> authority_evidence list \<Rightarrow> authority_evaluation outcome) option"
  co_state_resolver :: "(nat \<Rightarrow> host_model \<Rightarrow> execution_context \<Rightarrow> resolved_state outcome) option"
  co_executor :: "(nat \<Rightarrow> host_model \<Rightarrow> execution_context \<Rightarrow> pystr \<Rightarrow> execution_result outcome) option"
  co_verifier :: "(nat \<Rightarrow> execution_context \<Rightarrow> verification_result outcome) option"
  co_commitment_provider :: "commitment_provider_port option"
  co_protection_codec :: "protection_codec_port option"
  co_retention :: "(nat \<Rightarrow> pystr \<Rightarrow> read_context \<Rightarrow> bool outcome) option"
  co_store :: "'s action_store option"
  co_retention_store :: "'s Store_Contract.retention_store option"
  co_clock :: "(nat \<Rightarrow> instant) option"
  co_identifiers :: "(nat \<Rightarrow> pystr \<Rightarrow> pystr outcome) option"
  co_event_sink :: "(nat \<Rightarrow> runtime_event \<Rightarrow> unit outcome) option"
  co_runtime_revision :: "pystr option"
  co_recovery_authorization ::
    "(nat \<Rightarrow> pystr \<Rightarrow> recovery_context \<Rightarrow> authorization_result outcome) option"

text \<open>One of the \<open>_REQUIRED_COMPONENT_FIELDS\<close> is \<open>None\<close>.\<close>

definition component_missing :: "'s action_components \<Rightarrow> bool" where
  "component_missing c \<longleftrightarrow>
     co_preparation c = None \<or> co_authorization c = None \<or> co_authority_evaluator c = None
     \<or> co_state_resolver c = None \<or> co_executor c = None \<or> co_verifier c = None
     \<or> co_commitment_provider c = None \<or> co_protection_codec c = None \<or> co_retention c = None
     \<or> co_store c = None"

text \<open>
  What the process gives to every binding: pydantic's view of the model classes, the validation of
  references, the interpreter's functions, the package for the runtime revision, and the defaults of \<open>ActionRuntime\<close>
  (system clock, UUID identifiers, the silent event sink) with the environment of its world.
\<close>

record 's host_process =
  hp_classes :: model_classes
  hp_nfc :: "pystr \<Rightarrow> pystr"
  hp_parse_snapshot :: "nat \<Rightarrow> nat \<Rightarrow> bytes \<Rightarrow> host_model outcome"
  hp_attribution :: attribution_env
  hp_package_root :: path
  hp_defaults :: "'s action_runtime"

definition definition_of :: "'s host_process \<Rightarrow> action_spec \<Rightarrow> 's action_components \<Rightarrow> action_definition" where
  "definition_of p s c =
     \<lparr>ad_action_type = asp_action_type s,
      ad_command_model = asp_command_model s,
      ad_private_snapshot_model = asp_private_snapshot_model s,
      ad_display_preview_model = asp_display_preview_model s,
      ad_result_model = asp_result_model s,
      ad_preparation = the (co_preparation c),
      ad_can_prepare = az_can_prepare (the (co_authorization c)),
      ad_can_decide = az_can_decide (the (co_authorization c)),
      ad_can_execute = az_can_execute (the (co_authorization c)),
      ad_can_read = az_can_read (the (co_authorization c)),
      ad_authority_evaluator = the (co_authority_evaluator c),
      ad_state_resolver = the (co_state_resolver c),
      ad_executor = the (co_executor c),
      ad_verifier = the (co_verifier c),
      ad_commitment_provider = the (co_commitment_provider c),
      ad_protection_codec = the (co_protection_codec c),
      ad_authorize_erasure = the (co_retention c),
      ad_proposal_ttl = asp_proposal_ttl s,
      ad_executor_identity = asp_executor_identity s,
      ad_target_identity = asp_target_identity s,
      ad_authority_audience = asp_authority_audience s,
      ad_authority_channel_assurance = asp_authority_channel_assurance s,
      ad_recovery_authorization = co_recovery_authorization c,
      ad_verification_delay = asp_verification_delay s,
      ad_max_verification_attempts = asp_max_verification_attempts s,
      ad_effect_kind = asp_effect_kind s,
      ad_allow_resend_after_final_absence = asp_allow_resend_after_final_absence s,
      ad_verification_lease_duration = asp_verification_lease_duration s,
      ad_nfc = hp_nfc p,
      ad_parse_snapshot = hp_parse_snapshot p (asp_private_snapshot_model s)\<rparr>"

definition runtime_of :: "'s host_process \<Rightarrow> 's action_components \<Rightarrow> 's action_runtime outcome" where
  "runtime_of p c =
     result_bind
       (case co_runtime_revision c of
          None \<Rightarrow> resolve_runtime_revision (hp_attribution p) (hp_package_root p)
        | Some revision \<Rightarrow> validate_runtime_revision revision) (\<lambda>revision.
     Inr ((hp_defaults p)
       \<lparr>rt_store := the (co_store c),
        rt_retention_store := co_retention_store c,
        rt_clock := (case co_clock c of None \<Rightarrow> rt_clock (hp_defaults p) | Some clock \<Rightarrow> clock),
        rt_identifiers := (case co_identifiers c of
            None \<Rightarrow> rt_identifiers (hp_defaults p) | Some identifiers \<Rightarrow> identifiers),
        rt_event_sink := (case co_event_sink c of
            None \<Rightarrow> rt_event_sink (hp_defaults p) | Some sink \<Rightarrow> sink),
        rt_runtime_revision := revision\<rparr>))"

section \<open>The catalogue\<close>

type_synonym ('deps, 's) recipe = "'deps \<Rightarrow> 's action_components option outcome"

record registered_action =
  ra_action_type :: action_type
  ra_registration_id :: int
  ra_application_token :: nat

record ('deps, 's) action_application =
  aa_token :: nat
  aa_registrations :: "int \<rightharpoonup> action_spec \<times> ('deps, 's) recipe"
  aa_action_keys :: "action_key set"
  aa_next_registration_id :: int
  aa_frozen :: bool

definition new_application :: "nat \<Rightarrow> ('deps, 's) action_application" where
  "new_application token =
     \<lparr>aa_token = token, aa_registrations = Map.empty, aa_action_keys = {},
      aa_next_registration_id = 1, aa_frozen = False\<rparr>"

definition register_action ::
  "action_spec \<Rightarrow> ('deps, 's) recipe \<Rightarrow> (('deps, 's) action_application, registered_action) eff" where
  "register_action s recipe app =
     (if aa_frozen app then (fails (ActionApplicationError RegistrationFrozen), app)
      else if action_key (asp_action_type s) \<in> aa_action_keys app
      then (fails (ActionApplicationError DuplicateActionType), app)
      else
        (Inr \<lparr>ra_action_type = asp_action_type s,
              ra_registration_id = aa_next_registration_id app,
              ra_application_token = aa_token app\<rparr>,
         app\<lparr>aa_registrations := (aa_registrations app)(aa_next_registration_id app \<mapsto> (s, recipe)),
             aa_action_keys := insert (action_key (asp_action_type s)) (aa_action_keys app),
             aa_next_registration_id := aa_next_registration_id app + 1\<rparr>))"

definition freeze :: "(('deps, 's) action_application, unit) eff" where
  "freeze app = (Inr (), app\<lparr>aa_frozen := True\<rparr>)"

definition typed_registration ::
  "('deps, 's) action_application \<Rightarrow> registered_action \<Rightarrow> (action_spec \<times> ('deps, 's) recipe) outcome" where
  "typed_registration app action =
     (if ra_application_token action \<noteq> aa_token app then fails (ActionApplicationError IncompleteBinding)
      else case aa_registrations app (ra_registration_id action) of
        None \<Rightarrow> fails (ActionApplicationError IncompleteBinding)
      | Some registration \<Rightarrow> Inr registration)"

record action_inspection =
  ai_action_type :: action_type
  ai_boundary_roles :: "pystr list"
  ai_proposal_ttl :: duration
  ai_verification_delay :: duration
  ai_max_verification_attempts :: int
  ai_effect_kind :: effect_kind
  ai_allow_resend_after_final_absence :: bool
  ai_verification_lease_duration :: duration
  ai_issue_codes :: "pystr list"
  ai_catalog_frozen :: bool

fun issue_value :: "application_issue \<Rightarrow> pystr" where
  "issue_value InvalidSpecification = ''invalid_specification''"
| "issue_value DuplicateActionType = ''duplicate_action_type''"
| "issue_value RegistrationFrozen = ''registration_frozen''"
| "issue_value IncompleteBinding = ''incomplete_binding''"
| "issue_value BindingInactive = ''binding_inactive''"
| "issue_value DefinitionNonconforming = ''definition_nonconforming''"
| "issue_value PolicyUnavailable = ''policy_unavailable''"

definition inspect_action ::
  "('deps, 's) action_application \<Rightarrow> registered_action \<Rightarrow> action_inspection outcome" where
  "inspect_action app action =
     result_bind (typed_registration app action) (\<lambda>(s, _).
     Inr \<lparr>ai_action_type = asp_action_type s,
          ai_boundary_roles = [''command'', ''private_snapshot'', ''display_preview'', ''result''],
          ai_proposal_ttl = asp_proposal_ttl s,
          ai_verification_delay = asp_verification_delay s,
          ai_max_verification_attempts = asp_max_verification_attempts s,
          ai_effect_kind = asp_effect_kind s,
          ai_allow_resend_after_final_absence = asp_allow_resend_after_final_absence s,
          ai_verification_lease_duration = asp_verification_lease_duration s,
          ai_issue_codes = map issue_value
            [InvalidSpecification, DuplicateActionType, RegistrationFrozen, IncompleteBinding,
             BindingInactive, DefinitionNonconforming, PolicyUnavailable],
          ai_catalog_frozen = aa_frozen app\<rparr>)"

definition command_model_for ::
  "('deps, 's) action_application \<Rightarrow> registered_action \<Rightarrow> nat outcome" where
  "command_model_for app action =
     (if \<not> aa_frozen app then fails (ActionApplicationError IncompleteBinding)
      else result_bind (typed_registration app action) (\<lambda>(s, _). Inr (asp_command_model s)))"

section \<open>Bindings\<close>

record 's bound_world =
  bw_world :: "'s world"
  bw_bindings :: "(action_definition \<times> 's action_runtime) option list"

definition in_runtime :: "('s world, 'a) eff \<Rightarrow> ('s bound_world, 'a) eff" where
  "in_runtime m s = (case m (bw_world s) of (r, w) \<Rightarrow> (r, s\<lparr>bw_world := w\<rparr>))"

definition new_binding :: "action_definition \<Rightarrow> 's action_runtime \<Rightarrow> ('s bound_world, nat) eff" where
  "new_binding d rt s =
     (Inr (length (bw_bindings s)), s\<lparr>bw_bindings := bw_bindings s @ [Some (d, rt)]\<rparr>)"

definition parts :: "nat \<Rightarrow> ('s bound_world, action_definition \<times> 's action_runtime) eff" where
  "parts b s =
     (if b < length (bw_bindings s)
      then case bw_bindings s ! b of
        None \<Rightarrow> (fails (ActionApplicationError BindingInactive), s)
      | Some (d, rt) \<Rightarrow> (Inr (d, rt), s)
      else (fails (ActionApplicationError BindingInactive), s))"

definition release :: "nat \<Rightarrow> 's bound_world \<Rightarrow> 's bound_world" where
  "release b s = s\<lparr>bw_bindings := (bw_bindings s)[b := None]\<rparr>"

definition finally_release :: "nat \<Rightarrow> ('s bound_world, 'a) eff \<Rightarrow> ('s bound_world, 'a) eff" where
  "finally_release b m s = (case m s of (r, t) \<Rightarrow> (r, release b t))"

definition bound_block ::
  "action_definition \<Rightarrow> 's action_runtime \<Rightarrow> (nat \<Rightarrow> ('s bound_world, 'a) eff) \<Rightarrow> ('s bound_world, 'a) eff" where
  "bound_block d rt body = bind (new_binding d rt) (\<lambda>b. finally_release b (body b))"

text \<open>The block of a \<open>with application.bind(action, dependencies=\<dots>) as bound\<close> statement is the argument \<open>body\<close>.\<close>

definition bind_action ::
  "'s host_process \<Rightarrow> ('deps, 's) action_application \<Rightarrow> registered_action \<Rightarrow> 'deps
     \<Rightarrow> (nat \<Rightarrow> ('s bound_world, 'a) eff) \<Rightarrow> ('s bound_world, 'a) eff" where
  "bind_action p app action dependencies body =
     (if \<not> aa_frozen app then raise (ActionApplicationError IncompleteBinding)
      else
      bind (lift (typed_registration app action)) (\<lambda>(s, recipe).
      bind (lift (recipe dependencies)) (\<lambda>components. case components of
        None \<Rightarrow> raise (ActionApplicationError IncompleteBinding)
      | Some c \<Rightarrow>
      if component_missing c then raise (ActionApplicationError IncompleteBinding)
      else
      bind (lift (definition_post_init (hp_classes p) (rt_safe_reference (hp_defaults p))
                    (definition_of p s c))) (\<lambda>d.
      bind (lift (runtime_of p c)) (\<lambda>rt.
      bound_block d rt body)))))"

definition bound_prepare ::
  "nat \<Rightarrow> pystr \<Rightarrow> host_model \<Rightarrow> requesting_principal \<Rightarrow> proposing_agent option \<Rightarrow> pystr option
     \<Rightarrow> ('s bound_world, action_operation_result) eff" where
  "bound_prepare b tenant command requester agent reference =
     bind (parts b) (\<lambda>(d, rt). in_runtime (prepare rt d tenant command requester agent reference))"

definition bound_record_authority ::
  "nat \<Rightarrow> authority_evidence \<Rightarrow> confirming_authority \<Rightarrow> pystr option
     \<Rightarrow> ('s bound_world, action_operation_result) eff" where
  "bound_record_authority b evidence authority reference =
     bind (parts b) (\<lambda>(d, rt). in_runtime (record_authority rt d evidence authority reference))"

definition bound_expire_due :: "nat \<Rightarrow> pystr \<Rightarrow> pystr \<Rightarrow> ('s bound_world, action_operation_result) eff" where
  "bound_expire_due b tenant reference =
     bind (parts b) (\<lambda>(d, rt). in_runtime (expire_due rt d tenant reference))"

definition bound_execute :: "nat \<Rightarrow> pystr \<Rightarrow> pystr \<Rightarrow> ('s bound_world, action_operation_result) eff" where
  "bound_execute b tenant reference =
     bind (parts b) (\<lambda>(d, rt). in_runtime (execute rt d tenant reference))"

definition bound_reconcile :: "nat \<Rightarrow> pystr \<Rightarrow> pystr \<Rightarrow> ('s bound_world, action_operation_result) eff" where
  "bound_reconcile b tenant reference =
     bind (parts b) (\<lambda>(d, rt). in_runtime (reconcile rt d tenant reference))"

definition bound_resume_verification ::
  "nat \<Rightarrow> pystr \<Rightarrow> pystr \<Rightarrow> int \<Rightarrow> recovery_operator \<Rightarrow> pystr
     \<Rightarrow> ('s bound_world, action_operation_result) eff" where
  "bound_resume_verification b tenant reference revision operator intervention =
     bind (parts b) (\<lambda>(d, rt).
       in_runtime (resume_verification rt d tenant reference revision operator intervention))"

definition bound_read :: "nat \<Rightarrow> pystr \<Rightarrow> read_context \<Rightarrow> ('s bound_world, proposal_view) eff" where
  "bound_read b reference context =
     bind (parts b) (\<lambda>(d, rt). in_runtime (read rt d reference context))"

definition bound_read_recovery ::
  "nat \<Rightarrow> pystr \<Rightarrow> read_context \<Rightarrow> ('s bound_world, action_recovery_view) eff" where
  "bound_read_recovery b reference context =
     bind (parts b) (\<lambda>(d, rt). in_runtime (read_recovery rt d reference context))"

definition bound_export_evidence ::
  "(bytes \<Rightarrow> pystr) \<Rightarrow> (action_evidence_bundle \<Rightarrow> json_object) \<Rightarrow> nat \<Rightarrow> pystr \<Rightarrow> read_context
     \<Rightarrow> ('s bound_world, action_evidence_bundle) eff" where
  "bound_export_evidence sha256 dump b reference context =
     bind (parts b) (\<lambda>(d, rt). in_runtime (export_evidence sha256 dump rt d reference context))"

definition bound_observation_context ::
  "nat \<Rightarrow> pystr \<Rightarrow> read_context \<Rightarrow> ('s bound_world, execution_context) eff" where
  "bound_observation_context b reference context =
     bind (parts b) (\<lambda>(d, rt). in_runtime (observation_context rt d reference context))"

definition bound_erase :: "nat \<Rightarrow> pystr \<Rightarrow> read_context \<Rightarrow> ('s bound_world, action_operation_result) eff" where
  "bound_erase b reference context =
     bind (parts b) (\<lambda>(d, rt). in_runtime (erase rt d reference context))"

lemmas bound_operation_defs =
  bound_prepare_def bound_record_authority_def bound_expire_due_def bound_execute_def
  bound_reconcile_def bound_resume_verification_def bound_read_def bound_read_recovery_def
  bound_export_evidence_def bound_observation_context_def bound_erase_def

section \<open>Scoping\<close>

text \<open>
  A computation is scoped when it leaves the bindings that existed before as they were and every
  binding it made released. Whatever is built from the operations and from nested \<open>bind\<close> blocks is scoped.
\<close>

definition scoped :: "('s bound_world, 'a) eff \<Rightarrow> bool" where
  "scoped m \<longleftrightarrow>
     (\<forall>s. \<exists>k. bw_bindings (snd (m s)) = bw_bindings s @ replicate k None)"

lemma scopedI: "(\<And>s. \<exists>k. bw_bindings (snd (m s)) = bw_bindings s @ replicate k None) \<Longrightarrow> scoped m"
  by (simp add: scoped_def)

lemma scopedD: "scoped m \<Longrightarrow> \<exists>k. bw_bindings (snd (m s)) = bw_bindings s @ replicate k None"
  by (simp add: scoped_def)

lemma scoped_same: "(\<And>s. bw_bindings (snd (m s)) = bw_bindings s) \<Longrightarrow> scoped m"
  by (auto simp: scoped_def intro: exI [of _ 0])

lemma scoped_primitives [simp, intro]:
  "scoped (return a)" "scoped (throw r)" "scoped (raise e)" "scoped (lift q)"
  "scoped (in_runtime n)" "scoped (parts b)"
  by (rule scoped_same; simp add: return_def throw_def raise_def lift_def in_runtime_def parts_def
      split: prod.splits option.splits)+

lemma scoped_bind [intro]:
  assumes "scoped m" and "\<And>a. scoped (f a)"
  shows "scoped (bind m f)"
proof (rule scopedI)
  fix s
  obtain r t where m: "m s = (r, t)" by (cases "m s")
  then obtain k where k: "bw_bindings t = bw_bindings s @ replicate k None"
    using assms(1) by (fastforce simp: scoped_def dest: spec [of _ s])
  show "\<exists>k. bw_bindings (snd (bind m f s)) = bw_bindings s @ replicate k None"
  proof (cases r)
    case (Inr a)
    obtain l where "bw_bindings (snd (f a t)) = bw_bindings t @ replicate l None"
      using assms(2) by (auto simp: scoped_def)
    then show ?thesis using Inr m k by (auto simp: bind_def replicate_add [symmetric])
  qed (use m k in \<open>auto simp: bind_def\<close>)
qed

lemma scoped_cases [intro]:
  "(c \<Longrightarrow> scoped m) \<Longrightarrow> (\<not> c \<Longrightarrow> scoped n) \<Longrightarrow> scoped (if c then m else n)"
  "scoped m \<Longrightarrow> (\<And>a. scoped (f a)) \<Longrightarrow> scoped (case x of None \<Rightarrow> m | Some a \<Rightarrow> f a)"
  "(\<And>a b. scoped (g a b)) \<Longrightarrow> scoped (case y of (a, b) \<Rightarrow> g a b)"
  by (auto split: option.splits prod.splits)

lemma scoped_attempt [intro]: "scoped m \<Longrightarrow> scoped (attempt m)"
  by (auto simp: scoped_def attempt_def split: prod.splits) (metis snd_conv)

lemma scoped_operations [intro]:
  "scoped (bound_prepare b tenant command requester agent reference')"
  "scoped (bound_record_authority b evidence authority reference')"
  "scoped (bound_expire_due b tenant reference)"
  "scoped (bound_execute b tenant reference)"
  "scoped (bound_reconcile b tenant reference)"
  "scoped (bound_resume_verification b tenant reference revision operator intervention)"
  "scoped (bound_read b reference context)"
  "scoped (bound_read_recovery b reference context)"
  "scoped (bound_export_evidence sha256 dump b reference context)"
  "scoped (bound_observation_context b reference context)"
  "scoped (bound_erase b reference context)"
  unfolding bound_operation_defs by (auto split: prod.splits)

lemma block_bindings:
  assumes "scoped (body (length (bw_bindings s)))"
  shows "\<exists>k. bw_bindings (snd (bound_block d rt body s)) = bw_bindings s @ replicate (Suc k) None"
proof -
  let ?b = "length (bw_bindings s)" and ?s = "s\<lparr>bw_bindings := bw_bindings s @ [Some (d, rt)]\<rparr>"
  obtain k where "bw_bindings (snd (body ?b ?s)) = bw_bindings ?s @ replicate k None"
    using scopedD [OF assms] by blast
  then have "(bw_bindings (snd (body ?b ?s)))[?b := None] = bw_bindings s @ replicate (Suc k) None"
    by simp
  then show ?thesis
    by (auto simp: bound_block_def bind_def new_binding_def finally_release_def release_def
        split: prod.splits intro!: exI [of _ k])
qed

lemma scoped_bind_action [intro]:
  assumes "\<And>b. scoped (body b)"
  shows "scoped (bind_action p app action dependencies body)"
proof -
  have "scoped (bound_block d rt body)" for d rt
    by (rule scopedI) (use block_bindings [of body] assms in blast)
  then show ?thesis
    unfolding bind_action_def by (intro scoped_bind scoped_cases scoped_primitives)
qed

lemma released_parts:
  assumes "\<And>b. scoped (body b)" and "length (bw_bindings s) \<le> b"
    and "t = snd (bind_action p app action dependencies body s)"
  shows "parts b t = (fails (ActionApplicationError BindingInactive), t)"
proof -
  obtain k where "bw_bindings t = bw_bindings s @ replicate k None"
    using scopedD [OF scoped_bind_action [of body p app action dependencies], of s] assms by blast
  then show ?thesis
    using assms(2) by (auto simp: parts_def nth_append split: option.splits)
qed

section \<open>The catalogue over time\<close>

inductive application_step ::
  "('deps, 's) action_application \<Rightarrow> ('deps, 's) action_application \<Rightarrow> bool" where
  Registered: "application_step app (snd (register_action s recipe app))"
| Frozen: "application_step app (snd (freeze app))"

abbreviation application_path ::
  "('deps, 's) action_application \<Rightarrow> ('deps, 's) action_application \<Rightarrow> bool" where
  "application_path \<equiv> application_step\<^sup>*\<^sup>*"

definition catalogue_ok :: "('deps, 's) action_application \<Rightarrow> bool" where
  "catalogue_ok app \<longleftrightarrow>
     (\<forall>i \<in> dom (aa_registrations app). i < aa_next_registration_id app)
     \<and> aa_action_keys app
        = (\<lambda>(s, _). action_key (asp_action_type s)) ` ran (aa_registrations app)
     \<and> (\<forall>i j s r s' r'. aa_registrations app i = Some (s, r) \<longrightarrow> aa_registrations app j = Some (s', r')
          \<longrightarrow> action_key (asp_action_type s) = action_key (asp_action_type s') \<longrightarrow> i = j)"

definition catalogue_kept :: "('deps, 's) action_application \<Rightarrow> ('deps, 's) action_application \<Rightarrow> bool" where
  "catalogue_kept app app' \<longleftrightarrow>
     aa_token app' = aa_token app
     \<and> aa_registrations app \<subseteq>\<^sub>m aa_registrations app'
     \<and> (aa_frozen app \<longrightarrow> app' = app)"

lemma catalogue_kept_trans: "catalogue_kept a b \<Longrightarrow> catalogue_kept b c \<Longrightarrow> catalogue_kept a c"
  unfolding catalogue_kept_def by (metis map_le_trans)

lemma catalogue_new [simp]: "catalogue_ok (new_application token)"
  by (simp add: catalogue_ok_def new_application_def)

lemma application_step_ok:
  assumes "application_step app app'" and "catalogue_ok app"
  shows "catalogue_ok app' \<and> catalogue_kept app app'"
  using assms(1)
proof cases
  case (Registered s recipe)
  show ?thesis
  proof (cases "aa_frozen app \<or> action_key (asp_action_type s) \<in> aa_action_keys app")
    case True
    then show ?thesis
      using Registered assms(2) by (auto simp: register_action_def catalogue_kept_def)
  next
    case False
    let ?i = "aa_next_registration_id app"
    have fresh: "aa_registrations app ?i = None"
      using assms(2) unfolding catalogue_ok_def by (metis domIff less_irrefl)
    then have ran: "ran ((aa_registrations app)(?i \<mapsto> (s, recipe)))
        = insert (s, recipe) (ran (aa_registrations app))"
      by simp
    have app': "app' = app\<lparr>aa_registrations := (aa_registrations app)(?i \<mapsto> (s, recipe)),
        aa_action_keys := insert (action_key (asp_action_type s)) (aa_action_keys app),
        aa_next_registration_id := ?i + 1\<rparr>"
      using Registered False by (simp add: register_action_def)
    note parts = assms(2) [unfolded catalogue_ok_def]
    note below = parts [THEN conjunct1] and keys = parts [THEN conjunct2, THEN conjunct1]
      and once = parts [THEN conjunct2, THEN conjunct2, rule_format]
    have less: "i < ?i" if "aa_registrations app i = Some x" for i x
      using below domI [where m = "aa_registrations app", OF that] by blast
    have old: "action_key (asp_action_type s') \<noteq> action_key (asp_action_type s)"
      if "aa_registrations app j = Some (s', r')" for j s' r'
    proof -
      have "action_key (asp_action_type s') \<in> aa_action_keys app"
        unfolding keys using ranI [where m = "aa_registrations app", OF that] by force
      then show ?thesis using False by auto
    qed
    have "catalogue_ok app'"
      unfolding catalogue_ok_def
    proof (intro conjI allI impI)
      show "\<forall>i \<in> dom (aa_registrations app'). i < aa_next_registration_id app'"
        unfolding app' by (auto dest: less)
      show "aa_action_keys app'
          = (\<lambda>(s, _). action_key (asp_action_type s)) ` ran (aa_registrations app')"
        unfolding app' by (simp add: ran keys)
      fix i j s1 r1 s2 r2
      assume "aa_registrations app' i = Some (s1, r1)" "aa_registrations app' j = Some (s2, r2)"
        and "action_key (asp_action_type s1) = action_key (asp_action_type s2)"
      then show "i = j"
        unfolding app' using old [of i s1 r1] old [of j s2 r2] once [of i s1 r1 j s2 r2]
        by (auto split: if_splits)
    qed
    then show ?thesis
      using app' False fresh by (auto simp: catalogue_kept_def map_le_def dom_def)
  qed
next
  case Frozen
  then show ?thesis using assms(2) by (simp add: freeze_def catalogue_ok_def catalogue_kept_def)
qed

lemma application_path_ok:
  assumes "application_path app app'" and "catalogue_ok app"
  shows "catalogue_ok app' \<and> catalogue_kept app app'"
  using assms(1)
proof (induction rule: rtranclp_induct)
  case base
  then show ?case using assms(2) by (simp add: catalogue_kept_def)
next
  case (step y z)
  then show ?case using application_step_ok catalogue_kept_trans by blast
qed

section \<open>Properties\<close>

text \<open>
  A bound action is dead after its block. Whatever the body of a \<open>with application.bind(\<dots>)\<close> block does with
  bound actions, nested blocks included, and however it ends, every operation on a bound action of
  that block that is called afterwards raises \<open>BINDING_INACTIVE\<close> and touches neither the store, nor
  the host, nor any other binding.
\<close>

lemma released_binding_inert:
  assumes "\<And>b. scoped (body b)" and "length (bw_bindings s) \<le> b"
    and "t = snd (bind_action p app action dependencies body s)"
  shows "bound_prepare b tenant command requester agent fresh t = (fails (ActionApplicationError BindingInactive), t)
    \<and> bound_record_authority b evidence authority fresh t = (fails (ActionApplicationError BindingInactive), t)
    \<and> bound_expire_due b tenant reference t = (fails (ActionApplicationError BindingInactive), t)
    \<and> bound_execute b tenant reference t = (fails (ActionApplicationError BindingInactive), t)
    \<and> bound_reconcile b tenant reference t = (fails (ActionApplicationError BindingInactive), t)
    \<and> bound_resume_verification b tenant reference revision operator intervention t
        = (fails (ActionApplicationError BindingInactive), t)
    \<and> bound_read b reference context t = (fails (ActionApplicationError BindingInactive), t)
    \<and> bound_read_recovery b reference context t = (fails (ActionApplicationError BindingInactive), t)
    \<and> bound_export_evidence sha256 dump b reference context t
        = (fails (ActionApplicationError BindingInactive), t)
    \<and> bound_observation_context b reference context t = (fails (ActionApplicationError BindingInactive), t)
    \<and> bound_erase b reference context t = (fails (ActionApplicationError BindingInactive), t)"
  using released_parts [OF assms]
  unfolding bound_operation_defs by (simp add: bind_def fails_def)

text \<open>
  A handle always means what was registered with it. In every application that registrations and
  freezing reach, the handle of a successful registration resolves, then and for ever, to exactly its
  specification and recipe, is unknown to every other application, and no second registration of its action type
  succeeds; a frozen catalogue never changes again.
\<close>

lemma handles_resolve:
  assumes "application_path (new_application token) app"
    and "register_action s recipe app = (Inr h, app')" and "application_path app' later"
    and "aa_token other \<noteq> token" and "asp_action_type again = asp_action_type s"
  shows "typed_registration later h = Inr (s, recipe)
    \<and> typed_registration other h = fails (ActionApplicationError IncompleteBinding)
    \<and> fst (register_action again recipe' later)
        = fails (ActionApplicationError (if aa_frozen later then RegistrationFrozen else DuplicateActionType))
    \<and> (aa_frozen later \<longrightarrow> snd (register_action again recipe' later) = later)"
proof -
  have app: "catalogue_ok app" "aa_token app = token"
    using application_path_ok [OF assms(1) catalogue_new]
    by (simp_all add: catalogue_kept_def) (simp add: new_application_def)
  have "application_step app app'" using application_step.Registered [of app s recipe] assms(2) by simp
  then have app': "catalogue_ok app'" using application_step_ok app(1) by blast
  have later: "catalogue_ok later" "catalogue_kept app' later"
    using application_path_ok [OF assms(3) app'] by simp_all
  have h: "h = \<lparr>ra_action_type = asp_action_type s,
      ra_registration_id = aa_next_registration_id app, ra_application_token = token\<rparr>"
    and at: "aa_registrations app' (aa_next_registration_id app) = Some (s, recipe)"
    and token: "aa_token app' = token"
    using assms(2) app(2) by (auto simp: register_action_def split: if_splits)
  have found: "aa_registrations later (aa_next_registration_id app) = Some (s, recipe)"
    using later(2) at by (auto simp: catalogue_kept_def map_le_def dom_def)
  then have "action_key (asp_action_type s) \<in> aa_action_keys later"
    using later(1) by (force simp: catalogue_ok_def ran_def)
  then show ?thesis
    using found later(2) token assms(4,5)
    by (simp add: h typed_registration_def register_action_def catalogue_kept_def)
qed

section \<open>A concrete application\<close>

definition demo_spec :: action_spec where
  "demo_spec =
     \<lparr>asp_action_type = demo_action_type, asp_command_model = 1, asp_private_snapshot_model = 2,
      asp_display_preview_model = 3, asp_result_model = 4, asp_proposal_ttl = 1000,
      asp_executor_identity = GovernedExecutor ''executor'',
      asp_target_identity = AuthoritativeTarget ''target'', asp_authority_audience = ''shop'',
      asp_authority_channel_assurance = ''signed'', asp_verification_delay = 0,
      asp_max_verification_attempts = 3, asp_effect_kind = Single,
      asp_allow_resend_after_final_absence = False, asp_verification_lease_duration = 100\<rparr>"

definition demo_components :: "mem_store action_components" where
  "demo_components =
     \<lparr>co_preparation = Some (ad_preparation demo_definition),
      co_authorization = Some
        \<lparr>az_can_prepare = ad_can_prepare demo_definition, az_can_decide = ad_can_decide demo_definition,
         az_can_execute = ad_can_execute demo_definition, az_can_read = ad_can_read demo_definition\<rparr>,
      co_authority_evaluator = Some (ad_authority_evaluator demo_definition),
      co_state_resolver = Some (ad_state_resolver demo_definition),
      co_executor = Some (ad_executor demo_definition),
      co_verifier = Some (ad_verifier demo_definition),
      co_commitment_provider = Some (ad_commitment_provider demo_definition),
      co_protection_codec = Some (ad_protection_codec demo_definition),
      co_retention = Some (ad_authorize_erasure demo_definition),
      co_store = Some memory_action_store, co_retention_store = Some memory_retention_store,
      co_clock = None, co_identifiers = None, co_event_sink = None,
      co_runtime_revision = Some ''threvo-actions/1.0.0'',
      co_recovery_authorization = None\<rparr>"

definition demo_recipe :: "(unit, mem_store) recipe" where
  "demo_recipe _ = Inr (Some demo_components)"

definition demo_process :: "mem_store host_process" where
  "demo_process =
     \<lparr>hp_classes = map (\<lambda>c. (c, \<lparr>mc_extra_forbid = True, mc_strict = True, mc_frozen = True,
                                  mc_fields = [(''amount'', AnnOther)]\<rparr>)) [1, 2, 3, 4],
      hp_nfc = (\<lambda>s. s), hp_parse_snapshot = (\<lambda>_. demo_parse),
      hp_attribution = demo_attribution, hp_package_root = [''repo''], hp_defaults = demo_runtime\<rparr>"

definition demo_handle :: registered_action where
  "demo_handle = \<lparr>ra_action_type = demo_action_type, ra_registration_id = 1, ra_application_token = 7\<rparr>"

definition demo_application :: "(unit, mem_store) action_application" where
  "demo_application = snd (freeze (snd (register_action demo_spec demo_recipe (new_application 7))))"

definition demo_bound :: "mem_store bound_world" where
  "demo_bound = \<lparr>bw_world = demo_start AUTHORIZED, bw_bindings = []\<rparr>"

abbreviation demo_bound_read :: "nat \<Rightarrow> (mem_store bound_world, proposal_view) eff" where
  "demo_bound_read b \<equiv>
     bound_read b ''p'' \<lparr>rd_tenant_reference = ''t'', rd_consumer = EvidenceConsumer ''agent''\<rparr>"

lemma demo_register:
  "register_action demo_spec demo_recipe (new_application 7)
     = (Inr demo_handle, snd (register_action demo_spec demo_recipe (new_application 7)))"
  by (simp add: register_action_def new_application_def demo_handle_def demo_spec_def)

lemma released_binding_inert_witness:
  "fst (bind_action demo_process demo_application demo_handle () demo_bound_read demo_bound)
       = fst (bind (lift (Inr ())) (\<lambda>_. in_runtime (read demo_runtime demo_definition ''p''
           \<lparr>rd_tenant_reference = ''t'', rd_consumer = EvidenceConsumer ''agent''\<rparr>)) demo_bound)
   \<and> (let t = snd (bind_action demo_process demo_application demo_handle () demo_bound_read demo_bound)
      in bound_execute 0 ''t'' ''p'' t = (fails (ActionApplicationError BindingInactive), t))"
proof
  show "fst (bind_action demo_process demo_application demo_handle () demo_bound_read demo_bound)
       = fst (bind (lift (Inr ())) (\<lambda>_. in_runtime (read demo_runtime demo_definition ''p''
           \<lparr>rd_tenant_reference = ''t'', rd_consumer = EvidenceConsumer ''agent''\<rparr>)) demo_bound)"
    by code_simp
  show "let t = snd (bind_action demo_process demo_application demo_handle () demo_bound_read demo_bound)
      in bound_execute 0 ''t'' ''p'' t = (fails (ActionApplicationError BindingInactive), t)"
    using released_binding_inert [of demo_bound_read demo_bound 0 _ demo_process demo_application
        demo_handle "()", OF scoped_operations(7) _ refl]
    by (simp add: Let_def demo_bound_def)
qed

lemma handles_resolve_witness:
  "typed_registration demo_application demo_handle = Inr (demo_spec, demo_recipe)
   \<and> fst (register_action demo_spec demo_recipe demo_application)
       = fails (ActionApplicationError RegistrationFrozen)"
proof -
  let ?app = "new_application 7 :: (unit, mem_store) action_application"
  let ?other = "new_application 8 :: (unit, mem_store) action_application"
  have "application_path (snd (register_action demo_spec demo_recipe ?app)) demo_application"
    unfolding demo_application_def by (rule r_into_rtranclp, rule application_step.Frozen)
  moreover have frozen: "aa_frozen demo_application" by (simp add: demo_application_def freeze_def)
  moreover have "aa_token ?other \<noteq> 7" by (simp add: new_application_def)
  ultimately show ?thesis
    using handles_resolve [OF rtranclp.rtrancl_refl demo_register, of demo_application ?other
        demo_spec demo_recipe]
    by simp
qed

end
