(* ===== verification/Agent_Tools.thy ===== *)
theory Agent_Tools
  imports Application Safeguards
begin

text \<open>
  \<open>integrations/pydantic_ai.py\<close>: action tools for an agent. The framework decides which tool calls it marks as
  approved and carries the metadata of a suspended call; neither is trusted as authority.

  The framework is a third party: its run context gives a tool call (approved or not, metadata, arguments), and
  raising \<open>ApprovalRequired\<close> ends a call. Metadata is any value that pydantic validates to a continuation or
  not; the parse of the arguments as a command is pydantic's as well.

  Shown: whatever the framework claims, the executor is reached only through the whole list of guards of
  \<open>execute\<close> for the proposal of a matching continuation that the trusted consumer may read, and
  what a tool returns about a proposal has just been read with that consumer's permission.
\<close>

section \<open>Data\<close>

record action_agent_context =
  aac_tenant_reference :: pystr
  aac_requesting_principal :: requesting_principal
  aac_evidence_consumer :: evidence_consumer
  aac_proposing_agent :: "proposing_agent option"

datatype integration_outcome =
    BindingUnavailable
  | InvalidContinuation
  | OperationOutcomeUnknown
  | PreparationDenied
  | PreparedNotVisible

record action_tool_result =
  tr_proposal_reference :: "pystr option"
  tr_lifecycle_status :: "lifecycle_status option"
  tr_outcome :: "operation_outcome + integration_outcome"
  tr_revision :: "int option"
  tr_display_preview :: json_object
  tr_safe_result :: "json_object option"
  tr_fresh_proposal_reference :: "pystr option"

definition safe_failure :: "integration_outcome \<Rightarrow> action_tool_result" where
  "safe_failure outcome =
     \<lparr>tr_proposal_reference = None, tr_lifecycle_status = None, tr_outcome = Inr outcome,
      tr_revision = None, tr_display_preview = [], tr_safe_result = None,
      tr_fresh_proposal_reference = None\<rparr>"

definition tool_result :: "action_operation_result \<Rightarrow> action_tool_result" where
  "tool_result r =
     \<lparr>tr_proposal_reference = Some (or_proposal_reference r),
      tr_lifecycle_status = Some (or_lifecycle_status r),
      tr_outcome = Inl (or_outcome r),
      tr_revision = Some (or_revision r),
      tr_display_preview = or_display_preview r,
      tr_safe_result = or_safe_result r,
      tr_fresh_proposal_reference = or_fresh_proposal_reference r\<rparr>"

record continuation_metadata =
  cm_proposal_reference :: pystr
  cm_tool_name :: pystr
  cm_action_type :: action_type
  cm_display_preview :: json_object

text \<open>\<open>_continuation_metadata\<close>: \<open>validate\<close> is pydantic's validation, \<open>None\<close> a \<open>ValidationError\<close>.\<close>

definition continuation_of :: "('m \<Rightarrow> continuation_metadata option) \<Rightarrow> 'm \<Rightarrow> continuation_metadata option" where
  "continuation_of validate metadata = validate metadata"

section \<open>Arguments\<close>

text \<open>
  The annotations that \<open>_contains_json_float_for_decimal\<close> distinguishes: \<open>Decimal\<close>, a model class with the input
  names of its fields (validation alias, alias, name, in the order in which they are tried), a sequence or set of one
  type, a tuple with \<open>...\<close>, another tuple, a mapping, and anything else with its type arguments.
\<close>

datatype tool_annotation =
    ToolDecimal
  | ToolModel "(pystr list \<times> tool_annotation) list"
  | ToolSequence tool_annotation
  | ToolTupleOf tool_annotation
  | ToolTuple "tool_annotation list"
  | ToolMapping tool_annotation tool_annotation
  | ToolOther "tool_annotation list"

definition first_input :: "pystr list \<Rightarrow> json_object \<Rightarrow> json option" where
  "first_input names entries =
     (case find (\<lambda>name. name \<in> fst ` set entries) names of
        None \<Rightarrow> None
      | Some name \<Rightarrow> map_of entries name)"

lemma size_field: "(names, a) \<in> set model_fields \<Longrightarrow> size a < size (ToolModel model_fields)"
  by (induction model_fields) auto

lemma size_element: "a \<in> set annotations \<Longrightarrow> size a < Suc (size_list size (annotations :: tool_annotation list))"
  by (induction annotations) auto

text \<open>A JSON string is a Python sequence too, but none of its characters holds a number.\<close>

function (sequential) contains_json_float_for_decimal :: "tool_annotation \<Rightarrow> json \<Rightarrow> bool" where
  "contains_json_float_for_decimal ToolDecimal (JFloat _) = True"
| "contains_json_float_for_decimal ToolDecimal _ = False"
| "contains_json_float_for_decimal (ToolModel model_fields) (JObj entries) =
     list_ex (\<lambda>(names, annotation).
       case first_input names entries of
         None \<Rightarrow> False
       | Some v \<Rightarrow> contains_json_float_for_decimal annotation v) model_fields"
| "contains_json_float_for_decimal (ToolModel _) _ = False"
| "contains_json_float_for_decimal (ToolSequence annotation) (JList items) =
     list_ex (contains_json_float_for_decimal annotation) items"
| "contains_json_float_for_decimal (ToolSequence _) _ = False"
| "contains_json_float_for_decimal (ToolTupleOf annotation) (JList items) =
     list_ex (contains_json_float_for_decimal annotation) items"
| "contains_json_float_for_decimal (ToolTupleOf annotation) value =
     contains_json_float_for_decimal annotation value"
| "contains_json_float_for_decimal (ToolTuple annotations) (JList items) =
     list_ex (\<lambda>(a, item). contains_json_float_for_decimal a item) (zip annotations items)"
| "contains_json_float_for_decimal (ToolTuple annotations) value =
     list_ex (\<lambda>a. contains_json_float_for_decimal a value) annotations"
| "contains_json_float_for_decimal (ToolMapping key_annotation annotation) (JObj entries) =
     list_ex (\<lambda>(_, item). contains_json_float_for_decimal annotation item) entries"
| "contains_json_float_for_decimal (ToolMapping key_annotation annotation) value =
     (contains_json_float_for_decimal key_annotation value
      \<or> contains_json_float_for_decimal annotation value)"
| "contains_json_float_for_decimal (ToolOther arguments) value =
     list_ex (\<lambda>a. contains_json_float_for_decimal a value) arguments"
  by pat_completeness auto

termination
  by (relation "measure (\<lambda>(annotation, _). size annotation)")
    (auto dest: size_field size_element set_zip_leftD)

lemma string_holds_no_float: "\<not> contains_json_float_for_decimal annotation (JStr s)"
  by (induction annotation "JStr s" rule: contains_json_float_for_decimal.induct)
    (auto simp: list_ex_iff)

section \<open>Operations behind a tool\<close>

record 't action_operations =
  op_prepare :: "pystr \<Rightarrow> host_model \<Rightarrow> requesting_principal \<Rightarrow> proposing_agent option
    \<Rightarrow> ('t, action_operation_result) eff"
  op_execute :: "pystr \<Rightarrow> pystr \<Rightarrow> ('t, action_operation_result) eff"
  op_reconcile :: "pystr \<Rightarrow> pystr \<Rightarrow> ('t, action_operation_result) eff"
  op_read :: "pystr \<Rightarrow> read_context \<Rightarrow> ('t, proposal_view) eff"

definition fixed_operations ::
  "'s action_runtime \<Rightarrow> action_definition \<Rightarrow> 's world action_operations" where
  "fixed_operations rt d =
     \<lparr>op_prepare = (\<lambda>tenant command requester agent. prepare rt d tenant command requester agent None),
      op_execute = (\<lambda>tenant reference. execute rt d tenant reference),
      op_reconcile = (\<lambda>tenant reference. reconcile rt d tenant reference),
      op_read = (\<lambda>reference context. read rt d reference context)\<rparr>"

definition bound_operations :: "nat \<Rightarrow> 's bound_world action_operations" where
  "bound_operations b =
     \<lparr>op_prepare = (\<lambda>tenant command requester agent. bound_prepare b tenant command requester agent None),
      op_execute = bound_execute b,
      op_reconcile = bound_reconcile b,
      op_read = bound_read b\<rparr>"

section \<open>Invoking a tool\<close>

datatype invocation = ToolResult action_tool_result | Continuation continuation_metadata

text \<open>
  What pydantic knows of the command model: its annotation and the parse of \<open>json.dumps(arguments)\<close>, \<open>None\<close> for a
  \<open>TypeError\<close> or \<open>ValueError\<close>.
\<close>

record command_schema =
  cs_annotation :: tool_annotation
  cs_parse :: "json_object \<Rightarrow> host_model option"

definition tool_command :: "command_schema \<Rightarrow> json_object \<Rightarrow> host_model option" where
  "tool_command schema arguments =
     (if contains_json_float_for_decimal (cs_annotation schema) (JObj arguments) then None
      else cs_parse schema arguments)"

definition tool_read_context :: "action_agent_context \<Rightarrow> read_context" where
  "tool_read_context trusted =
     \<lparr>rd_tenant_reference = aac_tenant_reference trusted, rd_consumer = aac_evidence_consumer trusted\<rparr>"

definition catching :: "py_exn \<Rightarrow> ('t, 'a) eff \<Rightarrow> 'a \<Rightarrow> ('t, 'a) eff" where
  "catching e m a = handle m (\<lambda>r. if exn_of r = e then return a else throw r)"

definition after_execution ::
  "'t action_operations \<Rightarrow> action_agent_context \<Rightarrow> action_operation_result \<Rightarrow> ('t, action_operation_result) eff" where
  "after_execution operations trusted executed =
     bind (if or_outcome executed \<in> {OutcomeVERIFICATION_PENDING, OutcomeFAILED_UNKNOWN}
           then op_reconcile operations (aac_tenant_reference trusted) (or_proposal_reference executed)
           else return executed) (\<lambda>r.
     bind (op_read operations (or_proposal_reference r) (tool_read_context trusted)) (\<lambda>_.
     bind (case or_fresh_proposal_reference r of
             None \<Rightarrow> return ()
           | Some fresh \<Rightarrow> bind (op_read operations fresh (tool_read_context trusted)) (\<lambda>_. return ()))
       (\<lambda>_. return r)))"

definition continue_action ::
  "'t action_operations \<Rightarrow> action_agent_context \<Rightarrow> continuation_metadata
     \<Rightarrow> ('t, action_operation_result) eff" where
  "continue_action operations trusted continuation =
     bind (op_read operations (cm_proposal_reference continuation) (tool_read_context trusted)) (\<lambda>_.
     bind (op_execute operations (aac_tenant_reference trusted) (cm_proposal_reference continuation))
       (after_execution operations trusted))"

definition is_authorization_denied :: "py_exn \<Rightarrow> bool" where
  "is_authorization_denied e = (case e of AuthorizationDeniedError _ \<Rightarrow> True | _ \<Rightarrow> False)"

definition invoke_action_tool ::
  "('m \<Rightarrow> continuation_metadata option) \<Rightarrow> bool \<Rightarrow> 'm \<Rightarrow> json_object \<Rightarrow> command_schema \<Rightarrow> action_type
     \<Rightarrow> 't action_operations \<Rightarrow> action_agent_context \<Rightarrow> pystr \<Rightarrow> ('t, invocation) eff" where
  "invoke_action_tool validate approved continuation_value arguments schema atype operations trusted
       tool_name =
     (if approved
      then
        case continuation_of validate continuation_value of
          None \<Rightarrow> return (ToolResult (safe_failure InvalidContinuation))
        | Some continuation \<Rightarrow>
            if cm_tool_name continuation \<noteq> tool_name \<or> cm_action_type continuation \<noteq> atype
            then return (ToolResult (safe_failure InvalidContinuation))
            else
              catching ProposalNotFoundError
                (bind (continue_action operations trusted continuation) (\<lambda>r.
                 return (ToolResult (tool_result r))))
                (ToolResult (safe_failure InvalidContinuation))
      else
        case tool_command schema arguments of
          None \<Rightarrow> raise ModelRetry
        | Some command \<Rightarrow>
            bind (attempt (op_prepare operations (aac_tenant_reference trusted) command
                    (aac_requesting_principal trusted) (aac_proposing_agent trusted))) (\<lambda>prepared.
            case prepared of
              Inl failure \<Rightarrow>
                if is_authorization_denied (exn_of failure)
                then return (ToolResult (safe_failure PreparationDenied))
                else throw failure
            | Inr r \<Rightarrow>
            catching ProposalNotFoundError
              (bind (op_read operations (or_proposal_reference r) (tool_read_context trusted)) (\<lambda>view.
               return (Continuation
                 \<lparr>cm_proposal_reference = or_proposal_reference r, cm_tool_name = tool_name,
                  cm_action_type = atype, cm_display_preview = pv_display_preview view\<rparr>)))
              (ToolResult (safe_failure PreparedNotVisible))))"

section \<open>Tools\<close>

text \<open>
  A failure handler is host code; \<open>suppress(Exception)\<close> swallows what it raises, unless that is no \<open>Exception\<close>. A
  call of a tool ends with a result or with the framework's request for approval.
\<close>

datatype 'm tool_end = ToolReturned action_tool_result | ApprovalRequired 'm

definition report_tool_failure :: "(py_exn \<Rightarrow> unit outcome) option \<Rightarrow> py_exn \<Rightarrow> unit outcome" where
  "report_tool_failure handler failure =
     (case handler of
        None \<Rightarrow> Inr ()
      | Some h \<Rightarrow>
          (case h failure of
             Inr () \<Rightarrow> Inr ()
           | Inl r \<Rightarrow> if is_exception (exn_of r) then Inr () else Inl r))"

record ('deps, 'm) action_tool =
  at_tool_name :: pystr
  at_description :: pystr
  at_schema :: command_schema
  at_validate :: "'m \<Rightarrow> continuation_metadata option"
  at_dump :: "continuation_metadata \<Rightarrow> 'm"
  at_context_resolver :: "'deps \<Rightarrow> action_agent_context outcome"
  at_failure_handler :: "(py_exn \<Rightarrow> unit outcome) option"

record ('deps, 'm) run_context =
  rc_deps :: 'deps
  rc_tool_call_approved :: bool
  rc_tool_call_metadata :: 'm
  rc_arguments :: json_object

definition tool_end_of :: "('deps, 'm) action_tool \<Rightarrow> invocation \<Rightarrow> 'm tool_end" where
  "tool_end_of tool outcome =
     (case outcome of
        ToolResult r \<Rightarrow> ToolReturned r
      | Continuation c \<Rightarrow> ApprovalRequired (at_dump tool c))"

definition governed_action_tool ::
  "('deps, 'm) action_tool \<Rightarrow> action_type \<Rightarrow> 't action_operations \<Rightarrow> ('deps, 'm) run_context
     \<Rightarrow> ('t, 'm tool_end) eff" where
  "governed_action_tool tool atype operations ctx =
     (case at_context_resolver tool (rc_deps ctx) of
        Inl failure \<Rightarrow>
          if is_exception (exn_of failure)
          then bind (lift (report_tool_failure (at_failure_handler tool) (exn_of failure))) (\<lambda>_.
               return (ToolReturned (safe_failure BindingUnavailable)))
          else throw failure
      | Inr trusted \<Rightarrow>
          bind (invoke_action_tool (at_validate tool) (rc_tool_call_approved ctx)
                  (rc_tool_call_metadata ctx) (rc_arguments ctx) (at_schema tool) atype operations
                  trusted (at_tool_name tool)) (\<lambda>outcome.
          return (tool_end_of tool outcome)))"

definition fixed_action_tool ::
  "('deps, 'm) action_tool \<Rightarrow> 's action_runtime \<Rightarrow> action_definition \<Rightarrow> ('deps, 'm) run_context
     \<Rightarrow> ('s world, 'm tool_end) eff" where
  "fixed_action_tool tool rt d = governed_action_tool tool (ad_action_type d) (fixed_operations rt d)"

section \<open>Scoped tools\<close>

text \<open>
  The dependency scope is an asynchronous context manager of the host: entering answers fresh dependencies,
  leaving may raise. The stack of \<open>AsyncExitStack\<close> first releases the binding, then leaves the scope.
\<close>

record ('deps, 'scoped) dependency_scope =
  ds_enter :: "'deps \<Rightarrow> 'scoped outcome"
  ds_exit :: "'scoped \<Rightarrow> unit outcome"

definition leave_reporting :: "('deps, 'scoped) dependency_scope \<Rightarrow> 'scoped
    \<Rightarrow> (py_exn \<Rightarrow> unit outcome) option \<Rightarrow> unit outcome" where
  "leave_reporting scope dependencies handler =
     (case ds_exit scope dependencies of
        Inr () \<Rightarrow> Inr ()
      | Inl r \<Rightarrow> if is_exception (exn_of r) then report_tool_failure handler (exn_of r) else Inl r)"

definition binding_failed ::
  "(py_exn \<Rightarrow> unit outcome) option \<Rightarrow> raised \<Rightarrow> unit outcome \<Rightarrow> ('t, 'm tool_end) eff" where
  "binding_failed handler failure cleanup =
     (if is_exception (exn_of failure)
      then bind (lift (report_tool_failure handler (exn_of failure))) (\<lambda>_.
           bind (lift cleanup) (\<lambda>_.
           return (ToolReturned (safe_failure BindingUnavailable))))
      else throw failure)"

definition scoped_action_tool ::
  "('scoped, 'm) action_tool \<Rightarrow> ('deps, 'scoped) dependency_scope \<Rightarrow> 's host_process
     \<Rightarrow> ('scoped, 's) action_application \<Rightarrow> registered_action \<Rightarrow> ('deps, 'm) run_context
     \<Rightarrow> ('s bound_world, 'm tool_end) eff" where
  "scoped_action_tool tool scope p app action ctx =
     (let handler = at_failure_handler tool in
      case ds_enter scope (rc_deps ctx) of
        Inl failure \<Rightarrow> binding_failed handler failure (Inr ())
      | Inr dependencies \<Rightarrow>
      case at_context_resolver tool dependencies of
        Inl failure \<Rightarrow> binding_failed handler failure (leave_reporting scope dependencies handler)
      | Inr trusted \<Rightarrow>
      bind (attempt (bind_action p app action dependencies (\<lambda>b.
              attempt (invoke_action_tool (at_validate tool) (rc_tool_call_approved ctx)
                (rc_tool_call_metadata ctx) (rc_arguments ctx) (at_schema tool) (ra_action_type action)
                (bound_operations b) trusted (at_tool_name tool))))) (\<lambda>r. case r of
        Inl failure \<Rightarrow> binding_failed handler failure (leave_reporting scope dependencies handler)
      | Inr (Inl failure) \<Rightarrow>
          bind (lift (leave_reporting scope dependencies handler)) (\<lambda>_. throw failure)
      | Inr (Inr outcome) \<Rightarrow>
          (case ds_exit scope dependencies of
             Inr () \<Rightarrow> return (tool_end_of tool outcome)
           | Inl failure \<Rightarrow>
               if is_exception (exn_of failure)
               then bind (lift (report_tool_failure handler (exn_of failure))) (\<lambda>_.
                    return (ToolReturned (safe_failure OperationOutcomeUnknown)))
               else throw failure)))"

section \<open>The recovery tool\<close>

record action_recovery_tool_result =
  rt_visible :: bool
  rt_recovery :: "action_recovery_view option"

text \<open>\<open>request\<close> is pydantic's validation of the arguments: the reference, or \<open>None\<close> for a \<open>ValidationError\<close>.\<close>

definition recovery_tool ::
  "('deps \<Rightarrow> action_agent_context outcome) \<Rightarrow> (json_object \<Rightarrow> pystr option) \<Rightarrow> 's action_runtime
     \<Rightarrow> action_definition \<Rightarrow> ('deps, 'm) run_context \<Rightarrow> ('s world, action_recovery_tool_result) eff" where
  "recovery_tool context_resolver request rt d ctx =
     handle
       (bind (lift (case request (rc_arguments ctx) of
                None \<Rightarrow> fails ValidationError | Some reference \<Rightarrow> Inr reference)) (\<lambda>reference.
        bind (lift (context_resolver (rc_deps ctx))) (\<lambda>trusted.
        bind (read_recovery rt d reference (tool_read_context trusted)) (\<lambda>view.
        return \<lparr>rt_visible = True, rt_recovery = Some view\<rparr>))))
       (\<lambda>r. if exn_of r \<in> {ValidationError, ProposalNotFoundError}
            then return \<lparr>rt_visible = False, rt_recovery = None\<rparr>
            else throw r)"

section \<open>Declared tools\<close>

definition valid_tool_name :: "pystr \<Rightarrow> bool" where
  "valid_tool_name name \<longleftrightarrow>
     name \<noteq> [] \<and> length name \<le> 64 \<and> is_lower (hd name) \<and> list_all is_name_char (tl name)"

definition action_tool_post_init :: "(pystr \<Rightarrow> pystr) \<Rightarrow> pystr \<Rightarrow> pystr \<Rightarrow> unit outcome" where
  "action_tool_post_init strip name description =
     (if \<not> valid_tool_name name then fails ValueError
      else if strip description = '''' then fails ValueError
      else Inr ())"

definition default_internal_action_arguments :: "pystr list" where
  "default_internal_action_arguments =
     [''authority_evidence'', ''organization_id'', ''private_snapshot'', ''proposal_reference'', ''request_id'',
      ''snapshot'', ''tenant_reference'', ''user_id'']"

record existing_tool_binding =
  xb_name :: pystr
  xb_action_type :: action_type
  xb_forbidden_model_arguments :: "pystr list"

definition existing_tool_post_init :: "existing_tool_binding \<Rightarrow> existing_tool_binding outcome" where
  "existing_tool_post_init b =
     (if \<not> valid_tool_name (xb_name b) then fails ValueError
      else if xb_forbidden_model_arguments b = [] then fails ValueError
      else Inr b)"

text \<open>A tool function of the host as \<open>inspect\<close> sees it: its name and the names of its parameters.\<close>

record tool_function =
  tf_name :: "pystr option"
  tf_parameters :: "pystr list"

definition validate_executor :: "existing_tool_binding \<Rightarrow> tool_function \<Rightarrow> tool_function outcome" where
  "validate_executor b executor =
     (if tf_name executor \<noteq> Some (xb_name b) then fails ValueError
      else if (set (tf_parameters executor) - {''ctx''}) \<inter> set (xb_forbidden_model_arguments b) \<noteq> {}
      then fails ValueError
      else Inr executor)"

fun validated_executors ::
  "existing_tool_binding list \<Rightarrow> (pystr \<rightharpoonup> tool_function) \<Rightarrow> tool_function list outcome" where
  "validated_executors [] executors = Inr []"
| "validated_executors (b # bs) executors =
     (case executors (xb_name b) of
        None \<Rightarrow> fails ValueError
      | Some executor \<Rightarrow>
          result_bind (validate_executor b executor) (\<lambda>f.
          result_bind (validated_executors bs executors) (\<lambda>fs. Inr (f # fs))))"

text \<open>Every function of the toolset is added with \<open>requires_approval=True\<close>.\<close>

definition build_existing_tool_action_toolset ::
  "existing_tool_binding list \<Rightarrow> (pystr \<rightharpoonup> tool_function) \<Rightarrow> (tool_function \<times> bool) list outcome" where
  "build_existing_tool_action_toolset bindings executors =
     (if bindings = [] then fails ValueError
      else if \<not> distinct (map xb_name bindings) then fails ValueError
      else result_bind (validated_executors bindings executors) (\<lambda>fs. Inr (map (\<lambda>f. (f, True)) fs)))"

section \<open>The capability\<close>

definition capability_tool_names :: "pystr list \<Rightarrow> pystr list outcome" where
  "capability_tool_names names =
     (if names = [] then fails ValueError
      else if \<not> distinct names then fails ValueError
      else Inr names)"

record deferred_call =
  dc_tool_call_id :: pystr
  dc_tool_name :: pystr

record deferred_action_request =
  dr_tool_call_id :: pystr
  dr_tool_name :: pystr
  dr_proposal_reference :: pystr
  dr_action_type :: action_type

datatype approval = ToolApproved | ToolDenied pystr

record 'm deferred_results =
  df_approvals :: "(pystr \<times> approval) list"
  df_metadata :: "(pystr \<times> 'm) list"

definition build_continuation_results ::
  "(pystr \<rightharpoonup> 'm) \<Rightarrow> (pystr \<times> bool) list \<Rightarrow> (pystr \<times> bool) list \<times> (pystr \<times> 'm) list" where
  "build_continuation_results metadata decisions =
     (decisions,
      List.map_filter (\<lambda>(call_id, _). map_option (Pair call_id) (metadata call_id)) decisions)"

text \<open>The loop over the deferred calls; the inline authority handler is host code and answers in the state \<open>'t\<close>.\<close>

fun defer_calls ::
  "pystr set \<Rightarrow> ('m \<Rightarrow> continuation_metadata option) \<Rightarrow> (continuation_metadata \<Rightarrow> 'm)
     \<Rightarrow> (deferred_action_request \<Rightarrow> ('t, bool) eff) \<Rightarrow> (pystr \<rightharpoonup> 'm)
     \<Rightarrow> deferred_call list \<Rightarrow> ('t, 'm deferred_results) eff" where
  "defer_calls tool_names validate dump inline metadata [] = return \<lparr>df_approvals = [], df_metadata = []\<rparr>"
| "defer_calls tool_names validate dump inline metadata (call # calls) =
     (if dc_tool_name call \<notin> tool_names then defer_calls tool_names validate dump inline metadata calls
      else
      case Option.bind (metadata (dc_tool_call_id call)) (continuation_of validate) of
        None \<Rightarrow>
          bind (defer_calls tool_names validate dump inline metadata calls) (\<lambda>rest.
          return (rest\<lparr>df_approvals := (dc_tool_call_id call,
                     ToolDenied ''Action continuation metadata is invalid.'') # df_approvals rest\<rparr>))
      | Some continuation \<Rightarrow>
      if cm_tool_name continuation \<noteq> dc_tool_name call
      then
        bind (defer_calls tool_names validate dump inline metadata calls) (\<lambda>rest.
        return (rest\<lparr>df_approvals := (dc_tool_call_id call,
                   ToolDenied ''Action continuation metadata is invalid.'') # df_approvals rest\<rparr>))
      else
        bind (inline \<lparr>dr_tool_call_id = dc_tool_call_id call, dr_tool_name = dc_tool_name call,
                      dr_proposal_reference = cm_proposal_reference continuation,
                      dr_action_type = cm_action_type continuation\<rparr>) (\<lambda>approved.
        bind (defer_calls tool_names validate dump inline metadata calls) (\<lambda>rest.
        return \<lparr>df_approvals = (dc_tool_call_id call,
                  if approved then ToolApproved else ToolDenied ''Action authority was not established.'')
                  # df_approvals rest,
                df_metadata = (dc_tool_call_id call, dump continuation) # df_metadata rest\<rparr>)))"

definition handle_deferred_tool_calls ::
  "(deferred_action_request \<Rightarrow> ('t, bool) eff) option \<Rightarrow> pystr set
     \<Rightarrow> ('m \<Rightarrow> continuation_metadata option) \<Rightarrow> (continuation_metadata \<Rightarrow> 'm) \<Rightarrow> (pystr \<rightharpoonup> 'm)
     \<Rightarrow> deferred_call list \<Rightarrow> ('t, 'm deferred_results option) eff" where
  "handle_deferred_tool_calls inline_handler tool_names validate dump metadata calls =
     (case inline_handler of
        None \<Rightarrow> return None
      | Some inline \<Rightarrow>
          bind (defer_calls tool_names validate dump inline metadata calls) (\<lambda>results.
          return (if df_approvals results = [] then None else Some results)))"

section \<open>Calls of a tool\<close>

definition tool_reads :: "action_agent_context \<Rightarrow> pystr \<Rightarrow> call" where
  "tool_reads trusted reference = CallCanRead reference (tool_read_context trusted) (Inr True)"

text \<open>What an executor call in the course of a tool call needs.\<close>

definition tool_dispatch ::
  "action_definition \<Rightarrow> action_agent_context \<Rightarrow> continuation_metadata \<Rightarrow> call list \<Rightarrow> call \<Rightarrow> bool" where
  "tool_dispatch d trusted c before call' \<longleftrightarrow>
     dispatch_allowed d (aac_tenant_reference trusted) (cm_proposal_reference c) before call'
     \<and> (is_executor_call call' \<longrightarrow> tool_reads trusted (cm_proposal_reference c) \<in> set before)"

lemma emits_execute: "emits (\<lambda>_. True) (execute rt d t r)"
  unfolding execute_def Let_def by (intro emits_intros emits_any) simp_all

lemma tool_dispatch_quiet: "\<not> is_executor_call c' \<Longrightarrow> tool_dispatch d trusted c pre c'"
  by (simp add: tool_dispatch_def dispatch_allowed_other)

lemma tool_quiet:
  assumes "quiet m" and "ordered (tool_dispatch d trusted c) w"
    and "\<And>a v. ordered (tool_dispatch d trusted c) v \<Longrightarrow> Q a v"
    and "\<And>e v. ordered (tool_dispatch d trusted c) v \<Longrightarrow> E e v"
  shows "wp m Q E w"
  by (rule wp_ordered_emits [where J = "tool_dispatch d trusted c"])
    (use assms in \<open>auto intro: tool_dispatch_quiet emits_mono [OF assms(1)]\<close>)

lemma read_permitted:
  "wp (read rt d reference context) (\<lambda>_ v. CallCanRead reference context (Inr True) \<in> set (w_trace v))
     (\<lambda>_ _. True) w"
  unfolding read_def required_def Let_def by (intro trace_intros) auto

lemma quiet_no_executor:
  assumes "quiet m" and "\<not> list_ex is_executor_call (w_trace w)"
  shows "wp m (\<lambda>_ v. \<not> list_ex is_executor_call (w_trace v)) (\<lambda>_ v. \<not> list_ex is_executor_call (w_trace v)) w"
  by (rule wpi_emits [OF assms(1)]) (use assms(2) in \<open>auto simp: list_ex_iff\<close>)

lemma wp_conj:
  "wp m Q E w \<Longrightarrow> wp m Q' E' w \<Longrightarrow> wp m (\<lambda>a v. Q a v \<and> Q' a v) (\<lambda>r v. E r v \<and> E' r v) w"
  by (auto simp: wp_def split: prod.splits sum.splits)

lemma no_executor_ordered: "\<not> list_ex is_executor_call tr \<Longrightarrow> trace_ok (dispatch_allowed d t r) tr"
  by (auto simp: trace_ok_def list_ex_iff intro: dispatch_allowed_other)

text \<open>An executor call after a trace without one has that trace before it.\<close>

lemma executor_after:
  assumes "base @ tr = pre @ c # post" and "\<not> list_ex is_executor_call base" and "is_executor_call c"
  shows "set base \<subseteq> set pre"
  using assms by (auto simp: append_eq_append_conv2 append_eq_Cons_conv list_ex_iff)

lemma execute_tool_dispatch:
  assumes "\<not> list_ex is_executor_call (w_trace w)"
    and "tool_reads trusted (cm_proposal_reference c) \<in> set (w_trace w)"
  shows "wp (execute rt d (aac_tenant_reference trusted) (cm_proposal_reference c))
    (\<lambda>_. ordered (tool_dispatch d trusted c)) (\<lambda>_. ordered (tool_dispatch d trusted c)) w"
proof -
  let ?D = "dispatch_allowed d (aac_tenant_reference trusted) (cm_proposal_reference c)"
  have ordered: "wp (execute rt d (aac_tenant_reference trusted) (cm_proposal_reference c))
      (\<lambda>_. ordered ?D) (\<lambda>_. ordered ?D) w"
    by (rule ordered_execute) (use assms(1) no_executor_ordered in auto)
  have extends: "wp (execute rt d (aac_tenant_reference trusted) (cm_proposal_reference c))
      (\<lambda>_ v. \<exists>tr. w_trace v = w_trace w @ tr) (\<lambda>_ v. \<exists>tr. w_trace v = w_trace w @ tr) w"
    by (rule wpi_emits [OF emits_execute]) auto
  have both: "ordered (tool_dispatch d trusted c) v"
    if "ordered ?D v \<and> (\<exists>tr. w_trace v = w_trace w @ tr)" for v
    unfolding trace_ok_def tool_dispatch_def
  proof (intro allI impI conjI)
    fix pre c' post
    assume eq: "w_trace v = pre @ c' # post"
    show "?D pre c'" using that eq by (simp add: trace_ok_def)
    assume "is_executor_call c'"
    then show "tool_reads trusted (cm_proposal_reference c) \<in> set pre"
      using that eq executor_after [of "w_trace w" _ pre c' post] assms by fastforce
  qed
  show ?thesis by (rule wp_mono [OF wp_conj [OF ordered extends]]) (use both in auto)
qed

lemma fixed_operations_simps [simp]:
  "op_prepare (fixed_operations rt d) tenant command requester agent
     = prepare rt d tenant command requester agent None"
  "op_execute (fixed_operations rt d) = execute rt d"
  "op_reconcile (fixed_operations rt d) = reconcile rt d"
  "op_read (fixed_operations rt d) = read rt d"
  by (simp_all add: fixed_operations_def)

lemma quiet_after_execution: "quiet (after_execution (fixed_operations rt d) trusted executed)"
  unfolding after_execution_def fixed_operations_simps
  by (intro emits_intros quiet_read(1) quiet_reconcile)

lemma no_executor_tool: "\<not> list_ex is_executor_call tr \<Longrightarrow> trace_ok (tool_dispatch d trusted c) tr"
  by (auto simp: trace_ok_def list_ex_iff intro: tool_dispatch_quiet)

lemma continue_dispatches:
  assumes "\<not> list_ex is_executor_call (w_trace w)"
  shows "wp (continue_action (fixed_operations rt d) trusted c)
    (\<lambda>_. ordered (tool_dispatch d trusted c)) (\<lambda>_. ordered (tool_dispatch d trusted c)) w"
proof -
  have "wp (bind (execute rt d (aac_tenant_reference trusted) (cm_proposal_reference c))
        (after_execution (fixed_operations rt d) trusted))
      (\<lambda>_. ordered (tool_dispatch d trusted c)) (\<lambda>_. ordered (tool_dispatch d trusted c)) v"
    if "tool_reads trusted (cm_proposal_reference c) \<in> set (w_trace v)"
      and "\<not> list_ex is_executor_call (w_trace v)" for v
    unfolding wp_bind
  proof (rule wp_mono [OF execute_tool_dispatch])
    show "\<not> list_ex is_executor_call (w_trace v)" by (rule that(2))
    show "tool_reads trusted (cm_proposal_reference c) \<in> set (w_trace v)" by (rule that(1))
    show "wp (after_execution (fixed_operations rt d) trusted a)
        (\<lambda>_. ordered (tool_dispatch d trusted c)) (\<lambda>_. ordered (tool_dispatch d trusted c)) u"
      if "ordered (tool_dispatch d trusted c) u" for a u
      by (rule tool_quiet [OF quiet_after_execution that])
  qed
  moreover have "wp (read rt d (cm_proposal_reference c) (tool_read_context trusted))
        (\<lambda>_ v. tool_reads trusted (cm_proposal_reference c) \<in> set (w_trace v)
           \<and> \<not> list_ex is_executor_call (w_trace v))
        (\<lambda>_ v. True \<and> \<not> list_ex is_executor_call (w_trace v)) w"
    unfolding tool_reads_def
    by (rule wp_conj [OF read_permitted quiet_no_executor [OF quiet_read(1) assms]])
  ultimately show ?thesis
    unfolding continue_action_def fixed_operations_simps wp_bind [of "read _ _ _ _"]
    by (elim wp_mono) (simp_all add: no_executor_tool)
qed

definition tool_guarded ::
  "('m \<Rightarrow> continuation_metadata option) \<Rightarrow> bool \<Rightarrow> 'm \<Rightarrow> pystr \<Rightarrow> action_definition \<Rightarrow> action_agent_context
     \<Rightarrow> 's world \<Rightarrow> bool" where
  "tool_guarded validate approved metadata tool_name d trusted w \<longleftrightarrow>
     \<not> list_ex is_executor_call (w_trace w)
     \<or> approved \<and> (\<exists>c. validate metadata = Some c \<and> cm_tool_name c = tool_name
          \<and> cm_action_type c = ad_action_type d \<and> ordered (tool_dispatch d trusted c) w)"

lemma wp_catching [simp]:
  "wp (catching e m a) Q E w = wp m Q (\<lambda>r v. if exn_of r = e then Q a v else E r v) w"
  by (simp add: catching_def wp_def handle_def return_def throw_def split: prod.splits sum.splits)

lemma invoke_guarded:
  assumes "\<not> list_ex is_executor_call (w_trace w)"
  shows "wp (invoke_action_tool validate approved metadata arguments schema (ad_action_type d)
        (fixed_operations rt d) trusted tool_name)
      (\<lambda>_. tool_guarded validate approved metadata tool_name d trusted)
      (\<lambda>_. tool_guarded validate approved metadata tool_name d trusted) w"
proof (cases approved)
  case False
  have read: "wp (read rt d reference (tool_read_context trusted))
      (\<lambda>_. tool_guarded validate approved metadata tool_name d trusted)
      (\<lambda>_. tool_guarded validate approved metadata tool_name d trusted) v"
    if "\<not> list_ex is_executor_call (w_trace v)" for reference v
    by (rule wp_mono [OF quiet_no_executor [OF quiet_read(1) that]]) (simp_all add: tool_guarded_def)
  show ?thesis
  proof (cases "tool_command schema arguments")
    case None
    then show ?thesis using False assms by (simp add: invoke_action_tool_def tool_guarded_def)
  next
    case (Some command)
    show ?thesis
      unfolding invoke_action_tool_def fixed_operations_simps
      using False Some
      by (auto intro!: wp_mono [OF quiet_no_executor [OF quiet_prepare assms]] read wp_mono [OF read]
          simp: tool_guarded_def)
  qed
next
  case True
  show ?thesis
  proof (cases "\<exists>c. validate metadata = Some c \<and> cm_tool_name c = tool_name
      \<and> cm_action_type c = ad_action_type d")
    case False
    then show ?thesis using True assms
      by (auto simp: invoke_action_tool_def continuation_of_def tool_guarded_def split: option.splits)
  next
    case c: True
    then obtain c where "validate metadata = Some c" "cm_tool_name c = tool_name"
        "cm_action_type c = ad_action_type d" by blast
    then show ?thesis using True
      by (auto simp: invoke_action_tool_def continuation_of_def tool_guarded_def
          intro!: wp_mono [OF continue_dispatches [OF assms, of rt d trusted c]])
  qed
qed

definition tool_shows :: "action_agent_context \<Rightarrow> action_operation_result \<Rightarrow> 's world \<Rightarrow> bool" where
  "tool_shows trusted r w \<longleftrightarrow>
     tool_reads trusted (or_proposal_reference r) \<in> set (w_trace w)
     \<and> (case or_fresh_proposal_reference r of
          None \<Rightarrow> True
        | Some fresh \<Rightarrow> tool_reads trusted fresh \<in> set (w_trace w))"

lemma read_adds:
  "wp (read rt d reference (tool_read_context trusted))
     (\<lambda>_ v. tool_reads trusted reference \<in> set (w_trace v) \<and> set (w_trace w) \<subseteq> set (w_trace v))
     (\<lambda>_ _. True \<and> True) w"
  unfolding tool_reads_def
  by (rule wp_conj [OF read_permitted wpi_emits [OF quiet_read(1)]]) auto

lemma after_execution_shows:
  "wp (after_execution (fixed_operations rt d) trusted executed) (tool_shows trusted) (\<lambda>_ _. True) w"
proof -
  have show_result: "wp (bind (read rt d (or_proposal_reference r) (tool_read_context trusted)) (\<lambda>_.
      bind (case or_fresh_proposal_reference r of
             None \<Rightarrow> return ()
           | Some fresh \<Rightarrow> bind (read rt d fresh (tool_read_context trusted)) (\<lambda>_. return ()))
       (\<lambda>_. return r))) (tool_shows trusted) (\<lambda>_ _. True) v" for r v
    by (cases "or_fresh_proposal_reference r")
      (auto simp: tool_shows_def subset_iff intro!: wp_mono [OF read_adds])
  show ?thesis
    unfolding after_execution_def fixed_operations_simps
    by (subst wp_bind)
      (auto simp del: wp_bind intro!: wpI_cases [of "reconcile _ _ _ _"] show_result)
qed

lemma continue_shows:
  "wp (continue_action (fixed_operations rt d) trusted c) (tool_shows trusted) (\<lambda>_ _. True) w"
  unfolding continue_action_def fixed_operations_simps wp_bind
  by (rule wpI_cases, rule wpI_cases, rule after_execution_shows) simp_all

lemma invoke_shows:
  "wp (invoke_action_tool validate approved metadata arguments schema atype (fixed_operations rt d)
        trusted tool_name)
     (\<lambda>outcome v. case outcome of
        ToolResult r \<Rightarrow>
          (case tr_proposal_reference r of
             None \<Rightarrow> True
           | Some reference \<Rightarrow>
               \<exists>x. r = tool_result x \<and> or_proposal_reference x = reference \<and> tool_shows trusted x v)
      | Continuation c \<Rightarrow>
          tool_reads trusted (cm_proposal_reference c) \<in> set (w_trace v)
          \<and> cm_tool_name c = tool_name \<and> cm_action_type c = atype)
     (\<lambda>_ _. True) w"
proof -
  have failed: "tr_proposal_reference (safe_failure f) = None" for f
    by (simp add: safe_failure_def)
  have result: "tr_proposal_reference (tool_result x) = Some (or_proposal_reference x)" for x
    by (simp add: tool_result_def)
  show ?thesis
    unfolding invoke_action_tool_def fixed_operations_simps
    by (auto simp: failed result split: option.splits
        intro!: wp_mono [OF continue_shows] wp_mono [OF read_adds] wpI_cases [of "prepare _ _ _ _ _ _ _"])
qed

section \<open>Properties\<close>

text \<open>
  C39: Framework approval is not authority. If a call of an action tool reaches the executor, then the framework had
  marked the call as approved, its metadata is a continuation of this very tool and action type, the
  trusted consumer was allowed to read its proposal before, and at that moment every guard of \<open>execute\<close> held for that
  proposal in the trusted tenant: stored authorization, verified commitment, state without drift, satisfied
  evidence, live authorization, admission and deadlines. A call that is not approved never reaches it. This holds for every
  framework behaviour, host, store, interference and fault.
\<close>

theorem agent_dispatch_guarded:
  assumes "fixed_action_tool tool rt d ctx (start s n) = (res, w)"
    and "w_trace w = before @ CallExecutor snapshot x precond out # later"
  shows "rc_tool_call_approved ctx
    \<and> (\<exists>trusted c. at_context_resolver tool (rc_deps ctx) = Inr trusted
         \<and> at_validate tool (rc_tool_call_metadata ctx) = Some c
         \<and> cm_tool_name c = at_tool_name tool \<and> cm_action_type c = ad_action_type d
         \<and> CallCanRead (cm_proposal_reference c) (tool_read_context trusted) (Inr True) \<in> set before
         \<and> dispatch_allowed d (aac_tenant_reference trusted) (cm_proposal_reference c) before
             (CallExecutor snapshot x precond out))"
proof (cases "at_context_resolver tool (rc_deps ctx)")
  case (Inl e)
  then show ?thesis
    using assms
    by (auto simp: fixed_action_tool_def governed_action_tool_def bind_def lift_def return_def throw_def
        split: if_splits sum.splits)
next
  case (Inr trusted)
  let ?G = "tool_guarded (at_validate tool) (rc_tool_call_approved ctx) (rc_tool_call_metadata ctx)
      (at_tool_name tool) d trusted"
  have "wp (fixed_action_tool tool rt d ctx) (\<lambda>_. ?G) (\<lambda>_. ?G) (start s n)"
    using Inr by (auto simp: fixed_action_tool_def governed_action_tool_def
        intro!: wp_mono [OF invoke_guarded])
  then have "?G w" using assms(1) by (auto simp: wp_def split: sum.splits)
  then obtain c where "rc_tool_call_approved ctx" "at_validate tool (rc_tool_call_metadata ctx) = Some c"
      "cm_tool_name c = at_tool_name tool" "cm_action_type c = ad_action_type d"
      "tool_dispatch d trusted c before (CallExecutor snapshot x precond out)"
    using assms(2) by (auto simp: tool_guarded_def dest: trace_okD)
  then show ?thesis using Inr by (auto simp: tool_dispatch_def tool_reads_def)
qed

text \<open>
  C40: A tool shows nothing about a proposal that its consumer may not read. A result that carries a proposal
  reference is the result of the last runtime operation on that proposal, and in this call the host allowed the trusted
  consumer to read that proposal and the fresh one the result names, if any; a request for approval carries the
  metadata of this tool and action type for a proposal that the consumer was allowed to read.
\<close>

theorem agent_results_visible:
  assumes "fixed_action_tool tool rt d ctx (start s n) = (Inr ended, w)"
    and "at_context_resolver tool (rc_deps ctx) = Inr trusted"
  shows "case ended of
      ToolReturned r \<Rightarrow>
        (case tr_proposal_reference r of
           None \<Rightarrow> True
         | Some reference \<Rightarrow>
             \<exists>x. r = tool_result x \<and> or_proposal_reference x = reference \<and> tool_shows trusted x w)
    | ApprovalRequired m \<Rightarrow>
        \<exists>c. m = at_dump tool c \<and> tool_reads trusted (cm_proposal_reference c) \<in> set (w_trace w)
          \<and> cm_tool_name c = at_tool_name tool \<and> cm_action_type c = ad_action_type d"
proof -
  from assms obtain outcome where
    "invoke_action_tool (at_validate tool) (rc_tool_call_approved ctx) (rc_tool_call_metadata ctx)
       (rc_arguments ctx) (at_schema tool) (ad_action_type d) (fixed_operations rt d) trusted
       (at_tool_name tool) (start s n) = (Inr outcome, w)" and "ended = tool_end_of tool outcome"
    by (auto simp: fixed_action_tool_def governed_action_tool_def bind_def return_def
        split: prod.splits sum.splits)
  with wpD_value [OF invoke_shows this(1)] show ?thesis
    by (cases outcome) (auto simp: tool_end_of_def)
qed

section \<open>A concrete tool call\<close>

definition demo_continuation :: continuation_metadata where
  "demo_continuation =
     \<lparr>cm_proposal_reference = ''p'', cm_tool_name = ''refund_order'', cm_action_type = demo_action_type,
      cm_display_preview = [(''amount'', JInt 7)]\<rparr>"

definition demo_agent :: action_agent_context where
  "demo_agent =
     \<lparr>aac_tenant_reference = ''t'', aac_requesting_principal = demo_requester,
      aac_evidence_consumer = EvidenceConsumer ''agent'', aac_proposing_agent = None\<rparr>"

definition demo_tool :: "(unit, continuation_metadata) action_tool" where
  "demo_tool =
     \<lparr>at_tool_name = ''refund_order'', at_description = ''Refund an order'',
      at_schema = \<lparr>cs_annotation = ToolModel [([''amount''], ToolOther [])],
                   cs_parse = (\<lambda>entries. Some (demo_model 1 7))\<rparr>,
      at_validate = Some, at_dump = id, at_context_resolver = (\<lambda>_. Inr demo_agent),
      at_failure_handler = None\<rparr>"

definition demo_call :: "bool \<Rightarrow> (unit, continuation_metadata) run_context" where
  "demo_call approved =
     \<lparr>rc_deps = (), rc_tool_call_approved = approved, rc_tool_call_metadata = demo_continuation,
      rc_arguments = [(''amount'', JInt 7)]\<rparr>"

definition demo_tool_run where
  "demo_tool_run = fixed_action_tool demo_tool demo_runtime demo_definition (demo_call True) (demo_start AUTHORIZED)"

lemma demo_tool_ran:
  "case demo_tool_run of
     (Inr (ToolReturned r), w) \<Rightarrow> tr_proposal_reference r = Some ''p'' \<and> list_ex is_executor_call (w_trace w)
   | _ \<Rightarrow> False"
  by code_simp

lemma demo_tool_outcome:
  obtains r w where "fixed_action_tool demo_tool demo_runtime demo_definition (demo_call True)
      (start (demo_store (demo_proposal AUTHORIZED)) 0) = (Inr (ToolReturned r), w)"
    and "demo_tool_run = (Inr (ToolReturned r), w)" and "tr_proposal_reference r = Some ''p''"
    and "list_ex is_executor_call (w_trace w)"
  using demo_tool_ran
  by (auto simp: demo_tool_run_def demo_start_def split: prod.splits sum.splits tool_end.splits)

lemma agent_dispatch_guarded_witness:
  "\<exists>before c later. w_trace (snd demo_tool_run) = before @ c # later \<and> is_executor_call c
     \<and> dispatch_allowed demo_definition ''t'' ''p'' before c"
proof -
  obtain r w where run: "fixed_action_tool demo_tool demo_runtime demo_definition (demo_call True)
      (start (demo_store (demo_proposal AUTHORIZED)) 0) = (Inr (ToolReturned r), w)"
    "demo_tool_run = (Inr (ToolReturned r), w)" and "list_ex is_executor_call (w_trace w)"
    by (rule demo_tool_outcome)
  then obtain c where c: "c \<in> set (w_trace w)" "is_executor_call c" by (auto simp: list_ex_iff)
  then obtain before later where split: "w_trace w = before @ c # later" by (meson split_list)
  obtain s x p out where "c = CallExecutor s x p out" using c(2) by (cases c) auto
  with agent_dispatch_guarded [OF run(1), of before] split
  have "dispatch_allowed demo_definition ''t'' ''p'' before c"
    by (simp add: demo_tool_def demo_call_def demo_continuation_def demo_agent_def)
  with split c(2) show ?thesis unfolding run(2) snd_conv by blast
qed

lemma agent_results_visible_witness:
  "\<exists>x. or_proposal_reference x = ''p'' \<and> tool_shows demo_agent x (snd demo_tool_run)"
proof -
  obtain r w where run: "fixed_action_tool demo_tool demo_runtime demo_definition (demo_call True)
      (start (demo_store (demo_proposal AUTHORIZED)) 0) = (Inr (ToolReturned r), w)"
    "demo_tool_run = (Inr (ToolReturned r), w)" and "tr_proposal_reference r = Some ''p''"
    by (rule demo_tool_outcome)
  then have "\<exists>x. r = tool_result x \<and> or_proposal_reference x = ''p'' \<and> tool_shows demo_agent x w"
    using agent_results_visible [OF run(1), of demo_agent] by (simp add: demo_tool_def)
  then show ?thesis unfolding run(2) snd_conv by blast
qed

end
