(* ===== verification/Spec2Isabelle.thy ===== *)
theory Spec2Isabelle
  imports Justified Protected_State Safeguards Store_Properties Postgres_Refinement Local_Kek Aws_Kms Sqlite_Migrations Attribution Stripe_Host Stripe_Subscriptions Stripe_Credit_Notes Stripe_Billing_Host Work_Discovery Approval_Channels Agent_Tools
begin

text \<open>
  Verification of threvo-actions, a Python library for confirm-first actions
  (\<open>src/src/threvo_actions\<close>). A host \<^emph>\<open>prepares\<close> an action as a durable proposal with a protected private
  snapshot and a keyed commitment; authorities record \<^emph>\<open>evidence\<close> for exactly that proposal; the runtime
  re-checks everything, claims the effect, and calls the host's executor; the host's verifier
  establishes the outcome, because what the executor declared is never believed. Lost responses are
  recovered from the store, never by repeating the effect.

  \<^bold>\<open>Representation.\<close> A Python \<open>str\<close> is the list of bytes of its UTF-8 encoding, a validated string is
  checked where the code validates it, a class or dataclass is a \<open>record\<close>, an enum or a union of
  classes a \<open>datatype\<close>, an instant an integer number of microseconds, a \<open>raise\<close> the \<open>Inl\<close> of a sum with the
  exception class, an asynchronous operation a function in the state-and-exception monad of
  \<open>Prelude\<close> over a world. Everything the code awaits on an object it was given (the host's ports, the
  store, the clock, identifiers, providers, a cipher, a database) is a call on a world; the answer of a
  host port is a function of the number of interactions so far, hence arbitrary and changing; other
  processes may change the store between any two calls (\<open>env\<close> of the runtime's world).

  \<^bold>\<open>Parts.\<close>
  \<^item> \<open>Prelude\<close>: the monad, its weakest preconditions, exceptions, list and option facts.
  \<^item> Data: \<open>Models\<close> (\<open>models.py\<close>), \<open>Canonical\<close> (\<open>canonical.py\<close>: canonical JSON and the commitment input,
    order independence and injectivity), \<open>Money\<close> (\<open>Money\<close> and decimals), \<open>Authority\<close> (\<open>authority.py\<close>),
    \<open>Receipts\<close> (\<open>receipts.py\<close>), \<open>Registry\<close> and \<open>Conformance\<close> (\<open>registry.py\<close>; the second holds the check of
    boundary models and its walk over annotations), \<open>Approvals\<close> (\<open>approvals.py\<close>: the M-of-N requirement is
    met exactly when M declared authorities approved this binding).
  \<^item> Stores: \<open>Store_Base\<close> (\<open>stores/base.py\<close>: the stored proposal, its transition table and update
    checks), \<open>Store_Contract\<close> (the protocols \<open>ActionStore\<close> and \<open>RetentionStore\<close> as locales),
    \<open>Memory_Store\<close> (\<open>stores/memory.py\<close>) and \<open>Sqlite_Store\<close> (\<open>stores/sqlite.py\<close> over rows with the keys,
    constraints and triggers of \<open>_migrations/sqlite\<close>), each an interpretation of the contract;
    \<open>Postgres_Store\<close> models \<open>stores/postgres.py\<close> over the tables, trigger and functions of
    \<open>_migrations/postgres\<close>. \<open>Store_Properties\<close> proves from the contract what racing clients may rely on.
    \<open>Store_Refinement\<close> states when a store refines the in-memory one, and proves that its histories then
    are in-memory histories; \<open>Store_Properties\<close> gives this for SQLite, \<open>Postgres_Refinement\<close> for PostgreSQL,
    with the integrity of its tables and what a role without ownership cannot change. \<open>Sqlite_Migrations\<close> (\<open>sqlite_migrations.py\<close>) brings a database to
    the packaged schema.
  \<^item> Runtime (\<open>runtime.py\<close>): \<open>Runtime_World\<close> (its collaborators and the calls on them),
    \<open>Runtime_Support\<close> (helpers), \<open>Runtime_Prepare\<close>, \<open>Runtime_Execute\<close>, \<open>Runtime_Reconcile\<close> (the handlers),
    \<open>Recovery\<close> (\<open>recovery.py\<close> and the recovery handlers), \<open>Work_Discovery\<close> (the paged scan of due work, also
    over the query of \<open>stores/postgres.py\<close>), \<open>Evidence\<close> (\<open>evidence.py\<close>), \<open>Attribution\<close>
    (\<open>attribution.py\<close>).
  \<^item> Runtime proofs: \<open>Runtime_Traces\<close> and \<open>Dispatch\<close> (in every run the executor is called only after a
    complete guard list), \<open>Safeguards\<close> (what each operation may call), \<open>Justified\<close> (why a status is
    written), \<open>Protected_State\<close> (the private snapshot and erasure), \<open>Sessions\<close> (any sequence of operations
    with any interference), \<open>Scenario\<close> (a concrete host on which the properties are instantiated).
  \<^item> Key envelopes: \<open>Base64\<close>, \<open>Key_Envelopes\<close>, \<open>Local_Kek\<close> (\<open>integrations/local_kek.py\<close>), \<open>Aws_Kms\<close>
    (\<open>integrations/aws_kms.py\<close>): round trips, destruction, overwriting of plaintext keys. The exception
    \<open>WrappedKeyPersistenceOutcomeUnknownError\<close> stands for the class of that name of either adapter.
  \<^item> Stripe (\<open>integrations/stripe\<close>): \<open>Call_Traces\<close> (its world, the calculus of call traces, reservations),
    \<open>Stripe_Refunds\<close> (\<open>gateway.py\<close>, \<open>models.py\<close>, the refund workflow), \<open>Stripe_Ledger\<close> (\<open>postgres.py\<close>
    over the rows, checks and trigger of its schema), \<open>Stripe_Billing\<close> (\<open>_operation.py\<close>: the workflow over
    abstract group methods, and when it submits), \<open>Stripe_Subscriptions\<close> and \<open>Stripe_Credit_Notes\<close>
    (\<open>subscriptions.py\<close>, \<open>credit_notes.py\<close>: the two groups), \<open>Stripe_Host\<close> and \<open>Stripe_Billing_Host\<close> (the
    repositories, tables and trigger of \<open>examples/stripe_host\<close>: at most one submission per business intent of
    any group, and rows that are frozen while it is unresolved).

  \<^item> Composition: \<open>Application\<close> (\<open>experimental/application.py\<close>: the frozen catalogue of actions, binding to
    fresh dependencies and its release), \<open>Agent_Tools\<close> (\<open>integrations/pydantic_ai.py\<close>: the tools that an agent
    framework calls, over a fixed runtime or over a bound action), \<open>Approval_Channels\<close>
    (\<open>integrations/approval_channels\<close>: requests bound to one proposal, and the first decision on each).

  \<^bold>\<open>Interfaces.\<close> The locales \<open>lifecycle_store\<close> and \<open>retained_store\<close> (the contract of the two
  protocols) are interpreted on the in-memory, the SQLite and the PostgreSQL store,
  \<open>refining_store\<close> on the last two; \<open>billing_group\<close>, what the shared Stripe workflow relies on from a group's methods, on
  subscriptions and on credit notes; \<open>reservations\<close> on the refund repository of the reference host and
  on the service of its three repositories together;
  \<open>due_source\<close>, what the scan of the recovery worker relies on, on the PostgreSQL work source.

  \<^bold>\<open>Bounds and fuel.\<close> The only loops that are not structural are the page loop of the recovery worker,
  the reading of a canonical number, the walk to the \<open>.git\<close> directory, base 64 digits, and the two walks
  over annotations (of model classes, and of tool arguments). All but the first end and are total functions. The page loop takes
  fuel, because nothing forbids a host's work source from answering pages for ever; over the PostgreSQL
  source one page for every due position and one more is enough (\<open>Work_Discovery.scan_ends\<close>). Stripe amounts are bounded
  by eight digits, refund listings by twenty pages, credit note listings by ten, as in the code.

  \<^bold>\<open>Not modelled.\<close> The MySQL store and the migrations other than SQLite's (text of SQL evaluated by a
  database server, catalogue queries; for PostgreSQL the schema after the last migration is modelled, and every
  transaction is one step, as its row and advisory locks provide), the command line,
  HTML rendering of evidence, the agent framework and pydantic themselves, the SDK transports, the
  conformance suites and the example applications other than the Stripe repositories.
\<close>

end
